(* ===== verification/Prelude.thy ===== *)
theory Prelude
  imports Main "HOL-Library.Word" "HOL-Library.Monad_Syntax"
begin

text \<open>
  Shared vocabulary of the development: bytes, the Go operations on slices that can panic, big-endian
  integers, the error values of the gateway, and the generic lemmas on lists and words that the
  component theories use. A run-time panic of Go (a slice or index out of range) is the value
  \<^const>\<open>None\<close> of an option; proving that a routine returns \<^const>\<open>Some\<close> is proving that it never panics.
  Go's \<^verbatim>\<open>int\<close> is 64 bits wide on the platforms the gateway runs on, and every \<^verbatim>\<open>int\<close> of the TTLV code
  is at most \<open>2 ^ 33\<close>, so lengths and offsets are \<^typ>\<open>nat\<close> or \<^typ>\<open>int\<close>.
\<close>

unbundle bit_operations_syntax

type_synonym byte = "8 word"

named_theorems wire_simps \<open>evaluation rules of the byte-level routines\<close>
named_theorems no_panic \<open>total forms of the operations that may panic\<close>

section \<open>Go slices\<close>

text \<open>
  \<open>xs[i:j]\<close> and \<open>xs[i:]\<close>. Go lets \<open>j\<close> go up to the capacity; the model refuses everything beyond the
  length, so a \<^const>\<open>Some\<close> here is stronger than the absence of a panic.
\<close>

definition go_slice :: "'a list \<Rightarrow> nat \<Rightarrow> nat \<Rightarrow> 'a list option" where
  "go_slice xs i j = (if i \<le> j \<and> j \<le> length xs then Some (take (j - i) (drop i xs)) else None)"

definition go_slice_from :: "'a list \<Rightarrow> nat \<Rightarrow> 'a list option" where
  "go_slice_from xs i = (if i \<le> length xs then Some (drop i xs) else None)"

definition go_index :: "'a list \<Rightarrow> nat \<Rightarrow> 'a option" where
  "go_index xs i = (if i < length xs then Some (xs ! i) else None)"

lemma go_slice_Some [no_panic]:
  "i \<le> j \<Longrightarrow> j \<le> length xs \<Longrightarrow> go_slice xs i j = Some (take (j - i) (drop i xs))"
  by (simp add: go_slice_def)

lemma go_slice_from_Some [no_panic]: "i \<le> length xs \<Longrightarrow> go_slice_from xs i = Some (drop i xs)"
  by (simp add: go_slice_from_def)

lemma go_index_Some [no_panic]: "i < length xs \<Longrightarrow> go_index xs i = Some (xs ! i)"
  by (simp add: go_index_def)

lemma go_index_0 [no_panic]: "xs \<noteq> [] \<Longrightarrow> go_index xs 0 = Some (xs ! 0)"
  by (simp add: go_index_def)

section \<open>Big-endian integers\<close>

text \<open>
  \<^verbatim>\<open>binary.BigEndian.Uint32\<close> and \<^verbatim>\<open>PutUint32\<close>, with the shifts and the truncations the Go library
  performs. \<^verbatim>\<open>Uint32\<close> panics on fewer than four bytes.
\<close>

definition be_uint32 :: "byte list \<Rightarrow> 32 word option" where
  "be_uint32 b =
     (if length b < 4 then None
      else Some (ucast (b ! 3) OR push_bit 8 (ucast (b ! 2))
                 OR push_bit 16 (ucast (b ! 1)) OR push_bit 24 (ucast (b ! 0))))"

definition put_uint32 :: "32 word \<Rightarrow> byte list" where
  "put_uint32 v = [ucast (drop_bit 24 v), ucast (drop_bit 16 v), ucast (drop_bit 8 v), ucast v]"

lemma length_put_uint32 [simp]: "length (put_uint32 v) = 4"
  by (simp add: put_uint32_def)

lemma put_uint32_not_Nil [simp]: "put_uint32 v \<noteq> []"
  by (simp add: put_uint32_def)

lemma nth_append_put_uint32 [simp]:
  "(put_uint32 v @ xs) ! 0 = put_uint32 v ! 0" "(put_uint32 v @ xs) ! Suc 0 = put_uint32 v ! 1"
  "(put_uint32 v @ xs) ! 2 = put_uint32 v ! 2" "(put_uint32 v @ xs) ! 3 = put_uint32 v ! 3"
  by (simp_all add: nth_append)

lemma be_uint32_put_uint32 [simp]: "be_uint32 (put_uint32 v @ xs) = Some v"
proof -
  have "ucast (ucast v :: byte) OR push_bit 8 (ucast (ucast (drop_bit 8 v) :: byte))
      OR push_bit 16 (ucast (ucast (drop_bit 16 v) :: byte))
      OR push_bit 24 (ucast (ucast (drop_bit 24 v) :: byte)) = v"
  proof (rule bit_word_eqI)
    fix n assume "n < LENGTH(32)"
    then consider "n < 8" | "8 \<le> n" "n < 16" | "16 \<le> n" "n < 24" | "24 \<le> n" "n < 32"
      by fastforce
    then show "bit ((ucast (ucast v :: byte) :: 32 word) OR push_bit 8 (ucast (ucast (drop_bit 8 v) :: byte))
      OR push_bit 16 (ucast (ucast (drop_bit 16 v) :: byte))
      OR push_bit 24 (ucast (ucast (drop_bit 24 v) :: byte))) n = bit v n"
      by cases (auto simp: bit_simps not_less)
  qed
  then show ?thesis
    by (simp add: be_uint32_def put_uint32_def)
qed

lemma be_uint32_put_uint32_exact [simp]: "be_uint32 (put_uint32 v) = Some v"
  using be_uint32_put_uint32 [of v "[]"] by simp

text \<open>The total reading of the four bytes, for the states where the guard has been passed.\<close>

definition u32_of :: "byte list \<Rightarrow> nat" where
  "u32_of b = unat (the (be_uint32 b))"

lemma be_uint32_Some [no_panic]: "4 \<le> length b \<Longrightarrow> be_uint32 b = Some (word_of_nat (u32_of b))"
  by (simp add: u32_of_def be_uint32_def)

lemma u32_of_bound: "u32_of b < 2 ^ 32"
  by (simp add: u32_of_def unsigned_less [where 'b = 32, simplified])

lemma unat_word_of_nat_u32_of [simp]: "unat (word_of_nat (u32_of b) :: 32 word) = u32_of b"
  by (simp add: u32_of_def)

lemma u32_of_put_uint32 [simp]: "u32_of (put_uint32 v @ xs) = unat v"
  by (simp add: u32_of_def)

lemma u32_of_put_uint32_exact [simp]: "u32_of (put_uint32 v) = unat v"
  by (simp add: u32_of_def)

lemma u32_of_take [simp]: "4 \<le> length b \<Longrightarrow> u32_of (take 4 b) = u32_of b"
  by (simp add: u32_of_def be_uint32_def)

lemma u32_of_append [simp]: "4 \<le> length b \<Longrightarrow> u32_of (b @ c) = u32_of b"
  by (cases b) (auto simp: u32_of_def be_uint32_def nth_append)

lemma unat_word_of_nat_32: "n < 2 ^ 32 \<Longrightarrow> unat (word_of_nat n :: 32 word) = n"
  by (simp add: unat_of_nat take_bit_nat_eq_self)

section \<open>Error values\<close>

text \<open>
  Errors of packages outside the repository are known by their text; the gateway's own errors are
  a \<^verbatim>\<open>fmt.Errorf\<close> format string with its arguments, kept unrendered.
\<close>

datatype gerr =
    Ext string
  | Errorf string "garg list"
and garg =
    AStr string
  | AErr gerr
  | AInt int
  | ANil

type_synonym 'a result = "gerr + 'a"

section \<open>Generic lemmas\<close>

lemma map_option_eq_case: "map_option f x = (case x of None \<Rightarrow> None | Some y \<Rightarrow> Some (f y))"
  by (cases x) simp_all

lemma nth_append_short: "i < length xs \<Longrightarrow> (xs @ ys) ! i = xs ! i"
  by (simp add: nth_append)

lemma concat_filter_partition:
  "length (concat (filter P xs)) + length (concat (filter (\<lambda>x. \<not> P x) xs)) = length (concat xs)"
  by (induction xs) auto

lemma nth_take_drop: "i + 1 \<le> n \<Longrightarrow> m + n \<le> length xs \<Longrightarrow> take n (drop m xs) ! i = xs ! (m + i)"
  by simp

lemma take_append_exact: "n = length xs \<Longrightarrow> take n (xs @ ys) = xs"
  by simp

lemma drop_append_exact: "n = length xs \<Longrightarrow> drop n (xs @ ys) = ys"
  by simp

lemma dvd_length_concat: "(\<And>x. x \<in> set xs \<Longrightarrow> k dvd length x) \<Longrightarrow> k dvd length (concat xs)"
  by (induction xs) auto

end
