(* ===== verification/Ttlv.thy ===== *)
theory Ttlv
  imports Prelude
begin

text \<open>
  The TTLV byte surgery of \<^verbatim>\<open>internal/kmip/server.go\<close>: every response of the KMIP handler loses the
  Client/Server CorrelationValue children of its ResponseHeader. The model keeps the offsets, the
  guards and the early returns of the code; an index or go_slice out of range is \<^const>\<open>None\<close>, and the
  main result is that none of them can happen, on any input whatsoever.
\<close>

section \<open>The code\<close>

definition tagResponseHeader :: nat where
  "tagResponseHeader = 0x42007A"

definition tagClientCorrelationValue :: nat where
  "tagClientCorrelationValue = 0x420105"

definition tagServerCorrelationValue :: nat where
  "tagServerCorrelationValue = 0x420106"

text \<open>\<^verbatim>\<open>byte(ttlv.TypeStructure)\<close>.\<close>

definition typeStructure :: byte where
  "typeStructure = 1"

definition tagOf :: "byte list \<Rightarrow> nat option" where
  "tagOf b = do {
     b0 \<leftarrow> go_index b 0;
     b1 \<leftarrow> go_index b 1;
     b2 \<leftarrow> go_index b 2;
     Some (push_bit 16 (unat b0) OR push_bit 8 (unat b1) OR unat b2)
   }"

definition elemFullLen :: "byte list \<Rightarrow> int option" where
  "elemFullLen b =
     (if length b < 8 then Some (-1)
      else do {
        l \<leftarrow> go_slice b 4 8;
        n \<leftarrow> be_uint32 l;
        let full = 8 + uint n;
        let r = full mod 8;
        Some (if r \<noteq> 0 then full + (8 - r) else full)
      })"

definition appendU32 :: "byte list \<Rightarrow> 32 word \<Rightarrow> byte list" where
  "appendU32 b v = b @ put_uint32 v"

lemma elemFullLen_progress: "elemFullLen b = Some fl \<Longrightarrow> \<not> fl \<le> 0 \<Longrightarrow> 0 < nat fl"
  by simp

text \<open>
  The loop over the children of the header. The inner \<^const>\<open>None\<close> is the early \<open>return rh, 0\<close> on a
  malformed child, the outer one a panic.
\<close>

function hdr_loop :: "byte list \<Rightarrow> nat \<Rightarrow> byte list \<Rightarrow> nat \<Rightarrow> (byte list \<times> nat) option option" where
  "hdr_loop val off newVal removed =
     (if off < length val then do {
        b \<leftarrow> go_slice_from val off;
        fl \<leftarrow> elemFullLen b;
        if fl \<le> 0 \<or> int off + fl > int (length val) then Some None
        else do {
          t \<leftarrow> tagOf b;
          if t = tagClientCorrelationValue \<or> t = tagServerCorrelationValue
          then hdr_loop val (off + nat fl) newVal (removed + nat fl)
          else do {
            e \<leftarrow> go_slice val off (off + nat fl);
            hdr_loop val (off + nat fl) (newVal @ e) removed
          }
        }
      } else Some (Some (newVal, removed)))"
  by pat_completeness auto
termination
  by (relation "measure (\<lambda>(val, off, newVal, removed). length val - off)") auto

declare hdr_loop.simps [simp del]

definition stripHeaderCorrelation :: "byte list \<Rightarrow> (byte list \<times> nat) option" where
  "stripHeaderCorrelation rh = do {
     l \<leftarrow> go_slice rh 4 8;
     n \<leftarrow> be_uint32 l;
     let rhLen = unat n;
     if 8 + rhLen > length rh then Some (rh, 0)
     else do {
       val \<leftarrow> go_slice rh 8 (8 + rhLen);
       r \<leftarrow> hdr_loop val 0 [] 0;
       (case r of
          None \<Rightarrow> Some (rh, 0)
        | Some (newVal, removed) \<Rightarrow>
            if removed = 0 then Some (rh, 0)
            else do {
              h \<leftarrow> go_slice rh 0 4;
              Some (appendU32 h (word_of_int (int rhLen - int removed)) @ newVal, removed)
            })
     }
   }"

text \<open>The loop over the children of the message, up to the first ResponseHeader.\<close>

function msg_loop :: "byte list \<Rightarrow> nat \<Rightarrow> byte list \<Rightarrow> nat \<Rightarrow> byte list option" where
  "msg_loop inp msgLen val off =
     (if off < length val then do {
        b \<leftarrow> go_slice_from val off;
        fl \<leftarrow> elemFullLen b;
        if fl \<le> 0 \<or> int off + fl > int (length val) then Some inp
        else do {
          t \<leftarrow> tagOf b;
          ty \<leftarrow> go_index val (off + 3);
          if t = tagResponseHeader \<and> ty = typeStructure
          then do {
            rh \<leftarrow> go_slice val off (off + nat fl);
            (newRh, removed) \<leftarrow> stripHeaderCorrelation rh;
            if removed = 0 then Some inp
            else do {
              h \<leftarrow> go_slice inp 0 4;
              pre \<leftarrow> go_slice val 0 off;
              post \<leftarrow> go_slice_from val (off + nat fl);
              rest \<leftarrow> go_slice_from inp (8 + msgLen);
              Some (appendU32 h (word_of_int (int msgLen - int removed)) @ pre @ newRh @ post @ rest)
            }
          }
          else msg_loop inp msgLen val (off + nat fl)
        }
      } else Some inp)"
  by pat_completeness auto
termination
  by (relation "measure (\<lambda>(inp, msgLen, val, off). length val - off)") auto

declare msg_loop.simps [simp del]

definition stripCorrelation :: "byte list \<Rightarrow> byte list option" where
  "stripCorrelation inp =
     (if length inp < 8 then Some inp
      else do {
        ty \<leftarrow> go_index inp 3;
        if ty \<noteq> typeStructure then Some inp
        else do {
          l \<leftarrow> go_slice inp 4 8;
          n \<leftarrow> be_uint32 l;
          let msgLen = unat n;
          if 8 + msgLen > length inp then Some inp
          else do {
            val \<leftarrow> go_slice inp 8 (8 + msgLen);
            msg_loop inp msgLen val 0
          }
        }
      })"


section \<open>Self-delimiting frames\<close>

text \<open>
  What the two element walks above and the message reader of the proxy have in common: a frame is
  an 8-byte header whose bytes alone determine the length of the whole frame. \<open>frames\<close> cuts a byte
  string into frames and refuses a string that does not end on a frame boundary.
\<close>

function frames :: "(byte list \<Rightarrow> nat) \<Rightarrow> byte list \<Rightarrow> byte list list option" where
  "frames fl b =
     (if b = [] then Some []
      else if length b < 8 \<or> fl b = 0 \<or> length b < fl b then None
      else map_option ((#) (take (fl b) b)) (frames fl (drop (fl b) b)))"
  by pat_completeness auto
termination
  by (relation "measure (\<lambda>(fl, b). length b)") auto

declare frames.simps [simp del]

lemma frames_Nil [simp]: "frames fl [] = Some []"
  by (simp add: frames.simps)

locale framing =
  fixes flen :: "byte list \<Rightarrow> nat"
  assumes flen_ge: "8 \<le> flen b"
    and flen_header: "8 \<le> length b \<Longrightarrow> flen (b @ c) = flen b"
begin

lemma frames_Cons:
  "frames flen b = Some es \<Longrightarrow> b \<noteq> [] \<Longrightarrow>
   \<exists>es'. es = take (flen b) b # es' \<and> frames flen (drop (flen b) b) = Some es'
     \<and> flen b \<le> length b \<and> 8 \<le> length b"
  by (subst (asm) frames.simps) (auto split: if_splits)

lemma flen_take: "flen b \<le> length b \<Longrightarrow> flen (take (flen b) b) = flen b"
  using flen_header [of "take (flen b) b" "drop (flen b) b"] flen_ge [of b] by simp

lemma frames_concat: "frames flen b = Some es \<Longrightarrow> concat es = b"
proof (induction flen b arbitrary: es rule: frames.induct)
  case (1 fl b)
  then show ?case
    by (subst (asm) (2) frames.simps) (auto split: if_splits)
qed

lemma frames_members:
  "frames flen b = Some es \<Longrightarrow> e \<in> set es \<Longrightarrow> flen e = length e \<and> 8 \<le> length e"
proof (induction "length b" arbitrary: b es rule: less_induct)
  case less
  show ?case
  proof (cases "b = []")
    case True
    with less.prems show ?thesis by simp
  next
    case False
    then obtain es' where es': "es = take (flen b) b # es'"
      "frames flen (drop (flen b) b) = Some es'" "flen b \<le> length b" "8 \<le> length b"
      using frames_Cons less.prems(1) by blast
    have "length (drop (flen b) b) < length b"
      using False flen_ge [of b] by simp
    then show ?thesis
      using less.hyps [of "drop (flen b) b" es'] es' less.prems(2) flen_take [of b] flen_ge [of b]
      by auto
  qed
qed

lemma frames_frame:
  assumes "flen e = length e" "8 \<le> length e"
  shows "frames flen (e @ b) = map_option ((#) e) (frames flen b)"
proof -
  have "flen (e @ b) = length e"
    using assms flen_header [of e b] by simp
  with assms show ?thesis
    by (subst frames.simps) auto
qed

lemma frames_of_concat:
  "(\<And>e. e \<in> set es \<Longrightarrow> flen e = length e \<and> 8 \<le> length e) \<Longrightarrow>
   frames flen (concat es @ b) = map_option ((@) es) (frames flen b)"
proof (induction es)
  case Nil
  show ?case by (cases "frames flen b") simp_all
next
  case (Cons e es)
  then show ?case
    by (simp add: frames_frame option.map_comp o_def)
qed

lemma frames_of_concat_exact:
  "(\<And>e. e \<in> set es \<Longrightarrow> flen e = length e \<and> 8 \<le> length e) \<Longrightarrow> frames flen (concat es) = Some es"
  using frames_of_concat [of es "[]"] by simp

lemma frames_filter:
  assumes "frames flen b = Some es"
  shows "frames flen (concat (filter P es)) = Some (filter P es)"
  using frames_members [OF assms] by (intro frames_of_concat_exact) auto

lemma frames_append:
  assumes "frames flen a = Some es"
  shows "frames flen (a @ b) = map_option ((@) es) (frames flen b)"
  using frames_of_concat [of es b] frames_members [OF assms] frames_concat [OF assms] by auto

end

section \<open>The total reading of the walks\<close>

text \<open>
  \<^const>\<open>elemFullLen\<close> is total, and on at least eight bytes it is the header plus the value rounded up
  to a multiple of eight.
\<close>

definition full_len :: "byte list \<Rightarrow> nat" where
  "full_len b = (let n = 8 + u32_of (drop 4 b) in if n mod 8 \<noteq> 0 then n + (8 - n mod 8) else n)"

definition tag_of :: "byte list \<Rightarrow> nat" where
  "tag_of b = push_bit 16 (unat (b ! 0)) OR push_bit 8 (unat (b ! 1)) OR unat (b ! 2)"

lemma full_len_ge [simp]: "8 \<le> full_len b"
  by (simp only: full_len_def Let_def split: if_split) linarith

lemma full_len_neq_0 [simp]: "full_len b \<noteq> 0"
  using full_len_ge [of b] by linarith

lemma header_not_Nil [simp]: "8 \<le> length b \<Longrightarrow> b \<noteq> []"
  by auto

lemma header_nth: "8 \<le> length b \<Longrightarrow> i < 8 \<Longrightarrow> (b @ c) ! i = b ! i"
  by (simp add: nth_append)

lemma full_len_pos [simp]: "0 < full_len b"
  by (rule less_le_trans [OF _ full_len_ge]) simp

lemma full_len_dvd [simp]: "8 dvd full_len b"
proof -
  have "8 dvd (if n mod 8 \<noteq> 0 then n + (8 - n mod 8) else n)" for n :: nat
    by presburger
  then show ?thesis by (simp only: full_len_def Let_def)
qed

lemma full_len_header:
  assumes "8 \<le> length b"
  shows "full_len (b @ c) = full_len b"
  using assms by (simp add: full_len_def)

interpretation elem: framing full_len
  by unfold_locales (simp_all add: full_len_header)

lemma uint_be_uint32: "uint (word_of_nat (u32_of b) :: 32 word) = int (u32_of b)"
  by (metis uint_nat unat_word_of_nat_u32_of)

lemma elemFullLen_eq [no_panic]:
  "elemFullLen b = Some (if length b < 8 then -1 else int (full_len b))"
proof (cases "length b < 8")
  case True
  then show ?thesis by (simp add: elemFullLen_def)
next
  case False
  let ?n = "u32_of (drop 4 b)"
  have "be_uint32 (take 4 (drop 4 b)) = Some (word_of_nat ?n)"
    using False by (subst be_uint32_Some) simp_all
  moreover have "int (8 - (8 + ?n) mod 8) = 8 - (8 + int ?n) mod 8"
    by (subst of_nat_diff) (auto simp: zmod_int intro: less_imp_le)
  moreover have "(8 + int ?n) mod 8 = int ((8 + ?n) mod 8)"
    by (simp add: zmod_int)
  ultimately show ?thesis
    using False by (simp add: elemFullLen_def no_panic full_len_def Let_def uint_be_uint32)
qed

lemma tagOf_eq [no_panic]: "8 \<le> length b \<Longrightarrow> tagOf b = Some (tag_of b)"
  by (simp add: tagOf_def tag_of_def no_panic)

lemma tag_of_append [simp]: "8 \<le> length b \<Longrightarrow> tag_of (b @ c) = tag_of b"
  by (simp add: tag_of_def header_nth)

lemma tag_of_take [simp]: "8 \<le> n \<Longrightarrow> 8 \<le> length b \<Longrightarrow> tag_of (take n b) = tag_of b"
  by (simp add: tag_of_def)

definition is_correlation :: "byte list \<Rightarrow> bool" where
  "is_correlation e \<longleftrightarrow> tag_of e = tagClientCorrelationValue \<or> tag_of e = tagServerCorrelationValue"

text \<open>One turn of the header loop and one turn of the splitter, per case.\<close>

lemma frames_bad:
  "b \<noteq> [] \<Longrightarrow> length b < 8 \<or> length b < full_len b \<Longrightarrow> frames full_len b = None"
  by (subst frames.simps) auto

lemma frames_step:
  "8 \<le> length b \<Longrightarrow> full_len b \<le> length b \<Longrightarrow>
   frames full_len b = map_option ((#) (take (full_len b) b)) (frames full_len (drop (full_len b) b))"
  by (subst frames.simps) auto

lemma hdr_loop_end: "length val \<le> off \<Longrightarrow> hdr_loop val off acc r = Some (Some (acc, r))"
  by (subst hdr_loop.simps) simp

lemma hdr_loop_bad:
  "off < length val \<Longrightarrow>
   length (drop off val) < 8 \<or> length (drop off val) < full_len (drop off val) \<Longrightarrow>
   hdr_loop val off acc r = Some None"
  by (subst hdr_loop.simps) (auto simp: no_panic)

lemma hdr_loop_step:
  "8 \<le> length (drop off val) \<Longrightarrow> full_len (drop off val) \<le> length (drop off val) \<Longrightarrow>
   hdr_loop val off acc r =
     (if is_correlation (drop off val)
      then hdr_loop val (off + full_len (drop off val)) acc (r + full_len (drop off val))
      else hdr_loop val (off + full_len (drop off val))
             (acc @ take (full_len (drop off val)) (drop off val)) r)"
  by (subst hdr_loop.simps) (auto simp: no_panic is_correlation_def)

text \<open>The header loop is a split into elements followed by a filter.\<close>

lemma hdr_loop_frames:
  "off \<le> length val \<Longrightarrow>
   hdr_loop val off acc r =
     Some (map_option (\<lambda>es. (acc @ concat (filter (\<lambda>e. \<not> is_correlation e) es),
                             r + length (concat (filter is_correlation es))))
       (frames full_len (drop off val)))"
proof (induction "length val - off" arbitrary: off acc r rule: less_induct)
  case less
  let ?b = "drop off val"
  consider "length val = off" | "off < length val" "length ?b < 8 \<or> length ?b < full_len ?b"
    | "8 \<le> length ?b" "full_len ?b \<le> length ?b"
    using less.prems by fastforce
  then show ?case
  proof cases
    case 1
    then show ?thesis by (simp add: hdr_loop_end)
  next
    case 2
    then show ?thesis by (simp add: hdr_loop_bad frames_bad)
  next
    case 3
    have corr: "is_correlation (take (full_len ?b) ?b) = is_correlation ?b"
      using 3 by (simp add: is_correlation_def)
    have dd: "drop (full_len ?b) ?b = drop (off + full_len ?b) val"
      by (simp add: add.commute)
    have "length val - (off + full_len ?b) < length val - off" "off + full_len ?b \<le> length val"
      using 3 full_len_pos [of ?b] by (simp_all del: full_len_pos)
    note IH = less.hyps [OF this]
    show ?thesis
      unfolding hdr_loop_step [OF 3] frames_step [OF 3] dd IH
      by (simp add: option.map_comp o_def corr 3(2) [simplified] add.assoc)
  qed
qed

section \<open>The routines as total functions\<close>

text \<open>
  The result of the header strip in terms of the split elements, and the position of the first
  ResponseHeader structure of a message. Both are total, so equality with them is the absence of
  every panic.
\<close>

definition hdr_len :: "byte list \<Rightarrow> nat" where
  "hdr_len b = u32_of (drop 4 b)"

definition strip_hdr :: "byte list \<Rightarrow> byte list \<times> nat" where
  "strip_hdr rh =
     (if length rh < 8 + hdr_len rh then (rh, 0)
      else case frames full_len (take (hdr_len rh) (drop 8 rh)) of
        None \<Rightarrow> (rh, 0)
      | Some es \<Rightarrow>
          let r = length (concat (filter is_correlation es)) in
          if r = 0 then (rh, 0)
          else (take 4 rh @ put_uint32 (word_of_nat (hdr_len rh - r))
                  @ concat (filter (\<lambda>e. \<not> is_correlation e) es), r))"

definition is_header :: "byte list \<Rightarrow> bool" where
  "is_header b \<longleftrightarrow> tag_of b = tagResponseHeader \<and> b ! 3 = typeStructure"

function find_header :: "byte list \<Rightarrow> (byte list \<times> byte list \<times> byte list) option" where
  "find_header b =
     (if length b < 8 \<or> length b < full_len b then None
      else if is_header b then Some ([], take (full_len b) b, drop (full_len b) b)
      else map_option (\<lambda>(p, h, q). (take (full_len b) b @ p, h, q)) (find_header (drop (full_len b) b)))"
  by pat_completeness auto
termination
  by (relation "measure length") auto

declare find_header.simps [simp del]

definition replace_header :: "byte list \<Rightarrow> nat \<Rightarrow> byte list \<times> byte list \<times> byte list \<Rightarrow> byte list" where
  "replace_header inp n t = (case t of (pre, h, post) \<Rightarrow>
     (case strip_hdr h of (h', r) \<Rightarrow>
        if r = 0 then inp
        else take 4 inp @ put_uint32 (word_of_nat (n - r)) @ pre @ h' @ post @ drop (8 + n) inp))"

definition strip_msg :: "byte list \<Rightarrow> byte list" where
  "strip_msg inp =
     (if length inp < 8 \<or> inp ! 3 \<noteq> typeStructure \<or> length inp < 8 + hdr_len inp then inp
      else case find_header (take (hdr_len inp) (drop 8 inp)) of
        None \<Rightarrow> inp
      | Some t \<Rightarrow> replace_header inp (hdr_len inp) t)"

lemma hdr_len_bound: "hdr_len b < 2 ^ 32"
  by (simp add: hdr_len_def u32_of_bound [simplified])

lemma hdr_len_append [simp]: "8 \<le> length b \<Longrightarrow> hdr_len (b @ c) = hdr_len b"
  by (simp add: hdr_len_def)

lemma hdr_len_put [simp]: "length h = 4 \<Longrightarrow> hdr_len (h @ put_uint32 v @ c) = unat v"
  by (simp add: hdr_len_def)

lemma full_len_hdr_len: "full_len b = (let n = 8 + hdr_len b in if n mod 8 \<noteq> 0 then n + (8 - n mod 8) else n)"
  by (simp add: full_len_def hdr_len_def)

lemma full_len_aligned: "8 dvd hdr_len b \<Longrightarrow> full_len b = 8 + hdr_len b"
  by (auto simp: full_len_hdr_len Let_def mod_eq_0_iff_dvd)

lemma full_len_lower: "8 + hdr_len b \<le> full_len b"
  by (simp only: full_len_hdr_len Let_def split: if_split) linarith

lemma be_uint32_hdr_len [no_panic]: "8 \<le> length b \<Longrightarrow> be_uint32 (take 4 (drop 4 b)) = Some (word_of_nat (hdr_len b))"
  by (subst be_uint32_Some) (simp_all add: hdr_len_def)

lemma unat_hdr_len [simp]: "unat (word_of_nat (hdr_len b) :: 32 word) = hdr_len b"
  by (simp add: hdr_len_def)

lemma removed_le:
  "frames full_len v = Some es \<Longrightarrow> length (concat (filter is_correlation es)) \<le> length v"
  using concat_filter_partition [of is_correlation es] elem.frames_concat [of v es] by simp

lemma word_of_int_diff: "r \<le> n \<Longrightarrow> (word_of_int (int n - int r) :: 32 word) = word_of_nat (n - r)"
  by (metis of_int_of_nat_eq of_nat_diff)

lemma stripHeaderCorrelation_eq [no_panic]:
  assumes "8 \<le> length rh"
  shows "stripHeaderCorrelation rh = Some (strip_hdr rh)"
proof (cases "length rh < 8 + hdr_len rh")
  case True
  with assms show ?thesis
    by (simp add: stripHeaderCorrelation_def strip_hdr_def no_panic flip: hdr_len_def)
next
  case False
  let ?v = "take (hdr_len rh) (drop 8 rh)"
  have v: "go_slice rh 8 (8 + hdr_len rh) = Some ?v"
    using False by (simp add: no_panic)
  show ?thesis
  proof (cases "frames full_len ?v")
    case None
    with assms False v show ?thesis
      by (simp add: stripHeaderCorrelation_def strip_hdr_def no_panic hdr_loop_frames flip: hdr_len_def)
  next
    case (Some es)
    with removed_le [OF Some] assms False v show ?thesis
      by (simp add: stripHeaderCorrelation_def strip_hdr_def no_panic hdr_loop_frames Let_def
        appendU32_def word_of_int_diff del: length_0_conv length_greater_0_conv concat_eq_Nil_conv
        flip: hdr_len_def)
  qed
qed

text \<open>Positions of the first header.\<close>

lemma find_header_bad: "length b < 8 \<or> length b < full_len b \<Longrightarrow> find_header b = None"
  by (subst find_header.simps) auto

lemma find_header_step:
  "8 \<le> length b \<Longrightarrow> full_len b \<le> length b \<Longrightarrow>
   find_header b =
     (if is_header b then Some ([], take (full_len b) b, drop (full_len b) b)
      else map_option (\<lambda>(p, h, q). (take (full_len b) b @ p, h, q)) (find_header (drop (full_len b) b)))"
  by (subst find_header.simps) auto

lemma is_header_append [simp]: "8 \<le> length b \<Longrightarrow> is_header (b @ c) = is_header b"
  by (simp add: is_header_def header_nth)

lemma is_header_take [simp]: "8 \<le> n \<Longrightarrow> 8 \<le> length b \<Longrightarrow> is_header (take n b) = is_header b"
  by (simp add: is_header_def)

lemma find_header_hit:
  "full_len e = length e \<Longrightarrow> 8 \<le> length e \<Longrightarrow> is_header e \<Longrightarrow> find_header (e @ b) = Some ([], e, b)"
  by (simp add: find_header_step elem.flen_header)

lemma find_header_skip:
  "full_len e = length e \<Longrightarrow> 8 \<le> length e \<Longrightarrow> \<not> is_header e \<Longrightarrow>
   find_header (e @ b) = map_option (\<lambda>(p, h, q). (e @ p, h, q)) (find_header b)"
  by (simp add: find_header_step elem.flen_header)

lemma find_header_split:
  "find_header b = Some (p, h, q) \<Longrightarrow>
   b = p @ h @ q \<and> is_header h \<and> full_len h = length h \<and> 8 \<le> length h"
proof (induction b arbitrary: p rule: find_header.induct)
  case (1 b)
  then have b: "8 \<le> length b" "full_len b \<le> length b"
    using find_header_bad [of b] by fastforce+
  have t: "full_len (take (full_len b) b) = full_len b"
    using elem.flen_take [OF b(2)] .
  show ?case
  proof (cases "is_header b")
    case True
    with "1.prems" b t show ?thesis
      by (auto simp: find_header_step)
  next
    case False
    with "1.prems" b obtain p' where p': "find_header (drop (full_len b) b) = Some (p', h, q)"
      "p = take (full_len b) b @ p'"
      by (auto simp: find_header_step)
    from "1.IH" [OF _ False p'(1)] b have "drop (full_len b) b = p' @ h @ q" "is_header h"
      "full_len h = length h" "8 \<le> length h"
      by auto
    with p'(2) show ?thesis
      by (metis append.assoc append_take_drop_id)
  qed
qed

text \<open>The search depends on the bytes up to the header only, whatever header stands there.\<close>

lemma find_header_exchange:
  assumes "is_header h'" "full_len h' = length h'" "8 \<le> length h'"
  shows "find_header b = Some (p, h, q) \<Longrightarrow> find_header (p @ h' @ q') = Some (p, h', q')"
proof (induction b arbitrary: p rule: find_header.induct)
  case (1 b)
  then have b: "8 \<le> length b" "full_len b \<le> length b"
    using find_header_bad [of b] by fastforce+
  show ?case
  proof (cases "is_header b")
    case True
    with "1.prems" b have "p = []"
      by (auto simp: find_header_step)
    then show ?thesis
      using assms by (simp add: find_header_hit)
  next
    case False
    let ?e = "take (full_len b) b"
    from False "1.prems" b obtain p' where p': "find_header (drop (full_len b) b) = Some (p', h, q)"
      "p = ?e @ p'"
      by (auto simp: find_header_step)
    have e: "full_len ?e = length ?e" "8 \<le> length ?e" "\<not> is_header ?e"
      using elem.flen_take [OF b(2)] b False by simp_all
    have "find_header (p' @ h' @ q') = Some (p', h', q')"
      using "1.IH" [OF _ False p'(1)] b by simp
    with e show ?thesis
      unfolding p'(2) append.assoc by (subst find_header_skip) simp_all
  qed
qed

lemma strip_hdr_le: "strip_hdr h = (h', r) \<Longrightarrow> r \<le> length h"
  using removed_le [of "take (hdr_len h) (drop 8 h)"]
  by (fastforce simp: strip_hdr_def Let_def split: if_splits option.splits)

section \<open>No panic: the loops compute the total functions\<close>

lemma msg_loop_eq:
  assumes inp: "8 + n \<le> length inp"
  shows "off \<le> length val \<Longrightarrow> length val \<le> n \<Longrightarrow>
    msg_loop inp n val off = Some (case find_header (drop off val) of None \<Rightarrow> inp
      | Some (p, h, q) \<Rightarrow> replace_header inp n (take off val @ p, h, q))"
proof (induction "length val - off" arbitrary: off rule: less_induct)
  case less
  let ?b = "drop off val"
  consider "length val = off" | "off < length val" "length ?b < 8 \<or> length ?b < full_len ?b"
    | "8 \<le> length ?b" "full_len ?b \<le> length ?b"
    using less.prems by fastforce
  then show ?case
  proof cases
    case 1
    then show ?thesis
      by (subst msg_loop.simps) (simp add: find_header_bad)
  next
    case 2
    then show ?thesis
      by (subst msg_loop.simps) (auto simp: no_panic find_header_bad)
  next
    case 3
    let ?h = "take (full_len ?b) ?b"
    show ?thesis
    proof (cases "is_header ?b")
      case True
      obtain h' r where s: "strip_hdr ?h = (h', r)" by force
      have "length ?h \<le> length val" by simp
      then have "r \<le> n"
        using strip_hdr_le [OF s] less.prems by linarith
      with True s 3 inp show ?thesis
        by (subst msg_loop.simps)
           (auto simp: no_panic find_header_step replace_header_def is_header_def appendU32_def
             word_of_int_diff add.commute)
    next
      case False
      have "msg_loop inp n val off = msg_loop inp n val (off + full_len ?b)"
        using 3 False by (subst msg_loop.simps) (auto simp: no_panic is_header_def)
      moreover have "length val - (off + full_len ?b) < length val - off"
        "off + full_len ?b \<le> length val"
        using 3 full_len_pos [of ?b] by (simp_all del: full_len_pos)
      moreover have "take (off + full_len ?b) val = take off val @ ?h"
        by (simp add: take_add)
      ultimately show ?thesis
        using less.hyps [of "off + full_len ?b"] less.prems 3 False
        by (auto simp: find_header_step add.commute split: option.splits)
    qed
  qed
qed

lemma stripCorrelation_total: "stripCorrelation inp = Some (strip_msg inp)"
proof (cases "length inp < 8 \<or> inp ! 3 \<noteq> typeStructure \<or> length inp < 8 + hdr_len inp")
  case True
  then show ?thesis
    by (auto simp: stripCorrelation_def strip_msg_def no_panic simp flip: hdr_len_def)
next
  case False
  then have *: "8 \<le> length inp" "inp ! 3 = typeStructure" "8 + hdr_len inp \<le> length inp" by simp_all
  show ?thesis
    using * msg_loop_eq [OF *(3), of 0 "take (hdr_len inp) (drop 8 inp)"]
    by (auto simp: stripCorrelation_def strip_msg_def no_panic simp flip: hdr_len_def
      split: option.splits)
qed

section \<open>What the strip does to a message\<close>

text \<open>
  A header that loses something keeps its tag and type, becomes exactly \<open>r\<close> bytes shorter with a
  length field that says so, and has nothing left to strip.
\<close>

lemma strip_hdr_changed:
  assumes s: "strip_hdr h = (h', r)" and r: "0 < r"
    and h: "full_len h = length h" "8 \<le> length h"
  shows "take 4 h' = take 4 h" "length h' + r = length h" "8 \<le> length h'"
    "full_len h' = length h'" "strip_hdr h' = (h', 0)" "8 dvd r"
proof -
  let ?n = "hdr_len h"
  from s r obtain es where len: "8 + ?n \<le> length h"
    and es: "frames full_len (take ?n (drop 8 h)) = Some es"
    and req: "r = length (concat (filter is_correlation es))"
    and h'eq: "h' = take 4 h @ put_uint32 (word_of_nat (?n - r))
      @ concat (filter (\<lambda>e. \<not> is_correlation e) es)"
    by (auto simp: strip_hdr_def Let_def simp del: length_0_conv length_greater_0_conv
      split: if_splits option.splits)
  let ?k = "concat (filter (\<lambda>e. \<not> is_correlation e) es)"
  have frame: "full_len e = length e \<and> 8 \<le> length e" if "e \<in> set es" for e
    using elem.frames_members [OF es that] .
  have dvd: "8 dvd length (concat (filter P es))" for P
    using frame full_len_dvd by (intro dvd_length_concat) (metis filter_is_subset subsetD)
  show "8 dvd r" unfolding req by (rule dvd)
  have sum: "r + length ?k = ?n"
    using concat_filter_partition [of is_correlation es] elem.frames_concat [OF es] len req by simp
  have "8 dvd ?n" unfolding sum [symmetric] req using dvd by (intro dvd_add) auto
  then have "length h = 8 + ?n"
    using h(1) full_len_aligned by simp
  then show "length h' + r = length h" using sum h'eq h(2) by simp
  show "take 4 h' = take 4 h" using h'eq h(2) by simp
  show "8 \<le> length h'" using h'eq h(2) by simp
  have k: "?n - r = length ?k" using sum by simp
  have "hdr_len h' = unat (word_of_nat (length ?k) :: 32 word)"
    unfolding h'eq k using h(2) by (intro hdr_len_put) simp
  moreover have "length ?k < 2 ^ 32" using sum hdr_len_bound [of h] by linarith
  ultimately have hl: "hdr_len h' = length ?k" by (simp add: unat_word_of_nat_32)
  show "full_len h' = length h'"
    using full_len_aligned [of h'] hl dvd h'eq h(2) by simp
  have "drop 8 h' = ?k" unfolding h'eq using h(2) by simp
  with hl have "take (hdr_len h') (drop 8 h') = ?k" by simp
  then have "frames full_len (take (hdr_len h') (drop 8 h')) = Some (filter (\<lambda>e. \<not> is_correlation e) es)"
    using elem.frames_filter [OF es] by simp
  then show "strip_hdr h' = (h', 0)"
    by (simp add: strip_hdr_def Let_def)
qed

lemma is_header_cong:
  assumes "take 4 b = take 4 c" "4 \<le> length b" "4 \<le> length c"
  shows "is_header b = is_header c"
proof -
  have "b ! i = c ! i" if "i < 4" for i
    using assms that nth_take [of i 4 b] nth_take [of i 4 c] by simp
  then show ?thesis by (simp add: is_header_def tag_of_def)
qed

text \<open>
  The shape of every message that is changed: only the length field of the message, and one header
  element inside it, differ.
\<close>

lemma strip_msg_cases:
  obtains (same) "strip_msg inp = inp"
  | (changed) p h q h' r where
    "8 + hdr_len inp \<le> length inp" "inp ! 3 = typeStructure"
    "take (hdr_len inp) (drop 8 inp) = p @ h @ q"
    "find_header (p @ h @ q) = Some (p, h, q)"
    "is_header h" "full_len h = length h" "8 \<le> length h"
    "strip_hdr h = (h', r)" "0 < r" "r \<le> hdr_len inp" "length p + length h + length q = hdr_len inp"
    "strip_msg inp = take 4 inp @ put_uint32 (word_of_nat (hdr_len inp - r))
       @ p @ h' @ q @ drop (8 + hdr_len inp) inp"
proof (cases "strip_msg inp = inp")
  case True
  then show ?thesis by (rule same)
next
  case False
  then obtain p h q where g: "8 + hdr_len inp \<le> length inp" "inp ! 3 = typeStructure"
    and f: "find_header (take (hdr_len inp) (drop 8 inp)) = Some (p, h, q)"
    and rep: "strip_msg inp = replace_header inp (hdr_len inp) (p, h, q)"
    by (auto simp: strip_msg_def split: if_splits option.splits)
  obtain h' r where s: "strip_hdr h = (h', r)" by force
  with False rep have r: "0 < r" by (auto simp: replace_header_def split: if_splits)
  note sp = find_header_split [OF f]
  from sp have v: "take (hdr_len inp) (drop 8 inp) = p @ h @ q" by blast
  from arg_cong [OF v, of length] g(1)
  have l: "length p + length h + length q = hdr_len inp" by simp
  have "r \<le> hdr_len inp" using strip_hdr_le [OF s] l by linarith
  with changed [OF g v] f sp s r l rep v show ?thesis
    by (simp add: replace_header_def)
qed

lemma strip_msg_fixed:
  "find_header (take (hdr_len m) (drop 8 m)) = Some (p, h, q) \<Longrightarrow> strip_hdr h = (h, 0) \<Longrightarrow>
   strip_msg m = m"
  by (simp add: strip_msg_def replace_header_def)

lemma strip_msg_idem: "strip_msg (strip_msg inp) = strip_msg inp"
proof (cases rule: strip_msg_cases [of inp])
  case same
  then show ?thesis by simp
next
  case (changed p h q h' r)
  let ?n = "hdr_len inp" and ?out = "strip_msg inp"
  note sh = strip_hdr_changed [OF changed(8,9,6,7)]
  have hd: "is_header h'"
    using is_header_cong [of h' h] sh changed(5,7) by simp
  have len: "length p + length h' + length q = ?n - r" using sh(2) changed(11) by linarith
  have "hdr_len ?out = unat (word_of_nat (?n - r) :: 32 word)"
    unfolding changed(12) using changed(1) by (intro hdr_len_put) simp
  moreover have "?n - r < 2 ^ 32" using hdr_len_bound [of inp] by linarith
  ultimately have hl: "hdr_len ?out = ?n - r" by (simp only: unat_word_of_nat_32)
  have "take (?n - r) (drop 8 ?out) = p @ h' @ q"
    unfolding changed(12) using changed(1) len by simp
  moreover have "find_header (p @ h' @ q) = Some (p, h', q)"
    by (rule find_header_exchange [OF hd sh(4,3) changed(4)])
  ultimately show ?thesis
    using strip_msg_fixed [of ?out p h' q] hl sh(5) by simp
qed

text \<open>A message whose length field is exact keeps an exact length field.\<close>

definition exact :: "byte list \<Rightarrow> bool" where
  "exact m \<longleftrightarrow> 8 \<le> length m \<and> length m = 8 + hdr_len m"

lemma strip_msg_exact:
  assumes "exact m"
  shows "exact (strip_msg m)"
proof (cases rule: strip_msg_cases [of m])
  case same
  with assms show ?thesis by simp
next
  case (changed p h q h' r)
  have "hdr_len (strip_msg m) = unat (word_of_nat (hdr_len m - r) :: 32 word)"
    unfolding changed(12) using changed(1) by (intro hdr_len_put) simp
  moreover have "hdr_len m - r < 2 ^ 32" using hdr_len_bound [of m] by linarith
  ultimately have "hdr_len (strip_msg m) = hdr_len m - r" by (simp only: unat_word_of_nat_32)
  moreover have "length (strip_msg m) + r = length m"
    using changed(1,11,12) strip_hdr_changed(2) [OF changed(8,9,6,7)] assms
    by (simp add: exact_def)
  ultimately show ?thesis
    using assms changed(1,10) by (simp add: exact_def)
qed

lemma strip_msg_shrinks: "length (strip_msg m) \<le> length m \<and> 8 dvd (length m - length (strip_msg m))"
proof (cases rule: strip_msg_cases [of m])
  case same
  then show ?thesis by simp
next
  case (changed p h q h' r)
  have "length (strip_msg m) + r = length m"
    using changed(1,11,12) strip_hdr_changed(2) [OF changed(8,9,6,7)] by simp
  then have "length m - length (strip_msg m) = r" "length (strip_msg m) \<le> length m" by linarith+
  then show ?thesis using strip_hdr_changed(6) [OF changed(8,9,6,7)] by simp
qed

end
