(* ===== verification/Ttlv_Spec.thy ===== *)
theory Ttlv_Spec
  imports Ttlv
begin

text \<open>
  The abstract side of the correlation strip: TTLV messages as trees, their encoding (3-byte tag,
  type, 4-byte length, value padded to eight bytes), and the tree transformation that the byte
  surgery of \<^verbatim>\<open>stripCorrelation\<close> implements.
\<close>

section \<open>TTLV trees and their encoding\<close>

datatype ttlv =
    Prim nat byte "byte list"
  | Structure nat "ttlv list"

fun ttag :: "ttlv \<Rightarrow> nat" where
  "ttag (Prim t ty v) = t"
| "ttag (Structure t cs) = t"

definition put_tag :: "nat \<Rightarrow> byte list" where
  "put_tag t = [word_of_nat (drop_bit 16 t), word_of_nat (drop_bit 8 t), word_of_nat t]"

definition padding :: "nat \<Rightarrow> nat" where
  "padding n = (8 - n mod 8) mod 8"

fun encode :: "ttlv \<Rightarrow> byte list" where
  "encode (Prim t ty v) =
     put_tag t @ ty # put_uint32 (word_of_nat (length v)) @ v @ replicate (padding (length v)) 0"
| "encode (Structure t cs) =
     put_tag t @ typeStructure # put_uint32 (word_of_nat (length (concat (map encode cs))))
       @ concat (map encode cs)"

fun wf_ttlv :: "ttlv \<Rightarrow> bool" where
  "wf_ttlv (Prim t ty v) \<longleftrightarrow> t < 2 ^ 24 \<and> ty \<noteq> typeStructure \<and> length v < 2 ^ 32"
| "wf_ttlv (Structure t cs) \<longleftrightarrow>
     t < 2 ^ 24 \<and> list_all wf_ttlv cs \<and> length (concat (map encode cs)) < 2 ^ 32"

section \<open>The transformation\<close>

definition correlation_tag :: "nat \<Rightarrow> bool" where
  "correlation_tag t \<longleftrightarrow> t = tagClientCorrelationValue \<or> t = tagServerCorrelationValue"

definition drop_correlation :: "ttlv list \<Rightarrow> ttlv list" where
  "drop_correlation cs = filter (\<lambda>c. \<not> correlation_tag (ttag c)) cs"

fun strip_children :: "ttlv list \<Rightarrow> ttlv list" where
  "strip_children [] = []"
| "strip_children (Structure t hs # cs) =
     (if t = tagResponseHeader then Structure t (drop_correlation hs) # cs
      else Structure t hs # strip_children cs)"
| "strip_children (Prim t ty v # cs) = Prim t ty v # strip_children cs"

fun strip_tree :: "ttlv \<Rightarrow> ttlv" where
  "strip_tree (Structure t cs) = Structure t (strip_children cs)"
| "strip_tree (Prim t ty v) = Prim t ty v"

section \<open>Encodings are frames\<close>

lemma length_put_tag [simp]: "length (put_tag t) = 3"
  by (simp add: put_tag_def)

lemma tag_of_put_tag:
  assumes "t < 2 ^ 24"
  shows "tag_of (put_tag t @ b) = t"
proof -
  have "push_bit 16 (take_bit 8 (drop_bit 16 t)) OR push_bit 8 (take_bit 8 (drop_bit 8 t)) OR take_bit 8 t
      = take_bit 24 t"
  proof (rule bit_eqI)
    fix n :: nat
    consider "n < 8" | "8 \<le> n" "n < 16" | "16 \<le> n" "n < 24" | "24 \<le> n" by fastforce
    then show "bit (push_bit 16 (take_bit 8 (drop_bit 16 t)) OR push_bit 8 (take_bit 8 (drop_bit 8 t))
      OR take_bit 8 t) n = bit (take_bit 24 t) n"
      by cases (auto simp: bit_simps)
  qed
  with assms show ?thesis
    by (simp add: tag_of_def put_tag_def unat_of_nat take_bit_eq_mod)
qed

lemma padding_eq: "padding n = (if n mod 8 = 0 then 0 else 8 - n mod 8)"
  by (simp add: padding_def)

lemma padding_dvd: "8 dvd n + padding n"
proof (cases "n mod 8 = 0")
  case True
  then show ?thesis by (simp add: padding_eq mod_eq_0_iff_dvd)
next
  case False
  have "n + (8 - n mod 8) = 8 * (n div 8) + 8"
    using mult_div_mod_eq [of 8 n] mod_less_divisor [of 8 n] by linarith
  with False show ?thesis by (simp add: padding_eq)
qed

lemma encode_Prim_Cons: "encode (Prim t ty v) =
    (put_tag t @ [ty]) @ put_uint32 (word_of_nat (length v)) @ v @ replicate (padding (length v)) 0"
  by simp

lemma encode_Structure_Cons: "encode (Structure t cs) =
    (put_tag t @ [typeStructure]) @ put_uint32 (word_of_nat (length (concat (map encode cs))))
      @ concat (map encode cs)"
  by simp

lemma encode_ge_8 [simp]: "8 \<le> length (encode m)"
  by (cases m) simp_all

lemma encode_dvd: "8 dvd length (encode m)"
proof (induction m rule: encode.induct)
  case (1 t ty v)
  have "8 dvd 8 + (length v + padding (length v))"
    using padding_dvd [of "length v"] by (rule dvd_add [OF dvd_refl])
  then show ?case by simp
next
  case (2 t cs)
  then have "8 dvd length (concat (map encode cs))"
    by (intro dvd_length_concat) auto
  then show ?case by simp
qed

lemma hdr_len_encode:
  "wf_ttlv (Prim t ty v) \<Longrightarrow> hdr_len (encode (Prim t ty v)) = length v"
  "wf_ttlv (Structure t cs) \<Longrightarrow> hdr_len (encode (Structure t cs)) = length (concat (map encode cs))"
  unfolding encode_Prim_Cons encode_Structure_Cons
  by (subst hdr_len_put; simp add: unat_word_of_nat_32)+

lemma encode_frame: "wf_ttlv m \<Longrightarrow> full_len (encode m) = length (encode m)"
proof (cases m)
  case (Prim t ty v)
  have "(let n = 8 + k in if n mod 8 \<noteq> 0 then n + (8 - n mod 8) else n) = 8 + (k + padding k)"
    for k :: nat by (simp add: Let_def padding_eq)
  moreover assume "wf_ttlv m"
  ultimately show ?thesis
    using Prim hdr_len_encode(1) [of t ty v] by (simp only: full_len_hdr_len) simp
next
  case (Structure t cs)
  assume wf: "wf_ttlv m"
  have "8 dvd length (concat (map encode cs))"
    by (intro dvd_length_concat) (auto simp: encode_dvd)
  with wf Structure show ?thesis
    using full_len_aligned [of "encode m"] hdr_len_encode(2) [of t cs] by simp
qed

lemma tag_of_encode: "wf_ttlv m \<Longrightarrow> tag_of (encode m) = ttag m"
  by (cases m) (simp_all add: tag_of_put_tag [simplified])

lemma encode_nth_3: "encode (Prim t ty v) ! 3 = ty" "encode (Structure t cs) ! 3 = typeStructure"
  by (simp_all add: put_tag_def)

lemma is_header_encode:
  "wf_ttlv (Prim t ty v) \<Longrightarrow> \<not> is_header (encode (Prim t ty v))"
  "wf_ttlv (Structure t cs) \<Longrightarrow> is_header (encode (Structure t cs)) \<longleftrightarrow> t = tagResponseHeader"
  unfolding is_header_def by (simp_all only: tag_of_encode encode_nth_3) simp_all

lemma is_correlation_encode: "wf_ttlv m \<Longrightarrow> is_correlation (encode m) = correlation_tag (ttag m)"
  by (simp add: is_correlation_def correlation_tag_def tag_of_encode)

lemma frames_encode:
  "list_all wf_ttlv cs \<Longrightarrow> frames full_len (concat (map encode cs)) = Some (map encode cs)"
  by (intro elem.frames_of_concat_exact) (auto simp: list_all_iff encode_frame)

section \<open>The byte surgery implements the transformation\<close>

lemma concat_encode_empty: "concat (map encode cs) = [] \<longleftrightarrow> cs = []"
proof (cases cs)
  case (Cons c cs')
  have "encode c \<noteq> []" using encode_ge_8 [of c] by (rule header_not_Nil)
  with Cons show ?thesis by simp
qed simp

lemma filter_encode:
  "list_all wf_ttlv cs \<Longrightarrow>
   filter is_correlation (map encode cs) = map encode (filter (\<lambda>c. correlation_tag (ttag c)) cs) \<and>
   filter (\<lambda>e. \<not> is_correlation e) (map encode cs) = map encode (drop_correlation cs)"
  by (induction cs) (auto simp: is_correlation_encode drop_correlation_def)

lemma drop_correlation_id: "filter (\<lambda>c. correlation_tag (ttag c)) cs = [] \<Longrightarrow> drop_correlation cs = cs"
  by (simp add: drop_correlation_def filter_empty_conv)

lemma length_drop_correlation:
  "length (concat (map encode (filter (\<lambda>c. correlation_tag (ttag c)) cs)))
     + length (concat (map encode (drop_correlation cs))) = length (concat (map encode cs))"
  by (induction cs) (auto simp: drop_correlation_def)

lemma strip_hdr_encode:
  assumes wf: "wf_ttlv (Structure t hs)"
  shows "strip_hdr (encode (Structure t hs)) =
    (encode (Structure t (drop_correlation hs)),
     length (concat (map encode (filter (\<lambda>c. correlation_tag (ttag c)) hs))))"
proof -
  let ?b = "concat (map encode hs)"
  let ?r = "length (concat (map encode (filter (\<lambda>c. correlation_tag (ttag c)) hs)))"
  have hs: "list_all wf_ttlv hs" using wf by simp
  have "length ?b - ?r = length (concat (map encode (drop_correlation hs)))"
    using length_drop_correlation [of hs] by linarith
  moreover have "?r = 0 \<longleftrightarrow> filter (\<lambda>c. correlation_tag (ttag c)) hs = []"
    using concat_encode_empty [of "filter (\<lambda>c. correlation_tag (ttag c)) hs"] by (simp only: length_0_conv)
  moreover have "take 4 (encode (Structure t hs)) = put_tag t @ [typeStructure]"
    "drop 8 (encode (Structure t hs)) = ?b"
    unfolding encode_Structure_Cons by simp_all
  ultimately show ?thesis
    using hdr_len_encode(2) [OF wf] frames_encode [OF hs] filter_encode [OF hs]
      drop_correlation_id [of hs]
    by (auto simp: strip_hdr_def Let_def simp del: length_0_conv concat_eq_Nil_conv)
qed

text \<open>The first header of a list of children, if there is one.\<close>

lemma strip_children_cases:
  obtains (none) "list_all (\<lambda>c. \<forall>hs. c \<noteq> Structure tagResponseHeader hs) cs" "strip_children cs = cs"
  | (some) pre hs post where "cs = pre @ Structure tagResponseHeader hs # post"
    "list_all (\<lambda>c. \<forall>hs. c \<noteq> Structure tagResponseHeader hs) pre"
    "strip_children cs = pre @ Structure tagResponseHeader (drop_correlation hs) # post"
proof (induction cs arbitrary: thesis rule: strip_children.induct)
  case 1
  then show ?case by simp
next
  case (2 t hs cs)
  show ?case
  proof (cases "t = tagResponseHeader")
    case True
    then show ?thesis using "2.prems"(2) [of "[]" hs cs] by simp
  next
    case False
    show ?thesis
    proof (rule "2.IH" [OF False])
      assume "list_all (\<lambda>c. \<forall>hs. c \<noteq> Structure tagResponseHeader hs) cs" "strip_children cs = cs"
      with False show ?thesis by (intro "2.prems"(1)) auto
    next
      fix pre hs' post
      assume "cs = pre @ Structure tagResponseHeader hs' # post"
        "list_all (\<lambda>c. \<forall>hs. c \<noteq> Structure tagResponseHeader hs) pre"
        "strip_children cs = pre @ Structure tagResponseHeader (drop_correlation hs') # post"
      with False show ?thesis by (intro "2.prems"(2) [of "Structure t hs # pre" hs' post]) auto
    qed
  qed
next
  case (3 t ty v cs)
  show ?case
  proof (rule "3.IH")
    assume "list_all (\<lambda>c. \<forall>hs. c \<noteq> Structure tagResponseHeader hs) cs" "strip_children cs = cs"
    then show ?thesis by (intro "3.prems"(1)) auto
  next
    fix pre hs' post
    assume "cs = pre @ Structure tagResponseHeader hs' # post"
      "list_all (\<lambda>c. \<forall>hs. c \<noteq> Structure tagResponseHeader hs) pre"
      "strip_children cs = pre @ Structure tagResponseHeader (drop_correlation hs') # post"
    then show ?thesis by (intro "3.prems"(2) [of "Prim t ty v # pre" hs' post]) auto
  qed
qed

lemma not_header_encode:
  "wf_ttlv c \<Longrightarrow> \<forall>hs. c \<noteq> Structure tagResponseHeader hs \<Longrightarrow> \<not> is_header (encode c)"
  by (cases c) (auto simp del: encode.simps simp: is_header_encode)

lemma find_header_encode_skip:
  "list_all wf_ttlv pre \<Longrightarrow> list_all (\<lambda>c. \<forall>hs. c \<noteq> Structure tagResponseHeader hs) pre \<Longrightarrow>
   find_header (concat (map encode pre) @ b) =
     map_option (\<lambda>(p, h, q). (concat (map encode pre) @ p, h, q)) (find_header b)"
proof (induction pre)
  case Nil
  show ?case by (cases "find_header b") auto
next
  case (Cons c pre)
  then show ?case
    by (simp add: find_header_skip encode_frame not_header_encode option.map_comp o_def
      case_prod_beta)
qed

lemma strip_msg_encode:
  assumes wf: "wf_ttlv m"
  shows "strip_msg (encode m @ rest) = encode (strip_tree m) @ rest"
proof (cases m)
  case (Prim t ty v)
  with wf show ?thesis
    using encode_nth_3(1) [of t ty v] by (simp add: strip_msg_def header_nth del: encode.simps)
next
  case (Structure t cs)
  let ?m = "encode m @ rest" and ?b = "concat (map encode cs)"
  have cs: "list_all wf_ttlv cs" using wf Structure by simp
  have h: "hdr_len ?m = length ?b" "?m ! 3 = typeStructure"
    using hdr_len_encode(2) [of t cs] wf Structure encode_nth_3(2) [of t cs]
    by (simp_all add: header_nth del: encode.simps)
  have len: "length (encode m) = 8 + length ?b" using Structure by simp
  have val: "take (hdr_len ?m) (drop 8 ?m) = ?b"
    unfolding h(1) using Structure unfolding Structure encode_Structure_Cons by simp
  have start: "strip_msg ?m = (case find_header ?b of None \<Rightarrow> ?m | Some x \<Rightarrow> replace_header ?m (length ?b) x)"
    using val h len by (simp add: strip_msg_def del: hdr_len_append cong: option.case_cong)
  show ?thesis
  proof (cases rule: strip_children_cases [of cs])
    case none
    have "find_header (?b @ []) = None"
      unfolding find_header_encode_skip [OF cs none(1)] by (simp add: find_header_bad)
    with start none(2) Structure show ?thesis by simp
  next
    case (some pre hs post)
    let ?h = "Structure tagResponseHeader hs" and ?h' = "Structure tagResponseHeader (drop_correlation hs)"
    let ?r = "length (concat (map encode (filter (\<lambda>c. correlation_tag (ttag c)) hs)))"
    have wfs: "list_all wf_ttlv pre" "wf_ttlv ?h" using cs some(1) by simp_all
    have "find_header (encode ?h @ concat (map encode post)) = Some ([], encode ?h, concat (map encode post))"
      using wfs(2) by (intro find_header_hit) (simp_all add: encode_frame is_header_encode del: encode.simps)
    then have f: "find_header ?b = Some (concat (map encode pre), encode ?h, concat (map encode post))"
      using find_header_encode_skip [OF wfs(1) some(2), of "encode ?h @ concat (map encode post)"] some(1)
      by (simp del: encode.simps)
    have lens: "length ?b - ?r = length (concat (map encode (strip_children cs)))"
      using length_drop_correlation [of hs] some by simp
    have r0: "?r = 0 \<Longrightarrow> strip_children cs = cs"
      using some drop_correlation_id [of hs] concat_encode_empty by simp
    have "take 4 ?m = put_tag t @ [typeStructure]" by (simp add: Structure)
    moreover have "drop (8 + length ?b) ?m = rest" using len by (simp del: encode.simps)
    ultimately have t4: "take 4 ?m = put_tag t @ [typeStructure]" "drop (8 + length ?b) ?m = rest" .
    show ?thesis
      unfolding start f using strip_hdr_encode [OF wfs(2)] r0 lens t4 some(3) Structure
      by (auto simp: replace_header_def simp del: length_0_conv concat_eq_Nil_conv)
  qed
qed

section \<open>Properties of the strip\<close>

text \<open>C12: No input makes the strip panic. It never grows the message, removes a whole number of 8-byte
  blocks, and a second strip changes nothing.\<close>

theorem strip_never_panics:
  "\<exists>out. stripCorrelation inp = Some out \<and> length out \<le> length inp \<and> 8 dvd (length inp - length out)
     \<and> stripCorrelation out = Some out"
  using strip_msg_shrinks [of inp] by (simp add: stripCorrelation_total strip_msg_idem)

text \<open>C1: On the encoding of a well-formed TTLV tree, followed by anything, the byte surgery computes
  the encoding of the tree whose first response header has lost its correlation values.\<close>

theorem strip_implements_tree:
  assumes "wf_ttlv m"
  shows "stripCorrelation (encode m @ rest) = Some (encode (strip_tree m) @ rest)"
  by (simp add: stripCorrelation_total strip_msg_encode [OF assms])

text \<open>A response with a client correlation value, a protocol version and a batch item.\<close>

definition sample_response :: ttlv where
  "sample_response = Structure 0x42007B
     [Structure tagResponseHeader
        [Prim 0x420092 9 [0, 0, 0, 0, 0, 0, 0, 1], Prim tagClientCorrelationValue 7 [0x61, 0x62, 0x63]],
      Prim 0x42007F 5 [0, 0, 0, 0]]"

lemma strip_implements_tree_witness:
  "stripCorrelation (encode sample_response @ [1, 2]) = Some (encode (strip_tree sample_response) @ [1, 2])
   \<and> strip_tree sample_response = Structure 0x42007B
     [Structure tagResponseHeader [Prim 0x420092 9 [0, 0, 0, 0, 0, 0, 0, 1]], Prim 0x42007F 5 [0, 0, 0, 0]]"
proof -
  have "wf_ttlv sample_response"
    by (simp add: sample_response_def typeStructure_def padding_def tagResponseHeader_def tagClientCorrelationValue_def)
  moreover have "strip_tree sample_response = Structure 0x42007B
     [Structure tagResponseHeader [Prim 0x420092 9 [0, 0, 0, 0, 0, 0, 0, 1]], Prim 0x42007F 5 [0, 0, 0, 0]]"
    by (simp add: sample_response_def drop_correlation_def correlation_tag_def tagResponseHeader_def
      tagClientCorrelationValue_def tagServerCorrelationValue_def)
  ultimately show ?thesis using strip_implements_tree [of sample_response "[1, 2]"] by blast
qed

end
