(* ===== verification/Json.thy ===== *)
theory Json
  imports Prelude
begin

text \<open>
  JSON values and the decoding of \<^verbatim>\<open>encoding/json\<close> into Go structs, as far as the gateway's structs
  need it: exact member names first, then names equal under case folding; \<^verbatim>\<open>null\<close> leaves a field
  as it is; a value of the wrong type is remembered as an error while decoding goes on; later members
  win. The lexical syntax (bytes to \<^typ>\<open>string\<close> and numbers) is the parameter \<open>json_parse\<close> of the
  components.
\<close>

datatype json =
    JNull
  | JBool bool
  | JNum int      \<comment> \<open>a literal without fraction or exponent\<close>
  | JFrac         \<comment> \<open>any other number\<close>
  | JStr string
  | JArr "json list"
  | JObj "(string \<times> json) list"

section \<open>Member names\<close>

definition upper_char :: "char \<Rightarrow> char" where
  "upper_char c =
     (let n = of_char c :: nat in
      if of_char CHR ''a'' \<le> n \<and> n \<le> of_char CHR ''z'' then char_of (n - 32) else c)"

text \<open>
  \<^verbatim>\<open>foldName\<close> on names that can equal an ASCII name: besides the ASCII letters, the long s
  (U+017F) folds to S and the Kelvin sign (U+212A) folds to K.
\<close>

fun fold_name :: "string \<Rightarrow> string" where
  "fold_name [] = []"
| "fold_name (c # s) =
     (if take 2 (c # s) = [char_of (0xC5 :: nat), char_of (0xBF :: nat)]
      then CHR ''S'' # fold_name (drop 1 s)
      else if take 3 (c # s) = [char_of (0xE2 :: nat), char_of (0x84 :: nat), char_of (0xAA :: nat)]
      then CHR ''K'' # fold_name (drop 2 s)
      else upper_char c # fold_name s)"

definition field_of :: "string list \<Rightarrow> string \<Rightarrow> string option" where
  "field_of names key =
     (if key \<in> set names then Some key else find (\<lambda>n. fold_name n = fold_name key) names)"

section \<open>Decoding into structs\<close>

text \<open>A field decoder updates the struct and reports whether the value had the field's type.\<close>

type_synonym 'a field = "string \<times> (json \<Rightarrow> 'a \<Rightarrow> 'a \<times> bool)"

fun decode_members :: "'a field list \<Rightarrow> (string \<times> json) list \<Rightarrow> 'a \<Rightarrow> 'a \<times> bool" where
  "decode_members fs [] v = (v, True)"
| "decode_members fs ((k, j) # ms) v =
     (case field_of (map fst fs) k of
        None \<Rightarrow> decode_members fs ms v
      | Some n \<Rightarrow>
          (case map_of fs n of
             None \<Rightarrow> decode_members fs ms v
           | Some set_field \<Rightarrow>
               (let (v', ok) = set_field j v; (w, ok') = decode_members fs ms v'
                in (w, ok \<and> ok'))))"

definition decode_struct :: "'a field list \<Rightarrow> json \<Rightarrow> 'a \<Rightarrow> 'a \<times> bool" where
  "decode_struct fs j v =
     (case j of
        JObj ms \<Rightarrow> decode_members fs ms v
      | JNull \<Rightarrow> (v, True)
      | _ \<Rightarrow> (v, False))"

definition string_field :: "(string \<Rightarrow> 'a \<Rightarrow> 'a) \<Rightarrow> json \<Rightarrow> 'a \<Rightarrow> 'a \<times> bool" where
  "string_field upd j v =
     (case j of JStr s \<Rightarrow> (upd s v, True) | JNull \<Rightarrow> (v, True) | _ \<Rightarrow> (v, False))"

definition int_field :: "(int \<Rightarrow> 'a \<Rightarrow> 'a) \<Rightarrow> json \<Rightarrow> 'a \<Rightarrow> 'a \<times> bool" where
  "int_field upd j v =
     (case j of
        JNum n \<Rightarrow> if - (2 ^ 63) \<le> n \<and> n < 2 ^ 63 then (upd n v, True) else (v, False)
      | JNull \<Rightarrow> (v, True)
      | _ \<Rightarrow> (v, False))"

definition list_field :: "'b \<Rightarrow> (json \<Rightarrow> 'b \<Rightarrow> 'b \<times> bool) \<Rightarrow> ('b list \<Rightarrow> 'a \<Rightarrow> 'a) \<Rightarrow> json \<Rightarrow> 'a \<Rightarrow> 'a \<times> bool" where
  "list_field zero elem upd j v =
     (case j of
        JArr js \<Rightarrow> (upd (map (\<lambda>x. fst (elem x zero)) js) v, list_all (\<lambda>x. snd (elem x zero)) js)
      | JNull \<Rightarrow> (upd [] v, True)
      | _ \<Rightarrow> (v, False))"

definition struct_field :: "('a \<Rightarrow> 'b) \<Rightarrow> ('b \<Rightarrow> 'a \<Rightarrow> 'a) \<Rightarrow> 'b field list \<Rightarrow> json \<Rightarrow> 'a \<Rightarrow> 'a \<times> bool" where
  "struct_field get upd fs j v = (let (w, ok) = decode_struct fs j (get v) in (upd w v, ok))"

text \<open>
  \<^verbatim>\<open>map[string]interface{}\<close>, of which the gateway reads string members only. A map that is there already,
  from an earlier member of the same name, is added to.
\<close>

definition map_field :: "('a \<Rightarrow> string \<Rightarrow> json option) \<Rightarrow> ((string \<Rightarrow> json option) \<Rightarrow> 'a \<Rightarrow> 'a) \<Rightarrow> json \<Rightarrow> 'a \<Rightarrow> 'a \<times> bool" where
  "map_field get upd j v =
     (case j of
        JObj ms \<Rightarrow> (upd (get v ++ map_of (rev ms)) v, True)
      | JNull \<Rightarrow> (upd (\<lambda>_. None) v, True)
      | _ \<Rightarrow> (v, False))"

text \<open>\<^verbatim>\<open>Decode\<close> of a parsed value into a zero struct: \<^const>\<open>None\<close> when any error was met.\<close>

definition decode_into :: "'a field list \<Rightarrow> 'a \<Rightarrow> json option \<Rightarrow> 'a option" where
  "decode_into fs zero p =
     (case p of
        None \<Rightarrow> None
      | Some j \<Rightarrow> (case decode_struct fs j zero of (v, ok) \<Rightarrow> if ok then Some v else None))"

lemma decode_into_None [simp]: "decode_into fs z None = None"
  by (simp add: decode_into_def)

lemma decode_into_null [simp]: "decode_into fs z (Some JNull) = Some z"
  by (simp add: decode_into_def decode_struct_def)

lemma field_of_exact: "k \<in> set names \<Longrightarrow> field_of names k = Some k"
  by (simp add: field_of_def)

lemma field_of_mem: "field_of names k = Some n \<Longrightarrow> n \<in> set names"
  by (auto simp: field_of_def find_Some_iff split: if_splits)

end
