(* ===== verification/Effects.thy ===== *)
theory Effects
  imports Prelude Json "HOL-Library.State_Monad"
begin

text \<open>
  The outside of the gateway. Every call that leaves the repository (the vault SDK, HTTP, entropy,
  the manager's identity) is an \<open>event\<close>; the state of a computation is the history of events, and the
  library record \<open>lib\<close> answers a call as an arbitrary function of that history. So the environment is
  any deterministic reactive system, errors included, and what the gateway does is visible as the
  list of events it appends.
\<close>

section \<open>Values exchanged with the outside\<close>

datatype tee = TeeTypeSGX | TeeTypeTDX

record quote_config =
  qv_endpoint :: string
  qv_token :: string

record verification_policy =
  vp_tee :: tee
  vp_mrenclave :: "byte list"
  vp_allow_debug :: bool
  vp_quote :: "quote_config option"

text \<open>\<^verbatim>\<open>ratls.NewEgressIdentity(base, token)\<close>: known by its two arguments.\<close>

record egress_identity =
  ei_base :: string
  ei_token :: string

record cert_template =
  ct_common_name :: string
  ct_serial :: int
  ct_not_before :: int
  ct_not_after :: int

record client_cert =
  cc_der :: "byte list"
  cc_leaf :: bool

record dial_opts =
  do_client_cert :: "client_cert option"
  do_get_client_certificate :: "egress_identity option"
  do_client_evidence :: "egress_identity option"
  do_auth_token :: "string option"
  do_vault_policy :: "verification_policy option"

definition no_opts :: dial_opts where
  "no_opts = \<lparr>do_client_cert = None, do_get_client_certificate = None, do_client_evidence = None,
     do_auth_token = None, do_vault_policy = None\<rparr>"

text \<open>The key types of the vault SDK; any other string converts to a key type of that text.\<close>

datatype key_type = Aes256GcmKey | P256SigningKey | HmacSha256Key | OtherKeyType string

record key_info =
  ki_type :: key_type
  ki_public_key :: "byte list"

type_synonym conn = nat

text \<open>Operations of the vault client, with the arguments the gateway passes.\<close>

datatype vault_op =
    CreateKeyOp string "byte list" string
  | WrapOp string "byte list" "byte list" "byte list"
  | UnwrapOp string "byte list" "byte list" "byte list"
  | SignOp string "byte list"
  | KeyInfoOp string
  | DeleteOp string

record http_request =
  hq_method :: string
  hq_url :: string
  hq_headers :: "(string \<times> string) list"
  hq_body :: "json option"

record http_response =
  hs_code :: nat
  hs_status :: string
  hs_body :: string

datatype event =
    EvDial string dial_opts "conn option"
  | EvClose conn
  | EvVault conn vault_op
  | EvHTTP http_request
  | EvIdentity egress_identity "byte list"
  | EvGenKey
  | EvRand nat
  | EvCert cert_template
  | EvClock
  | EvUUID

type_synonym hist = "event list"

type_synonym 'a io = "(hist, 'a) state"

section \<open>The library record\<close>

text \<open>
  The answers of the code that is not in the repository. \<open>lib_rand h i\<close> is the \<open>i\<close>-th byte read from
  the system's entropy, so that a read fills exactly the buffer it is given. \<open>key_const\<close> gives the
  SDK's strings for its three named key types. \<open>json_parse\<close> reads a whole document, \<open>json_decode\<close> the first
  value of a stream that ends or, if the flag is set, fails after these bytes.
\<close>

record lib =
  lib_dial :: "hist \<Rightarrow> string \<Rightarrow> dial_opts \<Rightarrow> string + conn"
  lib_create_key :: "hist \<Rightarrow> conn \<Rightarrow> string \<Rightarrow> byte list \<Rightarrow> string \<Rightarrow> string + unit"
  lib_wrap :: "hist \<Rightarrow> conn \<Rightarrow> string \<Rightarrow> byte list \<Rightarrow> byte list \<Rightarrow> byte list
    \<Rightarrow> string + (byte list \<times> byte list)"
  lib_unwrap :: "hist \<Rightarrow> conn \<Rightarrow> string \<Rightarrow> byte list \<Rightarrow> byte list \<Rightarrow> byte list \<Rightarrow> string + byte list"
  lib_sign :: "hist \<Rightarrow> conn \<Rightarrow> string \<Rightarrow> byte list \<Rightarrow> string + (byte list \<times> string)"
  lib_key_info :: "hist \<Rightarrow> conn \<Rightarrow> string \<Rightarrow> string + key_info"
  lib_delete_key :: "hist \<Rightarrow> conn \<Rightarrow> string \<Rightarrow> string + unit"
  lib_http :: "hist \<Rightarrow> http_request \<Rightarrow> string + http_response"
  lib_identity :: "hist \<Rightarrow> egress_identity \<Rightarrow> byte list \<Rightarrow> string + (byte list \<times> byte list)"
  lib_gen_key :: "hist \<Rightarrow> string + byte list"
  lib_marshal_key :: "byte list \<Rightarrow> string + byte list"
  lib_rand :: "hist \<Rightarrow> nat \<Rightarrow> byte"
  lib_rand_error :: "hist \<Rightarrow> string option"
  lib_cert :: "hist \<Rightarrow> cert_template \<Rightarrow> byte list \<Rightarrow> string + byte list"
  lib_parse_cert :: "byte list \<Rightarrow> bool"
  lib_sha256 :: "byte list \<Rightarrow> byte list"
  lib_now :: "hist \<Rightarrow> int"
  lib_uuid :: "hist \<Rightarrow> string"
  key_const :: "key_type \<Rightarrow> string"
  json_parse :: "string \<Rightarrow> json option"
  json_decode :: "string \<Rightarrow> bool \<Rightarrow> json option"

section \<open>The calls\<close>

text \<open>One outside call, over any type of events.\<close>

definition call :: "('e list \<Rightarrow> 'a) \<Rightarrow> ('e list \<Rightarrow> 'e) \<Rightarrow> ('e list, 'a) state" where
  "call f e = State (\<lambda>h. (f h, h @ [e h]))"

lemma run_call [simp]: "run_state (call f e) h = (f h, h @ [e h])"
  by (simp add: call_def)

definition dial :: "lib \<Rightarrow> string \<Rightarrow> dial_opts \<Rightarrow> (string + conn) io" where
  "dial L ep opts = call (\<lambda>h. lib_dial L h ep opts)
     (\<lambda>h. EvDial ep opts (case lib_dial L h ep opts of Inl _ \<Rightarrow> None | Inr c \<Rightarrow> Some c))"

definition close :: "conn \<Rightarrow> unit io" where
  "close c = call (\<lambda>h. ()) (\<lambda>h. EvClose c)"

definition client_create_key :: "lib \<Rightarrow> conn \<Rightarrow> string \<Rightarrow> byte list \<Rightarrow> string \<Rightarrow> (string + unit) io" where
  "client_create_key L c handle material grant =
     call (\<lambda>h. lib_create_key L h c handle material grant) (\<lambda>h. EvVault c (CreateKeyOp handle material grant))"

definition client_wrap :: "lib \<Rightarrow> conn \<Rightarrow> string \<Rightarrow> byte list \<Rightarrow> byte list \<Rightarrow> byte list
    \<Rightarrow> (string + (byte list \<times> byte list)) io" where
  "client_wrap L c handle pt aad iv =
     call (\<lambda>h. lib_wrap L h c handle pt aad iv) (\<lambda>h. EvVault c (WrapOp handle pt aad iv))"

definition client_unwrap :: "lib \<Rightarrow> conn \<Rightarrow> string \<Rightarrow> byte list \<Rightarrow> byte list \<Rightarrow> byte list
    \<Rightarrow> (string + byte list) io" where
  "client_unwrap L c handle ct iv aad =
     call (\<lambda>h. lib_unwrap L h c handle ct iv aad) (\<lambda>h. EvVault c (UnwrapOp handle ct iv aad))"

definition client_sign :: "lib \<Rightarrow> conn \<Rightarrow> string \<Rightarrow> byte list \<Rightarrow> (string + (byte list \<times> string)) io" where
  "client_sign L c handle msg =
     call (\<lambda>h. lib_sign L h c handle msg) (\<lambda>h. EvVault c (SignOp handle msg))"

definition client_key_info :: "lib \<Rightarrow> conn \<Rightarrow> string \<Rightarrow> (string + key_info) io" where
  "client_key_info L c handle =
     call (\<lambda>h. lib_key_info L h c handle) (\<lambda>h. EvVault c (KeyInfoOp handle))"

definition client_delete_key :: "lib \<Rightarrow> conn \<Rightarrow> string \<Rightarrow> (string + unit) io" where
  "client_delete_key L c handle =
     call (\<lambda>h. lib_delete_key L h c handle) (\<lambda>h. EvVault c (DeleteOp handle))"

definition http_do :: "lib \<Rightarrow> http_request \<Rightarrow> (string + http_response) io" where
  "http_do L q = call (\<lambda>h. lib_http L h q) (\<lambda>h. EvHTTP q)"

definition header_evidence :: "lib \<Rightarrow> egress_identity \<Rightarrow> byte list \<Rightarrow> (string + (byte list \<times> byte list)) io" where
  "header_evidence L i challenge = call (\<lambda>h. lib_identity L h i challenge) (\<lambda>h. EvIdentity i challenge)"

definition generate_key :: "lib \<Rightarrow> (string + byte list) io" where
  "generate_key L = call (lib_gen_key L) (\<lambda>h. EvGenKey)"

text \<open>\<^verbatim>\<open>rand.Read\<close> on a buffer of \<open>n\<close> bytes.\<close>

definition rand_read :: "lib \<Rightarrow> nat \<Rightarrow> (string + byte list) io" where
  "rand_read L n =
     call (\<lambda>h. case lib_rand_error L h of Some e \<Rightarrow> Inl e | None \<Rightarrow> Inr (map (lib_rand L h) [0..<n]))
       (\<lambda>h. EvRand n)"

definition create_certificate :: "lib \<Rightarrow> cert_template \<Rightarrow> byte list \<Rightarrow> (string + byte list) io" where
  "create_certificate L t key = call (\<lambda>h. lib_cert L h t key) (\<lambda>h. EvCert t)"

text \<open>\<^verbatim>\<open>time.Now()\<close>, in nanoseconds since the Unix epoch.\<close>

definition time_now :: "lib \<Rightarrow> int io" where
  "time_now L = call (lib_now L) (\<lambda>h. EvClock)"

definition uuid_new :: "lib \<Rightarrow> string io" where
  "uuid_new L = call (lib_uuid L) (\<lambda>h. EvUUID)"

section \<open>What a computation appends to the history\<close>

text \<open>
  \<open>emits m Q\<close>: whatever happened before, \<open>m\<close> only appends to the history, and its result and the
  appended events satisfy \<open>Q\<close>.
\<close>

definition emits :: "('e list, 'a) state \<Rightarrow> ('a \<Rightarrow> 'e list \<Rightarrow> bool) \<Rightarrow> bool" where
  "emits m Q \<longleftrightarrow> (\<forall>h. \<exists>es. snd (run_state m h) = h @ es \<and> Q (fst (run_state m h)) es)"

lemma emitsI:
  "(\<And>h. \<exists>es. snd (run_state m h) = h @ es \<and> Q (fst (run_state m h)) es) \<Longrightarrow> emits m Q"
  by (simp add: emits_def)

lemma emitsD: "emits m Q \<Longrightarrow> run_state m h = (r, h') \<Longrightarrow> \<exists>es. h' = h @ es \<and> Q r es"
  unfolding emits_def by (metis fst_conv snd_conv)

lemma run_fst: "fst (run_state m h) = x \<Longrightarrow> \<exists>h'. run_state m h = (x, h')"
  by (cases "run_state m h") simp

lemma emits_return: "Q x [] \<Longrightarrow> emits (State_Monad.return x) Q"
  by (simp add: emits_def)

lemma emits_call: "(\<And>h. Q (f h) [e h]) \<Longrightarrow> emits (call f e) Q"
  by (simp add: emits_def)

lemma emits_bind:
  assumes "emits m P" and "\<And>x es. P x es \<Longrightarrow> emits (f x) (\<lambda>y fs. Q y (es @ fs))"
  shows "emits (State_Monad.bind m f) Q"
proof (rule emitsI)
  fix h
  obtain x h' where r: "run_state m h = (x, h')" by force
  with assms(1) obtain es where es: "h' = h @ es" "P x es" by (auto dest: emitsD)
  obtain y h'' where r': "run_state (f x) h' = (y, h'')" by force
  with assms(2) [OF es(2)] obtain fs where "h'' = h' @ fs" "Q y (es @ fs)"
    by (auto dest: emitsD)
  with r r' es show "\<exists>es. snd (run_state (State_Monad.bind m f) h) = h @ es \<and>
      Q (fst (run_state (State_Monad.bind m f) h)) es"
    by auto
qed

lemma emits_call_bind:
  "(\<And>h. emits (f (g h)) (\<lambda>y fs. Q y (e h # fs))) \<Longrightarrow> emits (State_Monad.bind (call g e) f) Q"
  by (rule emits_bind [where P = "\<lambda>x es. \<exists>h. x = g h \<and> es = [e h]"]) (auto intro: emits_call)

lemma emits_return_bind: "emits (f x) Q \<Longrightarrow> emits (State_Monad.bind (State_Monad.return x) f) Q"
  by simp

lemma emits_case_sum:
  "(\<And>e. emits (f e) Q) \<Longrightarrow> (\<And>x. emits (g x) Q) \<Longrightarrow>
   emits (case r of Inl e \<Rightarrow> f e | Inr x \<Rightarrow> g x) Q"
  by (cases r) simp_all

lemma emits_mono: "emits m P \<Longrightarrow> (\<And>x es. P x es \<Longrightarrow> Q x es) \<Longrightarrow> emits m Q"
  unfolding emits_def by blast

lemma emits_conj: "emits m P \<Longrightarrow> emits m Q \<Longrightarrow> emits m (\<lambda>x es. P x es \<and> Q x es)"
  unfolding emits_def by (metis same_append_eq)

end
