(* ===== verification/Connections.thy ===== *)
theory Connections
  imports Effects
begin

text \<open>
  The connection discipline every vault operation follows: an operation of the vault client runs on
  a connection that is open, every connection that was opened is closed, and none is closed twice.
  \<open>conn_run\<close> replays the events over the open connections and fails at the first violation.
\<close>

fun conn_step :: "event \<Rightarrow> conn list \<Rightarrow> conn list option" where
  "conn_step (EvDial ep opts (Some c)) s = Some (c # s)"
| "conn_step (EvClose c) s = (if c \<in> set s then Some (remove1 c s) else None)"
| "conn_step (EvVault c op) s = (if c \<in> set s then Some s else None)"
| "conn_step e s = Some s"

fun conn_run :: "event list \<Rightarrow> conn list \<Rightarrow> conn list option" where
  "conn_run [] s = Some s"
| "conn_run (e # es) s = Option.bind (conn_step e s) (conn_run es)"

definition disciplined :: "event list \<Rightarrow> bool" where
  "disciplined es \<longleftrightarrow> (\<forall>s. conn_run es s = Some s)"

lemma conn_run_append: "conn_run (es @ fs) s = Option.bind (conn_run es s) (conn_run fs)"
  by (induction es arbitrary: s) (auto split: bind_splits)

lemma disciplined_Nil [simp]: "disciplined []"
  by (simp add: disciplined_def)

lemma disciplined_append [intro]: "disciplined es \<Longrightarrow> disciplined fs \<Longrightarrow> disciplined (es @ fs)"
  by (simp add: disciplined_def conn_run_append)

lemma disciplined_failed_dial [simp]: "disciplined [EvDial ep opts None]"
  by (simp add: disciplined_def)

text \<open>Events that touch no connection.\<close>

fun off_vault :: "event \<Rightarrow> bool" where
  "off_vault (EvDial ep opts c) = (c = None)"
| "off_vault (EvClose c) = False"
| "off_vault (EvVault c op) = False"
| "off_vault e = True"

lemma conn_run_off_vault: "list_all off_vault es \<Longrightarrow> conn_run es s = Some s"
  by (induction es) (auto elim: off_vault.elims)

lemma disciplined_off_vault: "list_all off_vault es \<Longrightarrow> disciplined es"
  by (simp add: disciplined_def conn_run_off_vault)

text \<open>One session with a vault: dial, operations on that connection, close.\<close>

fun on_conn :: "conn \<Rightarrow> event \<Rightarrow> bool" where
  "on_conn c (EvVault d op) = (d = c)"
| "on_conn c e = False"

lemma conn_run_on_conn: "list_all (on_conn c) es \<Longrightarrow> c \<in> set s \<Longrightarrow> conn_run es s = Some s"
  by (induction es) (auto elim: on_conn.elims)

lemma disciplined_visit:
  assumes "list_all (on_conn c) es"
  shows "disciplined (EvDial ep opts (Some c) # es @ [EvClose c])"
  using conn_run_on_conn [OF assms] by (simp add: disciplined_def conn_run_append)

text \<open>The endpoints dialled, in order.\<close>

fun dialled :: "event list \<Rightarrow> string list" where
  "dialled [] = []"
| "dialled (EvDial ep opts c # es) = ep # dialled es"
| "dialled (e # es) = dialled es"

lemma dialled_append [simp]: "dialled (es @ fs) = dialled es @ dialled fs"
  by (induction es rule: dialled.induct) auto

lemma dialled_on_conn: "list_all (on_conn c) es \<Longrightarrow> dialled es = []"
  by (induction es rule: dialled.induct) (auto elim: on_conn.elims)

end
