(* ===== verification/Go_Strings.thy ===== *)
theory Go_Strings
  imports Prelude
begin

text \<open>
  The functions of Go's \<^verbatim>\<open>strings\<close> and \<^verbatim>\<open>net\<close> packages that the gateway calls, on strings as lists
  of bytes (\<^typ>\<open>string\<close>).
\<close>

section \<open>Package strings\<close>

definition has_prefix :: "string \<Rightarrow> string \<Rightarrow> bool" where
  "has_prefix s p \<longleftrightarrow> take (length p) s = p"

definition has_suffix :: "string \<Rightarrow> string \<Rightarrow> bool" where
  "has_suffix s t \<longleftrightarrow> length t \<le> length s \<and> drop (length s - length t) s = t"

definition trim_suffix :: "string \<Rightarrow> string \<Rightarrow> string" where
  "trim_suffix s t = (if has_suffix s t then take (length s - length t) s else s)"

fun contains :: "string \<Rightarrow> string \<Rightarrow> bool" where
  "contains [] t = (t = [])"
| "contains (c # s) t = (has_prefix (c # s) t \<or> contains s t)"

text \<open>\<^verbatim>\<open>strings.TrimRight\<close> with an ASCII cutset.\<close>

definition trim_right :: "string \<Rightarrow> string \<Rightarrow> string" where
  "trim_right s cutset = rev (dropWhile (\<lambda>c. c \<in> set cutset) (rev s))"

text \<open>\<^verbatim>\<open>strings.LastIndexByte\<close> and \<^verbatim>\<open>IndexByte\<close>; \<^const>\<open>None\<close> is -1.\<close>

fun index_byte :: "string \<Rightarrow> char \<Rightarrow> nat option" where
  "index_byte [] c = None"
| "index_byte (d # s) c = (if d = c then Some 0 else map_option Suc (index_byte s c))"

fun last_index_byte :: "string \<Rightarrow> char \<Rightarrow> nat option" where
  "last_index_byte [] c = None"
| "last_index_byte (d # s) c =
     (case last_index_byte s c of Some i \<Rightarrow> Some (Suc i) | None \<Rightarrow> if d = c then Some 0 else None)"

text \<open>
  \<^verbatim>\<open>strings.TrimSpace\<close>: the white space of Unicode in its UTF-8 form. A trailing match of a whole
  encoding is what decoding the last rune finds, since the first byte of each is no continuation
  byte.
\<close>

definition utf8_3 :: "nat \<Rightarrow> nat \<Rightarrow> nat \<Rightarrow> string" where
  "utf8_3 a b c = [char_of a, char_of b, char_of c]"

definition white_space :: "string list" where
  "white_space =
     map (\<lambda>n. [char_of n]) [9, 10, 11, 12, 13, 32 :: nat]
     @ map (\<lambda>n. [char_of (0xC2 :: nat), char_of n]) [0x85, 0xA0 :: nat]
     @ [utf8_3 0xE1 0x9A 0x80]
     @ map (utf8_3 0xE2 0x80) ([0x80..<0x8B] @ [0xA8, 0xA9, 0xAF])
     @ [utf8_3 0xE2 0x81 0x9F, utf8_3 0xE3 0x80 0x80]"

fun trim_left_any :: "string list \<Rightarrow> nat \<Rightarrow> string \<Rightarrow> string" where
  "trim_left_any ws 0 s = s"
| "trim_left_any ws (Suc n) s =
     (case find (has_prefix s) ws of
        None \<Rightarrow> s
      | Some w \<Rightarrow> trim_left_any ws n (drop (length w) s))"

definition trim_space :: "string \<Rightarrow> string" where
  "trim_space s =
     (let l = trim_left_any white_space (length s) s
      in rev (trim_left_any (map rev white_space) (length l) (rev l)))"

section \<open>net.SplitHostPort\<close>

datatype addr_error = MissingPort | TooManyColons | MissingBracket | UnexpectedOpen | UnexpectedClose

definition split_host_port :: "string \<Rightarrow> addr_error + (string \<times> string)" where
  "split_host_port hp =
     (case last_index_byte hp CHR '':'' of
        None \<Rightarrow> Inl MissingPort
      | Some i \<Rightarrow>
          (let finish = (\<lambda>host j k.
             if CHR ''['' \<in> set (drop j hp) then Inl UnexpectedOpen
             else if CHR '']'' \<in> set (drop k hp) then Inl UnexpectedClose
             else Inr (host, drop (i + 1) hp))
           in
           if hp ! 0 = CHR ''['' then
             (case index_byte hp CHR '']'' of
                None \<Rightarrow> Inl MissingBracket
              | Some e \<Rightarrow>
                  if e + 1 = length hp then Inl MissingPort
                  else if e + 1 = i then finish (take (e - 1) (drop 1 hp)) 1 (e + 1)
                  else if hp ! (e + 1) = CHR '':'' then Inl TooManyColons
                  else Inl MissingPort)
           else if CHR '':'' \<in> set (take i hp) then Inl TooManyColons
           else finish (take i hp) 0 0))"

section \<open>Lemmas\<close>

lemma trim_suffix_append [simp]: "trim_suffix (s @ t) t = s"
  by (simp add: trim_suffix_def has_suffix_def)

lemma trim_suffix_none: "\<not> has_suffix s t \<Longrightarrow> trim_suffix s t = s"
  by (simp add: trim_suffix_def)

lemma has_suffix_append: "has_suffix s t \<longleftrightarrow> (\<exists>u. s = u @ t)"
proof
  assume "has_suffix s t"
  then have "s = take (length s - length t) s @ t"
    unfolding has_suffix_def by (metis append_take_drop_id)
  then show "\<exists>u. s = u @ t" ..
qed (auto simp: has_suffix_def)

lemma has_prefix_append: "has_prefix s p \<longleftrightarrow> (\<exists>u. s = p @ u)"
  unfolding has_prefix_def by (metis append_eq_conv_conj append_take_drop_id)

lemma contains_append: "contains s t \<longleftrightarrow> (\<exists>u v. s = u @ t @ v)"
proof (induction s)
  case (Cons c s)
  have "(\<exists>u v. c # s = u @ t @ v) \<longleftrightarrow> (\<exists>v. c # s = t @ v) \<or> (\<exists>u v. s = u @ t @ v)"
    by (metis append_Cons append_eq_Cons_conv self_append_conv2)
  with Cons show ?case by (simp add: has_prefix_append)
qed auto

lemma trim_right_no_suffix: "c \<in> set cutset \<Longrightarrow> \<not> has_suffix (trim_right s cutset) [c]"
proof
  assume c: "c \<in> set cutset" and "has_suffix (trim_right s cutset) [c]"
  then obtain u where "trim_right s cutset = u @ [c]"
    by (auto simp: has_suffix_append)
  then have "dropWhile (\<lambda>c. c \<in> set cutset) (rev s) = c # rev u"
    by (simp add: trim_right_def) (metis rev.simps(2) rev_rev_ident rev_swap)
  with c show False
    by (metis (mono_tags, lifting) dropWhile_eq_Cons_conv)
qed

lemma trim_right_id: "s = [] \<or> last s \<notin> set cutset \<Longrightarrow> trim_right s cutset = s"
  by (cases s rule: rev_cases) (auto simp: trim_right_def)

lemma trim_right_append_cut: "set t \<subseteq> set cutset \<Longrightarrow> trim_right (s @ t) cutset = trim_right s cutset"
  by (induction t rule: rev_induct) (auto simp: trim_right_def)

lemma last_index_byte_append_notin:
  "c \<notin> set t \<Longrightarrow> last_index_byte (s @ c # t) c = Some (length s)"
proof (induction s)
  case Nil
  have "last_index_byte t c = None" using Nil by (induction t) auto
  then show ?case by simp
qed simp

lemma last_index_byte_None: "last_index_byte s c = None \<longleftrightarrow> c \<notin> set s"
  by (induction s) (auto split: option.splits)

lemma index_byte_first: "c \<notin> set s \<Longrightarrow> index_byte (s @ c # t) c = Some (length s)"
  by (induction s) auto

text \<open>A plain host with a port, and a bracketed host with a port.\<close>

lemma split_host_port_plain:
  assumes "CHR '':'' \<notin> set h" "CHR ''['' \<notin> set h" "CHR '']'' \<notin> set h"
    and "CHR '':'' \<notin> set p" "CHR ''['' \<notin> set p" "CHR '']'' \<notin> set p"
  shows "split_host_port (h @ '':'' @ p) = Inr (h, p)"
proof -
  have "(h @ '':'' @ p) ! 0 \<noteq> CHR ''[''"
    using assms(2) by (cases h) auto
  with assms show ?thesis
    by (simp add: split_host_port_def last_index_byte_append_notin)
qed

lemma split_host_port_no_colon: "CHR '':'' \<notin> set s \<Longrightarrow> split_host_port s = Inl MissingPort"
  by (simp add: split_host_port_def last_index_byte_None [THEN iffD2])

end
