(* ===== verification/Identity.thy ===== *)
theory Identity
  imports Effects Go_Strings
begin

text \<open>
  \<^verbatim>\<open>internal/identity/manager.go\<close>: the minter of the gateway's RA-TLS identity. The identity itself is
  made by the RA-TLS library from the manager's base URL and the mint token; the code normalises the
  URL, which may be the base or the legacy mint endpoint.
\<close>

definition mint_path :: string where
  "mint_path = ''/api/v1/vault-identity''"

text \<open>\<^verbatim>\<open>identity.New\<close>; a \<^verbatim>\<open>ManagerMinter\<close> is its egress identity.\<close>

definition new_minter :: "string \<Rightarrow> string \<Rightarrow> egress_identity" where
  "new_minter managerURL token =
     (let base = trim_suffix (trim_suffix managerURL ''/'') ''/api/v1/vault-identity''
      in \<lparr>ei_base = base, ei_token = token\<rparr>)"

definition minter_get_client_certificate :: "egress_identity \<Rightarrow> egress_identity" where
  "minter_get_client_certificate m = m"

definition minter_client_evidence :: "egress_identity \<Rightarrow> egress_identity" where
  "minter_client_evidence m = m"

definition header_identity :: "lib \<Rightarrow> egress_identity \<Rightarrow> byte list \<Rightarrow> (string + (byte list \<times> byte list)) io" where
  "header_identity L m challenge = header_evidence L m challenge"

text \<open>
  The base URL is recovered whether the caller appended the mint path, with or without a trailing
  slash, or passed the base itself.
\<close>

lemma slash_not_suffix_of_mint: "\<not> has_suffix (u @ mint_path) ''/''"
  by (simp add: has_suffix_append mint_path_def)

lemma new_minter_endpoint:
  "new_minter (u @ mint_path) t = \<lparr>ei_base = u, ei_token = t\<rparr>"
  "new_minter (u @ mint_path @ ''/'') t = \<lparr>ei_base = u, ei_token = t\<rparr>"
proof -
  have "trim_suffix (u @ mint_path) ''/'' = u @ mint_path"
    using slash_not_suffix_of_mint by (rule trim_suffix_none)
  moreover have "trim_suffix ((u @ mint_path) @ ''/'') ''/'' = u @ mint_path"
    by (rule trim_suffix_append)
  moreover have "trim_suffix (u @ mint_path) mint_path = u"
    by (rule trim_suffix_append)
  ultimately show "new_minter (u @ mint_path) t = \<lparr>ei_base = u, ei_token = t\<rparr>"
    "new_minter (u @ mint_path @ ''/'') t = \<lparr>ei_base = u, ei_token = t\<rparr>"
    by (simp_all add: new_minter_def mint_path_def [symmetric] Let_def)
qed

lemma new_minter_base:
  assumes "\<not> has_suffix u ''/''" "\<not> has_suffix u mint_path"
  shows "new_minter u t = \<lparr>ei_base = u, ei_token = t\<rparr>"
  using assms by (simp add: new_minter_def trim_suffix_none mint_path_def)

end
