(* ===== verification/Encoding.thy ===== *)
theory Encoding
  imports Prelude
begin

text \<open>
  The encodings of Go's standard library that the gateway uses: hexadecimal (the MRENCLAVE pins),
  base64 (identity headers, thumbprints, the management tools) and the percent encoding of one URL
  path segment. Each comes with the round trip or the exact domain the components rely on.
\<close>

section \<open>Hexadecimal\<close>

text \<open>\<^verbatim>\<open>hex.DecodeString\<close>; \<^const>\<open>None\<close> is its error.\<close>

definition from_hex_char :: "char \<Rightarrow> byte option" where
  "from_hex_char c =
     (let n = of_char c :: nat in
      if of_char CHR ''0'' \<le> n \<and> n \<le> of_char CHR ''9'' then Some (word_of_nat (n - of_char CHR ''0''))
      else if of_char CHR ''a'' \<le> n \<and> n \<le> of_char CHR ''f'' then Some (word_of_nat (n - of_char CHR ''a'' + 10))
      else if of_char CHR ''A'' \<le> n \<and> n \<le> of_char CHR ''F'' then Some (word_of_nat (n - of_char CHR ''A'' + 10))
      else None)"

fun hex_decode :: "string \<Rightarrow> byte list option" where
  "hex_decode [] = Some []"
| "hex_decode [c] = None"
| "hex_decode (c # d # s) = do {
     a \<leftarrow> from_hex_char c;
     b \<leftarrow> from_hex_char d;
     bs \<leftarrow> hex_decode s;
     Some ((push_bit 4 a OR b) # bs)
   }"

lemma hex_decode_length: "hex_decode s = Some bs \<Longrightarrow> length s = 2 * length bs"
  by (induction s arbitrary: bs rule: hex_decode.induct) (auto split: bind_splits)

section \<open>Base64\<close>

definition b64_std :: string where
  "b64_std = ''ABCDEFGHIJKLMNOPQRSTUVWXYZabcdefghijklmnopqrstuvwxyz0123456789+/''"

definition b64_url :: string where
  "b64_url = ''ABCDEFGHIJKLMNOPQRSTUVWXYZabcdefghijklmnopqrstuvwxyz0123456789-_''"

definition b64_digit :: "string \<Rightarrow> 64 word \<Rightarrow> nat \<Rightarrow> char" where
  "b64_digit alph v k = alph ! unat (drop_bit k v AND 63)"

text \<open>\<^verbatim>\<open>EncodeToString\<close>: three bytes at a time, with \<open>pad\<close> for the padded encodings.\<close>

fun b64_encode :: "string \<Rightarrow> bool \<Rightarrow> byte list \<Rightarrow> string" where
  "b64_encode alph pad (a # b # c # bs) =
     (let v = push_bit 16 (ucast a) OR push_bit 8 (ucast b) OR ucast c
      in [b64_digit alph v 18, b64_digit alph v 12, b64_digit alph v 6, b64_digit alph v 0]
         @ b64_encode alph pad bs)"
| "b64_encode alph pad [a, b] =
     (let v = push_bit 16 (ucast a) OR push_bit 8 (ucast b)
      in [b64_digit alph v 18, b64_digit alph v 12, b64_digit alph v 6] @ (if pad then ''='' else []))"
| "b64_encode alph pad [a] =
     (let v = push_bit 16 (ucast a)
      in [b64_digit alph v 18, b64_digit alph v 12] @ (if pad then ''=='' else []))"
| "b64_encode alph pad [] = []"

definition b64_value :: "string \<Rightarrow> char \<Rightarrow> 64 word option" where
  "b64_value alph c =
     (if c \<in> set alph then Some (word_of_nat (length (takeWhile (\<lambda>x. x \<noteq> c) alph))) else None)"

definition b64_bits :: "64 word \<Rightarrow> 64 word \<Rightarrow> 64 word \<Rightarrow> 64 word \<Rightarrow> 64 word" where
  "b64_bits a b c d = push_bit 18 a OR push_bit 12 b OR push_bit 6 c OR d"

text \<open>
  \<^verbatim>\<open>StdEncoding.DecodeString\<close>: line breaks are skipped, a final quantum must be padded, nothing may
  follow the padding, and the unused low bits of a padded quantum are not checked.
\<close>

fun b64_quanta :: "string \<Rightarrow> string \<Rightarrow> byte list option" where
  "b64_quanta alph [] = Some []"
| "b64_quanta alph (p # q # r # s # cs) = do {
     a \<leftarrow> b64_value alph p;
     b \<leftarrow> b64_value alph q;
     if r = CHR ''='' then
       (if s = CHR ''='' \<and> cs = [] then Some [ucast (drop_bit 16 (b64_bits a b 0 0))] else None)
     else do {
       c \<leftarrow> b64_value alph r;
       if s = CHR ''='' then
         (if cs = [] then Some [ucast (drop_bit 16 (b64_bits a b c 0)), ucast (drop_bit 8 (b64_bits a b c 0))]
          else None)
       else do {
         d \<leftarrow> b64_value alph s;
         bs \<leftarrow> b64_quanta alph cs;
         (let v = b64_bits a b c d
          in Some (ucast (drop_bit 16 v) # ucast (drop_bit 8 v) # ucast v # bs))
       }
     }
   }"
| "b64_quanta alph cs = None"

definition b64_decode :: "string \<Rightarrow> string \<Rightarrow> byte list option" where
  "b64_decode alph s = b64_quanta alph (filter (\<lambda>c. c \<noteq> CHR 0x0A \<and> c \<noteq> CHR 0x0D) s)"

subsection \<open>Round trip\<close>

lemma distinct_b64 [simp]: "distinct b64_std" "distinct b64_url"
  by (code_simp, code_simp)

lemma length_b64 [simp]: "length b64_std = 64" "length b64_url = 64"
  by (simp_all add: b64_std_def b64_url_def)

lemma and_63: "(x AND 63 :: 64 word) = take_bit 6 x"
  by (simp add: take_bit_eq_mask mask_eq_exp_minus_1)

lemma digit_bound: "unat (take_bit 6 (x :: 64 word)) < 64"
  using take_bit_nat_less_exp [of 6 "unat x"] by (simp add: unsigned_take_bit_eq)

lemma b64_value_nth:
  assumes "distinct alph" "n < length alph"
  shows "b64_value alph (alph ! n) = Some (word_of_nat n)"
proof -
  have "takeWhile (\<lambda>x. x \<noteq> alph ! n) alph = take n alph"
    using assms by (intro takeWhile_eq_take_P_nth) (auto simp: nth_eq_iff_index_eq)
  with assms show ?thesis by (simp add: b64_value_def)
qed

lemma b64_value_digit:
  "b64_value b64_std (b64_digit b64_std v k) = Some (take_bit 6 (drop_bit k v))"
  by (simp add: b64_digit_def and_63 b64_value_nth digit_bound)

lemma b64_digit_mem: "b64_digit b64_std v k \<in> set b64_std"
  by (simp add: b64_digit_def and_63 digit_bound)

lemma b64_std_plain: "c \<in> set b64_std \<Longrightarrow> c \<noteq> CHR ''='' \<and> c \<noteq> CHR 0x0A \<and> c \<noteq> CHR 0x0D"
  by (auto simp: b64_std_def)

lemma b64_digit_plain [simp]:
  "b64_digit b64_std v k \<noteq> CHR ''=''" "b64_digit b64_std v k \<noteq> CHR 0x0A" "b64_digit b64_std v k \<noteq> CHR 0x0D"
  using b64_std_plain [OF b64_digit_mem] by blast+

lemma b64_bytes:
  fixes a b c :: byte
  defines "v \<equiv> push_bit 16 (ucast a) OR push_bit 8 (ucast b) OR (ucast c :: 64 word)"
  shows "b64_bits (take_bit 6 (drop_bit 18 v)) (take_bit 6 (drop_bit 12 v))
      (take_bit 6 (drop_bit 6 v)) (take_bit 6 (drop_bit 0 v)) = v"
    and "ucast (drop_bit 16 v) = a" and "ucast (drop_bit 8 v) = b" and "ucast v = c"
proof -
  have hi: "n < 24" if "bit v n" for n
    using that unfolding v_def by (auto simp: bit_simps dest: bit_imp_le_length)
  show "b64_bits (take_bit 6 (drop_bit 18 v)) (take_bit 6 (drop_bit 12 v))
      (take_bit 6 (drop_bit 6 v)) (take_bit 6 (drop_bit 0 v)) = v"
  proof (rule bit_word_eqI)
    fix n :: nat assume "n < LENGTH(64)"
    consider "n < 6" | "6 \<le> n" "n < 12" | "12 \<le> n" "n < 18" | "18 \<le> n" "n < 24" | "24 \<le> n"
      by fastforce
    then show "bit (b64_bits (take_bit 6 (drop_bit 18 v)) (take_bit 6 (drop_bit 12 v))
      (take_bit 6 (drop_bit 6 v)) (take_bit 6 (drop_bit 0 v))) n = bit v n"
      using hi [of n] \<open>n < LENGTH(64)\<close> by cases (auto simp: b64_bits_def bit_simps)
  qed
  show "ucast (drop_bit 16 v) = a" "ucast (drop_bit 8 v) = b" "ucast v = c"
    unfolding v_def by (rule bit_word_eqI; auto simp: bit_simps dest: bit_imp_le_length)+
qed

lemma low_bits_zero2: "take_bit 6 (push_bit 16 x) OR take_bit 6 (push_bit 8 y) = (0 :: 64 word)"
  by (rule bit_word_eqI) (auto simp: bit_simps)

lemma low_bits_zero:
  "take_bit 6 (push_bit 16 x) = (0 :: 64 word)"
  "take_bit 6 (drop_bit 6 (push_bit 16 x)) = (0 :: 64 word)"
  by (rule bit_word_eqI; auto simp: bit_simps)+

lemma b64_quanta_encode: "b64_quanta b64_std (b64_encode b64_std True bs) = Some bs"
proof (induction "b64_std" True bs rule: b64_encode.induct)
  case (1 a b c bs)
  then show ?case
    using b64_bytes [of a b c] by (simp add: b64_value_digit Let_def)
next
  case (2 a b)
  show ?case
    using b64_bytes [of a b 0] low_bits_zero2 [of "ucast a" "ucast b"]
    by (simp add: b64_value_digit Let_def)
next
  case (3 a)
  show ?case
    using b64_bytes [of a 0 0] low_bits_zero [where x = "ucast a"] by (simp add: b64_value_digit Let_def)
next
  case 4
  show ?case by simp
qed

lemma b64_decode_encode: "b64_decode b64_std (b64_encode b64_std True bs) = Some bs"
proof -
  have "filter (\<lambda>c. c \<noteq> CHR 0x0A \<and> c \<noteq> CHR 0x0D) (b64_encode b64_std True bs) = b64_encode b64_std True bs"
    by (induction "b64_std" True bs rule: b64_encode.induct) (simp_all add: Let_def)
  then show ?thesis
    by (simp add: b64_decode_def b64_quanta_encode)
qed

section \<open>Percent encoding of a path segment\<close>

text \<open>\<^verbatim>\<open>url.PathEscape\<close> and \<^verbatim>\<open>url.PathUnescape\<close>.\<close>

definition unreserved :: "char \<Rightarrow> bool" where
  "unreserved c \<longleftrightarrow>
     c \<in> set ''ABCDEFGHIJKLMNOPQRSTUVWXYZabcdefghijklmnopqrstuvwxyz0123456789-_.~''"

definition should_escape :: "char \<Rightarrow> bool" where
  "should_escape c \<longleftrightarrow> \<not> unreserved c \<and> c \<notin> set ''$&+:=@''"

definition upper_hex :: string where
  "upper_hex = ''0123456789ABCDEF''"

fun path_escape :: "string \<Rightarrow> string" where
  "path_escape [] = []"
| "path_escape (c # s) =
     (if should_escape c
      then CHR ''%'' # upper_hex ! (of_char c div 16) # upper_hex ! (of_char c mod 16) # path_escape s
      else c # path_escape s)"

definition byte_char :: "byte \<Rightarrow> char" where
  "byte_char b = char_of (unat b)"

fun path_unescape :: "string \<Rightarrow> string option" where
  "path_unescape [] = Some []"
| "path_unescape (c # s) =
     (if c = CHR ''%'' then
        (case s of
           d # e # s' \<Rightarrow>
             do {
               a \<leftarrow> from_hex_char d;
               b \<leftarrow> from_hex_char e;
               r \<leftarrow> path_unescape s';
               Some (byte_char (push_bit 4 a OR b) # r)
             }
         | _ \<Rightarrow> None)
      else map_option ((#) c) (path_unescape s))"

lemma less_16_cases: "n < (16 :: nat) \<Longrightarrow> n \<in> {0, 1, 2, 3, 4, 5, 6, 7, 8, 9, 10, 11, 12, 13, 14, 15}"
  by simp arith

lemma from_hex_char_upper: "n < 16 \<Longrightarrow> from_hex_char (upper_hex ! n) = Some (word_of_nat n)"
  using less_16_cases [of n] by (auto simp: upper_hex_def from_hex_char_def Let_def)

lemma of_char_bound: "of_char c < (256 :: nat)"
  by (cases c) (simp add: of_char_def)

lemma byte_char_nibbles:
  "byte_char (push_bit 4 (word_of_nat (of_char c div 16)) OR word_of_nat (of_char c mod 16)) = c"
proof -
  let ?n = "of_char c :: nat"
  have "push_bit 4 (word_of_nat (?n div 16)) OR word_of_nat (?n mod 16) = (word_of_nat ?n :: byte)"
    by (rule bit_word_eqI)
       (auto simp: bit_simps of_nat_mod drop_bit_eq_div [of 4, simplified, symmetric]
         take_bit_eq_mod [of 4, simplified, symmetric])
  then show ?thesis
    using of_char_bound [of c] by (simp add: byte_char_def unat_of_nat)
qed

lemma path_unescape_escape: "path_unescape (path_escape s) = Some s"
  by (induction s)
     (auto simp: from_hex_char_upper byte_char_nibbles of_char_bound less_mult_imp_div_less
       should_escape_def unreserved_def)

lemma upper_hex_plain: "n < 16 \<Longrightarrow> upper_hex ! n \<notin> set ''/?#%''"
  using less_16_cases [of n] by (auto simp: upper_hex_def)

lemma path_escape_plain: "c \<in> set (path_escape s) \<Longrightarrow> c \<notin> set ''/?#''"
proof (induction s)
  case (Cons d s)
  have d: "of_char d div 16 < (16 :: nat)"
    using of_char_bound [of d] by (simp add: less_mult_imp_div_less)
  have "\<not> should_escape d \<Longrightarrow> d \<notin> set ''/?#''"
    by (auto simp: should_escape_def unreserved_def)
  with Cons upper_hex_plain [OF d] upper_hex_plain [of "of_char d mod 16"] show ?case
    by (auto split: if_splits)
qed simp

end
