(* ===== verification/Session.thy ===== *)
theory Session
  imports Connections Identity Encoding
begin

text \<open>
  \<^verbatim>\<open>internal/vault/session.go\<close>: the translation layer to the vault constellation. A session opens a
  fresh connection per operation, tries the configured endpoints in order until the holder of the
  key answers, and creates keys with a grant from the control plane.
\<close>

section \<open>Configuration, grants, sessions\<close>

record config =
  cfg_vault_id :: string
  cfg_endpoints :: "string list"
  cfg_mrenclave :: string
  cfg_att_server :: string
  cfg_att_token :: string
  cfg_owner_token :: string
  cfg_owner_sub :: string
  cfg_app_id :: string
  cfg_manager_url :: string
  cfg_identity_token :: string

record key_grant =
  kg_handle :: string
  kg_grant :: string
  kg_endpoints :: "string list"
  kg_mrenclave :: string
  kg_att_server :: string
  kg_threshold :: int

text \<open>The \<^verbatim>\<open>Grantor\<close> interface.\<close>

datatype grantor = Grantor
  (mintKeyGrant: "string \<Rightarrow> string \<Rightarrow> string \<Rightarrow> string \<Rightarrow> bool \<Rightarrow> key_grant result io")
  (rotateKeyGrant: "string \<Rightarrow> string \<Rightarrow> string \<Rightarrow> key_grant result io")

record session =
  ss_cfg :: config
  ss_grantor :: "grantor option"
  ss_minter :: "egress_identity option"

definition new_session :: "config \<Rightarrow> grantor option \<Rightarrow> session" where
  "new_session cfg g =
     \<lparr>ss_cfg = cfg, ss_grantor = g,
      ss_minter = (if cfg_manager_url cfg \<noteq> '''' \<and> cfg_identity_token cfg \<noteq> ''''
                   then Some (new_minter (cfg_manager_url cfg) (cfg_identity_token cfg)) else None)\<rparr>"

definition usesAppIdentity :: "session \<Rightarrow> bool" where
  "usesAppIdentity s \<longleftrightarrow> ss_minter s \<noteq> None"

definition handle :: "session \<Rightarrow> string \<Rightarrow> string" where
  "handle s name = ''vaults/'' @ cfg_vault_id (ss_cfg s) @ ''/'' @ name"

section \<open>Verification policies and dial options\<close>

definition bad_mrenclave :: gerr where
  "bad_mrenclave = Errorf ''vault mrenclave must be 32 bytes of hex'' []"

definition verifyPolicy :: "string \<Rightarrow> string \<Rightarrow> string \<Rightarrow> verification_policy result" where
  "verifyPolicy mrenclaveHex attServer attToken =
     (case hex_decode mrenclaveHex of
        None \<Rightarrow> Inl bad_mrenclave
      | Some mre \<Rightarrow>
          if length mre \<noteq> 32 then Inl bad_mrenclave
          else Inr \<lparr>vp_tee = TeeTypeSGX, vp_mrenclave = mre, vp_allow_debug = False,
            vp_quote = Some \<lparr>qv_endpoint = attServer, qv_token = attToken\<rparr>\<rparr>)"

definition policy :: "session \<Rightarrow> verification_policy result" where
  "policy s =
     (case hex_decode (cfg_mrenclave (ss_cfg s)) of
        None \<Rightarrow> Inl bad_mrenclave
      | Some mre \<Rightarrow>
          if length mre \<noteq> 32 then Inl bad_mrenclave
          else Inr \<lparr>vp_tee = TeeTypeSGX, vp_mrenclave = mre, vp_allow_debug = False,
            vp_quote = Some \<lparr>qv_endpoint = cfg_att_server (ss_cfg s), qv_token = cfg_att_token (ss_cfg s)\<rparr>\<rparr>)"

definition dialOpts :: "session \<Rightarrow> dial_opts result" where
  "dialOpts s =
     (case ss_minter s of
        Some m \<Rightarrow>
          (case hex_decode (cfg_mrenclave (ss_cfg s)) of
             None \<Rightarrow> Inl bad_mrenclave
           | Some mre \<Rightarrow>
               if length mre \<noteq> 32 then Inl bad_mrenclave
               else Inr (no_opts\<lparr>
                 do_get_client_certificate := Some (minter_get_client_certificate m),
                 do_client_evidence := Some (minter_client_evidence m),
                 do_vault_policy := Some \<lparr>vp_tee = TeeTypeSGX, vp_mrenclave = mre, vp_allow_debug = False,
                   vp_quote = Some \<lparr>qv_endpoint = cfg_att_server (ss_cfg s),
                     qv_token = cfg_att_token (ss_cfg s)\<rparr>\<rparr>\<rparr>))
      | None \<Rightarrow>
          (case policy s of
             Inl e \<Rightarrow> Inl e
           | Inr p \<Rightarrow> Inr (no_opts\<lparr>do_auth_token := Some (cfg_owner_token (ss_cfg s)),
               do_vault_policy := Some p\<rparr>)))"

section \<open>Key material and the holder-of-key certificate\<close>

definition second :: int where
  "second = 1000000000"

definition minute :: int where
  "minute = 60 * second"

definition generateClientCert :: "lib \<Rightarrow> string \<Rightarrow> (client_cert \<times> string) result io" where
  "generateClientCert L sub = do {
     k \<leftarrow> generate_key L;
     (case k of
        Inl e \<Rightarrow> State_Monad.return (Inl (Ext e))
      | Inr key \<Rightarrow> do {
          t0 \<leftarrow> time_now L;
          t1 \<leftarrow> time_now L;
          t2 \<leftarrow> time_now L;
          d \<leftarrow> create_certificate L
            \<lparr>ct_common_name = ''kmip-gateway '' @ sub, ct_serial = t0,
             ct_not_before = t1 - minute, ct_not_after = t2 + 10 * minute\<rparr> key;
          (case d of
             Inl e \<Rightarrow> State_Monad.return (Inl (Ext e))
           | Inr der \<Rightarrow> State_Monad.return
               (Inr (\<lparr>cc_der = der, cc_leaf = lib_parse_cert L der\<rparr>,
                     b64_encode b64_url False (lib_sha256 L der))))
        })
   }"

definition key_type_string :: "lib \<Rightarrow> key_type \<Rightarrow> string" where
  "key_type_string L kt = (case kt of OtherKeyType s \<Rightarrow> s | _ \<Rightarrow> key_const L kt)"

definition vaultKeyType :: "lib \<Rightarrow> string \<Rightarrow> string" where
  "vaultKeyType L keyType =
     (if keyType = ''p256'' then key_type_string L P256SigningKey
      else if keyType = ''aes'' then key_type_string L Aes256GcmKey
      else keyType)"

definition generateMaterial :: "lib \<Rightarrow> string \<Rightarrow> byte list result io" where
  "generateMaterial L keyType =
     (if keyType = ''p256'' then do {
        k \<leftarrow> generate_key L;
        (case k of
           Inl e \<Rightarrow> State_Monad.return (Inl (Errorf ''generate p256: %w'' [AErr (Ext e)]))
         | Inr key \<Rightarrow> State_Monad.return
             (case lib_marshal_key L key of Inl e \<Rightarrow> Inl (Ext e) | Inr der \<Rightarrow> Inr der))
      }
      else if keyType = ''aes'' then do {
        r \<leftarrow> rand_read L 32;
        (case r of
           Inl e \<Rightarrow> State_Monad.return (Inl (Errorf ''generate aes-256 key: %w'' [AErr (Ext e)]))
         | Inr material \<Rightarrow> State_Monad.return (Inr material))
      }
      else State_Monad.return (Inl (Errorf ''unsupported key type %q (want p256 or aes)'' [AStr keyType])))"

section \<open>Create\<close>

definition createKey :: "lib \<Rightarrow> session \<Rightarrow> string \<Rightarrow> string \<Rightarrow> bool \<Rightarrow> string result io" where
  "createKey L s name keyType exportable =
     (case ss_grantor s of
        None \<Rightarrow> State_Monad.return (Inl (Errorf ''no platform grantor configured for key creation'' []))
      | Some G \<Rightarrow> do {
          m \<leftarrow> generateMaterial L keyType;
          (case m of
             Inl e \<Rightarrow> State_Monad.return (Inl e)
           | Inr material \<Rightarrow> do {
               cc \<leftarrow> generateClientCert L (cfg_owner_sub (ss_cfg s));
               (case cc of
                  Inl e \<Rightarrow> State_Monad.return (Inl (Errorf ''client cert: %w'' [AErr e]))
                | Inr (cert, cnf) \<Rightarrow> do {
                    mg \<leftarrow> mintKeyGrant G (cfg_vault_id (ss_cfg s)) name (vaultKeyType L keyType) cnf exportable;
                    (case mg of
                       Inl e \<Rightarrow> State_Monad.return (Inl e)
                     | Inr g \<Rightarrow>
                         (case kg_endpoints g of
                            [] \<Rightarrow> State_Monad.return (Inl (Errorf ''the platform returned no vault endpoints'' []))
                          | ep # eps \<Rightarrow>
                              (case verifyPolicy (kg_mrenclave g) (kg_att_server g) (cfg_att_token (ss_cfg s)) of
                                 Inl e \<Rightarrow> State_Monad.return (Inl e)
                               | Inr verify \<Rightarrow> do {
                                   d \<leftarrow> dial L ep (no_opts\<lparr>do_client_cert := Some cert,
                                                         do_vault_policy := Some verify\<rparr>);
                                   (case d of
                                      Inl e \<Rightarrow> State_Monad.return (Inl (Errorf ''dial %s: %w'' [AStr ep, AErr (Ext e)]))
                                    | Inr c \<Rightarrow> do {
                                        r \<leftarrow> client_create_key L c (kg_handle g) material (kg_grant g);
                                        close c;
                                        State_Monad.return (case r of
                                          Inl e \<Rightarrow> Inl (Errorf ''create key on %s: %w'' [AStr ep, AErr (Ext e)])
                                        | Inr _ \<Rightarrow> Inr (kg_handle g))
                                      })
                                 })))
                  })
             })
        })"

section \<open>The search for the holder\<close>

fun holder_loop :: "lib \<Rightarrow> dial_opts \<Rightarrow> (conn \<Rightarrow> (string + 'a) io) \<Rightarrow> string list \<Rightarrow> gerr option
    \<Rightarrow> (gerr option + 'a \<times> string) io" where
  "holder_loop L opts op [] lastErr = State_Monad.return (Inl lastErr)"
| "holder_loop L opts op (ep # eps) lastErr = do {
     d \<leftarrow> dial L ep opts;
     (case d of
        Inl derr \<Rightarrow> holder_loop L opts op eps (Some (Ext derr))
      | Inr c \<Rightarrow> do {
          v \<leftarrow> op c;
          close c;
          (case v of
             Inl oerr \<Rightarrow>
               if contains oerr ''not found'' then holder_loop L opts op eps lastErr
               else holder_loop L opts op eps (Some (Ext oerr))
           | Inr x \<Rightarrow> State_Monad.return (Inr (x, ep)))
        })
   }"

definition withHolder :: "lib \<Rightarrow> session \<Rightarrow> (conn \<Rightarrow> (string + 'a) io) \<Rightarrow> ('a \<times> string) result io" where
  "withHolder L s op =
     (case dialOpts s of
        Inl e \<Rightarrow> State_Monad.return (Inl e)
      | Inr opts \<Rightarrow> do {
          r \<leftarrow> holder_loop L opts op (cfg_endpoints (ss_cfg s)) None;
          State_Monad.return (case r of
            Inr x \<Rightarrow> Inr x
          | Inl lastErr \<Rightarrow> Inl (Errorf ''no vault answered for the key: %v''
              [case lastErr of None \<Rightarrow> ANil | Some e \<Rightarrow> AErr e]))
        })"

definition drop_endpoint :: "('a \<times> string) result \<Rightarrow> 'a result" where
  "drop_endpoint r = (case r of Inl e \<Rightarrow> Inl e | Inr (x, ep) \<Rightarrow> Inr x)"

definition wrap :: "lib \<Rightarrow> session \<Rightarrow> string \<Rightarrow> byte list \<Rightarrow> (byte list \<times> byte list) result io" where
  "wrap L s name plaintext = do {
     r \<leftarrow> withHolder L s (\<lambda>c. client_wrap L c (handle s name) plaintext [] []);
     State_Monad.return (drop_endpoint r)
   }"

definition unwrap :: "lib \<Rightarrow> session \<Rightarrow> string \<Rightarrow> byte list \<Rightarrow> byte list \<Rightarrow> byte list result io" where
  "unwrap L s name ciphertext iv = do {
     r \<leftarrow> withHolder L s (\<lambda>c. client_unwrap L c (handle s name) ciphertext iv []);
     State_Monad.return (drop_endpoint r)
   }"

definition sign :: "lib \<Rightarrow> session \<Rightarrow> string \<Rightarrow> byte list \<Rightarrow> (byte list \<times> string) result io" where
  "sign L s name message = do {
     r \<leftarrow> withHolder L s (\<lambda>c. client_sign L c (handle s name) message);
     State_Monad.return (drop_endpoint r)
   }"

definition getKeyInfo :: "lib \<Rightarrow> session \<Rightarrow> string \<Rightarrow> key_info result io" where
  "getKeyInfo L s name = do {
     r \<leftarrow> withHolder L s (\<lambda>c. client_key_info L c (handle s name));
     State_Monad.return (drop_endpoint r)
   }"

section \<open>Destroy\<close>

fun destroy_loop :: "lib \<Rightarrow> dial_opts \<Rightarrow> string \<Rightarrow> string list \<Rightarrow> nat \<Rightarrow> gerr option \<Rightarrow> (nat \<times> gerr option) io" where
  "destroy_loop L opts h [] deleted lastErr = State_Monad.return (deleted, lastErr)"
| "destroy_loop L opts h (ep # eps) deleted lastErr = do {
     d \<leftarrow> dial L ep opts;
     (case d of
        Inl derr \<Rightarrow> destroy_loop L opts h eps deleted (Some (Ext derr))
      | Inr c \<Rightarrow> do {
          v \<leftarrow> client_delete_key L c h;
          close c;
          (case v of
             Inl derr \<Rightarrow>
               if \<not> contains derr ''not found'' then destroy_loop L opts h eps deleted (Some (Ext derr))
               else destroy_loop L opts h eps deleted lastErr
           | Inr _ \<Rightarrow> destroy_loop L opts h eps (deleted + 1) lastErr)
        })
   }"

definition destroy :: "lib \<Rightarrow> session \<Rightarrow> string \<Rightarrow> unit result io" where
  "destroy L s name =
     (case dialOpts s of
        Inl e \<Rightarrow> State_Monad.return (Inl e)
      | Inr opts \<Rightarrow> do {
          (deleted, lastErr) \<leftarrow> destroy_loop L opts (handle s name) (cfg_endpoints (ss_cfg s)) 0 None;
          State_Monad.return (case lastErr of
            Some e \<Rightarrow> if deleted = 0 then Inl (Errorf ''destroy %q: %v'' [AStr name, AErr e]) else Inr ()
          | None \<Rightarrow> Inr ())
        })"

end
