(* ===== verification/Session_Laws.thy ===== *)
theory Session_Laws
  imports Session
begin

text \<open>
  What the vault session guarantees about every operation, whatever the vaults and the network
  answer: attested connections only, one authentication mode, the endpoints tried in order, each
  connection closed, and only the handle of the named key touched.
\<close>

section \<open>Dial options\<close>

text \<open>A connection whose server must prove to be the pinned SGX vault.\<close>

definition pinned :: "dial_opts \<Rightarrow> bool" where
  "pinned opts =
     (case do_vault_policy opts of
        None \<Rightarrow> False
      | Some p \<Rightarrow> vp_tee p = TeeTypeSGX \<and> length (vp_mrenclave p) = 32
          \<and> \<not> vp_allow_debug p \<and> vp_quote p \<noteq> None)"

lemma verifyPolicy_Inr:
  "verifyPolicy m a t = Inr p \<Longrightarrow>
   vp_tee p = TeeTypeSGX \<and> length (vp_mrenclave p) = 32 \<and> \<not> vp_allow_debug p \<and> vp_quote p \<noteq> None
     \<and> hex_decode m = Some (vp_mrenclave p)"
  by (auto simp: verifyPolicy_def split: option.splits if_splits)

lemma policy_eq: "policy s = verifyPolicy (cfg_mrenclave (ss_cfg s)) (cfg_att_server (ss_cfg s)) (cfg_att_token (ss_cfg s))"
  by (simp add: policy_def verifyPolicy_def)

lemma dialOpts_eq:
  "dialOpts s = (case policy s of Inl e \<Rightarrow> Inl e | Inr p \<Rightarrow>
     Inr (case ss_minter s of
       Some m \<Rightarrow> no_opts\<lparr>do_get_client_certificate := Some m, do_client_evidence := Some m,
         do_vault_policy := Some p\<rparr>
     | None \<Rightarrow> no_opts\<lparr>do_auth_token := Some (cfg_owner_token (ss_cfg s)), do_vault_policy := Some p\<rparr>))"
  by (auto simp: dialOpts_def policy_def minter_get_client_certificate_def minter_client_evidence_def
    split: option.splits)

lemma dialOpts_pinned: "dialOpts s = Inr opts \<Longrightarrow> pinned opts"
  using verifyPolicy_Inr
  by (fastforce simp: dialOpts_eq policy_eq pinned_def no_opts_def split: sum.splits option.splits)

lemma dialOpts_auth:
  assumes "dialOpts s = Inr opts"
  shows "do_client_cert opts = None"
    and "do_auth_token opts = (if usesAppIdentity s then None else Some (cfg_owner_token (ss_cfg s)))"
    and "do_get_client_certificate opts = ss_minter s" "do_client_evidence opts = ss_minter s"
  using assms
  by (auto simp: dialOpts_eq usesAppIdentity_def no_opts_def split: sum.splits option.splits)

section \<open>The holder loop\<close>

text \<open>What the loop may do with one endpoint after another, for any operation on the connection.\<close>

definition loop_event :: "string list \<Rightarrow> dial_opts \<Rightarrow> (vault_op \<Rightarrow> bool) \<Rightarrow> event \<Rightarrow> bool" where
  "loop_event eps opts P e =
     (case e of
        EvDial ep opts' c \<Rightarrow> ep \<in> set eps \<and> opts' = opts
      | EvVault c op \<Rightarrow> P op
      | EvClose c \<Rightarrow> True
      | _ \<Rightarrow> False)"

lemma loop_event_mono: "loop_event eps opts P e \<Longrightarrow> set eps \<subseteq> set eps' \<Longrightarrow> loop_event eps' opts P e"
  by (auto simp: loop_event_def split: event.splits)

lemma list_all_loop_event_Cons:
  "list_all (loop_event eps opts P) es \<Longrightarrow> list_all (loop_event (ep # eps) opts P) es"
  by (erule list.pred_mono_strong) (auto intro: loop_event_mono)

text \<open>An operation on an open connection: vault operations on that connection only.\<close>

definition visit :: "conn \<Rightarrow> (vault_op \<Rightarrow> bool) \<Rightarrow> event list \<Rightarrow> bool" where
  "visit c P es \<longleftrightarrow> list_all (\<lambda>e. \<exists>op. e = EvVault c op \<and> P op) es"

lemma visit_on_conn: "visit c P es \<Longrightarrow> list_all (on_conn c) es"
  unfolding visit_def by (erule list.pred_mono_strong) auto

lemma visit_loop_event: "visit c P es \<Longrightarrow> list_all (loop_event eps opts P) es"
  unfolding visit_def by (erule list.pred_mono_strong) (auto simp: loop_event_def)

lemma emits_dial_bind:
  assumes "\<And>e. emits (f (Inl e)) (\<lambda>y fs. Q y (EvDial ep opts None # fs))"
    and "\<And>c. emits (f (Inr c)) (\<lambda>y fs. Q y (EvDial ep opts (Some c) # fs))"
  shows "emits (State_Monad.bind (dial L ep opts) f) Q"
  unfolding dial_def
proof (rule emits_call_bind)
  fix h
  show "emits (f (lib_dial L h ep opts)) (\<lambda>y fs. Q y (EvDial ep opts
      (case lib_dial L h ep opts of Inl x \<Rightarrow> None | Inr x \<Rightarrow> Some x) # fs))"
    by (cases "lib_dial L h ep opts") (use assms in auto)
qed

lemma emits_close_bind:
  "emits (f ()) (\<lambda>y fs. Q y (EvClose c # fs)) \<Longrightarrow> emits (State_Monad.bind (close c) f) Q"
  unfolding close_def by (rule emits_call_bind)

text \<open>One call of the vault client.\<close>

lemma visit_client:
  "P (WrapOp h p a iv) \<Longrightarrow> emits (client_wrap L c h p a iv) (\<lambda>r. visit c P)"
  "P (UnwrapOp h p iv a) \<Longrightarrow> emits (client_unwrap L c h p iv a) (\<lambda>r. visit c P)"
  "P (SignOp h p) \<Longrightarrow> emits (client_sign L c h p) (\<lambda>r. visit c P)"
  "P (KeyInfoOp h) \<Longrightarrow> emits (client_key_info L c h) (\<lambda>r. visit c P)"
  "P (DeleteOp h) \<Longrightarrow> emits (client_delete_key L c h) (\<lambda>r. visit c P)"
  unfolding client_wrap_def client_unwrap_def client_sign_def client_key_info_def client_delete_key_def
  by (rule emits_call, simp add: visit_def)+

definition loop_trace :: "string list \<Rightarrow> dial_opts \<Rightarrow> (vault_op \<Rightarrow> bool) \<Rightarrow> event list \<Rightarrow> bool" where
  "loop_trace eps opts P es \<longleftrightarrow> disciplined es \<and> list_all (loop_event eps opts P) es"

lemma loop_trace_Nil [simp]: "loop_trace eps opts P []"
  by (simp add: loop_trace_def)

lemma loop_trace_failed_dial:
  "loop_trace eps opts P es \<Longrightarrow> loop_trace (ep # eps) opts P (EvDial ep opts None # es)"
  using disciplined_append [OF disciplined_failed_dial [of ep opts], of es]
  by (auto simp: loop_trace_def loop_event_def intro: list_all_loop_event_Cons)

lemma loop_trace_visit:
  assumes "visit c P vs" "loop_trace eps opts P es"
  shows "loop_trace (ep # eps) opts P (EvDial ep opts (Some c) # vs @ EvClose c # es)"
  using disciplined_append [OF disciplined_visit [OF visit_on_conn [OF assms(1)], of ep opts], of es] assms
  by (auto simp: loop_trace_def loop_event_def [of _ _ _ "EvDial a b d" for a b d]
    loop_event_def [of _ _ _ "EvClose d" for d] visit_loop_event intro: list_all_loop_event_Cons)

text \<open>
  The loop tries the endpoints in order: it stops at the one that answered and has tried all of them
  when it fails.
\<close>

definition tried :: "string list \<Rightarrow> 'b + ('a \<times> string) \<Rightarrow> event list \<Rightarrow> bool" where
  "tried eps r es =
     (case r of
        Inl _ \<Rightarrow> dialled es = eps
      | Inr (x, ep) \<Rightarrow> \<exists>pre post. eps = pre @ ep # post \<and> dialled es = pre @ [ep])"

lemma tried_next: "tried eps r es \<Longrightarrow> dialled fs = [ep] \<Longrightarrow> tried (ep # eps) r (fs @ es)"
  by (auto simp: tried_def split: sum.splits intro: exI [of _ "ep # xs" for xs])

lemma holder_loop_emits:
  assumes op: "\<And>c. emits (op c) (\<lambda>r es. visit c P es)"
  shows "emits (holder_loop L opts op eps lastErr) (\<lambda>r es. loop_trace eps opts P es \<and> tried eps r es)"
proof (induction eps arbitrary: lastErr)
  case Nil
  show ?case by (auto intro!: emits_return simp: tried_def)
next
  case (Cons ep eps)
  have skip: "emits (holder_loop L opts op eps le)
      (\<lambda>r es. loop_trace (ep # eps) opts P (EvDial ep opts None # es) \<and>
        tried (ep # eps) r (EvDial ep opts None # es))" for le
    using Cons.IH [of le] tried_next [of eps _ _ "[EvDial ep opts None]" ep]
    by (elim emits_mono) (auto intro: loop_trace_failed_dial)
  have go_on: "emits (holder_loop L opts op eps le)
      (\<lambda>r es. loop_trace (ep # eps) opts P (EvDial ep opts (Some c) # vs @ EvClose c # es) \<and>
        tried (ep # eps) r (EvDial ep opts (Some c) # vs @ EvClose c # es))"
    if "visit c P vs" for c vs le
    using Cons.IH [of le] tried_next [of eps _ _ "EvDial ep opts (Some c) # vs @ [EvClose c]" ep]
      dialled_on_conn [OF visit_on_conn [OF that]]
    by (elim emits_mono) (auto intro: loop_trace_visit [OF that])
  have stop: "loop_trace (ep # eps) opts P (EvDial ep opts (Some c) # vs @ [EvClose c]) \<and>
      tried (ep # eps) (Inr (x, ep)) (EvDial ep opts (Some c) # vs @ [EvClose c])"
    if "visit c P vs" for c vs and x :: 'a
    using loop_trace_visit [OF that loop_trace_Nil [of eps opts P], of ep]
      dialled_on_conn [OF visit_on_conn [OF that]]
    by (auto simp: tried_def)
  show ?case
    unfolding holder_loop.simps
    by (auto intro!: emits_dial_bind emits_bind [OF op] emits_close_bind emits_return skip go_on stop
      split: sum.split)
qed

section \<open>Operations on an existing key\<close>

text \<open>
  The operations of the data plane on one handle. \<open>session_event\<close> is what an operation on the key
  \<open>name\<close> may do at all: dial a configured endpoint with the session's options, act on the handle of
  that key, close.
\<close>

fun op_handle :: "vault_op \<Rightarrow> string" where
  "op_handle (CreateKeyOp h m g) = h"
| "op_handle (WrapOp h p a iv) = h"
| "op_handle (UnwrapOp h x iv a) = h"
| "op_handle (SignOp h x) = h"
| "op_handle (KeyInfoOp h) = h"
| "op_handle (DeleteOp h) = h"

fun is_create_op :: "vault_op \<Rightarrow> bool" where
  "is_create_op (CreateKeyOp h m g) = True"
| "is_create_op op = False"

definition on_handle :: "string \<Rightarrow> vault_op \<Rightarrow> bool" where
  "on_handle h op \<longleftrightarrow> op_handle op = h \<and> \<not> is_create_op op"

definition session_event :: "session \<Rightarrow> string \<Rightarrow> event \<Rightarrow> bool" where
  "session_event s name e \<longleftrightarrow>
     (case dialOpts s of
        Inl _ \<Rightarrow> False
      | Inr opts \<Rightarrow> loop_event (cfg_endpoints (ss_cfg s)) opts (on_handle (handle s name)) e)"

lemma on_handle_simps [simp]:
  "on_handle h (WrapOp h p a iv)" "on_handle h (UnwrapOp h x iv a)" "on_handle h (SignOp h x)"
  "on_handle h (KeyInfoOp h)" "on_handle h (DeleteOp h)"
  by (simp_all add: on_handle_def)

definition key_trace :: "session \<Rightarrow> string \<Rightarrow> event list \<Rightarrow> bool" where
  "key_trace s name es \<longleftrightarrow> disciplined es \<and> list_all (session_event s name) es"

lemma key_trace_Nil [simp]: "key_trace s name []"
  by (simp add: key_trace_def)

lemma loop_trace_key_trace:
  "dialOpts s = Inr opts \<Longrightarrow>
   loop_trace (cfg_endpoints (ss_cfg s)) opts (on_handle (handle s name)) es \<Longrightarrow> key_trace s name es"
  by (simp add: loop_trace_def key_trace_def session_event_def [abs_def])

text \<open>Success came from an endpoint that was tried last; failure after all endpoints were tried.\<close>

definition exhausted :: "session \<Rightarrow> 'a result \<Rightarrow> event list \<Rightarrow> bool" where
  "exhausted s r es \<longleftrightarrow>
     (case dialOpts s of
        Inl e \<Rightarrow> r = Inl e \<and> es = []
      | Inr _ \<Rightarrow>
          (case r of
             Inl _ \<Rightarrow> dialled es = cfg_endpoints (ss_cfg s)
           | Inr _ \<Rightarrow> \<exists>pre ep post. cfg_endpoints (ss_cfg s) = pre @ ep # post \<and> dialled es = pre @ [ep]))"

lemma withHolder_emits:
  assumes op: "\<And>c. emits (op c) (\<lambda>r. visit c (on_handle (handle s name)))"
  shows "emits (do { r \<leftarrow> withHolder L s op; State_Monad.return (drop_endpoint r) })
    (\<lambda>r es. key_trace s name es \<and> exhausted s r es)"
proof (cases "dialOpts s")
  case (Inl e)
  then show ?thesis
    by (auto simp: withHolder_def drop_endpoint_def exhausted_def intro!: emits_return)
next
  case (Inr opts)
  show ?thesis
    unfolding withHolder_def Inr
    using loop_trace_key_trace [OF Inr]
    by (auto intro!: emits_bind [OF holder_loop_emits [OF op]] emits_return
      simp: drop_endpoint_def exhausted_def Inr tried_def split: sum.splits)
qed

lemma wrap_emits: "emits (wrap L s name p) (\<lambda>r es. key_trace s name es \<and> exhausted s r es)"
  unfolding wrap_def by (rule withHolder_emits, rule visit_client) simp

lemma unwrap_emits: "emits (unwrap L s name c iv) (\<lambda>r es. key_trace s name es \<and> exhausted s r es)"
  unfolding unwrap_def by (rule withHolder_emits, rule visit_client) simp

lemma sign_emits: "emits (sign L s name m) (\<lambda>r es. key_trace s name es \<and> exhausted s r es)"
  unfolding sign_def by (rule withHolder_emits, rule visit_client) simp

lemma getKeyInfo_emits: "emits (getKeyInfo L s name) (\<lambda>r es. key_trace s name es \<and> exhausted s r es)"
  unfolding getKeyInfo_def by (rule withHolder_emits, rule visit_client) simp

section \<open>Destroy\<close>

text \<open>The number of successful deletions is unknown from the events; that every endpoint is tried is not.\<close>

lemma destroy_loop_emits:
  "emits (destroy_loop L opts h eps n le) (\<lambda>r es. loop_trace eps opts (on_handle h) es \<and> dialled es = eps)"
proof (induction eps arbitrary: n le)
  case Nil
  show ?case by (auto intro!: emits_return)
next
  case (Cons ep eps)
  have skip: "emits (destroy_loop L opts h eps n le)
      (\<lambda>r es. loop_trace (ep # eps) opts (on_handle h) (EvDial ep opts None # es) \<and> dialled es = eps)" for n le
    using Cons.IH [of n le] by (elim emits_mono) (auto intro: loop_trace_failed_dial)
  have go_on: "emits (destroy_loop L opts h eps n le)
      (\<lambda>r es. loop_trace (ep # eps) opts (on_handle h) (EvDial ep opts (Some c) # vs @ EvClose c # es) \<and>
        dialled vs = [] \<and> dialled es = eps)"
    if "visit c (on_handle h) vs" for c vs n le
    using Cons.IH [of n le] dialled_on_conn [OF visit_on_conn [OF that]]
    by (elim emits_mono) (auto intro: loop_trace_visit [OF that])
  have op: "\<And>c. emits (client_delete_key L c h) (\<lambda>r. visit c (on_handle h))"
    by (rule visit_client) simp
  have go_on': "emits (destroy_loop L opts h eps n le)
      (\<lambda>r es. loop_trace (ep # eps) opts (on_handle h) (EvDial ep opts (Some c) # vs @ EvClose c # es) \<and>
        dialled (vs @ EvClose c # es) = eps)"
    if "visit c (on_handle h) vs" for c vs n le
    using go_on [OF that, of n le] by (elim emits_mono) auto
  show ?case
    using skip go_on'
    by (auto intro!: emits_dial_bind emits_bind [OF op] emits_close_bind split: sum.split)
qed

lemma destroy_emits:
  "emits (destroy L s name) (\<lambda>r es. key_trace s name es \<and>
     (\<forall>opts. dialOpts s = Inr opts \<longrightarrow> dialled es = cfg_endpoints (ss_cfg s)))"
proof (cases "dialOpts s")
  case (Inl e)
  then show ?thesis
    by (auto simp: destroy_def intro!: emits_return)
next
  case (Inr opts)
  show ?thesis
    unfolding destroy_def Inr
    using loop_trace_key_trace [OF Inr]
    by (auto intro!: emits_bind [OF destroy_loop_emits] emits_return split: prod.split)
qed

section \<open>What the loops compute when the answers do not change\<close>

text \<open>
  The result of one endpoint, and the search as a function of the list of results: the first answer,
  or the last error that is not a \<^verbatim>\<open>not found\<close>.
\<close>

datatype 'a outcome = Unreachable string | Absent | Failed string | Answered 'a

fun first_answer :: "(string \<times> 'a outcome) list \<Rightarrow> gerr option \<Rightarrow> gerr option + 'a \<times> string" where
  "first_answer [] le = Inl le"
| "first_answer ((ep, Answered x) # os) le = Inr (x, ep)"
| "first_answer ((ep, Absent) # os) le = first_answer os le"
| "first_answer ((ep, Unreachable e) # os) le = first_answer os (Some (Ext e))"
| "first_answer ((ep, Failed e) # os) le = first_answer os (Some (Ext e))"

definition outcome_of :: "(string + conn) \<Rightarrow> (conn \<Rightarrow> string + 'a) \<Rightarrow> 'a outcome" where
  "outcome_of d f =
     (case d of
        Inl e \<Rightarrow> Unreachable e
      | Inr c \<Rightarrow>
          (case f c of
             Inl e \<Rightarrow> if contains e ''not found'' then Absent else Failed e
           | Inr x \<Rightarrow> Answered x))"

text \<open>Vaults whose answers do not depend on what was asked before.\<close>

definition steady :: "lib \<Rightarrow> dial_opts \<Rightarrow> (string \<Rightarrow> string + conn) \<Rightarrow> (conn \<Rightarrow> (string + 'a) io)
    \<Rightarrow> (conn \<Rightarrow> string + 'a) \<Rightarrow> bool" where
  "steady L opts d op f \<longleftrightarrow>
     (\<forall>h ep. lib_dial L h ep opts = d ep) \<and> (\<forall>h c. fst (run_state (op c) h) = f c)"

lemma holder_loop_steady:
  assumes "steady L opts d op f"
  shows "fst (run_state (holder_loop L opts op eps le) h) =
    first_answer (map (\<lambda>ep. (ep, outcome_of (d ep) f)) eps) le"
proof (induction eps arbitrary: le h)
  case Nil
  show ?case by simp
next
  case (Cons ep eps)
  have *: "\<And>h ep. lib_dial L h ep opts = d ep" "\<And>h c. fst (run_state (op c) h) = f c"
    using assms by (simp_all add: steady_def)
  show ?case
  proof (cases "d ep")
    case (Inl e)
    with *(1) Cons.IH show ?thesis
      by (simp add: dial_def outcome_of_def)
  next
    case (Inr c)
    let ?h = "h @ [EvDial ep opts (Some c)]"
    obtain h' where "run_state (op c) ?h = (f c, h')"
      using *(2) [of c ?h] by (metis prod.collapse)
    with Inr *(1) Cons.IH show ?thesis
      by (cases "f c") (simp_all add: dial_def close_def outcome_of_def)
  qed
qed

section \<open>Destroy over vaults whose answers do not change\<close>

fun deletions :: "'a outcome list \<Rightarrow> nat" where
  "deletions [] = 0"
| "deletions (Answered x # os) = deletions os + 1"
| "deletions (Unreachable e # os) = deletions os"
| "deletions (Absent # os) = deletions os"
| "deletions (Failed e # os) = deletions os"

fun last_error :: "'a outcome list \<Rightarrow> gerr option \<Rightarrow> gerr option" where
  "last_error [] le = le"
| "last_error (Answered x # os) le = last_error os le"
| "last_error (Unreachable e # os) le = last_error os (Some (Ext e))"
| "last_error (Absent # os) le = last_error os le"
| "last_error (Failed e # os) le = last_error os (Some (Ext e))"

lemma destroy_loop_steady:
  assumes "steady L opts d (\<lambda>c. client_delete_key L c k) f"
  shows "fst (run_state (destroy_loop L opts k eps n le) h) =
    (n + deletions (map (\<lambda>ep. outcome_of (d ep) f) eps), last_error (map (\<lambda>ep. outcome_of (d ep) f) eps) le)"
proof (induction eps arbitrary: n le h)
  case Nil
  show ?case by simp
next
  case (Cons ep eps)
  have *: "\<And>h ep. lib_dial L h ep opts = d ep" "\<And>h c. lib_delete_key L h c k = f c"
    using assms by (simp_all add: steady_def client_delete_key_def)
  show ?case
    using Cons.IH *
    by (cases "d ep"; cases "f (projr (d ep))")
      (simp_all add: dial_def close_def client_delete_key_def outcome_of_def)
qed

lemma last_error_None:
  "last_error os le = None \<longleftrightarrow> le = None \<and> (\<forall>o'\<in>set os. (\<exists>x. o' = Answered x) \<or> o' = Absent)"
  by (induction os le rule: last_error.induct) auto

lemma deletions_0: "deletions os = 0 \<longleftrightarrow> (\<forall>o'\<in>set os. \<forall>x. o' \<noteq> Answered x)"
  by (induction os rule: deletions.induct) auto

lemma destroy_ok_iff:
  "last_error os None = None \<or> deletions os \<noteq> 0 \<longleftrightarrow> (\<exists>x. Answered x \<in> set os) \<or> set os \<subseteq> {Absent}"
  by (auto simp: last_error_None deletions_0)

lemma destroy_steady:
  assumes "dialOpts s = Inr opts" "steady L opts d (\<lambda>c. client_delete_key L c (handle s name)) f"
  shows "fst (run_state (destroy L s name) h) = Inr () \<longleftrightarrow>
    (let os = map (\<lambda>ep. outcome_of (d ep) f) (cfg_endpoints (ss_cfg s))
     in (\<exists>x. Answered x \<in> set os) \<or> set os \<subseteq> {Absent})"
proof -
  let ?os = "map (\<lambda>ep. outcome_of (d ep) f) (cfg_endpoints (ss_cfg s))"
  obtain h' where run: "run_state (destroy_loop L opts (handle s name) (cfg_endpoints (ss_cfg s)) 0 None) h
      = ((deletions ?os, last_error ?os None), h')"
    using destroy_loop_steady [OF assms(2), of "cfg_endpoints (ss_cfg s)" 0 None h]
    by (metis add_0 prod.collapse)
  have "fst (run_state (destroy L s name) h) = Inr () \<longleftrightarrow> last_error ?os None = None \<or> deletions ?os \<noteq> 0"
    by (cases "last_error ?os None") (simp_all add: destroy_def assms(1) run)
  also have "\<dots> \<longleftrightarrow> (\<exists>x. Answered x \<in> set ?os) \<or> set ?os \<subseteq> {Absent}"
    by (rule destroy_ok_iff)
  finally show ?thesis by (simp only: Let_def)
qed

end
