(* ===== verification/Create_Laws.thy ===== *)
theory Create_Laws
  imports Session_Laws
begin

text \<open>
  Key creation over any grantor. The \<^verbatim>\<open>Grantor\<close> interface is the locale \<open>grantor_iface\<close>; the session's
  guarantees about \<^const>\<open>createKey\<close> are proved once inside it.
\<close>

text \<open>Events of the control plane and of local computation: no vault is touched.\<close>

fun control_plane :: "event \<Rightarrow> bool" where
  "control_plane (EvDial ep opts c) = False"
| "control_plane (EvClose c) = False"
| "control_plane (EvVault c op) = False"
| "control_plane e = True"

fun is_http :: "event \<Rightarrow> bool" where
  "is_http (EvHTTP q) = True"
| "is_http e = False"

lemma control_plane_off_vault: "list_all control_plane es \<Longrightarrow> list_all off_vault es"
  by (erule list.pred_mono_strong) (auto elim: control_plane.elims)

definition grant_trace :: "'a result \<Rightarrow> event list \<Rightarrow> bool" where
  "grant_trace r es \<longleftrightarrow> list_all control_plane es \<and> (\<forall>g. r = Inr g \<longrightarrow> list_ex is_http es)"

locale grantor_iface =
  fixes mint :: "string \<Rightarrow> string \<Rightarrow> string \<Rightarrow> string \<Rightarrow> bool \<Rightarrow> key_grant result io"
    and rotate :: "string \<Rightarrow> string \<Rightarrow> string \<Rightarrow> key_grant result io"
  assumes mint_grant: "emits (mint v n k c x) grant_trace"
    and rotate_grant: "emits (rotate v n c) grant_trace"

text \<open>
  The last part of a creation: nothing, a failed dial, or one visit that sends the material. The
  connection is pinned to the vault measurement and authenticated by the fresh certificate only.
\<close>

definition create_opts :: "dial_opts \<Rightarrow> bool" where
  "create_opts opts \<longleftrightarrow> pinned opts \<and> do_client_cert opts \<noteq> None \<and> do_auth_token opts = None
     \<and> do_get_client_certificate opts = None \<and> do_client_evidence opts = None"

fun create_tail :: "event list \<Rightarrow> bool" where
  "create_tail [] = True"
| "create_tail [EvDial ep opts None] = create_opts opts"
| "create_tail [EvDial ep opts (Some c), EvVault c' (CreateKeyOp h m g), EvClose c''] =
     (create_opts opts \<and> c' = c \<and> c'' = c)"
| "create_tail es = False"

fun sent_handle :: "event list \<Rightarrow> string option" where
  "sent_handle [EvDial ep opts (Some c), EvVault c' (CreateKeyOp h m g), EvClose c''] = Some h"
| "sent_handle es = None"

text \<open>
  The order of a creation: control-plane work first, and a vault is dialled only after an HTTP call
  that returned a grant. A reported handle is the one the material was sent under.
\<close>

definition create_trace :: "string result \<Rightarrow> event list \<Rightarrow> bool" where
  "create_trace r es \<longleftrightarrow>
     (\<exists>pre tail. es = pre @ tail \<and> list_all control_plane pre \<and> create_tail tail
        \<and> (tail \<noteq> [] \<longrightarrow> list_ex is_http pre) \<and> (\<forall>h. r = Inr h \<longrightarrow> sent_handle tail = Some h))"

lemma create_trace_control: "list_all control_plane es \<Longrightarrow> create_trace (Inl e) es"
  unfolding create_trace_def by (intro exI [of _ es] exI [of _ "[]"]) simp

lemma create_trace_tail:
  "list_all control_plane pre \<Longrightarrow> list_ex is_http pre \<Longrightarrow> create_tail tail \<Longrightarrow>
   (\<And>h. r = Inr h \<Longrightarrow> sent_handle tail = Some h) \<Longrightarrow> create_trace r (pre @ tail)"
  unfolding create_trace_def by (intro exI [of _ pre] exI [of _ tail]) simp

lemma create_trace_unreachable:
  assumes "list_all control_plane a" "list_all control_plane b" "list_all control_plane c"
    "list_ex is_http c" "create_opts opts"
  shows "create_trace (Inl e) (a @ b @ c @ [EvDial ep opts None])"
  using assms create_trace_tail [of "a @ b @ c" "[EvDial ep opts None]" "Inl e"] by simp

lemma create_trace_sent:
  assumes "list_all control_plane a" "list_all control_plane b" "list_all control_plane c"
    "list_ex is_http c" "create_opts opts" "\<And>h'. r = Inr h' \<Longrightarrow> h' = h"
  shows "create_trace r (a @ b @ c @ [EvDial ep opts (Some d), EvVault d (CreateKeyOp h m g), EvClose d])"
  using assms
    create_trace_tail [of "a @ b @ c" "[EvDial ep opts (Some d), EvVault d (CreateKeyOp h m g), EvClose d]" r]
  by simp

fun_cases create_tailE: "create_tail es"

lemma create_tail_disciplined: "create_tail es \<Longrightarrow> disciplined es"
  by (elim create_tailE)
     (auto simp: disciplined_visit [of c "[EvVault c op]" for c op, simplified])

lemma create_trace_disciplined: "create_trace r es \<Longrightarrow> disciplined es"
  unfolding create_trace_def
  by (auto intro: disciplined_append create_tail_disciplined disciplined_off_vault control_plane_off_vault)

lemma generateMaterial_emits: "emits (generateMaterial L kt) (\<lambda>r. list_all control_plane)"
  unfolding generateMaterial_def generate_key_def rand_read_def
  by (auto intro!: emits_call_bind emits_case_sum emits_return)

lemma generateClientCert_emits: "emits (generateClientCert L sub) (\<lambda>r. list_all control_plane)"
  unfolding generateClientCert_def generate_key_def time_now_def create_certificate_def
  by (auto intro!: emits_call_bind emits_case_sum emits_return)

context grantor_iface
begin

lemma createKey_emits:
  assumes g: "ss_grantor s = Some (Grantor mint rotate)"
  shows "emits (createKey L s name kt x) create_trace"
proof -
  have opts: "create_opts (no_opts\<lparr>do_client_cert := Some cert, do_vault_policy := Some p\<rparr>)"
    if "verifyPolicy m a t = Inr p" for cert m a t p
    using verifyPolicy_Inr [OF that] by (simp add: create_opts_def pinned_def no_opts_def)
  show ?thesis
    unfolding createKey_def g
    by (auto intro!: emits_bind [OF generateMaterial_emits] emits_bind [OF generateClientCert_emits]
      emits_bind [OF mint_grant] emits_call_bind emits_dial_bind emits_close_bind emits_return
      simp: grant_trace_def client_create_key_def
      split: sum.split list.split prod.split sum.split_asm)
      (auto intro: create_trace_control create_trace_unreachable create_trace_sent opts)
qed

end

end
