(* ===== verification/Kmip_Attrs.thy ===== *)
theory Kmip_Attrs
  imports Create_Laws
begin

text \<open>
  \<^verbatim>\<open>internal/kmip/attrs.go\<close>: the translation between KMIP attributes and the vault's key types and
  names. The KMIP library (\<^verbatim>\<open>github.com/gemalto/kmip-go\<close>) is not in the repository: its constants, its
  payload decoders and its protocol handler are the record \<open>kmip_lib\<close>, and its enumerations are the
  32-bit words Go gives them.
\<close>

section \<open>The KMIP library\<close>

type_synonym enum32 = "32 word"

text \<open>The tags the gateway names.\<close>

datatype kmip_tag = TagObjectType | TagCryptographicAlgorithm | TagName

text \<open>
  A decoded attribute value is a Go interface value: the gateway distinguishes these dynamic types,
  and \<open>VOther\<close> is any other one.
\<close>

datatype attr_value =
    VString string
  | VName string
  | VTTLV "byte list"
  | VAlgorithm enum32
  | VObjectType enum32
  | VUint32 "32 word"
  | VInt32 "32 word"
  | VInt "64 word"
  | VOther

record attribute =
  at_name :: string
  at_value :: attr_value

record create_request =
  cr_object_type :: enum32
  cr_template :: "attribute list"

text \<open>
  The payload structs of \<^verbatim>\<open>server.go\<close>: what a request may carry. \<^verbatim>\<open>CryptographicParameters\<close> is decoded
  and never read.
\<close>

record encrypt_request =
  er_uid :: string
  er_data :: "byte list"
  er_iv :: "byte list"

text \<open>The Decrypt request has the same fields as the Encrypt request.\<close>

type_synonym decrypt_request = encrypt_request

record sign_request =
  sr_uid :: string
  sr_data :: "byte list"

record get_attributes_request =
  ga_uid :: string
  ga_names :: "string list"

record locate_request =
  lr_attributes :: "attribute list"

datatype result_reason = InvalidField | GeneralFailure | ItemNotFound

text \<open>\<^verbatim>\<open>kmip.WithResultReason(err, reason)\<close>.\<close>

datatype kmip_error = KmipError (reason_of: result_reason) (cause_of: gerr)

record kmip_lib =
  ot_symmetric_key :: enum32
  ot_public_key :: enum32
  ot_private_key :: enum32
  alg_aes :: enum32
  alg_ecdsa :: enum32
  alg_hmac_sha256 :: enum32
  canonical_name :: "kmip_tag \<Rightarrow> string"
  get_tag :: "attribute list \<Rightarrow> kmip_tag \<Rightarrow> attribute option"
  new_attribute :: "kmip_tag \<Rightarrow> attr_value \<Rightarrow> attribute"
  unmarshal_name :: "byte list \<Rightarrow> string option"
  decode_create :: "byte list \<Rightarrow> string + create_request"
  decode_encrypt :: "byte list \<Rightarrow> string + encrypt_request"
  decode_decrypt :: "byte list \<Rightarrow> string + decrypt_request"
  decode_sign :: "byte list \<Rightarrow> string + sign_request"
  decode_get_attributes :: "byte list \<Rightarrow> string + get_attributes_request"
  decode_locate :: "byte list \<Rightarrow> string + locate_request"

definition fail :: "result_reason \<Rightarrow> string \<Rightarrow> garg list \<Rightarrow> kmip_error" where
  "fail reason fmt args = KmipError reason (Errorf fmt args)"

section \<open>Key types\<close>

text \<open>A conversion to \<^verbatim>\<open>CryptographicAlgorithm\<close>, a \<^verbatim>\<open>uint32\<close>, keeps the low 32 bits.\<close>

definition coerceAlgorithm :: "attr_value \<Rightarrow> enum32 \<times> bool" where
  "coerceAlgorithm v =
     (case v of
        VAlgorithm t \<Rightarrow> (t, True)
      | VUint32 t \<Rightarrow> (t, True)
      | VInt32 t \<Rightarrow> (t, True)
      | VInt t \<Rightarrow> (ucast t, True)
      | _ \<Rightarrow> (0, False))"

definition unsupported :: kmip_error where
  "unsupported = fail InvalidField ''create: unsupported object type/algorithm'' []"

definition keyTypeFor :: "kmip_lib \<Rightarrow> create_request \<Rightarrow> kmip_error + string" where
  "keyTypeFor K p =
     (if cr_object_type p = ot_symmetric_key K then Inr ''aes''
      else if cr_object_type p = ot_private_key K \<or> cr_object_type p = ot_public_key K then Inr ''p256''
      else (case get_tag K (cr_template p) TagCryptographicAlgorithm of
              None \<Rightarrow> Inl unsupported
            | Some a \<Rightarrow>
                (let (alg, ok) = coerceAlgorithm (at_value a) in
                 if ok \<and> alg = alg_aes K then Inr ''aes''
                 else if ok \<and> alg = alg_ecdsa K then Inr ''p256''
                 else Inl unsupported)))"

definition kmipTypeFor :: "kmip_lib \<Rightarrow> key_type \<Rightarrow> enum32 \<times> enum32" where
  "kmipTypeFor K kt =
     (case kt of
        Aes256GcmKey \<Rightarrow> (ot_symmetric_key K, alg_aes K)
      | P256SigningKey \<Rightarrow> (ot_private_key K, alg_ecdsa K)
      | HmacSha256Key \<Rightarrow> (ot_symmetric_key K, alg_hmac_sha256 K)
      | OtherKeyType s \<Rightarrow> (0, 0))"

section \<open>Names\<close>

definition nameValue :: "kmip_lib \<Rightarrow> attribute option \<Rightarrow> string" where
  "nameValue K attr =
     (case attr of
        None \<Rightarrow> ''''
      | Some a \<Rightarrow>
          (case at_value a of
             VString v \<Rightarrow> v
           | VName v \<Rightarrow> v
           | VTTLV v \<Rightarrow> (case unmarshal_name K v of Some n \<Rightarrow> n | None \<Rightarrow> '''')
           | _ \<Rightarrow> ''''))"

definition requestedName :: "kmip_lib \<Rightarrow> attribute list \<Rightarrow> string" where
  "requestedName K ta = nameValue K (get_tag K ta TagName)"

fun nameFromAttributes :: "kmip_lib \<Rightarrow> attribute list \<Rightarrow> string" where
  "nameFromAttributes K [] = ''''"
| "nameFromAttributes K (a # attrs) =
     (if at_name a = canonical_name K TagName then nameValue K (Some a) else nameFromAttributes K attrs)"

definition generateName :: "lib \<Rightarrow> string \<Rightarrow> string io" where
  "generateName L keyType = do {
     u \<leftarrow> uuid_new L;
     State_Monad.return (''kmip-'' @ keyType @ ''-'' @ u)
   }"

section \<open>Attribute filter\<close>

fun want_loop :: "string list \<Rightarrow> (string \<Rightarrow> bool) \<Rightarrow> string \<Rightarrow> bool" where
  "want_loop [] want = want"
| "want_loop (n # names) want = want_loop names (want(n := True))"

fun filter_loop :: "(string \<Rightarrow> bool) \<Rightarrow> attribute list \<Rightarrow> attribute list \<Rightarrow> attribute list" where
  "filter_loop want [] out = out"
| "filter_loop want (a # attrs) out =
     (if want (at_name a) then filter_loop want attrs (out @ [a]) else filter_loop want attrs out)"

definition filterAttributes :: "attribute list \<Rightarrow> string list \<Rightarrow> attribute list" where
  "filterAttributes attrs names =
     (if names = [] then attrs else filter_loop (want_loop names (\<lambda>_. False)) attrs [])"

section \<open>What the translations guarantee\<close>

lemma want_loop_eq: "want_loop names want n \<longleftrightarrow> want n \<or> n \<in> set names"
  by (induction names arbitrary: want) auto

lemma filter_loop_eq: "filter_loop want attrs out = out @ filter (\<lambda>a. want (at_name a)) attrs"
  by (induction attrs arbitrary: out) auto

lemma filterAttributes_eq:
  "filterAttributes attrs names = filter (\<lambda>a. names = [] \<or> at_name a \<in> set names) attrs"
  by (auto simp: filterAttributes_def filter_loop_eq want_loop_eq)

lemma nameFromAttributes_eq:
  "nameFromAttributes K attrs = nameValue K (find (\<lambda>a. at_name a = canonical_name K TagName) attrs)"
  by (induction attrs) (auto simp: nameValue_def)

lemma keyTypeFor_cases:
  assumes "keyTypeFor K p = Inr kt"
  obtains "kt = ''aes''" | "kt = ''p256''"
  using assms by (auto simp: keyTypeFor_def split: if_splits option.splits prod.splits)

lemma keyTypeFor_error: "keyTypeFor K p = Inl e \<Longrightarrow> e = unsupported"
  by (auto simp: keyTypeFor_def split: if_splits option.splits prod.splits)

text \<open>
  The library's enumeration constants are distinct (a \<^verbatim>\<open>switch\<close> with two equal constant cases does
  not compile).
\<close>

definition distinct_enums :: "kmip_lib \<Rightarrow> bool" where
  "distinct_enums K \<longleftrightarrow>
     distinct [ot_symmetric_key K, ot_private_key K, ot_public_key K]
     \<and> distinct [alg_aes K, alg_ecdsa K, alg_hmac_sha256 K]"

text \<open>The vault key type a name of \<^const>\<open>keyTypeFor\<close> stands for.\<close>

definition vault_type :: "string \<Rightarrow> key_type" where
  "vault_type kt =
     (if kt = ''p256'' then P256SigningKey else if kt = ''aes'' then Aes256GcmKey else OtherKeyType kt)"

lemma vaultKeyType_vault_type: "vaultKeyType L kt = key_type_string L (vault_type kt)"
  by (simp add: vaultKeyType_def vault_type_def key_type_string_def)

end
