(* ===== verification/Kmip_Server.thy ===== *)
theory Kmip_Server
  imports Kmip_Attrs Ttlv
begin

text \<open>
  \<^verbatim>\<open>internal/kmip/server.go\<close>: the KMIP operations over the \<^verbatim>\<open>Vault\<close> interface. A handler is a
  computation over the history of outside events; it returns a failure with its result reason or a
  response payload, and the request with its \<^verbatim>\<open>IDPlaceholder\<close>.
\<close>

section \<open>The vault interface, requests and responses\<close>

datatype vault = Vault
  (vaultCreate: "string \<Rightarrow> string \<Rightarrow> bool \<Rightarrow> string result io")
  (vaultWrap: "string \<Rightarrow> byte list \<Rightarrow> (byte list \<times> byte list) result io")
  (vaultUnwrap: "string \<Rightarrow> byte list \<Rightarrow> byte list \<Rightarrow> byte list result io")
  (vaultSign: "string \<Rightarrow> byte list \<Rightarrow> (byte list \<times> string) result io")
  (vaultGetKeyInfo: "string \<Rightarrow> key_info result io")
  (vaultDestroy: "string \<Rightarrow> unit result io")

definition session_vault :: "lib \<Rightarrow> session \<Rightarrow> vault" where
  "session_vault L s = Vault (createKey L s) (wrap L s) (unwrap L s) (sign L s) (getKeyInfo L s) (destroy L s)"

record request =
  rq_payload :: "byte list"
  rq_id_placeholder :: string

datatype payload =
    CreateResponse enum32 string
  | DestroyResponse string
  | EncryptResponse string "byte list" "byte list"
  | DecryptResponse string "byte list"
  | SignResponse string "byte list"
  | GetAttributesResponse string "attribute list"
  | LocateResponse "string list"

type_synonym item_result = "kmip_error + payload"

section \<open>Create\<close>

definition handleCreate :: "lib \<Rightarrow> kmip_lib \<Rightarrow> vault \<Rightarrow> request \<Rightarrow> (item_result \<times> request) io" where
  "handleCreate L K V req =
     (case decode_create K (rq_payload req) of
        Inl e \<Rightarrow> State_Monad.return (Inl (fail InvalidField ''decode create: %v'' [AErr (Ext e)]), req)
      | Inr p \<Rightarrow>
          (case keyTypeFor K p of
             Inl e \<Rightarrow> State_Monad.return (Inl e, req)
           | Inr keyType \<Rightarrow> do {
               name \<leftarrow> (if requestedName K (cr_template p) = '''' then generateName L keyType
                        else State_Monad.return (requestedName K (cr_template p)));
               r \<leftarrow> vaultCreate V name keyType False;
               State_Monad.return (case r of
                 Inl e \<Rightarrow> (Inl (fail GeneralFailure ''create %q: %v'' [AStr name, AErr e]), req)
               | Inr _ \<Rightarrow> (Inr (CreateResponse (cr_object_type p) name), req\<lparr>rq_id_placeholder := name\<rparr>))
             }))"

section \<open>Destroy\<close>

text \<open>Called with the decoded identifier by the library's \<^verbatim>\<open>DestroyHandler\<close>.\<close>

definition handleDestroy :: "vault \<Rightarrow> string \<Rightarrow> item_result io" where
  "handleDestroy V uid =
     (if uid = '''' then
        State_Monad.return (Inl (fail InvalidField ''destroy: missing unique identifier'' []))
      else do {
        r \<leftarrow> vaultDestroy V uid;
        State_Monad.return (case r of
          Inl e \<Rightarrow> Inl (fail GeneralFailure ''destroy %q: %v'' [AStr uid, AErr e])
        | Inr _ \<Rightarrow> Inr (DestroyResponse uid))
      })"

section \<open>Encrypt and Decrypt\<close>

definition handleEncrypt :: "kmip_lib \<Rightarrow> vault \<Rightarrow> request \<Rightarrow> (item_result \<times> request) io" where
  "handleEncrypt K V req =
     (case decode_encrypt K (rq_payload req) of
        Inl e \<Rightarrow> State_Monad.return (Inl (fail InvalidField ''decode encrypt: %v'' [AErr (Ext e)]), req)
      | Inr p \<Rightarrow>
          if er_uid p = '''' then
            State_Monad.return (Inl (fail InvalidField ''encrypt: missing unique identifier'' []), req)
          else do {
            r \<leftarrow> vaultWrap V (er_uid p) (er_data p);
            State_Monad.return (case r of
              Inl e \<Rightarrow> (Inl (fail GeneralFailure ''encrypt %q: %v'' [AStr (er_uid p), AErr e]), req)
            | Inr (ct, iv) \<Rightarrow> (Inr (EncryptResponse (er_uid p) ct iv), req))
          })"

definition handleDecrypt :: "kmip_lib \<Rightarrow> vault \<Rightarrow> request \<Rightarrow> (item_result \<times> request) io" where
  "handleDecrypt K V req =
     (case decode_decrypt K (rq_payload req) of
        Inl e \<Rightarrow> State_Monad.return (Inl (fail InvalidField ''decode decrypt: %v'' [AErr (Ext e)]), req)
      | Inr p \<Rightarrow>
          if er_uid p = '''' then
            State_Monad.return (Inl (fail InvalidField ''decrypt: missing unique identifier'' []), req)
          else if length (er_iv p) = 0 then
            State_Monad.return
              (Inl (fail InvalidField ''decrypt %q: missing IV/Counter/Nonce'' [AStr (er_uid p)]), req)
          else do {
            r \<leftarrow> vaultUnwrap V (er_uid p) (er_data p) (er_iv p);
            State_Monad.return (case r of
              Inl e \<Rightarrow> (Inl (fail GeneralFailure ''decrypt %q: %v'' [AStr (er_uid p), AErr e]), req)
            | Inr pt \<Rightarrow> (Inr (DecryptResponse (er_uid p) pt), req))
          })"

section \<open>Sign\<close>

definition handleSign :: "kmip_lib \<Rightarrow> vault \<Rightarrow> request \<Rightarrow> (item_result \<times> request) io" where
  "handleSign K V req =
     (case decode_sign K (rq_payload req) of
        Inl e \<Rightarrow> State_Monad.return (Inl (fail InvalidField ''decode sign: %v'' [AErr (Ext e)]), req)
      | Inr p \<Rightarrow>
          if sr_uid p = '''' then
            State_Monad.return (Inl (fail InvalidField ''sign: missing unique identifier'' []), req)
          else do {
            r \<leftarrow> vaultSign V (sr_uid p) (sr_data p);
            State_Monad.return (case r of
              Inl e \<Rightarrow> (Inl (fail GeneralFailure ''sign %q: %v'' [AStr (sr_uid p), AErr e]), req)
            | Inr (sig, alg) \<Rightarrow> (Inr (SignResponse (sr_uid p) sig), req))
          })"

section \<open>GetAttributes and Locate\<close>

definition handleGetAttributes :: "kmip_lib \<Rightarrow> vault \<Rightarrow> request \<Rightarrow> (item_result \<times> request) io" where
  "handleGetAttributes K V req =
     (case decode_get_attributes K (rq_payload req) of
        Inl e \<Rightarrow> State_Monad.return
          (Inl (fail InvalidField ''decode get-attributes: %v'' [AErr (Ext e)]), req)
      | Inr p \<Rightarrow>
          if ga_uid p = '''' then
            State_Monad.return (Inl (fail InvalidField ''get-attributes: missing unique identifier'' []), req)
          else do {
            r \<leftarrow> vaultGetKeyInfo V (ga_uid p);
            State_Monad.return (case r of
              Inl e \<Rightarrow> (Inl (fail ItemNotFound ''get-attributes %q: %v'' [AStr (ga_uid p), AErr e]), req)
            | Inr info \<Rightarrow>
                (let (objType, alg) = kmipTypeFor K (ki_type info);
                     attrs = [new_attribute K TagObjectType (VObjectType objType),
                              new_attribute K TagCryptographicAlgorithm (VAlgorithm alg)]
                 in (Inr (GetAttributesResponse (ga_uid p) (filterAttributes attrs (ga_names p))), req)))
          })"

definition handleLocate :: "kmip_lib \<Rightarrow> request \<Rightarrow> (item_result \<times> request) io" where
  "handleLocate K req =
     (case decode_locate K (rq_payload req) of
        Inl e \<Rightarrow> State_Monad.return (Inl (fail InvalidField ''decode locate: %v'' [AErr (Ext e)]), req)
      | Inr p \<Rightarrow>
          (let name = nameFromAttributes K (lr_attributes p);
               ids = (if name \<noteq> '''' then [name] else [])
           in State_Monad.return (Inr (LocateResponse ids), req)))"

section \<open>The operation table and the message transport\<close>

datatype protocol_version = ProtocolVersion (pv_major: nat) (pv_minor: nat)

text \<open>Versions compare by major, then by minor number.\<close>

instantiation protocol_version :: linorder
begin

definition less_eq_protocol_version :: "protocol_version \<Rightarrow> protocol_version \<Rightarrow> bool" where
  "less_eq_protocol_version v w \<longleftrightarrow>
     pv_major v < pv_major w \<or> pv_major v = pv_major w \<and> pv_minor v \<le> pv_minor w"

definition less_protocol_version :: "protocol_version \<Rightarrow> protocol_version \<Rightarrow> bool" where
  "less_protocol_version v w \<longleftrightarrow>
     pv_major v < pv_major w \<or> pv_major v = pv_major w \<and> pv_minor v < pv_minor w"

instance
  by standard (auto simp: less_eq_protocol_version_def less_protocol_version_def protocol_version.expand)

end

datatype operation =
    OpDiscoverVersions | OpCreate | OpDestroy | OpEncrypt | OpDecrypt | OpSign | OpGetAttributes
  | OpLocate | OpOther enum32

datatype item_handler =
    DiscoverVersionsHandler "protocol_version list"
  | ItemHandler "request \<Rightarrow> (item_result \<times> request) io"
  | DestroyHandler "string \<Rightarrow> item_result io"

type_synonym mux = "(operation \<times> item_handler) list"

record kmip_server =
  sv_mux :: mux
  sv_version :: protocol_version

text \<open>\<^verbatim>\<open>New\<close>: the operation table, in the order of registration.\<close>

definition new_server :: "lib \<Rightarrow> kmip_lib \<Rightarrow> vault \<Rightarrow> kmip_server" where
  "new_server L K V =
     \<lparr>sv_mux =
        [(OpDiscoverVersions, DiscoverVersionsHandler
            [ProtocolVersion 1 4, ProtocolVersion 1 3, ProtocolVersion 1 2]),
         (OpCreate, ItemHandler (handleCreate L K V)),
         (OpDestroy, DestroyHandler (handleDestroy V)),
         (OpEncrypt, ItemHandler (handleEncrypt K V)),
         (OpDecrypt, ItemHandler (handleDecrypt K V)),
         (OpSign, ItemHandler (handleSign K V)),
         (OpGetAttributes, ItemHandler (handleGetAttributes K V)),
         (OpLocate, ItemHandler (handleLocate K))],
      sv_version = ProtocolVersion 1 4\<rparr>"

text \<open>
  \<^verbatim>\<open>HandleMessage\<close>: \<open>serve\<close> is the library's \<^verbatim>\<open>StandardProtocolHandler\<close>, which writes its answer to a
  buffer. The result is \<^const>\<open>None\<close> if the strip panics.
\<close>

definition handleMessage :: "(kmip_server \<Rightarrow> byte list \<Rightarrow> byte list io) \<Rightarrow> kmip_server \<Rightarrow> byte list
    \<Rightarrow> byte list option io" where
  "handleMessage serve s reqTTLV = do {
     buf \<leftarrow> serve s reqTTLV;
     State_Monad.return (stripCorrelation buf)
   }"

end
