(* ===== verification/Url.thy ===== *)
theory Url
  imports Go_Strings Encoding
begin

text \<open>
  \<^verbatim>\<open>url.Parse\<close> of the Go release named in \<^verbatim>\<open>go.mod\<close> (1.24.0), as far as the gateway uses it: whether a
  string parses, and the \<^verbatim>\<open>Host\<close> of the result. \<open>url_parse s\<close> is \<^const>\<open>None\<close> on an error.
\<close>

definition is_ctl :: "char \<Rightarrow> bool" where
  "is_ctl c \<longleftrightarrow> (of_char c :: nat) < 0x20 \<or> (of_char c :: nat) = 0x7F"

definition is_alpha :: "char \<Rightarrow> bool" where
  "is_alpha c \<longleftrightarrow> c \<in> set ''ABCDEFGHIJKLMNOPQRSTUVWXYZabcdefghijklmnopqrstuvwxyz''"

definition is_digit :: "char \<Rightarrow> bool" where
  "is_digit c \<longleftrightarrow> c \<in> set ''0123456789''"

text \<open>\<^verbatim>\<open>strings.Cut\<close> at a byte: what comes before, and what comes after if the byte occurs.\<close>

definition before :: "char \<Rightarrow> string \<Rightarrow> string" where
  "before c s = takeWhile (\<lambda>d. d \<noteq> c) s"

definition after :: "char \<Rightarrow> string \<Rightarrow> string" where
  "after c s = drop 1 (dropWhile (\<lambda>d. d \<noteq> c) s)"

text \<open>\<^verbatim>\<open>getScheme\<close>, with the part already read; the result is the scheme and the rest.\<close>

fun get_scheme :: "string \<Rightarrow> string \<Rightarrow> string \<Rightarrow> (string \<times> string) option" where
  "get_scheme raw sofar [] = Some ('''', raw)"
| "get_scheme raw sofar (c # s) =
     (if is_alpha c then get_scheme raw (sofar @ [c]) s
      else if is_digit c \<or> c \<in> set ''+-.'' then
        (if sofar = '''' then Some ('''', raw) else get_scheme raw (sofar @ [c]) s)
      else if c = CHR '':'' then (if sofar = '''' then None else Some (sofar, s))
      else Some ('''', raw))"

datatype esc_mode = EncodeHost | EncodeZone | EncodeOther

definition host_escape :: "char \<Rightarrow> bool" where
  "host_escape c \<longleftrightarrow> \<not> unreserved c \<and>
     c \<notin> set (''!$&()*+,;=:[]<>'' @ [char_of (39 :: nat), char_of (34 :: nat)])"

fun unescape :: "esc_mode \<Rightarrow> string \<Rightarrow> string option" where
  "unescape mode [] = Some []"
| "unescape mode (c # s) =
     (if c = CHR ''%'' then
        (case s of
           d # e # s' \<Rightarrow> do {
             a \<leftarrow> from_hex_char d;
             b \<leftarrow> from_hex_char e;
             (let v = byte_char (push_bit 4 a OR b); pct = (d = CHR ''2'' \<and> e = CHR ''5'') in
              if mode = EncodeHost \<and> unat a < 8 \<and> \<not> pct then None
              else if mode = EncodeZone \<and> \<not> pct \<and> v \<noteq> CHR '' '' \<and> host_escape v then None
              else map_option ((#) v) (unescape mode s'))
           }
         | _ \<Rightarrow> None)
      else if mode \<noteq> EncodeOther \<and> (of_char c :: nat) < 0x80 \<and> host_escape c then None
      else map_option ((#) c) (unescape mode s))"

definition valid_optional_port :: "string \<Rightarrow> bool" where
  "valid_optional_port p = (case p of [] \<Rightarrow> True | c # ds \<Rightarrow> c = CHR '':'' \<and> list_all is_digit ds)"

text \<open>Position of the first \<^verbatim>\<open>%25\<close>.\<close>

fun zone_index :: "string \<Rightarrow> nat option" where
  "zone_index [] = None"
| "zone_index (c # s) =
     (if has_prefix (c # s) ''%25'' then Some 0 else map_option Suc (zone_index s))"

definition parse_host :: "string \<Rightarrow> string option" where
  "parse_host host =
     (if has_prefix host ''['' then
        (case last_index_byte host CHR '']'' of
           None \<Rightarrow> None
         | Some i \<Rightarrow>
             if \<not> valid_optional_port (drop (i + 1) host) then None
             else (case zone_index (take i host) of
                None \<Rightarrow> unescape EncodeHost host
              | Some z \<Rightarrow> do {
                  h1 \<leftarrow> unescape EncodeHost (take z host);
                  h2 \<leftarrow> unescape EncodeZone (take (i - z) (drop z host));
                  h3 \<leftarrow> unescape EncodeHost (drop i host);
                  Some (h1 @ h2 @ h3)
                }))
      else
        (case last_index_byte host CHR '':'' of
           None \<Rightarrow> unescape EncodeHost host
         | Some i \<Rightarrow> if \<not> valid_optional_port (drop i host) then None else unescape EncodeHost host))"

definition valid_userinfo :: "string \<Rightarrow> bool" where
  "valid_userinfo s =
     list_all (\<lambda>c. is_alpha c \<or> is_digit c \<or> c \<in> set (''-._:~!$&()*+,;=%@'' @ [char_of (39 :: nat)])) s"

definition parse_authority :: "string \<Rightarrow> string option" where
  "parse_authority a =
     (case last_index_byte a CHR ''@'' of
        None \<Rightarrow> parse_host a
      | Some i \<Rightarrow> do {
          h \<leftarrow> parse_host (drop (i + 1) a);
          (let u = take i a in
           if \<not> valid_userinfo u then None
           else do {
             _ \<leftarrow> unescape EncodeOther (before CHR '':'' u);
             _ \<leftarrow> unescape EncodeOther (after CHR '':'' u);
             Some h
           })
        })"

definition url_parse :: "string \<Rightarrow> string option" where
  "url_parse rawURL =
     (let u = before CHR ''#'' rawURL; frag = after CHR ''#'' rawURL in
      if list_ex is_ctl u then None
      else do {
        h \<leftarrow> (if u = ''*'' then Some ''''
          else do {
            (scheme, rest0) \<leftarrow> get_scheme u '''' u;
            (let rest = before CHR ''?'' rest0 in
             if \<not> has_prefix rest ''/'' \<and> scheme \<noteq> '''' then Some ''''
             else if \<not> has_prefix rest ''/'' \<and> CHR '':'' \<in> set (before CHR ''/'' rest) then None
             else if (scheme \<noteq> '''' \<or> \<not> has_prefix rest ''///'') \<and> has_prefix rest ''//'' then
               (let authority = before CHR ''/'' (drop 2 rest);
                    path = drop (2 + length authority) rest in
                do {
                  host \<leftarrow> parse_authority authority;
                  _ \<leftarrow> unescape EncodeOther path;
                  Some host
                })
             else do { _ \<leftarrow> unescape EncodeOther rest; Some '''' })
          });
        _ \<leftarrow> unescape EncodeOther frag;
        Some h
      })"

lemma url_parse_examples:
  "url_parse ''https://kmip.example.org/kmip?x=1#f'' = Some ''kmip.example.org''"
  "url_parse ''https://user:pw@host:8443'' = Some ''host:8443''"
  "url_parse ''https://[::1]:5696/'' = Some ''[::1]:5696''"
  "url_parse ''://x'' = None" "url_parse ''http://a b/'' = None" "url_parse ''mailto:x@y'' = Some ''''"
  by code_simp+

section \<open>Path segments\<close>

fun split_on :: "char \<Rightarrow> string \<Rightarrow> string list" where
  "split_on c [] = [[]]"
| "split_on c (d # s) =
     (if d = c then [] # split_on c s
      else (case split_on c s of [] \<Rightarrow> [[d]] | t # ts \<Rightarrow> (d # t) # ts))"

lemma split_on_not_Nil [simp]: "split_on c s \<noteq> []"
  by (induction s) (auto split: list.splits)

lemma split_on_plain: "c \<notin> set s \<Longrightarrow> split_on c s = [s]"
  by (induction s) auto

lemma split_on_append: "c \<notin> set s \<Longrightarrow> split_on c (s @ c # t) = s # split_on c t"
  by (induction s) auto

text \<open>The decoded segments of a URL path, as a server sees them.\<close>

definition segments :: "string \<Rightarrow> string option list" where
  "segments p = map path_unescape (split_on CHR ''/'' p)"

lemma slash_path_escape [simp]: "CHR ''/'' \<notin> set (path_escape s)"
  using path_escape_plain [of "CHR ''/''" s] by auto

lemma segments_escape: "segments (path_escape s @ CHR ''/'' # t) = Some s # segments t"
  by (simp add: segments_def split_on_append path_unescape_escape)

end
