(* ===== verification/Platform.thy ===== *)
theory Platform
  imports Create_Laws Url
begin

text \<open>
  \<^verbatim>\<open>internal/platform/client.go\<close>: the control-plane client. Every request is authenticated by a
  freshly minted identity bound to a fresh challenge; the answers are grants and the discovery of
  the constellation.
\<close>

section \<open>The client and its attested requests\<close>

text \<open>The \<^verbatim>\<open>Attestor\<close> interface is one function from a challenge to a leaf and its quote.\<close>

type_synonym attestor = "byte list \<Rightarrow> (string + (byte list \<times> byte list)) io"

datatype client = Client (cl_base_url: string) (cl_attestor: attestor)

definition new_client :: "string \<Rightarrow> attestor \<Rightarrow> client" where
  "new_client baseURL attestor = Client (trim_right baseURL ''/'') attestor"

text \<open>\<^verbatim>\<open>binary.BigEndian.PutUint64\<close>.\<close>

definition put_uint64 :: "64 word \<Rightarrow> byte list" where
  "put_uint64 v = map (\<lambda>k. ucast (drop_bit k v)) [56, 48, 40, 32, 24, 16, 8, 0]"

definition makeChallenge :: "lib \<Rightarrow> byte list result io" where
  "makeChallenge L = do {
     t \<leftarrow> time_now L;
     r \<leftarrow> rand_read L 24;
     State_Monad.return (case r of
       Inl e \<Rightarrow> Inl (Ext e)
     | Inr bs \<Rightarrow> Inr (put_uint64 (word_of_int (t div second)) @ bs))
   }"

definition setAttestedAuth :: "lib \<Rightarrow> client \<Rightarrow> http_request \<Rightarrow> http_request result io" where
  "setAttestedAuth L c req = do {
     ch \<leftarrow> makeChallenge L;
     (case ch of
        Inl e \<Rightarrow> State_Monad.return (Inl e)
      | Inr challenge \<Rightarrow> do {
          i \<leftarrow> cl_attestor c challenge;
          State_Monad.return (case i of
            Inl e \<Rightarrow> Inl (Errorf ''mint attested identity: %w'' [AErr (Ext e)])
          | Inr (der, quote) \<Rightarrow> Inr (req\<lparr>hq_headers := hq_headers req @
              [(''X-Privasys-App-Identity'', b64_encode b64_std True der),
               (''X-Privasys-App-Challenge'', b64_encode b64_std True challenge),
               (''X-Privasys-App-Evidence'', b64_encode b64_std True quote)]\<rparr>))
        })
   }"

text \<open>\<^verbatim>\<open>http.NewRequestWithContext\<close> fails on a URL that does not parse.\<close>

definition new_request :: "string \<Rightarrow> string \<Rightarrow> json option \<Rightarrow> http_request result" where
  "new_request meth u body =
     (case url_parse u of
        None \<Rightarrow> Inl (Ext ''parse'')
      | Some _ \<Rightarrow> Inr \<lparr>hq_method = meth, hq_url = u, hq_headers = [], hq_body = body\<rparr>)"

section \<open>Grants\<close>

record grant_constellation =
  gc_endpoints :: "string list"
  gc_mrenclave :: string
  gc_attestation_server :: string
  gc_oidc_issuer :: string
  gc_threshold :: int

record grant_response =
  gr_key :: "string \<Rightarrow> json option"
  gr_grant :: string
  gr_constellation :: grant_constellation

definition zero_grant_response :: grant_response where
  "zero_grant_response = \<lparr>gr_key = (\<lambda>_. None), gr_grant = '''',
     gr_constellation = \<lparr>gc_endpoints = [], gc_mrenclave = '''', gc_attestation_server = '''',
       gc_oidc_issuer = '''', gc_threshold = 0\<rparr>\<rparr>"

definition constellation_fields :: "grant_constellation field list" where
  "constellation_fields =
     [(''endpoints'', list_field '''' (string_field (\<lambda>s _. s)) (\<lambda>x r. r\<lparr>gc_endpoints := x\<rparr>)),
      (''mrenclave'', string_field (\<lambda>x r. r\<lparr>gc_mrenclave := x\<rparr>)),
      (''attestation_server'', string_field (\<lambda>x r. r\<lparr>gc_attestation_server := x\<rparr>)),
      (''oidc_issuer'', string_field (\<lambda>x r. r\<lparr>gc_oidc_issuer := x\<rparr>)),
      (''threshold'', int_field (\<lambda>x r. r\<lparr>gc_threshold := x\<rparr>))]"

definition grant_fields :: "grant_response field list" where
  "grant_fields =
     [(''key'', map_field gr_key (\<lambda>m r. r\<lparr>gr_key := m\<rparr>)),
      (''grant'', string_field (\<lambda>x r. r\<lparr>gr_grant := x\<rparr>)),
      (''constellation'', struct_field gr_constellation (\<lambda>x r. r\<lparr>gr_constellation := x\<rparr>) constellation_fields)]"

definition toKeyGrant :: "grant_response \<Rightarrow> key_grant" where
  "toKeyGrant r =
     (let h = (case gr_key r ''handle'' of Some (JStr s) \<Rightarrow> s | _ \<Rightarrow> '''') in
      \<lparr>kg_handle = h, kg_grant = gr_grant r, kg_endpoints = gc_endpoints (gr_constellation r),
       kg_mrenclave = gc_mrenclave (gr_constellation r),
       kg_att_server = gc_attestation_server (gr_constellation r),
       kg_threshold = gc_threshold (gr_constellation r)\<rparr>)"

definition success :: "http_response \<Rightarrow> bool" where
  "success r \<longleftrightarrow> hs_code r div 100 = 2"

definition post :: "lib \<Rightarrow> client \<Rightarrow> string \<Rightarrow> json \<Rightarrow> grant_response result io" where
  "post L c path body =
     (case new_request ''POST'' (cl_base_url c @ path) (Some body) of
        Inl e \<Rightarrow> State_Monad.return (Inl e)
      | Inr req0 \<Rightarrow> do {
          a \<leftarrow> setAttestedAuth L c (req0\<lparr>hq_headers := [(''Content-Type'', ''application/json'')]\<rparr>);
          (case a of
             Inl e \<Rightarrow> State_Monad.return (Inl e)
           | Inr req \<Rightarrow> do {
               d \<leftarrow> http_do L req;
               State_Monad.return (case d of
                 Inl e \<Rightarrow> Inl (Ext e)
               | Inr resp \<Rightarrow>
                   if \<not> success resp then
                     Inl (Errorf ''platform %s: %s: %s''
                       [AStr path, AStr (hs_status resp), AStr (trim_space (hs_body resp))])
                   else (case decode_into grant_fields zero_grant_response (json_parse L (hs_body resp)) of
                     None \<Rightarrow> Inl (Errorf ''decode grant response: %w'' [AErr (Ext ''json'')])
                   | Some out \<Rightarrow> Inr out))
             })
        })"

definition mint_path_for :: "string \<Rightarrow> string" where
  "mint_path_for vaultID = ''/api/v1/keyvaults/'' @ path_escape vaultID @ ''/keys''"

definition clientMintKeyGrant :: "lib \<Rightarrow> client \<Rightarrow> string \<Rightarrow> string \<Rightarrow> string \<Rightarrow> string \<Rightarrow> bool \<Rightarrow> key_grant result io" where
  "clientMintKeyGrant L c vaultID name keyType cnf exportable = do {
     r \<leftarrow> post L c (mint_path_for vaultID)
       (JObj ([(''cnf_x5t_s256'', JStr cnf), (''exportable'', JBool exportable)]
         @ (if keyType \<noteq> '''' then [(''key_type'', JStr keyType)] else [])
         @ [(''name'', JStr name)]));
     State_Monad.return (case r of Inl e \<Rightarrow> Inl e | Inr g \<Rightarrow> Inr (toKeyGrant g))
   }"

definition rotate_path_for :: "string \<Rightarrow> string \<Rightarrow> string" where
  "rotate_path_for vaultID name =
     ''/api/v1/keyvaults/'' @ path_escape vaultID @ ''/keys/'' @ path_escape name @ ''/rotate''"

definition clientRotateKeyGrant :: "lib \<Rightarrow> client \<Rightarrow> string \<Rightarrow> string \<Rightarrow> string \<Rightarrow> key_grant result io" where
  "clientRotateKeyGrant L c vaultID name cnf = do {
     r \<leftarrow> post L c (rotate_path_for vaultID name) (JObj [(''cnf_x5t_s256'', JStr cnf)]);
     State_Monad.return (case r of Inl e \<Rightarrow> Inl e | Inr g \<Rightarrow> Inr (toKeyGrant g))
   }"

definition client_grantor :: "lib \<Rightarrow> client \<Rightarrow> grantor" where
  "client_grantor L c = Grantor (clientMintKeyGrant L c) (clientRotateKeyGrant L c)"

section \<open>Discovery\<close>

record discovery =
  dc_owner_vault_ids :: "string list"
  dc_endpoints :: "string list"
  dc_mrenclave :: string
  dc_att_server :: string
  dc_attestation_token :: string
  dc_att_token_expires_at :: int

fun owns_loop :: "string list \<Rightarrow> string \<Rightarrow> bool" where
  "owns_loop [] vaultID = False"
| "owns_loop (i # ids) vaultID = (if i = vaultID then True else owns_loop ids vaultID)"

definition owns :: "discovery \<Rightarrow> string \<Rightarrow> bool" where
  "owns d vaultID = owns_loop (dc_owner_vault_ids d) vaultID"

text \<open>The anonymous response struct of \<^verbatim>\<open>Discover\<close>; a vault is a struct with one string.\<close>

record discover_response =
  dr_vaults :: "string list"
  dr_constellation :: grant_constellation
  dr_attestation_token :: string
  dr_expires_at :: int

definition zero_discover_response :: discover_response where
  "zero_discover_response = \<lparr>dr_vaults = [], dr_constellation = gr_constellation zero_grant_response,
     dr_attestation_token = '''', dr_expires_at = 0\<rparr>"

definition discover_constellation_fields :: "grant_constellation field list" where
  "discover_constellation_fields =
     [(''endpoints'', list_field '''' (string_field (\<lambda>s _. s)) (\<lambda>x r. r\<lparr>gc_endpoints := x\<rparr>)),
      (''mrenclave'', string_field (\<lambda>x r. r\<lparr>gc_mrenclave := x\<rparr>)),
      (''attestation_server'', string_field (\<lambda>x r. r\<lparr>gc_attestation_server := x\<rparr>))]"

definition discover_fields :: "discover_response field list" where
  "discover_fields =
     [(''vaults'', list_field '''' (decode_struct [(''id'', string_field (\<lambda>s _. s))])
        (\<lambda>x r. r\<lparr>dr_vaults := x\<rparr>)),
      (''constellation'', struct_field dr_constellation (\<lambda>x r. r\<lparr>dr_constellation := x\<rparr>)
        discover_constellation_fields),
      (''attestation_token'', string_field (\<lambda>x r. r\<lparr>dr_attestation_token := x\<rparr>)),
      (''attestation_token_expires_at'', int_field (\<lambda>x r. r\<lparr>dr_expires_at := x\<rparr>))]"

definition discover :: "lib \<Rightarrow> client \<Rightarrow> discovery result io" where
  "discover L c =
     (case new_request ''GET'' (cl_base_url c @ ''/api/v1/keyvaults/operated'') None of
        Inl e \<Rightarrow> State_Monad.return (Inl e)
      | Inr req0 \<Rightarrow> do {
          a \<leftarrow> setAttestedAuth L c req0;
          (case a of
             Inl e \<Rightarrow> State_Monad.return (Inl e)
           | Inr req \<Rightarrow> do {
               d \<leftarrow> http_do L req;
               State_Monad.return (case d of
                 Inl e \<Rightarrow> Inl (Ext e)
               | Inr resp \<Rightarrow>
                   if \<not> success resp then
                     Inl (Errorf ''discover vaults %s: %s''
                       [AStr (hs_status resp), AStr (trim_space (hs_body resp))])
                   else (case decode_into discover_fields zero_discover_response
                            (json_parse L (hs_body resp)) of
                     None \<Rightarrow> Inl (Errorf ''decode discovery: %w'' [AErr (Ext ''json'')])
                   | Some out \<Rightarrow> Inr
                       \<lparr>dc_owner_vault_ids = dr_vaults out,
                        dc_endpoints = gc_endpoints (dr_constellation out),
                        dc_mrenclave = gc_mrenclave (dr_constellation out),
                        dc_att_server = gc_attestation_server (dr_constellation out),
                        dc_attestation_token = dr_attestation_token out,
                        dc_att_token_expires_at = dr_expires_at out\<rparr>))
             })
        })"

end
