(* ===== verification/Platform_Laws.thy ===== *)
theory Platform_Laws
  imports Platform
begin

text \<open>
  What the control-plane client guarantees: each HTTP request carries an identity minted for the
  32-byte challenge that stands in its header, path parameters stay one path segment, and a grant
  comes only from a request that was sent. The \<^verbatim>\<open>Attestor\<close> interface is a locale; a client over any
  attestor is a grantor, so the creation laws apply to it.
\<close>

section \<open>Challenges\<close>

lemma length_put_uint64 [simp]: "length (put_uint64 v) = 8"
  by (simp add: put_uint64_def)

text \<open>Reading the big-endian seconds back, as the control plane does.\<close>

definition read_uint64 :: "byte list \<Rightarrow> 64 word" where
  "read_uint64 bs = foldl (\<lambda>acc b. push_bit 8 acc OR ucast b) 0 (take 8 bs)"

lemma read_put_uint64: "read_uint64 (put_uint64 v @ bs) = v" for v :: "64 word"
proof -
  have "read_uint64 (put_uint64 v @ bs) = foldl (\<lambda>acc b. push_bit 8 acc OR ucast b) (0 :: 64 word) (put_uint64 v)"
    by (simp add: read_uint64_def)
  also have "\<dots> = v"
  proof (rule bit_word_eqI)
    fix n :: nat assume "n < LENGTH(64)"
    then consider "n < 8" | "8 \<le> n" "n < 16" | "16 \<le> n" "n < 24" | "24 \<le> n" "n < 32"
      | "32 \<le> n" "n < 40" | "40 \<le> n" "n < 48" | "48 \<le> n" "n < 56" | "56 \<le> n" "n < 64" by fastforce
    then show "bit (foldl (\<lambda>acc b. push_bit 8 acc OR ucast b) (0 :: 64 word) (put_uint64 v)) n = bit v n"
      by cases (auto simp: put_uint64_def bit_simps)
  qed
  finally show ?thesis .
qed

definition challenge_of :: "byte list result \<Rightarrow> bool" where
  "challenge_of r \<longleftrightarrow> (\<forall>ch. r = Inr ch \<longrightarrow> length ch = 32)"

lemma makeChallenge_emits:
  "emits (makeChallenge L) (\<lambda>r es. es = [EvClock, EvRand 24] \<and> challenge_of r)"
  unfolding makeChallenge_def time_now_def rand_read_def challenge_of_def
  by (auto intro!: emits_call_bind emits_return split: sum.splits option.splits)

section \<open>Attested requests\<close>

text \<open>The three credential headers, the challenge one for the challenge that was quoted.\<close>

definition carries :: "http_request \<Rightarrow> byte list \<Rightarrow> bool" where
  "carries q ch \<longleftrightarrow>
     map_of (hq_headers q) ''X-Privasys-App-Challenge'' = Some (b64_encode b64_std True ch)
     \<and> map_of (hq_headers q) ''X-Privasys-App-Identity'' \<noteq> None
     \<and> map_of (hq_headers q) ''X-Privasys-App-Evidence'' \<noteq> None"

fun attested_trace :: "event list \<Rightarrow> bool" where
  "attested_trace [] = True"
| "attested_trace [EvClock, EvRand n] = (n = 24)"
| "attested_trace [EvClock, EvRand n, EvIdentity i ch] = (n = 24 \<and> length ch = 32)"
| "attested_trace [EvClock, EvRand n, EvIdentity i ch, EvHTTP q] =
     (n = 24 \<and> length ch = 32 \<and> carries q ch)"
| "attested_trace es = False"

fun request_of :: "event list \<Rightarrow> http_request option" where
  "request_of [EvClock, EvRand n, EvIdentity i ch, EvHTTP q] = Some q"
| "request_of es = None"

lemma attested_trace_control: "attested_trace es \<Longrightarrow> list_all control_plane es"
  by (elim attested_trace.elims) auto

lemma request_of_http: "request_of es = Some q \<Longrightarrow> list_ex is_http es"
  by (elim request_of.elims) auto

text \<open>One request to \<open>u\<close>: at most one HTTP call, attested, and a result only if it was made.\<close>

definition exchange :: "string \<Rightarrow> string \<Rightarrow> 'a result \<Rightarrow> event list \<Rightarrow> bool" where
  "exchange meth u r es \<longleftrightarrow> attested_trace es \<and>
     (case request_of es of
        None \<Rightarrow> (\<forall>x. r \<noteq> Inr x)
      | Some q \<Rightarrow> hq_method q = meth \<and> hq_url q = u)"

lemma exchange_grant_trace: "exchange meth u r es \<Longrightarrow> grant_trace r es"
  by (auto simp: exchange_def grant_trace_def attested_trace_control
    intro: request_of_http split: option.splits)

lemma exchange_map:
  "exchange meth u r es \<Longrightarrow> exchange meth u (case r of Inl e \<Rightarrow> Inl e | Inr g \<Rightarrow> Inr (f g)) es"
  by (auto simp: exchange_def split: option.splits sum.splits)

locale attestor_iface =
  fixes header_id :: attestor
  assumes header_id_minted: "emits (header_id ch) (\<lambda>r es. \<exists>i. es = [EvIdentity i ch])"
begin

lemma setAttestedAuth_emits:
  assumes "set (map fst (hq_headers req)) \<subseteq> {''Content-Type''}"
  shows "emits (setAttestedAuth L (Client b header_id) req) (\<lambda>r es. attested_trace es \<and>
    (case r of Inl _ \<Rightarrow> request_of es = None
     | Inr q \<Rightarrow> \<exists>i ch. es = [EvClock, EvRand 24, EvIdentity i ch] \<and> carries q ch
         \<and> hq_method q = hq_method req \<and> hq_url q = hq_url req \<and> hq_body q = hq_body req))"
proof -
  have "map_of (hq_headers req) k = None" if "k \<noteq> ''Content-Type''" for k
    using assms that by (auto simp: map_of_eq_None_iff)
  then show ?thesis
    unfolding setAttestedAuth_def
    by (auto intro!: emits_bind [OF makeChallenge_emits] emits_bind [OF header_id_minted] emits_return
      simp: challenge_of_def carries_def map_add_def split: sum.splits prod.splits)
qed

lemma post_emits:
  "emits (post L (Client b header_id) path body) (exchange ''POST'' (b @ path))"
  unfolding post_def http_do_def
  by (auto simp: new_request_def exchange_def
    intro!: emits_bind [OF setAttestedAuth_emits] emits_call_bind emits_return split: option.split sum.splits)

lemma discover_emits:
  "emits (discover L (Client b header_id)) (exchange ''GET'' (b @ ''/api/v1/keyvaults/operated''))"
  unfolding discover_def http_do_def
  by (auto simp: new_request_def exchange_def
    intro!: emits_bind [OF setAttestedAuth_emits] emits_call_bind emits_return split: option.split sum.splits)

lemma mint_emits:
  "emits (clientMintKeyGrant L (Client b header_id) v n k c x) (exchange ''POST'' (b @ mint_path_for v))"
  unfolding clientMintKeyGrant_def
  by (auto intro!: emits_bind [OF post_emits] emits_return exchange_map)

lemma rotate_emits:
  "emits (clientRotateKeyGrant L (Client b header_id) v n c) (exchange ''POST'' (b @ rotate_path_for v n))"
  unfolding clientRotateKeyGrant_def
  by (auto intro!: emits_bind [OF post_emits] emits_return exchange_map)

end

text \<open>A client over an attestor is a grantor.\<close>

locale platform_client = attestor_iface header_id for header_id :: attestor +
  fixes L :: lib and base :: string

sublocale platform_client \<subseteq> grantor_iface
  "clientMintKeyGrant L (Client base header_id)" "clientRotateKeyGrant L (Client base header_id)"
  by unfold_locales (rule emits_mono [OF mint_emits] emits_mono [OF rotate_emits],
    erule exchange_grant_trace)+

text \<open>The manager's minter is the attestor of the gateway.\<close>

interpretation manager: platform_client "header_identity L m" L base for L m base
  by unfold_locales (auto simp: header_identity_def header_evidence_def intro: emits_call)

section \<open>Path parameters\<close>

lemma mint_path_segments:
  "segments (mint_path_for v) = map Some ['''', ''api'', ''v1'', ''keyvaults'', v, ''keys'']"
proof -
  have "split_on CHR ''/'' (path_escape v @ ''/keys'') = [path_escape v, ''keys'']"
    using split_on_append [of "CHR ''/''" "path_escape v" "''keys''"] by simp
  then show ?thesis
    by (simp add: segments_def mint_path_for_def path_unescape_escape)
qed

lemma rotate_path_segments:
  "segments (rotate_path_for v n) =
     map Some ['''', ''api'', ''v1'', ''keyvaults'', v, ''keys'', n, ''rotate'']"
proof -
  have "split_on CHR ''/'' (path_escape n @ ''/rotate'') = [path_escape n, ''rotate'']"
    using split_on_append [of "CHR ''/''" "path_escape n" "''rotate''"] by simp
  then have "split_on CHR ''/'' (path_escape v @ ''/keys/'' @ path_escape n @ ''/rotate'')
      = [path_escape v, ''keys'', path_escape n, ''rotate'']"
    using split_on_append [of "CHR ''/''" "path_escape v" "''keys/'' @ path_escape n @ ''/rotate''"] by simp
  then show ?thesis
    by (simp add: segments_def rotate_path_for_def path_unescape_escape)
qed

end
