(* ===== verification/Kmip_Laws.thy ===== *)
theory Kmip_Laws
  imports Kmip_Server Platform_Laws
begin

text \<open>
  What the KMIP operations guarantee over any vault. \<^verbatim>\<open>control.Vault\<close> is the locale \<open>control_vault\<close> and
  \<^verbatim>\<open>kmip.Vault\<close> extends it; \<open>ok name es\<close> is the provider's promise about the events of an operation on
  the key \<open>name\<close>. The gateway's attested session is the instance.
\<close>

section \<open>The vault interfaces\<close>

locale control_vault =
  fixes create :: "string \<Rightarrow> string \<Rightarrow> bool \<Rightarrow> string result io"
    and sign_op :: "string \<Rightarrow> byte list \<Rightarrow> (byte list \<times> string) result io"
    and info :: "string \<Rightarrow> key_info result io"
    and ok :: "string \<Rightarrow> event list \<Rightarrow> bool"
  assumes create_ok: "emits (create n kt x) (\<lambda>r. ok n)"
    and sign_ok: "emits (sign_op n m) (\<lambda>r. ok n)"
    and info_ok: "emits (info n) (\<lambda>r. ok n)"
    and ok_local: "control_plane e \<Longrightarrow> ok n es \<Longrightarrow> ok n (e # es)"

locale kmip_vault = control_vault +
  fixes wrap_op :: "string \<Rightarrow> byte list \<Rightarrow> (byte list \<times> byte list) result io"
    and unwrap_op :: "string \<Rightarrow> byte list \<Rightarrow> byte list \<Rightarrow> byte list result io"
    and destroy_op :: "string \<Rightarrow> unit result io"
  assumes wrap_ok: "emits (wrap_op n p) (\<lambda>r. ok n)"
    and unwrap_ok: "emits (unwrap_op n c iv) (\<lambda>r. ok n)"
    and destroy_ok: "emits (destroy_op n) (\<lambda>r. ok n)"

text \<open>
  An outcome for the identifier \<open>uid\<close>: an \<^const>\<open>InvalidField\<close> failure is the gateway's own and nothing
  was done; every other outcome is that of an operation on \<open>uid\<close>, which was given.
\<close>

definition served :: "(string \<Rightarrow> event list \<Rightarrow> bool) \<Rightarrow> string \<Rightarrow> item_result \<Rightarrow> event list \<Rightarrow> bool" where
  "served ok uid r es \<longleftrightarrow>
     (\<exists>e. r = Inl e \<and> reason_of e = InvalidField \<and> es = [])
     \<or> uid \<noteq> '''' \<and> ok uid es \<and> (\<forall>e. r = Inl e \<longrightarrow> reason_of e \<noteq> InvalidField)"

lemma reason_of_fail [simp]: "reason_of (fail r f a) = r"
  by (simp add: fail_def)

lemma reason_of_unsupported [simp]: "reason_of unsupported = InvalidField"
  by (simp add: unsupported_def)

text \<open>A creation serves the name it reports, and only a success moves the placeholder.\<close>

definition created :: "(string \<Rightarrow> event list \<Rightarrow> bool) \<Rightarrow> create_request option \<Rightarrow> kmip_lib \<Rightarrow> request
    \<Rightarrow> item_result \<times> request \<Rightarrow> event list \<Rightarrow> bool" where
  "created ok p K req out es \<longleftrightarrow>
     (case out of (r, req') \<Rightarrow>
        (\<exists>name. served ok name r es
           \<and> (\<forall>q. p = Some q \<longrightarrow> requestedName K (cr_template q) \<in> {'''', name})
           \<and> (case r of
                Inl e \<Rightarrow> req' = req
              | Inr pl \<Rightarrow> (\<exists>q. p = Some q \<and> pl = CreateResponse (cr_object_type q) name)
                  \<and> req' = req\<lparr>rq_id_placeholder := name\<rparr>)))"

lemma created_refused:
  "reason_of e = InvalidField \<Longrightarrow> p = None \<or> (\<exists>q. p = Some q) \<Longrightarrow> created ok p K req (Inl e, req) []"
  by (cases p) (auto simp: created_def served_def)

lemma created_run:
  assumes "name \<noteq> ''''" "ok name es" "requestedName K (cr_template q) \<in> {'''', name}"
  shows "created ok (Some q) K req
    (case r of
       Inl e \<Rightarrow> (Inl (fail GeneralFailure ''create %q: %v'' [AStr name, AErr e]), req)
     | Inr x \<Rightarrow> (Inr (CreateResponse (cr_object_type q) name), req\<lparr>rq_id_placeholder := name\<rparr>)) es"
  using assms by (auto simp: created_def served_def split: sum.split)

context kmip_vault
begin

abbreviation provider :: vault where
  "provider \<equiv> Vault create wrap_op unwrap_op sign_op info destroy_op"

lemma handleCreate_emits:
  "emits (handleCreate L K provider req)
     (created ok (case decode_create K (rq_payload req) of Inl _ \<Rightarrow> None | Inr p \<Rightarrow> Some p) K req)"
proof (cases "decode_create K (rq_payload req)")
  case (Inl e)
  then show ?thesis
    by (auto simp: handleCreate_def intro!: emits_return created_refused)
next
  case (Inr p)
  show ?thesis
  proof (cases "keyTypeFor K p")
    case (Inl e)
    with Inr show ?thesis
      using keyTypeFor_error [OF Inl]
      by (auto simp: handleCreate_def intro!: emits_return created_refused)
  next
    case kt: (Inr keyType)
    show ?thesis
      using Inr kt
      by (auto simp: handleCreate_def generateName_def uuid_new_def
        intro!: emits_call_bind emits_bind [OF create_ok] emits_return emits_return_bind created_run ok_local)
  qed
qed

lemma handleDestroy_emits: "emits (handleDestroy provider uid) (served ok uid)"
  unfolding handleDestroy_def
  by (auto intro!: emits_return emits_bind [OF destroy_ok] simp: served_def split: sum.splits)

lemma handleEncrypt_emits:
  assumes "decode_encrypt K (rq_payload req) = Inr p"
  shows "emits (handleEncrypt K provider req) (\<lambda>(r, req') es. req' = req \<and> served ok (er_uid p) r es)"
  unfolding handleEncrypt_def
  using assms by (auto intro!: emits_return emits_bind [OF wrap_ok] simp: served_def split: sum.splits)

lemma handleDecrypt_emits:
  assumes "decode_decrypt K (rq_payload req) = Inr p"
  shows "emits (handleDecrypt K provider req) (\<lambda>(r, req') es. req' = req \<and> served ok (er_uid p) r es)"
  unfolding handleDecrypt_def
  using assms by (auto intro!: emits_return emits_bind [OF unwrap_ok] simp: served_def split: sum.splits)

lemma handleSign_emits:
  assumes "decode_sign K (rq_payload req) = Inr p"
  shows "emits (handleSign K provider req) (\<lambda>(r, req') es. req' = req \<and> served ok (sr_uid p) r es)"
  unfolding handleSign_def
  using assms by (auto intro!: emits_return emits_bind [OF sign_ok] simp: served_def split: sum.splits)

lemma handleGetAttributes_emits:
  assumes "decode_get_attributes K (rq_payload req) = Inr p"
  shows "emits (handleGetAttributes K provider req) (\<lambda>(r, req') es. req' = req \<and> served ok (ga_uid p) r es)"
  unfolding handleGetAttributes_def
  using assms by (auto intro!: emits_return emits_bind [OF info_ok] simp: served_def split: sum.splits prod.splits)

end

section \<open>The gateway's session as the vault\<close>

text \<open>The session the gateway installs: app identity, and the attested client as the grantor.\<close>

definition attested_session :: "lib \<Rightarrow> config \<Rightarrow> egress_identity \<Rightarrow> string \<Rightarrow> session" where
  "attested_session L cfg m base =
     new_session cfg (Some (client_grantor L (Client base (header_identity L m))))"

text \<open>
  Local or control-plane work, then either the loop over the endpoints on the key's own handle or a
  creation; in both cases every connection is used while open and closed once.
\<close>

definition session_trace :: "session \<Rightarrow> string \<Rightarrow> event list \<Rightarrow> bool" where
  "session_trace s name es \<longleftrightarrow>
     (\<exists>pre rest. es = pre @ rest \<and> list_all control_plane pre
        \<and> (key_trace s name rest \<or> (\<exists>r. create_trace r rest)))"

lemma session_trace_key: "key_trace s name es \<Longrightarrow> session_trace s name es"
  unfolding session_trace_def by (intro exI [of _ "[]"] exI [of _ es]) simp

lemma session_trace_create: "create_trace r es \<Longrightarrow> session_trace s name es"
  unfolding session_trace_def by (intro exI [of _ "[]"] exI [of _ es]) auto

lemma session_trace_local: "control_plane e \<Longrightarrow> session_trace s name es \<Longrightarrow> session_trace s name (e # es)"
  unfolding session_trace_def by (metis append_Cons list.pred_inject(2))

lemma session_trace_disciplined: "session_trace s name es \<Longrightarrow> disciplined es"
  unfolding session_trace_def key_trace_def
  by (auto intro!: disciplined_append intro: create_trace_disciplined disciplined_off_vault
    control_plane_off_vault)

lemma attested_createKey_emits: "emits (createKey L (attested_session L cfg m base) n kt x) create_trace"
  by (rule manager.createKey_emits) (simp add: attested_session_def new_session_def client_grantor_def)

interpretation gateway: kmip_vault
    "createKey L (attested_session L cfg m base)" "sign L (attested_session L cfg m base)"
    "getKeyInfo L (attested_session L cfg m base)" "session_trace (attested_session L cfg m base)"
    "wrap L (attested_session L cfg m base)" "unwrap L (attested_session L cfg m base)"
    "destroy L (attested_session L cfg m base)" for L cfg m base
  by unfold_locales
    (auto intro: session_trace_local emits_mono [OF attested_createKey_emits session_trace_create]
      emits_mono [OF sign_emits session_trace_key] emits_mono [OF getKeyInfo_emits session_trace_key]
      emits_mono [OF wrap_emits session_trace_key] emits_mono [OF unwrap_emits session_trace_key]
      emits_mono [OF destroy_emits session_trace_key])

end
