(* ===== verification/Samples.thy ===== *)
theory Samples
  imports Kmip_Laws
begin

text \<open>
  A small concrete world, at which the hypotheses of the properties hold: two endpoints, of which the
  second holds every key; a toy cipher; a clock and an entropy source that do not move.
\<close>

definition sample_lib :: lib where
  "sample_lib = \<lparr>
     lib_dial = (\<lambda>h ep opts. if ep = ''down:443'' then Inl ''connection refused''
       else Inr (if ep = ''v2:443'' then 2 else 1)),
     lib_create_key = (\<lambda>h c hd m g. Inr ()),
     lib_wrap = (\<lambda>h c hd pt aad iv. if c = 2 then Inr (rev pt, [7]) else Inl ''key not found''),
     lib_unwrap = (\<lambda>h c hd ct iv aad. if c = 2 then Inr (rev ct) else Inl ''key not found''),
     lib_sign = (\<lambda>h c hd m. if c = 2 then Inr (1 # m, ''ES256'') else Inl ''key not found''),
     lib_key_info = (\<lambda>h c hd. if c = 2 then Inr \<lparr>ki_type = Aes256GcmKey, ki_public_key = []\<rparr>
       else Inl ''key not found''),
     lib_delete_key = (\<lambda>h c hd. if c = 2 then Inr () else Inl ''key not found''),
     lib_http = (\<lambda>h q. Inr \<lparr>hs_code = 200, hs_status = ''200 OK'', hs_body = ''''\<rparr>),
     lib_identity = (\<lambda>h i ch. Inr ([1], [2])),
     lib_gen_key = (\<lambda>h. Inr [3]),
     lib_marshal_key = (\<lambda>k. Inr (4 # k)),
     lib_rand = (\<lambda>h i. word_of_nat i),
     lib_rand_error = (\<lambda>h. None),
     lib_cert = (\<lambda>h t k. Inr [5]),
     lib_parse_cert = (\<lambda>d. True),
     lib_sha256 = (\<lambda>d. replicate 32 6),
     lib_now = (\<lambda>h. 1700000000000000000),
     lib_uuid = (\<lambda>h. ''u''),
     key_const = (\<lambda>k. ''''),
     json_parse = (\<lambda>s. Some (JObj [])), json_decode = (\<lambda>s fails. Some (JObj []))\<rparr>"

definition sample_config :: config where
  "sample_config = \<lparr>cfg_vault_id = ''v1'', cfg_endpoints = [''down:443'', ''v1:443'', ''v2:443''],
     cfg_mrenclave = replicate 64 CHR ''a'', cfg_att_server = ''as'', cfg_att_token = ''t'',
     cfg_owner_token = '''', cfg_owner_sub = '''', cfg_app_id = ''app'',
     cfg_manager_url = ''http://localhost:9443/api/v1/vault-identity'', cfg_identity_token = ''secret''\<rparr>"

definition sample_minter :: egress_identity where
  "sample_minter = \<lparr>ei_base = ''http://localhost:9443'', ei_token = ''secret''\<rparr>"

definition sample_session :: session where
  "sample_session = attested_session sample_lib sample_config sample_minter ''https://api''"

definition sample_opts :: dial_opts where
  "sample_opts = no_opts\<lparr>do_get_client_certificate := Some sample_minter,
     do_client_evidence := Some sample_minter,
     do_vault_policy := Some \<lparr>vp_tee = TeeTypeSGX, vp_mrenclave = replicate 32 170, vp_allow_debug = False,
       vp_quote = Some \<lparr>qv_endpoint = ''as'', qv_token = ''t''\<rparr>\<rparr>\<rparr>"

lemma sample_mrenclave: "hex_decode (replicate 64 CHR ''a'') = Some (replicate 32 170)"
  by code_simp

lemma sample_new_minter:
  "new_minter ''http://localhost:9443/api/v1/vault-identity'' ''secret'' = sample_minter"
  by code_simp

lemma sample_dialOpts: "dialOpts sample_session = Inr sample_opts"
  by (simp add: dialOpts_def sample_session_def attested_session_def new_session_def sample_config_def
    sample_mrenclave sample_new_minter sample_opts_def minter_get_client_certificate_def
    minter_client_evidence_def)

end
