(* ===== verification/Routing.thy ===== *)
theory Routing
  imports Url
begin

text \<open>
  \<^verbatim>\<open>Handler\<close> of \<^verbatim>\<open>internal/control/server.go\<close>: which handler \<^verbatim>\<open>net/http.ServeMux\<close> runs for the patterns
  the gateway registers. Paths are clean lists of segments; a redirect leads to one and is the last.
\<close>

section \<open>Clean paths\<close>

text \<open>\<^verbatim>\<open>path.Clean\<close> on a rooted path, and \<^verbatim>\<open>cleanPath\<close>, which keeps a trailing slash.\<close>

fun clean_segments :: "string list \<Rightarrow> string list \<Rightarrow> string list" where
  "clean_segments out [] = rev out"
| "clean_segments out (s # ss) =
     (if s = '''' \<or> s = ''.'' then clean_segments out ss
      else if s = ''..'' then clean_segments (drop 1 out) ss
      else clean_segments (s # out) ss)"

definition clean_path :: "string \<Rightarrow> string" where
  "clean_path p =
     (if p = '''' then ''/''
      else (let p = (if has_prefix p ''/'' then p else CHR ''/'' # p);
                segs = clean_segments [] (split_on CHR ''/'' p);
                np = (if segs = [] then ''/'' else concat (map (\<lambda>s. CHR ''/'' # s) segs))
            in if has_suffix p ''/'' \<and> np \<noteq> ''/'' then np @ ''/'' else np))"

text \<open>
  The location of a redirect: the clean path, escaped by \<^verbatim>\<open>URL.String\<close> like any path, although it is an
  escaped path already.
\<close>

fun location :: "string \<Rightarrow> string" where
  "location [] = []"
| "location (c # s) =
     (if unreserved c \<or> c \<in> set ''$&+,/:;=@'' then c # location s
      else CHR ''%'' # upper_hex ! (of_char c div 16) # upper_hex ! (of_char c mod 16) # location s)"

section \<open>The patterns\<close>

datatype route =
    RHealth | RVersion | RRoot | RConfigure | RKmip | RKeys | RSign | RPublic
  | RRedirect string | RMethodNotAllowed

text \<open>
  The patterns of \<^verbatim>\<open>Handler\<close>: the literal ones have one segment, \<^verbatim>\<open>GET /\<close> matches every path, and a
  pattern for GET also serves HEAD. A segment is compared unescaped.
\<close>

definition patterns :: "string \<Rightarrow> (string \<times> route) list" where
  "patterns meth =
     (if meth = ''GET'' \<or> meth = ''HEAD'' then [(''health'', RHealth), (''version'', RVersion)]
      else if meth = ''POST'' then
        [(''configure'', RConfigure), (''kmip'', RKmip), (''keys'', RKeys), (''sign'', RSign), (''public'', RPublic)]
      else [])"

definition single_segment :: "string \<Rightarrow> string option" where
  "single_segment p =
     (case split_on CHR ''/'' p of
        [_, s] \<Rightarrow> Some (case path_unescape s of Some u \<Rightarrow> u | None \<Rightarrow> s)
      | _ \<Rightarrow> None)"

definition route_of :: "string \<Rightarrow> string \<Rightarrow> route" where
  "route_of meth p =
     (let cp = (if meth = ''CONNECT'' then p else clean_path p) in
      if cp \<noteq> p then RRedirect cp
      else case Option.bind (single_segment cp) (map_of (patterns meth)) of
        Some r \<Rightarrow> r
      | None \<Rightarrow> if meth = ''GET'' \<or> meth = ''HEAD'' then RRoot else RMethodNotAllowed)"

lemma route_examples:
  "route_of ''GET'' ''/health'' = RHealth" "route_of ''HEAD'' ''/version'' = RVersion"
  "route_of ''GET'' ''/'' = RRoot" "route_of ''GET'' ''/health/'' = RRoot" "route_of ''GET'' ''/kmip'' = RRoot"
  "route_of ''POST'' ''/kmip'' = RKmip" "route_of ''POST'' ''/k%6Dip'' = RKmip"
  "route_of ''POST'' ''/health'' = RMethodNotAllowed" "route_of ''PUT'' ''/kmip'' = RMethodNotAllowed"
  "route_of ''POST'' ''//x/../sign'' = RRedirect ''/sign''"
  by code_simp+

section \<open>Canonical paths\<close>

text \<open>A segment that cleaning keeps, and the path of a list of segments with or without a final slash.\<close>

definition proper :: "string \<Rightarrow> bool" where
  "proper s \<longleftrightarrow> s \<noteq> '''' \<and> s \<noteq> ''.'' \<and> s \<noteq> ''..'' \<and> CHR ''/'' \<notin> set s"

definition joined :: "string list \<Rightarrow> string" where
  "joined segs = concat (map (\<lambda>s. CHR ''/'' # s) segs)"

definition canonical :: "string list \<Rightarrow> bool \<Rightarrow> string" where
  "canonical segs slash = (if segs = [] then ''/'' else joined segs @ (if slash then ''/'' else ''''))"

lemma split_on_parts: "s \<in> set (split_on c t) \<Longrightarrow> c \<notin> set s"
  by (induction t arbitrary: s) (auto split: if_splits list.splits)

lemma clean_segments_proper:
  "list_all proper out \<Longrightarrow> \<forall>s\<in>set ss. CHR ''/'' \<notin> set s \<Longrightarrow> list_all proper (clean_segments out ss)"
proof (induction out ss rule: clean_segments.induct)
  case (2 out s ss)
  moreover have "list_all proper (drop 1 out)" using 2(4) by (cases out) simp_all
  moreover have "s \<noteq> '''' \<Longrightarrow> s \<noteq> ''.'' \<Longrightarrow> s \<noteq> ''..'' \<Longrightarrow> proper s" using 2(5) by (simp add: proper_def)
  ultimately show ?case by simp
qed (simp add: list_all_iff)

lemma clean_segments_id: "list_all proper ss \<Longrightarrow> clean_segments out ss = rev out @ ss"
  by (induction ss arbitrary: out) (simp_all add: proper_def)

lemma clean_segments_snoc: "list_all proper ss \<Longrightarrow> clean_segments out (ss @ ['''']) = rev out @ ss"
  by (induction ss arbitrary: out) (simp_all add: proper_def)

lemma split_on_joined:
  "list_all proper ss \<Longrightarrow> CHR ''/'' \<notin> set t \<Longrightarrow> split_on CHR ''/'' (t @ joined ss) = t # ss"
proof (induction ss arbitrary: t)
  case Nil
  then show ?case by (simp add: joined_def split_on_plain)
next
  case (Cons s ss)
  then have "split_on CHR ''/'' (s @ joined ss) = s # ss" by (simp add: proper_def)
  with Cons.prems split_on_append [of "CHR ''/''" t "s @ joined ss"] show ?case by (simp add: joined_def)
qed

lemma split_on_snoc: "split_on c (s @ [c]) = split_on c s @ [[]]"
  by (induction s) (auto split: list.splits)

lemma joined_shape: "segs \<noteq> [] \<Longrightarrow> has_prefix (joined segs @ t) ''/'' \<and> joined segs \<noteq> ''''"
  by (cases segs) (simp_all add: joined_def has_prefix_def)

lemma joined_no_suffix: "list_all proper segs \<Longrightarrow> segs \<noteq> [] \<Longrightarrow> \<not> has_suffix (joined segs) ''/''"
proof (induction segs rule: rev_induct)
  case (snoc s segs)
  then have "s \<noteq> ''''" "CHR ''/'' \<notin> set s" by (simp_all add: proper_def)
  then obtain t c where "s = t @ [c]" "c \<noteq> CHR ''/''" by (cases s rule: rev_cases) auto
  then show ?case by (simp add: joined_def has_suffix_append)
qed simp

lemma joined_not_root: "list_all proper segs \<Longrightarrow> joined segs \<noteq> ''/''"
  by (cases segs) (auto simp: joined_def proper_def)

lemma clean_path_canonical:
  assumes "list_all proper segs"
  shows "clean_path (canonical segs slash) = canonical segs slash"
proof (cases "segs = []")
  case True
  have "clean_path ''/'' = ''/''" by code_simp
  with True show ?thesis by (simp add: canonical_def)
next
  case False
  have s: "split_on CHR ''/'' (joined segs) = '''' # segs" using split_on_joined [OF assms, of "''''"] by simp
  have "clean_segments [] (split_on CHR ''/'' (canonical segs slash)) = segs"
    using assms False by (simp add: canonical_def s split_on_snoc clean_segments_id clean_segments_snoc)
  with False assms joined_shape [OF False] joined_no_suffix [OF assms False] joined_not_root [OF assms] show ?thesis
    by (simp add: clean_path_def canonical_def Let_def joined_def [symmetric] has_suffix_append)
qed

lemma clean_path_shape: "\<exists>segs slash. list_all proper segs \<and> clean_path p = canonical segs slash"
proof (cases "p = ''''")
  case True
  then show ?thesis by (intro exI [of _ "[]"]) (simp add: clean_path_def canonical_def)
next
  case False
  let ?q = "if has_prefix p ''/'' then p else CHR ''/'' # p"
  let ?segs = "clean_segments [] (split_on CHR ''/'' ?q)"
  have ok: "list_all proper ?segs" by (rule clean_segments_proper) (auto dest: split_on_parts)
  have "clean_path p = canonical ?segs (has_suffix ?q ''/'')"
    using False joined_not_root [OF ok] by (simp add: clean_path_def canonical_def Let_def joined_def [symmetric])
  with ok show ?thesis by blast
qed

lemma clean_path_idem: "clean_path (clean_path p) = clean_path p"
proof -
  obtain segs slash where "list_all proper segs" "clean_path p = canonical segs slash"
    using clean_path_shape by blast
  then show ?thesis by (simp add: clean_path_canonical)
qed

section \<open>Redirects\<close>

lemma location_append: "location (s @ t) = location s @ location t"
  by (induction s) simp_all

lemma location_slash: "location ''/'' = ''/''"
  by code_simp

lemma location_dots:
  "location s = '''' \<longleftrightarrow> s = ''''" "location s = ''.'' \<longleftrightarrow> s = ''.''" "location s = ''..'' \<longleftrightarrow> s = ''..''"
proof -
  have 0: "location s = '''' \<longleftrightarrow> s = ''''" for s by (cases s) simp_all
  have 1: "location s = ''.'' \<longleftrightarrow> s = ''.''" for s by (cases s) (auto simp: 0 unreserved_def)
  have "location s = ''..'' \<longleftrightarrow> s = ''..''" by (cases s) (auto simp: 1 unreserved_def)
  with 0 1 show "location s = '''' \<longleftrightarrow> s = ''''" "location s = ''.'' \<longleftrightarrow> s = ''.''"
    "location s = ''..'' \<longleftrightarrow> s = ''..''" by blast+
qed

lemma location_proper: "proper s \<Longrightarrow> proper (location s)"
proof -
  assume s: "proper s"
  have slash: "CHR ''/'' \<notin> set t \<Longrightarrow> CHR ''/'' \<notin> set (location t)" for t
    using upper_hex_plain of_char_bound
    by (induction t) (auto simp: less_mult_imp_div_less eq_commute [of "CHR ''/''"])
  with s show ?thesis by (simp add: proper_def location_dots)
qed

lemma location_joined: "location (joined segs) = joined (map location segs)"
  by (induction segs) (simp_all add: joined_def location_append)

lemma location_canonical: "location (canonical segs slash) = canonical (map location segs) slash"
  by (simp add: canonical_def location_joined location_append location_slash)

lemma location_clean:
  assumes "clean_path p = p"
  shows "clean_path (location p) = location p"
proof -
  obtain segs slash where c: "list_all proper segs" "p = canonical segs slash"
    using clean_path_shape [of p] assms by auto
  then have "list_all proper (map location segs)" by (auto simp: list_all_iff intro: location_proper)
  with c show ?thesis by (simp add: location_canonical clean_path_canonical)
qed

lemma patterns_no_redirect: "map_of (patterns meth) x \<noteq> Some (RRedirect u)"
  by (auto simp: patterns_def)

lemma route_of_redirect:
  "route_of meth p = RRedirect u \<longleftrightarrow> meth \<noteq> ''CONNECT'' \<and> clean_path p \<noteq> p \<and> u = clean_path p"
  using patterns_no_redirect [of meth _ u] by (auto simp: route_of_def Let_def bind_eq_Some_conv split: option.splits)

text \<open>The handlers of the POST patterns are reached by these patterns only.\<close>

lemma post_pattern_lookup:
  "(n, a) \<in> set (patterns ''POST'') \<Longrightarrow> map_of (patterns meth) x = Some a \<longleftrightarrow> meth = ''POST'' \<and> x = n"
  by (auto simp: patterns_def split: if_splits)

lemma post_pattern_action:
  "(n, a) \<in> set (patterns ''POST'') \<Longrightarrow> a \<noteq> RRoot \<and> a \<noteq> RMethodNotAllowed \<and> a \<noteq> RRedirect u"
  by (auto simp: patterns_def)

lemma route_of_post:
  assumes "(n, a) \<in> set (patterns ''POST'')"
  shows "route_of meth p = a \<longleftrightarrow> meth = ''POST'' \<and> clean_path p = p \<and> single_segment p = Some n"
proof -
  let ?cp = "if meth = ''CONNECT'' then p else clean_path p"
  have "route_of meth p = a \<longleftrightarrow> ?cp = p \<and> Option.bind (single_segment p) (map_of (patterns meth)) = Some a"
    using post_pattern_action [OF assms] by (auto simp: route_of_def Let_def split: option.splits)
  also have "\<dots> \<longleftrightarrow> ?cp = p \<and> meth = ''POST'' \<and> single_segment p = Some n"
    by (auto simp: bind_eq_Some_conv post_pattern_lookup [OF assms])
  finally show ?thesis by auto
qed

text \<open>A redirect names a path that is not redirected, be it escaped once more or not.\<close>

lemma redirect_once:
  assumes "route_of meth p = RRedirect q"
  shows "route_of meth' q \<noteq> RRedirect u" "route_of meth' (location q) \<noteq> RRedirect u"
proof -
  have "clean_path q = q" using assms by (simp add: route_of_redirect clean_path_idem)
  then show "route_of meth' q \<noteq> RRedirect u" "route_of meth' (location q) \<noteq> RRedirect u"
    by (simp_all add: route_of_redirect location_clean)
qed

end
