(* ===== verification/Vault_Properties.thy ===== *)
theory Vault_Properties
  imports Samples Routing
begin

text \<open>
  The properties of the vault session and of the control-plane client, each followed by an instance
  in the concrete world of \<open>Samples\<close> where it has a hypothesis.
\<close>

section \<open>The session\<close>

text \<open>C11: Whatever the vaults and the network answer, an operation on the key \<open>name\<close> only dials the
  configured endpoints with the session's options, only touches the handle of that key, closes every
  connection it opened, and never creates a key.\<close>

theorem session_confined:
  "emits (wrap L s name pt) (\<lambda>r. key_trace s name)
   \<and> emits (unwrap L s name ct iv) (\<lambda>r. key_trace s name)
   \<and> emits (sign L s name msg) (\<lambda>r. key_trace s name)
   \<and> emits (getKeyInfo L s name) (\<lambda>r. key_trace s name)
   \<and> emits (destroy L s name) (\<lambda>r. key_trace s name)"
  by (intro conjI emits_mono [OF wrap_emits] emits_mono [OF unwrap_emits] emits_mono [OF sign_emits]
    emits_mono [OF getKeyInfo_emits] emits_mono [OF destroy_emits]) auto



text \<open>An operation stops at the endpoint that answered; it fails only after every configured endpoint
  was tried, in order.\<close>

theorem session_tries_in_order:
  "emits (wrap L s name pt) (exhausted s) \<and> emits (unwrap L s name ct iv) (exhausted s)
   \<and> emits (sign L s name msg) (exhausted s) \<and> emits (getKeyInfo L s name) (exhausted s)"
  by (intro conjI emits_mono [OF wrap_emits] emits_mono [OF unwrap_emits] emits_mono [OF sign_emits]
    emits_mono [OF getKeyInfo_emits]) auto

text \<open>C21: Over vaults whose answers do not depend on the history, the search returns the first answer
  in the order of the endpoints; an endpoint that does not know the key is skipped, and the error
  names the last other failure.\<close>

theorem session_finds_holder:
  assumes "dialOpts s = Inr opts" "steady L opts d op f"
  shows "fst (run_state (withHolder L s op) h) =
    (case first_answer (map (\<lambda>ep. (ep, outcome_of (d ep) f)) (cfg_endpoints (ss_cfg s))) None of
       Inr x \<Rightarrow> Inr x
     | Inl le \<Rightarrow> Inl (Errorf ''no vault answered for the key: %v''
         [case le of None \<Rightarrow> ANil | Some e \<Rightarrow> AErr e]))"
proof -
  obtain h' where "run_state (holder_loop L opts op (cfg_endpoints (ss_cfg s)) None) h
      = (first_answer (map (\<lambda>ep. (ep, outcome_of (d ep) f)) (cfg_endpoints (ss_cfg s))) None, h')"
    using run_fst [OF holder_loop_steady [OF assms(2)]] by blast
  then show ?thesis
    by (simp add: withHolder_def assms(1) split: sum.split)
qed

definition sample_dial :: "string \<Rightarrow> string + conn" where
  "sample_dial ep = (if ep = ''down:443'' then Inl ''connection refused''
     else Inr (if ep = ''v2:443'' then 2 else 1))"

lemma sample_steady_wrap:
  "steady sample_lib opts sample_dial (\<lambda>c. client_wrap sample_lib c hdl pt [] [])
     (\<lambda>c. if c = 2 then Inr (rev pt, [7]) else Inl ''key not found'')"
  by (simp add: steady_def sample_lib_def sample_dial_def client_wrap_def)

lemma sample_endpoints: "cfg_endpoints (ss_cfg sample_session) = [''down:443'', ''v1:443'', ''v2:443'']"
  by (simp add: sample_session_def attested_session_def new_session_def sample_config_def)

lemma contains_not_found: "contains ''key not found'' ''not found''"
  by code_simp

lemma session_finds_holder_witness:
  "fst (run_state (withHolder sample_lib sample_session
     (\<lambda>c. client_wrap sample_lib c ''vaults/v1/k'' [1, 2] [] [])) []) = Inr (([2, 1], [7]), ''v2:443'')"
  unfolding session_finds_holder [OF sample_dialOpts sample_steady_wrap] sample_endpoints
  by (simp add: outcome_of_def sample_dial_def contains_not_found)

text \<open>Destroy visits every configured endpoint, whatever the earlier ones answered.\<close>

theorem destroy_visits_all:
  "emits (destroy L s name) (\<lambda>r es. case dialOpts s of
     Inl e \<Rightarrow> r = Inl e \<and> es = []
   | Inr opts \<Rightarrow> dialled es = cfg_endpoints (ss_cfg s))"
proof (cases "dialOpts s")
  case (Inl e)
  then show ?thesis by (auto simp: destroy_def intro!: emits_return)
next
  case (Inr opts)
  then show ?thesis by (auto intro!: emits_mono [OF destroy_emits])
qed

text \<open>Over steady vaults, destroy reports success exactly if some vault deleted the key, or every
  vault answered that it does not have it (so a repeated destroy succeeds).\<close>

theorem destroy_result:
  assumes "dialOpts s = Inr opts" "steady L opts d (\<lambda>c. client_delete_key L c (handle s name)) f"
  shows "fst (run_state (destroy L s name) h) = Inr () \<longleftrightarrow>
    (let os = map (\<lambda>ep. outcome_of (d ep) f) (cfg_endpoints (ss_cfg s))
     in (\<exists>x. Answered x \<in> set os) \<or> set os \<subseteq> {Absent})"
  by (rule destroy_steady [OF assms])

lemma destroy_result_witness:
  "fst (run_state (destroy sample_lib sample_session ''k'') []) = Inr ()"
proof -
  have "steady sample_lib sample_opts sample_dial
      (\<lambda>c. client_delete_key sample_lib c (handle sample_session ''k''))
      (\<lambda>c. if c = 2 then Inr () else Inl ''key not found'')"
    by (simp add: steady_def sample_lib_def sample_dial_def client_delete_key_def)
  then show ?thesis
    unfolding destroy_result [OF sample_dialOpts \<open>steady _ _ _ _ _\<close>] sample_endpoints
    by (simp add: outcome_of_def sample_dial_def Let_def)
qed

section \<open>Key creation\<close>


text \<open>The material of every creation call among the events.\<close>

fun material_ok :: "(byte list \<Rightarrow> bool) \<Rightarrow> event \<Rightarrow> bool" where
  "material_ok P (EvVault c (CreateKeyOp h m g)) = P m"
| "material_ok P e = True"

lemma material_ok_control: "list_all control_plane es \<Longrightarrow> list_all (material_ok P) es"
  by (erule list.pred_mono_strong) (auto elim: control_plane.elims)

lemma generateMaterial_aes:
  "emits (generateMaterial L ''aes'') (\<lambda>r es. list_all control_plane es \<and> (\<forall>m. r = Inr m \<longrightarrow> length m = 32))"
  unfolding generateMaterial_def rand_read_def
  by (auto intro!: emits_call_bind emits_return split: option.split)

text \<open>An AES key is created from exactly 32 bytes of material, whatever the rest of the world does.\<close>

theorem aes_material_is_256_bits:
  "emits (createKey L (attested_session L cfg m base) name ''aes'' x)
     (\<lambda>r. list_all (material_ok (\<lambda>k. length k = 32)))"
proof -
  have *: "ss_grantor (attested_session L cfg m base) = Some (client_grantor L (Client base (header_identity L m)))"
    by (simp add: attested_session_def new_session_def)
  show ?thesis
    unfolding createKey_def * client_grantor_def
    by (auto intro!: emits_bind [OF generateMaterial_aes] emits_bind [OF generateClientCert_emits]
      emits_bind [OF manager.mint_grant] emits_call_bind emits_dial_bind emits_close_bind emits_return
      simp: grant_trace_def client_create_key_def material_ok_control
      split: sum.split list.split prod.split sum.split_asm)
qed

text \<open>A key type other than \<^verbatim>\<open>p256\<close> and \<^verbatim>\<open>aes\<close>, or a session without a grantor, is refused before
  anything leaves the gateway.\<close>

theorem create_refuses_unknown_type:
  assumes "kt \<noteq> ''p256'' \<and> kt \<noteq> ''aes'' \<or> ss_grantor s = None"
  shows "\<exists>e. run_state (createKey L s name kt x) h = (Inl e, h)"
proof (cases "ss_grantor s")
  case None
  then show ?thesis by (simp add: createKey_def)
next
  case (Some g)
  with assms show ?thesis by (simp add: createKey_def generateMaterial_def)
qed

lemma create_refuses_unknown_type_witness:
  "\<exists>e. run_state (createKey sample_lib sample_session ''k'' ''rsa'' False) [] = (Inl e, [])"
  by (rule create_refuses_unknown_type) simp

section \<open>The control-plane client\<close>

text \<open>A challenge has 32 bytes, the first eight being the big-endian Unix seconds; reading them back
  gives the time of the clock, for any time from the epoch on that fits 63 bits of nanoseconds.\<close>

theorem challenge_carries_time:
  assumes "0 \<le> lib_now L h" "lib_now L h < 2 ^ 63" "lib_rand_error L (h @ [EvClock]) = None"
  shows "\<exists>ch. fst (run_state (makeChallenge L) h) = Inr ch \<and> length ch = 32
    \<and> uint (read_uint64 ch) = lib_now L h div second"
proof -
  let ?t = "lib_now L h div second"
  have "0 \<le> ?t" "?t < 2 ^ 64" using assms(1,2) by (simp_all add: second_def)
  then have "uint (word_of_int ?t :: 64 word) = ?t" by (simp add: uint_word_of_int)
  then show ?thesis
    using assms(3) by (simp add: makeChallenge_def time_now_def rand_read_def read_put_uint64)
qed

lemma challenge_carries_time_witness:
  "\<exists>ch. fst (run_state (makeChallenge sample_lib) []) = Inr ch \<and> length ch = 32
    \<and> uint (read_uint64 ch) = 1700000000"
  using challenge_carries_time [of sample_lib "[]"] by (simp add: sample_lib_def second_def)


text \<open>An escaped segment is still a segment that path cleaning keeps, except for the dot segments.\<close>

lemma path_escape_dots:
  "path_escape s = '''' \<longleftrightarrow> s = ''''" "path_escape s = ''.'' \<longleftrightarrow> s = ''.''" "path_escape s = ''..'' \<longleftrightarrow> s = ''..''"
proof -
  have 0: "path_escape s = '''' \<longleftrightarrow> s = ''''" for s by (cases s) simp_all
  have 1: "path_escape s = ''.'' \<longleftrightarrow> s = ''.''" for s
    by (cases s) (auto simp: 0 should_escape_def unreserved_def)
  have "path_escape s = ''..'' \<longleftrightarrow> s = ''..''" by (cases s) (auto simp: 1 should_escape_def unreserved_def)
  with 0 1 show "path_escape s = '''' \<longleftrightarrow> s = ''''" "path_escape s = ''.'' \<longleftrightarrow> s = ''.''"
    "path_escape s = ''..'' \<longleftrightarrow> s = ''..''" by blast+
qed

lemma proper_path_escape: "s \<notin> {'''', ''.'', ''..''} \<Longrightarrow> proper (path_escape s)"
  by (simp add: proper_def path_escape_dots)

lemma paths_canonical:
  "mint_path_for v = canonical [''api'', ''v1'', ''keyvaults'', path_escape v, ''keys''] False"
  "rotate_path_for v n =
     canonical [''api'', ''v1'', ''keyvaults'', path_escape v, ''keys'', path_escape n, ''rotate''] False"
  by (simp_all add: mint_path_for_def rotate_path_for_def canonical_def joined_def)

lemma proper_literals: "proper ''api''" "proper ''v1''" "proper ''keyvaults''" "proper ''keys''" "proper ''rotate''"
  by (simp_all add: proper_def)

text \<open>C26: A vault id or key name stays one path segment of the request, whatever characters it has: the
  server decodes exactly the caller's strings, and cleaning the path changes nothing unless the string is
  empty or a dot segment. The vault id of two dots addresses another resource.\<close>

theorem path_parameters_confined:
  "segments (mint_path_for v) = map Some ['''', ''api'', ''v1'', ''keyvaults'', v, ''keys'']
   \<and> segments (rotate_path_for v n) =
       map Some ['''', ''api'', ''v1'', ''keyvaults'', v, ''keys'', n, ''rotate'']
   \<and> (v \<notin> {'''', ''.'', ''..''} \<longrightarrow> clean_path (mint_path_for v) = mint_path_for v)
   \<and> (v \<notin> {'''', ''.'', ''..''} \<and> n \<notin> {'''', ''.'', ''..''} \<longrightarrow>
        clean_path (rotate_path_for v n) = rotate_path_for v n)
   \<and> clean_path (mint_path_for ''..'') = ''/api/v1/keys''"
proof (intro conjI impI)
  show "clean_path (mint_path_for v) = mint_path_for v" if "v \<notin> {'''', ''.'', ''..''}"
    unfolding paths_canonical by (rule clean_path_canonical) (use that in \<open>simp add: proper_literals proper_path_escape\<close>)
  show "clean_path (rotate_path_for v n) = rotate_path_for v n"
    if "v \<notin> {'''', ''.'', ''..''} \<and> n \<notin> {'''', ''.'', ''..''}"
    unfolding paths_canonical by (rule clean_path_canonical) (use that in \<open>simp add: proper_literals proper_path_escape\<close>)
  show "clean_path (mint_path_for ''..'') = ''/api/v1/keys''" by code_simp
qed (simp_all add: mint_path_segments rotate_path_segments)

lemma path_parameters_confined_witness:
  "clean_path (rotate_path_for ''v/1'' ''../k'') = rotate_path_for ''v/1'' ''../k''"
  using path_parameters_confined [of "''v/1''" "''../k''"] by simp

text \<open>The minter is the same whether it is given the manager's base URL or the mint endpoint, with
  or without a trailing slash.\<close>

theorem minter_base_recovered:
  assumes "\<not> has_suffix u ''/''" "\<not> has_suffix u mint_path"
  shows "new_minter u t = \<lparr>ei_base = u, ei_token = t\<rparr> \<and> new_minter (u @ ''/'') t = new_minter u t
    \<and> new_minter (u @ mint_path) t = new_minter u t \<and> new_minter (u @ mint_path @ ''/'') t = new_minter u t"
proof -
  have "new_minter (u @ ''/'') t = new_minter u t"
    using assms by (simp add: new_minter_def trim_suffix_append trim_suffix_none)
  then show ?thesis
    using new_minter_base [OF assms] new_minter_endpoint by simp
qed

lemma minter_base_recovered_witness:
  "new_minter (''http://localhost:9443'' @ mint_path) ''t'' = new_minter ''http://localhost:9443'' ''t''"
proof -
  have "\<not> has_suffix ''http://localhost:9443'' ''/''" "\<not> has_suffix ''http://localhost:9443'' mint_path"
    by (simp_all add: mint_path_def has_suffix_def)
  from minter_base_recovered [OF this] show ?thesis by blast
qed

end
