(* ===== verification/Kmip_Properties.thy ===== *)
theory Kmip_Properties
  imports Vault_Properties
begin

text \<open>
  The properties of the KMIP front-end over the gateway's attested session, and end to end from the
  operation to the vault calls.
\<close>

section \<open>A concrete KMIP library\<close>

definition sample_kmip :: kmip_lib where
  "sample_kmip = \<lparr>ot_symmetric_key = 2, ot_public_key = 3, ot_private_key = 4,
     alg_aes = 3, alg_ecdsa = 6, alg_hmac_sha256 = 10,
     canonical_name = (\<lambda>t. case t of TagName \<Rightarrow> ''Name'' | TagObjectType \<Rightarrow> ''Object Type''
       | TagCryptographicAlgorithm \<Rightarrow> ''Cryptographic Algorithm''),
     get_tag = (\<lambda>as t. find (\<lambda>a. at_name a = ''Name'' \<and> t = TagName
       \<or> at_name a = ''Cryptographic Algorithm'' \<and> t = TagCryptographicAlgorithm) as),
     new_attribute = (\<lambda>t v. \<lparr>at_name = ''Object Type'', at_value = v\<rparr>),
     unmarshal_name = (\<lambda>b. None),
     decode_create = (\<lambda>b. Inr \<lparr>cr_object_type = 2,
       cr_template = [\<lparr>at_name = ''Name'', at_value = VName ''k''\<rparr>]\<rparr>),
     decode_encrypt = (\<lambda>b. Inr \<lparr>er_uid = ''k'', er_data = b, er_iv = []\<rparr>),
     decode_decrypt = (\<lambda>b. Inr \<lparr>er_uid = ''k'', er_data = b, er_iv = [7]\<rparr>),
     decode_sign = (\<lambda>b. Inr \<lparr>sr_uid = ''k'', sr_data = b\<rparr>),
     decode_get_attributes = (\<lambda>b. Inr \<lparr>ga_uid = ''k'', ga_names = []\<rparr>),
     decode_locate = (\<lambda>b. Inr \<lparr>lr_attributes = [\<lparr>at_name = ''Name'', at_value = VString ''k''\<rparr>]\<rparr>)\<rparr>"

section \<open>Operations over the attested session\<close>




text \<open>A request without an identifier, or a Decrypt without an IV, is refused with
  \<^const>\<open>InvalidField\<close>; the vault is not called and the request is unchanged.\<close>

theorem incomplete_requests_refused:
  assumes "decode_encrypt K (rq_payload req) = Inr e" "er_uid e = ''''"
    "decode_decrypt K (rq_payload req) = Inr d" "er_uid d = '''' \<or> er_iv d = []"
    "decode_sign K (rq_payload req) = Inr s" "sr_uid s = ''''"
    "decode_get_attributes K (rq_payload req) = Inr a" "ga_uid a = ''''"
    "handler \<in> {handleEncrypt K V, handleDecrypt K V, handleSign K V, handleGetAttributes K V}"
  shows "\<exists>x. run_state (handler req) h = ((Inl x, req), h) \<and> reason_of x = InvalidField"
  using assms
  by (auto simp: handleEncrypt_def handleDecrypt_def handleSign_def handleGetAttributes_def)

lemma incomplete_requests_refused_witness:
  "\<exists>x. run_state (handleDecrypt
      (sample_kmip\<lparr>decode_encrypt := \<lambda>b. Inr \<lparr>er_uid = '''', er_data = b, er_iv = []\<rparr>,
         decode_decrypt := \<lambda>b. Inr \<lparr>er_uid = ''k'', er_data = b, er_iv = []\<rparr>,
         decode_sign := \<lambda>b. Inr \<lparr>sr_uid = '''', sr_data = b\<rparr>,
         decode_get_attributes := \<lambda>b. Inr \<lparr>ga_uid = '''', ga_names = []\<rparr>\<rparr>)
      (session_vault sample_lib sample_session) \<lparr>rq_payload = [1], rq_id_placeholder = ''p''\<rparr>) []
    = ((Inl x, \<lparr>rq_payload = [1], rq_id_placeholder = ''p''\<rparr>), []) \<and> reason_of x = InvalidField"
  by (rule incomplete_requests_refused
    [where K = "sample_kmip\<lparr>decode_encrypt := \<lambda>b. Inr \<lparr>er_uid = '''', er_data = b, er_iv = []\<rparr>,
         decode_decrypt := \<lambda>b. Inr \<lparr>er_uid = ''k'', er_data = b, er_iv = []\<rparr>,
         decode_sign := \<lambda>b. Inr \<lparr>sr_uid = '''', sr_data = b\<rparr>,
         decode_get_attributes := \<lambda>b. Inr \<lparr>ga_uid = '''', ga_names = []\<rparr>\<rparr>"
       and V = "session_vault sample_lib sample_session" and e = "\<lparr>er_uid = '''', er_data = [1], er_iv = []\<rparr>" and d = "\<lparr>er_uid = ''k'', er_data = [1], er_iv = []\<rparr>"
       and s = "\<lparr>sr_uid = '''', sr_data = [1]\<rparr>" and a = "\<lparr>ga_uid = '''', ga_names = []\<rparr>"]) simp_all

section \<open>Key types\<close>

text \<open>C28: Create asks the vault for AES or P-256 and nothing else, and a key created as a symmetric or
  private key is reported by GetAttributes with the same object type; a public-key request creates a
  signing key that is reported as a private key.\<close>

theorem key_type_round_trip:
  assumes "distinct_enums K" "keyTypeFor K p = Inr kt"
  shows "kt \<in> {''aes'', ''p256''} \<and> vaultKeyType L kt = key_type_string L (vault_type kt)
    \<and> (cr_object_type p \<in> {ot_symmetric_key K, ot_private_key K}
         \<longrightarrow> fst (kmipTypeFor K (vault_type kt)) = cr_object_type p)
    \<and> (cr_object_type p = ot_public_key K \<longrightarrow> fst (kmipTypeFor K (vault_type kt)) = ot_private_key K)"
  using assms
  by (auto simp: vaultKeyType_vault_type keyTypeFor_def distinct_enums_def vault_type_def kmipTypeFor_def
    split: if_splits option.splits prod.splits)

lemma key_type_round_trip_witness:
  "fst (kmipTypeFor sample_kmip (vault_type ''aes'')) = 2"
  using key_type_round_trip [of sample_kmip "\<lparr>cr_object_type = 2, cr_template = []\<rparr>" "''aes''"]
  by (simp add: sample_kmip_def distinct_enums_def keyTypeFor_def)

text \<open>The attribute filter keeps the attributes with a requested name, in order and with repetitions,
  and all of them when no name is given.\<close>

theorem attribute_filter:
  "filterAttributes attrs names = filter (\<lambda>a. names = [] \<or> at_name a \<in> set names) attrs"
  by (rule filterAttributes_eq)

section \<open>Encrypt, then Decrypt\<close>

text \<open>A vault that wraps also unwraps, and one that cannot wrap cannot unwrap.\<close>

definition cipher_pair :: "(conn \<Rightarrow> string + (byte list \<times> byte list))
    \<Rightarrow> (byte list \<Rightarrow> byte list \<Rightarrow> conn \<Rightarrow> string + byte list) \<Rightarrow> byte list \<Rightarrow> bool" where
  "cipher_pair w u pt \<longleftrightarrow>
     (\<forall>c. case w c of
        Inl e \<Rightarrow> (\<forall>ct iv. \<exists>e'. u ct iv c = Inl e')
      | Inr (ct, iv) \<Rightarrow> iv \<noteq> [] \<and> u ct iv c = Inr pt)"

lemma cipher_first_answer:
  assumes "cipher_pair w u pt"
  shows "first_answer (map (\<lambda>ep. (ep, outcome_of (d ep) w)) eps) le = Inr ((ct, iv), x) \<Longrightarrow>
    iv \<noteq> [] \<and> first_answer (map (\<lambda>ep. (ep, outcome_of (d ep) (u ct iv))) eps) le' = Inr (pt, x)"
proof (induction eps arbitrary: le le')
  case Nil
  then show ?case by simp
next
  case (Cons ep eps)
  show ?case
  proof (cases "d ep")
    case (Inl e)
    with Cons show ?thesis by (simp add: outcome_of_def)
  next
    case d: (Inr c)
    show ?thesis
    proof (cases "w c")
      case (Inl e)
      with assms [unfolded cipher_pair_def, THEN spec, of c] obtain e' where "u ct iv c = Inl e'"
        by auto
      with Inl d Cons show ?thesis by (auto simp: outcome_of_def split: if_splits)
    next
      case (Inr y)
      with assms [unfolded cipher_pair_def, THEN spec, of c]
      have "case y of (ct, iv) \<Rightarrow> iv \<noteq> [] \<and> u ct iv c = Inr pt" by simp
      with Inr d Cons.prems show ?thesis by (auto simp: outcome_of_def)
    qed
  qed
qed

lemma withHolder_steady:
  assumes "dialOpts s = Inr opts" "steady L opts d op f"
  shows "fst (run_state (do { r \<leftarrow> withHolder L s op; State_Monad.return (drop_endpoint r) }) h) = Inr x \<longleftrightarrow>
    (\<exists>ep. first_answer (map (\<lambda>ep. (ep, outcome_of (d ep) f)) (cfg_endpoints (ss_cfg s))) None = Inr (x, ep))"
proof -
  obtain h' where "run_state (holder_loop L opts op (cfg_endpoints (ss_cfg s)) None) h
      = (first_answer (map (\<lambda>ep. (ep, outcome_of (d ep) f)) (cfg_endpoints (ss_cfg s))) None, h')"
    using run_fst [OF holder_loop_steady [OF assms(2)]] by blast
  then show ?thesis
    by (auto simp: withHolder_def assms(1) drop_endpoint_def split: sum.split)
qed

text \<open>End to end: over vaults whose answers do not depend on the history and whose unwrap inverts
  their wrap, what a KMIP Encrypt returned decrypts to the plaintext, at any later time.\<close>

theorem encrypt_decrypt_round_trip:
  assumes opts: "dialOpts s = Inr opts"
    and w: "steady L opts d (\<lambda>c. client_wrap L c (handle s uid) pt [] []) w"
    and u: "\<And>ct iv. steady L opts d (\<lambda>c. client_unwrap L c (handle s uid) ct iv []) (u ct iv)"
    and inverse: "cipher_pair w u pt"
    and enc: "decode_encrypt K (rq_payload req) = Inr \<lparr>er_uid = uid, er_data = pt, er_iv = v\<rparr>"
    and out: "fst (fst (run_state (handleEncrypt K (session_vault L s) req) h)) = Inr (EncryptResponse uid ct iv)"
    and dec: "decode_decrypt K (rq_payload req') = Inr \<lparr>er_uid = uid, er_data = ct, er_iv = iv\<rparr>"
  shows "fst (fst (run_state (handleDecrypt K (session_vault L s) req') h')) = Inr (DecryptResponse uid pt)"
proof -
  have uid: "uid \<noteq> ''''" using enc out by (auto simp: handleEncrypt_def)
  obtain r h1 where run: "run_state (wrap L s uid pt) h = (r, h1)" by force
  with enc out uid have "r = Inr (ct, iv)"
    by (cases r) (auto simp: handleEncrypt_def session_vault_def split: prod.splits)
  with run have "fst (run_state (wrap L s uid pt) h) = Inr (ct, iv)" by simp
  from iffD1 [OF withHolder_steady [OF opts w], folded wrap_def, OF this]
  obtain ep where "first_answer (map (\<lambda>ep. (ep, outcome_of (d ep) w)) (cfg_endpoints (ss_cfg s))) None
      = Inr ((ct, iv), ep)"
    by (elim exE)
  note found = cipher_first_answer [OF inverse this, of None]
  have "fst (run_state (unwrap L s uid ct iv) h') = Inr pt"
    by (rule iffD2 [OF withHolder_steady [OF opts u], folded unwrap_def]) (use found in blast)
  from run_fst [OF this] obtain h'' where "run_state (unwrap L s uid ct iv) h' = (Inr pt, h'')"
    by (elim exE)
  with dec uid found show ?thesis
    by (simp add: handleDecrypt_def session_vault_def)
qed

lemma encrypt_decrypt_round_trip_witness:
  "fst (fst (run_state (handleDecrypt sample_kmip (session_vault sample_lib sample_session)
     \<lparr>rq_payload = [2, 1], rq_id_placeholder = ''''\<rparr>) [])) = Inr (DecryptResponse ''k'' [1, 2])"
proof (rule encrypt_decrypt_round_trip [where req = "\<lparr>rq_payload = [1, 2], rq_id_placeholder = ''''\<rparr>"
    and iv = "[7]" and d = sample_dial and h = "[]" and v = "[]"
    and w = "\<lambda>c. if c = 2 then Inr (rev [1, 2], [7]) else Inl ''key not found''"
    and u = "\<lambda>ct iv c. if c = 2 then Inr (rev ct) else Inl ''key not found''", OF sample_dialOpts sample_steady_wrap])
  show "steady sample_lib sample_opts sample_dial
      (\<lambda>c. client_unwrap sample_lib c (handle sample_session ''k'') ct iv [])
      (\<lambda>c. if c = 2 then Inr (rev ct) else Inl ''key not found'')" for ct iv
    by (simp add: steady_def sample_lib_def sample_dial_def client_unwrap_def)
  show "cipher_pair (\<lambda>c. if c = 2 then Inr (rev [1, 2], [7]) else Inl ''key not found'')
      (\<lambda>ct iv c. if c = 2 then Inr (rev ct) else Inl ''key not found'') [1, 2]"
    by (simp add: cipher_pair_def)
  have "fst (run_state (wrap sample_lib sample_session ''k'' [1, 2]) []) = Inr ([2, 1], [7])"
    unfolding wrap_def withHolder_steady [OF sample_dialOpts sample_steady_wrap] sample_endpoints
    by (simp add: outcome_of_def sample_dial_def contains_not_found)
  from run_fst [OF this]
  obtain h' where "run_state (wrap sample_lib sample_session ''k'' [1, 2]) [] = (Inr ([2, 1], [7]), h')"
    by (elim exE)
  then show "fst (fst (run_state (handleEncrypt sample_kmip (session_vault sample_lib sample_session)
      \<lparr>rq_payload = [1, 2], rq_id_placeholder = ''''\<rparr>) [])) = Inr (EncryptResponse ''k'' [2, 1] [7])"
    by (simp add: handleEncrypt_def session_vault_def sample_kmip_def)
qed (simp_all add: sample_kmip_def)

section \<open>Whole messages\<close>

text \<open>
  What the gateway relies on from the library's protocol handler: whatever the message, it reaches the
  outside only by running handlers of the operation table, any number of them in any order.
\<close>

fun handler_emits :: "(event list \<Rightarrow> bool) \<Rightarrow> item_handler \<Rightarrow> bool" where
  "handler_emits Q (DiscoverVersionsHandler vs) = True"
| "handler_emits Q (ItemHandler f) = (\<forall>req. emits (f req) (\<lambda>r. Q))"
| "handler_emits Q (DestroyHandler f) = (\<forall>uid. emits (f uid) (\<lambda>r. Q))"

definition runs_handlers_only :: "(kmip_server \<Rightarrow> byte list \<Rightarrow> byte list io) \<Rightarrow> bool" where
  "runs_handlers_only serve \<longleftrightarrow>
     (\<forall>Q s m. Q [] \<and> (\<forall>es fs. Q es \<and> Q fs \<longrightarrow> Q (es @ fs))
        \<and> (\<forall>(op, h)\<in>set (sv_mux s). handler_emits Q h) \<longrightarrow> emits (serve s m) (\<lambda>r. Q))"

text \<open>Whatever holds of the events of one operation on a key holds of the events of each handler.\<close>

lemma handlers_emit:
  fixes L :: lib and cfg :: config and m :: egress_identity and base :: string
  defines "V \<equiv> session_vault L (attested_session L cfg m base)"
  assumes nil: "Q []" and ops: "\<And>n es. session_trace (attested_session L cfg m base) n es \<Longrightarrow> Q es"
  shows "emits (handleCreate L K V req) (\<lambda>r. Q)" "emits (handleDestroy V uid) (\<lambda>r. Q)"
    "emits (handleEncrypt K V req) (\<lambda>r. Q)" "emits (handleDecrypt K V req) (\<lambda>r. Q)"
    "emits (handleSign K V req) (\<lambda>r. Q)" "emits (handleGetAttributes K V req) (\<lambda>r. Q)"
    "emits (handleLocate K req) (\<lambda>r. Q)"
proof -
  note V = V_def [unfolded session_vault_def]
  have served: "served (session_trace (attested_session L cfg m base)) u r es \<Longrightarrow> Q es" for u r es
    using nil ops by (auto simp: served_def)
  show "emits (handleCreate L K V req) (\<lambda>r. Q)"
    unfolding V by (rule emits_mono [OF gateway.handleCreate_emits]) (auto simp: created_def dest: served)
  show "emits (handleDestroy V uid) (\<lambda>r. Q)"
    unfolding V by (rule emits_mono [OF gateway.handleDestroy_emits]) (rule served)
  show "emits (handleEncrypt K V req) (\<lambda>r. Q)"
  proof (cases "decode_encrypt K (rq_payload req)")
    case (Inr p)
    then show ?thesis unfolding V
      by (auto intro!: emits_mono [OF gateway.handleEncrypt_emits] dest: served)
  qed (simp add: handleEncrypt_def emits_return nil)
  show "emits (handleDecrypt K V req) (\<lambda>r. Q)"
  proof (cases "decode_decrypt K (rq_payload req)")
    case (Inr p)
    then show ?thesis unfolding V
      by (auto intro!: emits_mono [OF gateway.handleDecrypt_emits] dest: served)
  qed (simp add: handleDecrypt_def emits_return nil)
  show "emits (handleSign K V req) (\<lambda>r. Q)"
  proof (cases "decode_sign K (rq_payload req)")
    case (Inr p)
    then show ?thesis unfolding V
      by (auto intro!: emits_mono [OF gateway.handleSign_emits] dest: served)
  qed (simp add: handleSign_def emits_return nil)
  show "emits (handleGetAttributes K V req) (\<lambda>r. Q)"
  proof (cases "decode_get_attributes K (rq_payload req)")
    case (Inr p)
    then show ?thesis unfolding V
      by (auto intro!: emits_mono [OF gateway.handleGetAttributes_emits] dest: served)
  qed (simp add: handleGetAttributes_def emits_return nil)
  show "emits (handleLocate K req) (\<lambda>r. Q)"
    by (auto simp: handleLocate_def Let_def nil intro!: emits_return split: sum.split)
qed

lemma message_emits:
  assumes "runs_handlers_only serve" "Q []" "\<And>es fs. Q es \<Longrightarrow> Q fs \<Longrightarrow> Q (es @ fs)"
    and "\<And>n es. session_trace (attested_session L cfg m base) n es \<Longrightarrow> Q es"
  shows "emits (handleMessage serve (new_server L K (session_vault L (attested_session L cfg m base))) msg)
    (\<lambda>r es. r \<noteq> None \<and> Q es)"
proof -
  have "emits (serve (new_server L K (session_vault L (attested_session L cfg m base))) msg) (\<lambda>r. Q)"
    using assms(1) [unfolded runs_handlers_only_def, rule_format, of Q] assms(2,3)
      handlers_emit [where Q = Q, OF assms(2,4)]
    by (simp add: new_server_def)
  then show ?thesis
    unfolding handleMessage_def
    by (rule emits_bind) (auto simp: stripCorrelation_total intro!: emits_return)
qed

text \<open>A whole KMIP message over the attested session leaves no connection open and uses none after it
  was closed, whatever batch of operations it carries; the answer is always produced.\<close>

theorem message_disciplined:
  assumes "runs_handlers_only serve"
  shows "emits (handleMessage serve (new_server L K (session_vault L (attested_session L cfg m base))) msg)
    (\<lambda>r es. r \<noteq> None \<and> disciplined es)"
  by (rule message_emits [OF assms]) (auto intro: disciplined_append session_trace_disciplined)

text \<open>A protocol handler that runs the Encrypt handler on the message.\<close>

definition encrypting_serve :: "kmip_server \<Rightarrow> byte list \<Rightarrow> byte list io" where
  "encrypting_serve s m =
     (case map_of (sv_mux s) OpEncrypt of
        Some (ItemHandler f) \<Rightarrow> do {
          r \<leftarrow> f \<lparr>rq_payload = m, rq_id_placeholder = ''''\<rparr>;
          State_Monad.return (case fst r of Inr (EncryptResponse uid ct iv) \<Rightarrow> ct | _ \<Rightarrow> [])
        }
      | _ \<Rightarrow> State_Monad.return [])"

lemma encrypting_serve_runs_handlers: "runs_handlers_only encrypting_serve"
  unfolding runs_handlers_only_def
proof (intro allI impI, elim conjE)
  fix Q and s :: kmip_server and m
  assume Q: "Q []" "\<forall>(op, h)\<in>set (sv_mux s). handler_emits Q h"
  show "emits (encrypting_serve s m) (\<lambda>r. Q)"
  proof (cases "map_of (sv_mux s) OpEncrypt")
    case None
    with Q(1) show ?thesis by (simp add: encrypting_serve_def emits_return)
  next
    case (Some h)
    then have "handler_emits Q h" using Q(2) map_of_SomeD by fastforce
    with Some Q(1) show ?thesis
      by (cases h) (auto simp: encrypting_serve_def intro!: emits_return emits_bind [where P = "\<lambda>r. Q"])
  qed
qed

lemma message_disciplined_witness:
  "emits (handleMessage encrypting_serve (new_server sample_lib sample_kmip (session_vault sample_lib sample_session)) [1, 2])
     (\<lambda>r es. r \<noteq> None \<and> disciplined es)"
  unfolding sample_session_def by (rule message_disciplined [OF encrypting_serve_runs_handlers])

text \<open>The versions the gateway offers are listed from the newest, which is the version it answers with,
  and none is a KMIP 2.\<close>

lemma offered_versions:
  assumes "(OpDiscoverVersions, DiscoverVersionsHandler vs) \<in> set (sv_mux (new_server L K V))"
  shows "hd vs = sv_version (new_server L K V) \<and> sorted (rev vs) \<and> (\<forall>v\<in>set vs. v < ProtocolVersion 2 0)"
  using assms
  by (simp add: new_server_def less_eq_protocol_version_def less_protocol_version_def)

end
