(* ===== verification/Key_Store.thy ===== *)
theory Key_Store
  imports Kmip_Laws
begin

text \<open>
  The session as a key store. The vaults of a constellation keep keys under handles; what they hold is a
  function of the history, which only creations and deletions change. A constellation is a parameter,
  \<open>stores_keys\<close> its documented behaviour. Over such vaults the session implements one map from key names
  to keys, \<open>key_map\<close>: each operation of \<^verbatim>\<open>internal/vault/session.go\<close> is an operation of the map.
\<close>

section \<open>Constellations\<close>

text \<open>
  The endpoint of a connection; what the vault at an endpoint holds under a handle after a history; the
  key made from material and grant; what it answers.
\<close>

record 'k constellation =
  co_endpoint :: "conn \<Rightarrow> string"
  co_keys :: "hist \<Rightarrow> string \<Rightarrow> string \<Rightarrow> 'k option"
  co_new :: "byte list \<Rightarrow> string \<Rightarrow> 'k"
  co_info :: "'k \<Rightarrow> key_info"
  co_wrap :: "hist \<Rightarrow> 'k \<Rightarrow> byte list \<Rightarrow> string + (byte list \<times> byte list)"
  co_unwrap :: "'k \<Rightarrow> byte list \<Rightarrow> byte list \<Rightarrow> string + byte list"
  co_sign :: "hist \<Rightarrow> 'k \<Rightarrow> byte list \<Rightarrow> string + (byte list \<times> string)"

definition set_key :: "(string \<Rightarrow> string \<Rightarrow> 'k option) \<Rightarrow> string \<Rightarrow> string \<Rightarrow> 'k option \<Rightarrow> string \<Rightarrow> string \<Rightarrow> 'k option" where
  "set_key st ep k x = st(ep := (st ep)(k := x))"

lemma set_key_apply: "set_key st ep k x ep' k' = (if ep' = ep \<and> k' = k then x else st ep' k')"
  by (simp add: set_key_def)

text \<open>What one event does to the vaults: a successful creation adds a key, a deletion removes one.\<close>

fun vault_effect :: "lib \<Rightarrow> 'k constellation \<Rightarrow> hist \<Rightarrow> event \<Rightarrow> string \<Rightarrow> string \<Rightarrow> 'k option" where
  "vault_effect L C h (EvVault c (CreateKeyOp k m g)) =
     (if lib_create_key L h c k m g = Inr ()
      then set_key (co_keys C h) (co_endpoint C c) k (Some (co_new C m g)) else co_keys C h)"
| "vault_effect L C h (EvVault c (DeleteOp k)) = set_key (co_keys C h) (co_endpoint C c) k None"
| "vault_effect L C h e = co_keys C h"

text \<open>The answer about a handle that is not there.\<close>

definition not_found :: "string + 'a \<Rightarrow> bool" where
  "not_found r \<longleftrightarrow> (\<exists>e. r = Inl e \<and> contains e ''not found'')"

definition answers :: "'k option \<Rightarrow> ('k \<Rightarrow> string + 'a) \<Rightarrow> string + 'a \<Rightarrow> bool" where
  "answers x f r \<longleftrightarrow> (case x of None \<Rightarrow> not_found r | Some k \<Rightarrow> r = f k)"

definition stores_keys :: "lib \<Rightarrow> 'k constellation \<Rightarrow> bool" where
  "stores_keys L C \<longleftrightarrow>
     (\<forall>h ep opts c. lib_dial L h ep opts = Inr c \<longrightarrow> co_endpoint C c = ep)
     \<and> (\<forall>h e. co_keys C (h @ [e]) = vault_effect L C h e)
     \<and> (\<forall>h c k. answers (co_keys C h (co_endpoint C c) k) (\<lambda>x. Inr (co_info C x)) (lib_key_info L h c k))
     \<and> (\<forall>h c k. answers (co_keys C h (co_endpoint C c) k) (\<lambda>x. Inr ()) (lib_delete_key L h c k))
     \<and> (\<forall>h c k p a v. answers (co_keys C h (co_endpoint C c) k) (\<lambda>x. co_wrap C h x p) (lib_wrap L h c k p a v))
     \<and> (\<forall>h c k p a v. answers (co_keys C h (co_endpoint C c) k) (\<lambda>x. co_unwrap C x p v) (lib_unwrap L h c k p v a))
     \<and> (\<forall>h c k p. answers (co_keys C h (co_endpoint C c) k) (\<lambda>x. co_sign C h x p) (lib_sign L h c k p))"

definition reachable_vaults :: "lib \<Rightarrow> dial_opts \<Rightarrow> string list \<Rightarrow> bool" where
  "reachable_vaults L opts eps \<longleftrightarrow> (\<forall>h. \<forall>ep \<in> set eps. \<exists>c. lib_dial L h ep opts = Inr c)"

section \<open>The abstract map\<close>

text \<open>The first endpoint in the session's order that holds the handle.\<close>

fun held :: "(string \<Rightarrow> string \<Rightarrow> 'k option) \<Rightarrow> string list \<Rightarrow> string \<Rightarrow> 'k option" where
  "held st [] k = None"
| "held st (ep # eps) k = (case st ep k of None \<Rightarrow> held st eps k | Some x \<Rightarrow> Some x)"

definition key_map :: "'k constellation \<Rightarrow> session \<Rightarrow> hist \<Rightarrow> string \<Rightarrow> 'k option" where
  "key_map C s h name = held (co_keys C h) (cfg_endpoints (ss_cfg s)) (handle s name)"

lemma handle_inj: "handle s n = handle s n' \<longleftrightarrow> n = n'"
  by (simp add: handle_def)

lemma held_other: "(\<And>ep. ep \<in> set eps \<Longrightarrow> st ep k = st' ep k) \<Longrightarrow> held st eps k = held st' eps k"
  by (induction eps) (auto split: option.split)

lemma held_None: "held st eps k = None \<longleftrightarrow> (\<forall>ep \<in> set eps. st ep k = None)"
  by (induction eps) (auto split: option.splits)

lemma held_set_key:
  "held st eps k = None \<Longrightarrow> ep \<in> set eps \<Longrightarrow> held (set_key st ep k (Some x)) eps k = Some x"
  by (induction eps) (auto simp: set_key_apply split: option.splits)

lemma key_map_cong: "co_keys C h' = co_keys C h \<Longrightarrow> key_map C s h' = key_map C s h"
  by (intro ext) (simp add: key_map_def)

lemma key_map_set_key:
  assumes "ep \<in> set (cfg_endpoints (ss_cfg s))" "key_map C s h name = None"
    and "co_keys C h' = set_key (co_keys C h) ep (handle s name) (Some x)"
  shows "key_map C s h' = (key_map C s h)(name \<mapsto> x)"
proof
  fix n
  show "key_map C s h' n = ((key_map C s h)(name \<mapsto> x)) n"
  proof (cases "n = name")
    case True
    with assms show ?thesis by (simp add: key_map_def held_set_key)
  next
    case False
    then have "held (co_keys C h') eps (handle s n) = held (co_keys C h) eps (handle s n)" for eps
      by (intro held_other) (simp add: assms(3) set_key_apply handle_inj)
    with False show ?thesis by (simp add: key_map_def)
  qed
qed

section \<open>Steps that leave the vaults alone\<close>

lemma keys_snoc: "stores_keys L C \<Longrightarrow> co_keys C (h @ [e]) = vault_effect L C h e"
  by (simp add: stores_keys_def)

lemma keys_control_plane:
  assumes "stores_keys L C" "list_all control_plane es"
  shows "co_keys C (h @ es) = co_keys C h"
  using assms(2)
proof (induction es arbitrary: h)
  case (Cons e es)
  then have "co_keys C ((h @ [e]) @ es) = co_keys C (h @ [e])" by (simp del: append_assoc)
  also have "\<dots> = co_keys C h"
    using Cons.prems by (cases e) (simp_all add: keys_snoc [OF assms(1)])
  finally show ?case by simp
qed simp

section \<open>Reading a key\<close>

text \<open>An operation on a connection that reads one handle and leaves the vaults alone.\<close>

definition reads_key :: "'k constellation \<Rightarrow> string \<Rightarrow> (conn \<Rightarrow> (string + 'a) io) \<Rightarrow> (hist \<Rightarrow> 'k \<Rightarrow> string + 'a) \<Rightarrow> bool" where
  "reads_key C k op f \<longleftrightarrow> (\<forall>c h.
     answers (co_keys C h (co_endpoint C c) k) (f h) (fst (run_state (op c) h))
     \<and> co_keys C (snd (run_state (op c) h)) = co_keys C h)"

lemma client_reads:
  assumes "stores_keys L C"
  shows "reads_key C k (\<lambda>c. client_key_info L c k) (\<lambda>h x. Inr (co_info C x))"
    "reads_key C k (\<lambda>c. client_wrap L c k p a v) (\<lambda>h x. co_wrap C h x p)"
    "reads_key C k (\<lambda>c. client_unwrap L c k p v a) (\<lambda>h x. co_unwrap C x p v)"
    "reads_key C k (\<lambda>c. client_sign L c k p) (\<lambda>h x. co_sign C h x p)"
  using assms
  by (simp_all add: reads_key_def client_key_info_def client_wrap_def client_unwrap_def client_sign_def
      stores_keys_def)

text \<open>The loop finds the key that the map holds, if it can be used for the operation at all.\<close>

lemma holder_loop_reads:
  assumes C: "stores_keys L C" and op: "reads_key C k op f" and dials: "reachable_vaults L opts eps"
    and usable: "\<And>h x e. held (co_keys C h0) eps k = Some x \<Longrightarrow> f h x \<noteq> Inl e"
    and run: "run_state (holder_loop L opts op eps le) h = (R, h')" and h0: "co_keys C h = co_keys C h0"
  shows "co_keys C h' = co_keys C h0 \<and>
    (case held (co_keys C h0) eps k of
       None \<Rightarrow> R = Inl le
     | Some x \<Rightarrow> \<exists>h1 r ep. f h1 x = Inr r \<and> R = Inr (r, ep))"
  using dials usable run h0
proof (induction eps arbitrary: le h)
  case Nil
  then show ?case by simp
next
  case (Cons ep eps)
  obtain c where c: "lib_dial L h ep opts = Inr c"
    using Cons.prems(1) by (auto simp: reachable_vaults_def)
  then have ep: "co_endpoint C c = ep" using C by (simp add: stores_keys_def)
  let ?h1 = "h @ [EvDial ep opts (Some c)]"
  obtain r h2 where r: "run_state (op c) ?h1 = (r, h2)" by force
  have k1: "co_keys C ?h1 = co_keys C h0" using Cons.prems(4) by (simp add: keys_snoc [OF C])
  have ans: "answers (co_keys C h0 ep k) (f ?h1) r" and k2: "co_keys C h2 = co_keys C h0"
    using op [unfolded reads_key_def, rule_format, of ?h1 c] by (simp_all add: r k1 ep)
  have k3: "co_keys C (h2 @ [EvClose c]) = co_keys C h0" by (simp add: keys_snoc [OF C] k2)
  show ?case
  proof (cases "co_keys C h0 ep k")
    case None
    then obtain e where e: "r = Inl e" "contains e ''not found''"
      using ans by (auto simp: answers_def not_found_def)
    have "run_state (holder_loop L opts op eps le) (h2 @ [EvClose c]) = (R, h')"
      using Cons.prems(3) c r e by (simp add: dial_def close_def)
    from Cons.IH [OF _ _ this k3] show ?thesis
      using Cons.prems(1,2) None by (simp add: reachable_vaults_def)
  next
    case (Some x)
    then have "r = f ?h1 x" using ans by (simp add: answers_def)
    moreover obtain y where "f ?h1 x = Inr y"
      using Cons.prems(2) [of x] Some by (cases "f ?h1 x") auto
    ultimately show ?thesis
      using Cons.prems(3) c r Some k3 by (auto simp: dial_def close_def)
  qed
qed

text \<open>The same for an operation of the session.\<close>

lemma session_reads:
  assumes C: "stores_keys L C" and s: "dialOpts s = Inr opts"
    and dials: "reachable_vaults L opts (cfg_endpoints (ss_cfg s))"
    and op: "reads_key C (handle s name) op f"
    and usable: "\<And>h' x e. key_map C s h name = Some x \<Longrightarrow> f h' x \<noteq> Inl e"
    and run: "run_state (do { r \<leftarrow> withHolder L s op; State_Monad.return (drop_endpoint r) }) h = (R, h')"
  shows "key_map C s h' = key_map C s h \<and>
    (case key_map C s h name of
       None \<Rightarrow> R = Inl (Errorf ''no vault answered for the key: %v'' [ANil])
     | Some x \<Rightarrow> \<exists>h1 r. f h1 x = Inr r \<and> R = Inr r)"
proof -
  obtain Q h2 where q: "run_state (holder_loop L opts op (cfg_endpoints (ss_cfg s)) None) h = (Q, h2)"
    by force
  from run q have h': "h' = h2" and R: "R = drop_endpoint (case Q of Inr x \<Rightarrow> Inr x
      | Inl le \<Rightarrow> Inl (Errorf ''no vault answered for the key: %v'' [case le of None \<Rightarrow> ANil | Some e \<Rightarrow> AErr e]))"
    by (auto simp: withHolder_def s)
  have *: "co_keys C h2 = co_keys C h \<and> (case key_map C s h name of None \<Rightarrow> Q = Inl None
      | Some x \<Rightarrow> \<exists>h1 r ep. f h1 x = Inr r \<and> Q = Inr (r, ep))"
    using holder_loop_reads [OF C op dials _ q refl] usable by (simp add: key_map_def)
  then have "co_keys C h2 = co_keys C h" by blast
  then have "key_map C s h2 = key_map C s h" by (rule key_map_cong)
  with * show ?thesis
    unfolding h' R by (cases "key_map C s h name") (auto simp: drop_endpoint_def)
qed

section \<open>Removing a key\<close>

lemma delete_answers:
  "stores_keys L C \<Longrightarrow> answers (co_keys C h (co_endpoint C c) k) (\<lambda>x. Inr ()) (lib_delete_key L h c k)"
  by (simp add: stores_keys_def)

text \<open>
  Some endpoints may be unreachable, each at every moment. The loop removes the handle at the others; it
  counts what it removed, and its last error is there exactly if an endpoint was unreachable.
\<close>

definition dials_up :: "lib \<Rightarrow> dial_opts \<Rightarrow> string list \<Rightarrow> (string \<Rightarrow> bool) \<Rightarrow> bool" where
  "dials_up L opts eps up \<longleftrightarrow> (\<forall>h. \<forall>ep \<in> set eps. (\<exists>c. lib_dial L h ep opts = Inr c) \<longleftrightarrow> up ep)"

lemma reachable_dials_up: "reachable_vaults L opts eps \<Longrightarrow> dials_up L opts eps (\<lambda>ep. True)"
  by (simp add: reachable_vaults_def dials_up_def)

lemma destroy_loop_down:
  assumes "dials_up L opts (ep # eps) up" "\<not> up ep" "run_state (destroy_loop L opts k (ep # eps) n le) h = (R, h')"
  obtains e where "run_state (destroy_loop L opts k eps n (Some e)) (h @ [EvDial ep opts None]) = (R, h')"
proof -
  obtain e where "lib_dial L h ep opts = Inl e"
    using assms(1,2) by (cases "lib_dial L h ep opts") (auto simp: dials_up_def)
  with assms(3) that show thesis by (simp add: dial_def)
qed

lemma destroy_loop_removes:
  assumes C: "stores_keys L C" and dials: "dials_up L opts eps up"
    and run: "run_state (destroy_loop L opts k eps n le) h = (R, h')"
  shows "n \<le> fst R \<and> (fst R = n \<longleftrightarrow> (\<forall>ep\<in>set eps. up ep \<longrightarrow> co_keys C h ep k = None))
    \<and> (snd R = None \<longleftrightarrow> le = None \<and> (\<forall>ep\<in>set eps. up ep))
    \<and> (\<forall>ep k'. co_keys C h' ep k' = (if ep \<in> set eps \<and> up ep \<and> k' = k then None else co_keys C h ep k'))"
  using dials run
proof (induction eps arbitrary: n le h)
  case Nil
  then show ?case by auto
next
  case (Cons ep eps)
  have rest: "dials_up L opts eps up" using Cons.prems(1) by (simp add: dials_up_def)
  show ?case
  proof (cases "up ep")
    case False
    then obtain e where "run_state (destroy_loop L opts k eps n (Some e)) (h @ [EvDial ep opts None]) = (R, h')"
      using destroy_loop_down Cons.prems by blast
    from Cons.IH [OF rest this] False show ?thesis by (auto simp: keys_snoc [OF C])
  next
    case True
    obtain c where c: "lib_dial L h ep opts = Inr c"
      using Cons.prems(1) True by (auto simp: dials_up_def)
    then have ep: "co_endpoint C c = ep" using C by (simp add: stores_keys_def)
    let ?h1 = "h @ [EvDial ep opts (Some c)]"
    let ?h2 = "?h1 @ [EvVault c (DeleteOp k)] @ [EvClose c]"
    have k1: "co_keys C ?h1 = co_keys C h" by (simp add: keys_snoc [OF C])
    then have k2: "co_keys C ?h2 = set_key (co_keys C h) ep k None"
      using keys_snoc [OF C, of "?h1 @ [EvVault c (DeleteOp k)]" "EvClose c"]
        keys_snoc [OF C, of ?h1 "EvVault c (DeleteOp k)"] by (simp add: ep)
    have "answers (co_keys C h ep k) (\<lambda>x. Inr ()) (lib_delete_key L ?h1 c k)"
      using delete_answers [OF C, of ?h1 c k] by (simp add: k1 ep)
    then have "run_state (destroy_loop L opts k eps (if co_keys C h ep k = None then n else n + 1) le) ?h2 = (R, h')"
      using Cons.prems(2) c
      by (cases "co_keys C h ep k"; cases "lib_delete_key L ?h1 c k")
        (auto simp: dial_def client_delete_key_def close_def answers_def not_found_def)
    from Cons.IH [OF rest this] True show ?thesis
      unfolding k2 by (auto simp: set_key_apply split: if_splits)
  qed
qed

lemma held_removed:
  "(\<And>ep. ep \<in> set eps \<Longrightarrow> st' ep k = (if up ep then None else st ep k)) \<Longrightarrow>
    held st' eps k = held st (filter (\<lambda>ep. \<not> up ep) eps) k"
  by (induction eps) (auto split: option.split)

lemma session_destroys_up:
  assumes C: "stores_keys L C" and s: "dialOpts s = Inr opts"
    and dials: "dials_up L opts (cfg_endpoints (ss_cfg s)) up"
    and run: "run_state (destroy L s name) h = (R, h')"
  defines "eps \<equiv> cfg_endpoints (ss_cfg s)" and "k \<equiv> handle s name"
  shows "(R = Inr () \<longleftrightarrow> (\<forall>ep\<in>set eps. up ep) \<or> (\<exists>ep\<in>set eps. up ep \<and> co_keys C h ep k \<noteq> None))
    \<and> (\<forall>ep k'. co_keys C h' ep k' = (if ep \<in> set eps \<and> up ep \<and> k' = k then None else co_keys C h ep k'))
    \<and> key_map C s h' = (key_map C s h)(name := held (co_keys C h) (filter (\<lambda>ep. \<not> up ep) eps) k)"
proof -
  obtain d le h2 where q: "run_state (destroy_loop L opts k eps 0 None) h = ((d, le), h2)"
    by (cases "run_state (destroy_loop L opts k eps 0 None) h") auto
  from destroy_loop_removes [OF C dials [folded eps_def] q]
  have d: "d = 0 \<longleftrightarrow> (\<forall>ep\<in>set eps. up ep \<longrightarrow> co_keys C h ep k = None)"
    and le: "le = None \<longleftrightarrow> (\<forall>ep\<in>set eps. up ep)"
    and keys: "co_keys C h2 ep k' = (if ep \<in> set eps \<and> up ep \<and> k' = k then None else co_keys C h ep k')" for ep k'
    by auto
  from run q have h': "h' = h2" and R: "R = Inr () \<longleftrightarrow> le = None \<or> d \<noteq> 0"
    by (auto simp: destroy_def s eps_def k_def split: option.splits if_splits)
  have "key_map C s h2 n = ((key_map C s h)(name := held (co_keys C h) (filter (\<lambda>ep. \<not> up ep) eps) k)) n" for n
  proof (cases "n = name")
    case True
    have "held (co_keys C h2) eps k = held (co_keys C h) (filter (\<lambda>ep. \<not> up ep) eps) k"
      by (rule held_removed) (simp add: keys)
    with True show ?thesis by (simp add: key_map_def eps_def k_def)
  next
    case False
    then have "held (co_keys C h2) eps (handle s n) = held (co_keys C h) eps (handle s n)"
      by (intro held_other) (simp add: keys k_def handle_inj)
    with False show ?thesis by (simp add: key_map_def eps_def)
  qed
  then have "key_map C s h2 = (key_map C s h)(name := held (co_keys C h) (filter (\<lambda>ep. \<not> up ep) eps) k)"
    by (intro ext)
  moreover have "R = Inr () \<longleftrightarrow> (\<forall>ep\<in>set eps. up ep) \<or> (\<exists>ep\<in>set eps. up ep \<and> co_keys C h ep k \<noteq> None)"
    unfolding R d le by auto
  ultimately show ?thesis unfolding h' using keys by blast
qed

lemma session_destroys:
  assumes "stores_keys L C" "dialOpts s = Inr opts" "reachable_vaults L opts (cfg_endpoints (ss_cfg s))"
    and "run_state (destroy L s name) h = (R, h')"
  shows "R = Inr () \<and> key_map C s h' = (key_map C s h)(name := None)"
  using session_destroys_up [OF assms(1,2) reachable_dials_up [OF assms(3)] assms(4)] by simp

section \<open>Creating a key\<close>

text \<open>How a creation ends: before any vault, at a failed dial, or with one call that sends the material.\<close>

context grantor_iface
begin

lemma createKey_ends:
  assumes G: "ss_grantor s = Some (Grantor mint rotate)"
    and run: "run_state (createKey L s name kt x) h = (R, h')"
  obtains (early) es e where "R = Inl e" "h' = h @ es" "list_all control_plane es"
  | (undialled) es e ep opts where "R = Inl e" "h' = h @ es @ [EvDial ep opts None]" "list_all control_plane es"
  | (sent) es g ep eps opts c m h2 kt' cnf where "list_all control_plane es"
    "fst (run_state (mint (cfg_vault_id (ss_cfg s)) name kt' cnf x) h2) = Inr g" "kg_endpoints g = ep # eps"
    "lib_dial L (h @ es) ep opts = Inr c"
    "h' = ((h @ es @ [EvDial ep opts (Some c)]) @ [EvVault c (CreateKeyOp (kg_handle g) m (kg_grant g))]) @ [EvClose c]"
    "R = Inr (kg_handle g) \<longleftrightarrow>
       lib_create_key L (h @ es @ [EvDial ep opts (Some c)]) c (kg_handle g) m (kg_grant g) = Inr ()"
    "\<And>y. R = Inr y \<Longrightarrow> y = kg_handle g"
proof -
  obtain mt h1 where m: "run_state (generateMaterial L kt) h = (mt, h1)" by force
  from emitsD [OF generateMaterial_emits m] obtain e1 where e1: "h1 = h @ e1" "list_all control_plane e1" by blast
  show thesis
  proof (cases mt)
    case (Inl e)
    with run m e1 have "\<exists>e. R = Inl e" "h' = h @ e1" by (auto simp: createKey_def G)
    with e1 early show thesis by blast
  next
    case m': (Inr mat)
    obtain cc h2 where c: "run_state (generateClientCert L (cfg_owner_sub (ss_cfg s))) h1 = (cc, h2)" by force
    from emitsD [OF generateClientCert_emits c] obtain e2 where e2: "h2 = h1 @ e2" "list_all control_plane e2" by blast
    show thesis
    proof (cases cc)
      case (Inl e)
      with run m m' c e1 e2 have "\<exists>e. R = Inl e" "h' = h @ (e1 @ e2)" by (auto simp: createKey_def G)
      moreover have "list_all control_plane (e1 @ e2)" using e1 e2 by simp
      ultimately show thesis using early by blast
    next
      case (Inr y)
      obtain cert cnf where y: "y = (cert, cnf)" by (cases y)
      obtain mg h3 where g: "run_state (mint (cfg_vault_id (ss_cfg s)) name (vaultKeyType L kt) cnf x) h2 = (mg, h3)"
        by force
      from emitsD [OF mint_grant g] obtain e3 where e3: "h3 = h2 @ e3" "list_all control_plane e3"
        by (auto simp: grant_trace_def)
      note runs = m m' c Inr y g
      have h3: "h3 = h @ (e1 @ e2 @ e3)" and cp: "list_all control_plane (e1 @ e2 @ e3)"
        using e1 e2 e3 by simp_all
      show thesis
      proof (cases mg)
        case (Inl e)
        with run runs h3 have "\<exists>e. R = Inl e" "h' = h @ (e1 @ e2 @ e3)" by (auto simp: createKey_def G)
        with cp early show thesis by blast
      next
        case mg: (Inr gr)
        show thesis
        proof (cases "kg_endpoints gr")
          case Nil
          with run runs mg h3 have "\<exists>e. R = Inl e" "h' = h @ (e1 @ e2 @ e3)" by (auto simp: createKey_def G)
          with cp early show thesis by blast
        next
          case eps: (Cons ep eps)
          show thesis
          proof (cases "verifyPolicy (kg_mrenclave gr) (kg_att_server gr) (cfg_att_token (ss_cfg s))")
            case (Inl e)
            with run runs mg eps h3 have "\<exists>e. R = Inl e" "h' = h @ (e1 @ e2 @ e3)" by (auto simp: createKey_def G)
            with cp early show thesis by blast
          next
            case v: (Inr verify)
            let ?opts = "no_opts\<lparr>do_client_cert := Some cert, do_vault_policy := Some verify\<rparr>"
            show thesis
            proof (cases "lib_dial L h3 ep ?opts")
              case (Inl e)
              with run runs mg eps v h3 have "\<exists>e. R = Inl e" "h' = h @ (e1 @ e2 @ e3) @ [EvDial ep ?opts None]"
                by (auto simp: createKey_def G dial_def)
              with cp undialled show thesis by blast
            next
              case d: (Inr cn)
              show thesis
                by (rule sent [where g = gr and m = mat and ?h2.0 = h2 and kt' = "vaultKeyType L kt" and cnf = cnf,
                    OF cp _ eps d [unfolded h3]])
                  (use run runs mg eps v d h3 g in
                    \<open>auto simp: createKey_def G dial_def client_create_key_def close_def split: sum.splits\<close>)
            qed
          qed
        qed
      qed
    qed
  qed
qed

end

end
