(* ===== verification/Control.thy ===== *)
theory Control
  imports Kmip_Laws Routing
begin

text \<open>
  \<^verbatim>\<open>internal/control/server.go\<close>: the HTTP surface. The configuration callback may change more than the
  history of outside events, so the server is over any state \<open>'w\<close>; the other handlers act on the
  history only, and the router lifts them. \<^verbatim>\<open>net/http.ServeMux\<close> is modelled for the patterns the
  gateway registers.
\<close>

section \<open>Requests, responses, the server\<close>

text \<open>
  A request as \<^verbatim>\<open>net/http\<close> presents it: the decoded path, the path as escaped, the bytes of the body
  and whether reading fails after them.
\<close>

record in_request =
  ir_method :: string
  ir_path :: string
  ir_escaped_path :: string
  ir_body :: "byte list"
  ir_body_fails :: bool

text \<open>
  The text \<^verbatim>\<open>err.Error()\<close> is kept as the error itself. Of a redirect the location is kept, without the query of
  the request, and not the page that says so.
\<close>

datatype rvalue = Lit string | ErrorText gerr

datatype rbody = JsonBody "(string \<times> rvalue) list" | BytesBody "byte list" | TextBody string | Redirect string

record out_response =
  or_status :: nat
  or_content_type :: string
  or_body :: rbody

record config_request =
  cq_mgmt_url :: string
  cq_vault_id :: string

type_synonym kmip_handler = "byte list \<Rightarrow> byte list option io"

record 'w control_server =
  cs_version :: string
  cs_sess :: "vault option"
  cs_kmip :: "kmip_handler option"
  cs_configure :: "(config_request \<Rightarrow> ('w, gerr option) state) option"

definition new_control :: "string \<Rightarrow> 'w control_server" where
  "new_control version = \<lparr>cs_version = version, cs_sess = None, cs_kmip = None, cs_configure = None\<rparr>"

definition onConfigure :: "(config_request \<Rightarrow> ('w, gerr option) state) \<Rightarrow> 'w control_server \<Rightarrow> 'w control_server" where
  "onConfigure fn s = s\<lparr>cs_configure := Some fn\<rparr>"

definition setSession :: "vault \<Rightarrow> kmip_handler \<Rightarrow> 'w control_server \<Rightarrow> 'w control_server" where
  "setSession v k s = s\<lparr>cs_sess := Some v, cs_kmip := Some k\<rparr>"

text \<open>The accessors; the lock makes each a single read.\<close>

definition kmipHandler :: "'w control_server \<Rightarrow> kmip_handler option" where
  "kmipHandler s = cs_kmip s"

definition current_session :: "'w control_server \<Rightarrow> vault option" where
  "current_session s = cs_sess s"

lemma accessors [simp]: "kmipHandler s = cs_kmip s" "current_session s = cs_sess s"
  by (simp_all add: kmipHandler_def current_session_def)

definition writeJSON :: "nat \<Rightarrow> (string \<times> rvalue) list \<Rightarrow> out_response" where
  "writeJSON status v = \<lparr>or_status = status, or_content_type = ''application/json'', or_body = JsonBody v\<rparr>"

definition error_response :: "nat \<Rightarrow> string \<Rightarrow> out_response" where
  "error_response status msg = writeJSON status [(''error'', Lit msg)]"

text \<open>\<^verbatim>\<open>json.NewDecoder(r.Body).Decode\<close>: the first value of the body, whatever follows it.\<close>

definition body_json :: "lib \<Rightarrow> in_request \<Rightarrow> json option" where
  "body_json L r = json_decode L (map byte_char (ir_body r)) (ir_body_fails r)"

section \<open>Configure and KMIP\<close>

definition config_fields :: "config_request field list" where
  "config_fields =
     [(''mgmt_url'', string_field (\<lambda>x r. r\<lparr>cq_mgmt_url := x\<rparr>)),
      (''vault_id'', string_field (\<lambda>x r. r\<lparr>cq_vault_id := x\<rparr>))]"

definition configureHandler :: "lib \<Rightarrow> 'w control_server \<Rightarrow> in_request \<Rightarrow> ('w, out_response) state" where
  "configureHandler L s r =
     (case cs_configure s of
        None \<Rightarrow> State_Monad.return (error_response 501 ''configuration is not enabled'')
      | Some configure \<Rightarrow>
          (case decode_into config_fields \<lparr>cq_mgmt_url = '''', cq_vault_id = ''''\<rparr> (body_json L r) of
             None \<Rightarrow> State_Monad.return (error_response 400 ''invalid JSON body'')
           | Some req \<Rightarrow>
               if cq_mgmt_url req = '''' \<or> cq_vault_id req = '''' then
                 State_Monad.return (error_response 400 ''mgmt_url and vault_id are required'')
               else do {
                 e \<leftarrow> configure req;
                 State_Monad.return (case e of
                   Some err \<Rightarrow> writeJSON 502 [(''error'', ErrorText err)]
                 | None \<Rightarrow> writeJSON 200 [(''status'', Lit ''configured'')])
               }))"

text \<open>\<^verbatim>\<open>io.ReadAll(io.LimitReader(body, n))\<close>: the bytes, and whether the read failed.\<close>

definition read_limited :: "nat \<Rightarrow> in_request \<Rightarrow> byte list \<times> bool" where
  "read_limited n r =
     (if n \<le> length (ir_body r) then (take n (ir_body r), False) else (ir_body r, ir_body_fails r))"

text \<open>A panic of the handler (\<^const>\<open>None\<close>) aborts the response.\<close>

definition handleKMIP :: "'w control_server \<Rightarrow> in_request \<Rightarrow> out_response option io" where
  "handleKMIP s r =
     (case kmipHandler s of
        None \<Rightarrow> State_Monad.return (Some (error_response 503 ''gateway is awaiting configuration''))
      | Some k \<Rightarrow>
          (let (body, failed) = read_limited (2 ^ 20) r in
           if failed \<or> length body = 0 then
             State_Monad.return (Some (error_response 400 ''empty or unreadable KMIP request body''))
           else do {
             resp \<leftarrow> k body;
             State_Monad.return (map_option (\<lambda>bs. \<lparr>or_status = 200,
               or_content_type = ''application/octet-stream'', or_body = BytesBody bs\<rparr>) resp)
           }))"

section \<open>Health, version, root\<close>

definition health :: out_response where
  "health = writeJSON 200 [(''status'', Lit ''healthy'')]"

definition versionInfo :: "'w control_server \<Rightarrow> out_response" where
  "versionInfo s = writeJSON 200 [(''version'', Lit (cs_version s))]"

definition root :: "'w control_server \<Rightarrow> in_request \<Rightarrow> out_response" where
  "root s r =
     (if ir_path r \<noteq> ''/'' then error_response 404 ''not found''
      else writeJSON 200
        [(''configured'', Lit (if current_session s \<noteq> None then ''true'' else ''false'')),
         (''service'', Lit ''kmip-gateway''),
         (''summary'', Lit ''KMIP 2.1 front-end for the Privasys vHSM. KMIP clients use the TTLV port; this surface is health + management.''),
         (''version'', Lit (cs_version s))])"

section \<open>The management tools\<close>

text \<open>The decoded bodies; \<open>tb_message\<close> is used by sign only and \<open>tb_type\<close> by createKey only.\<close>

record tool_body =
  tb_name :: string
  tb_type :: string
  tb_message :: string

definition empty_tool_body :: tool_body where
  "empty_tool_body = \<lparr>tb_name = '''', tb_type = '''', tb_message = ''''\<rparr>"

definition requireSession :: "'w control_server \<Rightarrow> out_response + vault" where
  "requireSession s =
     (case current_session s of
        None \<Rightarrow> Inl (error_response 503 ''gateway is awaiting configuration'')
      | Some v \<Rightarrow> Inr v)"

definition create_fields :: "tool_body field list" where
  "create_fields =
     [(''name'', string_field (\<lambda>x r. r\<lparr>tb_name := x\<rparr>)), (''type'', string_field (\<lambda>x r. r\<lparr>tb_type := x\<rparr>))]"

definition createKeyHandler :: "lib \<Rightarrow> 'w control_server \<Rightarrow> in_request \<Rightarrow> out_response io" where
  "createKeyHandler L s r =
     (case decode_into create_fields empty_tool_body (body_json L r) of
        None \<Rightarrow> State_Monad.return (error_response 400 ''invalid JSON body'')
      | Some body0 \<Rightarrow>
          (let body = (if tb_type body0 = '''' then body0\<lparr>tb_type := ''aes''\<rparr> else body0) in
           case requireSession s of
             Inl resp \<Rightarrow> State_Monad.return resp
           | Inr sess \<Rightarrow> do {
               h \<leftarrow> vaultCreate sess (tb_name body) (tb_type body) False;
               State_Monad.return (case h of
                 Inl e \<Rightarrow> writeJSON 502 [(''error'', ErrorText e)]
               | Inr hdl \<Rightarrow> writeJSON 200 [(''handle'', Lit hdl), (''type'', Lit (tb_type body))])
             }))"

definition sign_fields :: "tool_body field list" where
  "sign_fields =
     [(''name'', string_field (\<lambda>x r. r\<lparr>tb_name := x\<rparr>)),
      (''message_b64'', string_field (\<lambda>x r. r\<lparr>tb_message := x\<rparr>))]"

definition signHandler :: "lib \<Rightarrow> 'w control_server \<Rightarrow> in_request \<Rightarrow> out_response io" where
  "signHandler L s r =
     (case decode_into sign_fields empty_tool_body (body_json L r) of
        None \<Rightarrow> State_Monad.return (error_response 400 ''invalid JSON body'')
      | Some body \<Rightarrow>
          if tb_name body = '''' then State_Monad.return (error_response 400 ''name is required'')
          else (case b64_decode b64_std (tb_message body) of
            None \<Rightarrow> State_Monad.return (error_response 400 ''message_b64 must be base64'')
          | Some msg \<Rightarrow>
              (case requireSession s of
                 Inl resp \<Rightarrow> State_Monad.return resp
               | Inr sess \<Rightarrow> do {
                   x \<leftarrow> vaultSign sess (tb_name body) msg;
                   State_Monad.return (case x of
                     Inl e \<Rightarrow> writeJSON 502 [(''error'', ErrorText e)]
                   | Inr (sig, alg) \<Rightarrow> writeJSON 200
                       [(''algorithm'', Lit alg), (''signature_b64'', Lit (b64_encode b64_std True sig))])
                 })))"

definition name_fields :: "tool_body field list" where
  "name_fields = [(''name'', string_field (\<lambda>x r. r\<lparr>tb_name := x\<rparr>))]"

definition getPublicKey :: "lib \<Rightarrow> 'w control_server \<Rightarrow> in_request \<Rightarrow> out_response io" where
  "getPublicKey L s r =
     (case decode_into name_fields empty_tool_body (body_json L r) of
        None \<Rightarrow> State_Monad.return (error_response 400 ''invalid JSON body'')
      | Some body \<Rightarrow>
          if tb_name body = '''' then State_Monad.return (error_response 400 ''name is required'')
          else (case requireSession s of
            Inl resp \<Rightarrow> State_Monad.return resp
          | Inr sess \<Rightarrow> do {
              x \<leftarrow> vaultGetKeyInfo sess (tb_name body);
              State_Monad.return (case x of
                Inl e \<Rightarrow> writeJSON 404 [(''error'', ErrorText e)]
              | Inr info \<Rightarrow>
                  if length (ki_public_key info) = 0 then
                    error_response 400 ''key has no public key (not a signing key)''
                  else writeJSON 200
                    [(''key_type'', Lit (key_type_string L (ki_type info))),
                     (''public_key_b64'', Lit (b64_encode b64_std True (ki_public_key info)))])
            }))"

section \<open>The mux\<close>

definition plain_response :: "nat \<Rightarrow> string \<Rightarrow> out_response" where
  "plain_response status t =
     \<lparr>or_status = status, or_content_type = ''text/plain; charset=utf-8'', or_body = TextBody t\<rparr>"

text \<open>\<^verbatim>\<open>RedirectHandler\<close> names a content type only where it sends a page.\<close>

definition redirect_response :: "string \<Rightarrow> string \<Rightarrow> out_response" where
  "redirect_response meth u =
     \<lparr>or_status = 301,
      or_content_type = (if meth = ''GET'' \<or> meth = ''HEAD'' then ''text/html; charset=utf-8'' else ''''),
      or_body = Redirect (location u)\<rparr>"

text \<open>\<open>lift\<close> runs a handler on the history inside the state.\<close>

definition serveHTTP :: "lib \<Rightarrow> (out_response option io \<Rightarrow> ('w, out_response option) state)
    \<Rightarrow> 'w control_server \<Rightarrow> in_request \<Rightarrow> ('w, out_response option) state" where
  "serveHTTP L lift s r =
     (case route_of (ir_method r) (ir_escaped_path r) of
        RHealth \<Rightarrow> State_Monad.return (Some health)
      | RVersion \<Rightarrow> State_Monad.return (Some (versionInfo s))
      | RRoot \<Rightarrow> State_Monad.return (Some (root s r))
      | RConfigure \<Rightarrow> do { x \<leftarrow> configureHandler L s r; State_Monad.return (Some x) }
      | RKmip \<Rightarrow> lift (handleKMIP s r)
      | RKeys \<Rightarrow> lift (do { x \<leftarrow> createKeyHandler L s r; State_Monad.return (Some x) })
      | RSign \<Rightarrow> lift (do { x \<leftarrow> signHandler L s r; State_Monad.return (Some x) })
      | RPublic \<Rightarrow> lift (do { x \<leftarrow> getPublicKey L s r; State_Monad.return (Some x) })
      | RRedirect u \<Rightarrow> State_Monad.return (Some (redirect_response (ir_method r) u))
      | RMethodNotAllowed \<Rightarrow> State_Monad.return (Some (plain_response 405 (''Method Not Allowed'' @ [CHR 0x0A]))))"

end
