(* ===== verification/Control_Properties.thy ===== *)
theory Control_Properties
  imports Control Kmip_Properties
begin

text \<open>
  The properties of the HTTP surface: what each handler answers, which vault operations it causes, and
  that nothing happens before the gateway is configured.
\<close>

section \<open>The management tools over any vault\<close>

text \<open>
  The outcome of a tool: refused without doing anything, or the answer to one operation on a key.
\<close>

definition tool_outcome :: "(string \<Rightarrow> event list \<Rightarrow> bool) \<Rightarrow> out_response \<Rightarrow> event list \<Rightarrow> bool" where
  "tool_outcome ok resp es \<longleftrightarrow>
     or_status resp \<in> {400, 503} \<and> es = []
     \<or> or_status resp \<in> {200, 400, 404, 502} \<and> (\<exists>name. ok name es)"

lemma or_status_simps [simp]:
  "or_status (writeJSON st v) = st" "or_status (error_response st m) = st"
  by (simp_all add: writeJSON_def error_response_def)

definition sample_request :: in_request where
  "sample_request = \<lparr>ir_method = ''POST'', ir_path = ''/sign'', ir_escaped_path = ''/sign'', ir_body = [5],
     ir_body_fails = False\<rparr>"

context control_vault
begin

lemma tools_emit:
  assumes "requireSession s = Inl resp \<and> or_status resp = 503
    \<or> requireSession s = Inr (Vault create w u sign_op info d)"
  shows "emits (createKeyHandler L s r) (tool_outcome ok)" "emits (signHandler L s r) (tool_outcome ok)"
    "emits (getPublicKey L s r) (tool_outcome ok)"
  using assms
  unfolding createKeyHandler_def signHandler_def getPublicKey_def
  by (auto simp: tool_outcome_def Let_def
    intro!: emits_return emits_bind [OF create_ok] emits_bind [OF sign_ok] emits_bind [OF info_ok]
    split: option.split sum.split) blast+

end

text \<open>The HTTP tools, over the installed attested session or before it is installed, answer one of a
  fixed set of statuses, and cause either nothing or one operation of the session on one key; an
  unconfigured gateway and a malformed request cause nothing.\<close>

theorem tools_confined:
  assumes "cs_sess s = None \<or> cs_sess s = Some (session_vault L (attested_session L cfg m base))"
  shows "emits (createKeyHandler L s r) (tool_outcome (session_trace (attested_session L cfg m base)))
    \<and> emits (signHandler L s r) (tool_outcome (session_trace (attested_session L cfg m base)))
    \<and> emits (getPublicKey L s r) (tool_outcome (session_trace (attested_session L cfg m base)))"
proof -
  have "requireSession s = Inl (error_response 503 ''gateway is awaiting configuration'') \<and>
      or_status (error_response 503 ''gateway is awaiting configuration'') = 503
    \<or> requireSession s = Inr (Vault (createKey L (attested_session L cfg m base)) (wrap L (attested_session L cfg m base))
        (unwrap L (attested_session L cfg m base)) (sign L (attested_session L cfg m base))
        (getKeyInfo L (attested_session L cfg m base)) (destroy L (attested_session L cfg m base)))"
    using assms by (auto simp: requireSession_def session_vault_def)
  from gateway.tools_emit [OF this] show ?thesis by blast
qed

lemma tools_confined_witness:
  "emits (signHandler sample_lib ((new_control ''v'' :: hist control_server)
       \<lparr>cs_sess := Some (session_vault sample_lib sample_session)\<rparr>) sample_request)
     (tool_outcome (session_trace sample_session))"
  using tools_confined [of "(new_control ''v'' :: hist control_server)
       \<lparr>cs_sess := Some (session_vault sample_lib sample_session)\<rparr>" sample_lib sample_config sample_minter
       "''https://api''" sample_request]
  by (simp add: sample_session_def)

text \<open>C32: The sign tool hands the vault exactly the bytes the caller encoded, and the signature in the
  answer decodes to the bytes the vault returned.\<close>

theorem sign_tool_transports_bytes:
  assumes "body_json L r = Some (JObj [(''name'', JStr n), (''message_b64'', JStr (b64_encode b64_std True msg))])"
    and "n \<noteq> ''''" "cs_sess s = Some V" "run_state (vaultSign V n msg) h = (Inr (sig, alg), h')"
  shows "\<exists>t. run_state (signHandler L s r) h
      = (writeJSON 200 [(''algorithm'', Lit alg), (''signature_b64'', Lit t)], h') \<and> b64_decode b64_std t = Some sig"
  by (intro exI [of _ "b64_encode b64_std True sig"])
    (simp add: assms signHandler_def decode_into_def decode_struct_def sign_fields_def field_of_def
      string_field_def empty_tool_body_def b64_decode_encode requireSession_def)

definition sign_world :: lib where
  "sign_world = sample_lib\<lparr>json_decode := \<lambda>t fails. Some (JObj [(''name'', JStr ''k''), (''message_b64'', JStr ''AQI='')])\<rparr>"

definition echo_vault :: vault where
  "echo_vault = Vault (\<lambda>n kt x. State_Monad.return (Inr n)) (\<lambda>n p. State_Monad.return (Inr (p, [7])))
     (\<lambda>n c iv. State_Monad.return (Inr c)) (\<lambda>n m. State_Monad.return (Inr (9 # m, ''ES256'')))
     (\<lambda>n. State_Monad.return (Inr \<lparr>ki_type = P256SigningKey, ki_public_key = [4]\<rparr>))
     (\<lambda>n. State_Monad.return (Inr ()))"

lemma sign_tool_transports_bytes_witness:
  "\<exists>t. run_state (signHandler sign_world ((new_control ''v'' :: hist control_server)\<lparr>cs_sess := Some echo_vault\<rparr>)
       \<lparr>ir_method = ''POST'', ir_path = ''/sign'', ir_escaped_path = ''/sign'', ir_body = [], ir_body_fails = False\<rparr>) []
     = (writeJSON 200 [(''algorithm'', Lit ''ES256''), (''signature_b64'', Lit t)], [])
       \<and> b64_decode b64_std t = Some [9, 1, 2]"
proof (rule sign_tool_transports_bytes [where msg = "[1, 2]" and n = "''k''" and V = echo_vault])
  have "b64_encode b64_std True [1, 2] = ''AQI=''" by code_simp
  then show "body_json sign_world \<lparr>ir_method = ''POST'', ir_path = ''/sign'', ir_escaped_path = ''/sign'',
      ir_body = [], ir_body_fails = False\<rparr> =
    Some (JObj [(''name'', JStr ''k''), (''message_b64'', JStr (b64_encode b64_std True [1, 2]))])"
    by (simp add: body_json_def sign_world_def sample_lib_def)
qed (simp_all add: echo_vault_def)

text \<open>An HTTP request with a KMIP message gets the stripped answer of the protocol handler to the
  first mebibyte of the body; the handler never panics.\<close>

theorem kmip_endpoint_answers:
  assumes "cs_kmip s = Some (handleMessage serve srv)" "ir_body r \<noteq> []"
    "2 ^ 20 \<le> length (ir_body r) \<or> \<not> ir_body_fails r"
    "run_state (serve srv (take (2 ^ 20) (ir_body r))) h = (buf, h')"
  shows "\<exists>out. stripCorrelation buf = Some out \<and>
    run_state (handleKMIP s r) h =
      (Some \<lparr>or_status = 200, or_content_type = ''application/octet-stream'', or_body = BytesBody out\<rparr>, h')"
proof -
  have "read_limited (2 ^ 20) r = (take (2 ^ 20) (ir_body r), False)"
    using assms(3) by (auto simp: read_limited_def)
  then show ?thesis
    using assms(1,2,4) by (simp add: handleKMIP_def handleMessage_def stripCorrelation_total)
qed

lemma kmip_endpoint_answers_witness:
  "\<exists>out. stripCorrelation [1, 2] = Some out \<and>
    run_state (handleKMIP ((new_control ''v'' :: hist control_server)
        \<lparr>cs_kmip := Some (handleMessage (\<lambda>srv b. State_Monad.return [1, 2]) (new_server sample_lib sample_kmip echo_vault))\<rparr>)
      \<lparr>ir_method = ''POST'', ir_path = ''/kmip'', ir_escaped_path = ''/kmip'', ir_body = [5], ir_body_fails = False\<rparr>) [] =
      (Some \<lparr>or_status = 200, or_content_type = ''application/octet-stream'', or_body = BytesBody out\<rparr>, [])"
  by (rule kmip_endpoint_answers [where serve = "\<lambda>srv b. State_Monad.return [1, 2]"
      and srv = "new_server sample_lib sample_kmip echo_vault" and buf = "[1, 2]"]) simp_all

text \<open>Until a session is installed, the KMIP endpoint and the tools answer 503 or 400 and do nothing.\<close>

theorem unconfigured_does_nothing:
  assumes "cs_sess s = None" "cs_kmip s = None"
  shows "(\<exists>x. run_state (handleKMIP s r) h = (Some x, h) \<and> or_status x = 503)
    \<and> (\<exists>x. run_state (createKeyHandler L s r) h = (x, h) \<and> or_status x \<in> {400, 503})
    \<and> (\<exists>x. run_state (signHandler L s r) h = (x, h) \<and> or_status x \<in> {400, 503})
    \<and> (\<exists>x. run_state (getPublicKey L s r) h = (x, h) \<and> or_status x \<in> {400, 503})"
  using assms
  by (auto simp: handleKMIP_def createKeyHandler_def signHandler_def getPublicKey_def requireSession_def
    Let_def split: option.split)

lemma unconfigured_does_nothing_witness:
  "\<exists>x. run_state (handleKMIP (new_control ''v'' :: hist control_server) sample_request) [] = (Some x, []) \<and> or_status x = 503"
  using unconfigured_does_nothing [of "new_control ''v'' :: hist control_server" sample_request "[]" sample_lib]
  by (simp add: new_control_def)

text \<open>Configuration is applied exactly when the body decodes to two non-empty strings: otherwise the
  state is unchanged and the answer is 400 or 501, and the answer is 200 or 502 by the callback's
  result.\<close>

theorem configure_validates:
  assumes "cs_configure s = Some fn"
  shows "run_state (configureHandler L s r) w =
    (case decode_into config_fields \<lparr>cq_mgmt_url = '''', cq_vault_id = ''''\<rparr> (body_json L r) of
       None \<Rightarrow> (error_response 400 ''invalid JSON body'', w)
     | Some q \<Rightarrow>
         if cq_mgmt_url q \<noteq> '''' \<and> cq_vault_id q \<noteq> '''' then
           (case run_state (fn q) w of
              (None, w') \<Rightarrow> (writeJSON 200 [(''status'', Lit ''configured'')], w')
            | (Some e, w') \<Rightarrow> (writeJSON 502 [(''error'', ErrorText e)], w'))
         else (error_response 400 ''mgmt_url and vault_id are required'', w))"
  using assms by (auto simp: configureHandler_def split: option.split prod.split)

lemma configure_validates_witness:
  "run_state (configureHandler sample_lib (onConfigure (\<lambda>q. State_Monad.return None) (new_control ''v'')) sample_request) (3 :: nat) =
     (error_response 400 ''mgmt_url and vault_id are required'', 3)"
  using configure_validates [of "onConfigure (\<lambda>q. State_Monad.return None) (new_control ''v'') :: nat control_server"
      "\<lambda>q. State_Monad.return None" sample_lib sample_request 3]
  by (simp add: onConfigure_def body_json_def sample_lib_def decode_into_def decode_struct_def)




text \<open>The create tool defaults the type but not the name: an empty body asks the vault for the key with
  the empty name.\<close>

lemma create_tool_empty_name:
  assumes "body_json L r = Some (JObj [])" "cs_sess s = Some V"
    and "run_state (vaultCreate V '''' ''aes'' False) h = (Inr hdl, h')"
  shows "run_state (createKeyHandler L s r) h = (writeJSON 200 [(''handle'', Lit hdl), (''type'', Lit ''aes'')], h')"
  using assms
  by (simp add: createKeyHandler_def decode_into_def decode_struct_def empty_tool_body_def requireSession_def)

end
