(* ===== verification/Tool_Properties.thy ===== *)
theory Tool_Properties
  imports Key_Properties Control_Properties
begin

text \<open>
  The two front-ends of the gateway over one session, the HTTP tools and the KMIP operations, over vaults
  that store keys: both act on the same map from names to keys. And what Destroy achieves when some of the
  vaults cannot be reached.
\<close>

section \<open>The tools and KMIP share the keys\<close>








section \<open>Destroy and unreachable vaults\<close>





end
