(* ===== verification/Config_Manager.thy ===== *)
theory Config_Manager
  imports Control
begin

text \<open>
  \<^verbatim>\<open>main.go\<close>, the parts without concurrency: the platform's environment, the sealed configuration
  file, the freeze gate, and one turn of the self-configuration loop.
\<close>

section \<open>Environment and configuration\<close>

text \<open>\<open>getenv\<close> is the process environment; an unset variable is the empty string.\<close>

definition env :: "(string \<Rightarrow> string) \<Rightarrow> string \<Rightarrow> string \<Rightarrow> string" where
  "env getenv k def = (let v = getenv k in if v \<noteq> '''' then v else def)"

definition defaultManagerURL :: string where
  "defaultManagerURL = ''http://localhost:9443''"

record platform_config =
  pc_app_id :: string
  pc_manager_url :: string
  pc_identity_token :: string
  pc_container_name :: string

definition loadPlatformConfig :: "(string \<Rightarrow> string) \<Rightarrow> platform_config" where
  "loadPlatformConfig getenv =
     (let managerURL = getenv ''KMIP_MANAGER_URL'';
          managerURL = (if managerURL = '''' then defaultManagerURL else managerURL)
      in \<lparr>pc_app_id = env getenv ''KMIP_APP_ID'' (getenv ''PRIVASYS_APP_ID''),
          pc_manager_url = managerURL,
          pc_identity_token = env getenv ''KMIP_VAULT_IDENTITY_TOKEN'' (getenv ''PRIVASYS_CONTAINER_TOKEN''),
          pc_container_name = getenv ''PRIVASYS_CONTAINER_NAME''\<rparr>)"

record gw_config =
  gw_mgmt_url :: string
  gw_vault_id :: string

definition gw_fields :: "gw_config field list" where
  "gw_fields =
     [(''mgmt_url'', string_field (\<lambda>x r. r\<lparr>gw_mgmt_url := x\<rparr>)),
      (''vault_id'', string_field (\<lambda>x r. r\<lparr>gw_vault_id := x\<rparr>))]"

definition http_addr :: "(string \<Rightarrow> string) \<Rightarrow> string" where
  "http_addr getenv = ''0.0.0.0:'' @ env getenv ''PORT'' ''8080''"

section \<open>The sealed configuration file\<close>

text \<open>
  The file at \<^verbatim>\<open>/data/config.json\<close> and the errors the file system will return. A write that fails
  leaves the content \<open>dk_torn\<close>.
\<close>

record disk =
  dk_file :: "string option"
  dk_read_error :: "string option"
  dk_mkdir_error :: "string option"
  dk_write_error :: "string option"
  dk_torn :: "string option"

text \<open>\<^verbatim>\<open>json.Marshal\<close> of a struct with string members, and \<^verbatim>\<open>json.Unmarshal\<close>'s parser.\<close>

record json_codec =
  marshal :: "(string \<times> string) list \<Rightarrow> string"
  document :: "string \<Rightarrow> json option"

definition readConfig :: "json_codec \<Rightarrow> disk \<Rightarrow> string + gw_config option" where
  "readConfig J d =
     (case dk_read_error d of
        Some e \<Rightarrow> Inl e
      | None \<Rightarrow>
          (case dk_file d of
             None \<Rightarrow> Inr None
           | Some data \<Rightarrow>
               (case decode_into gw_fields \<lparr>gw_mgmt_url = '''', gw_vault_id = ''''\<rparr> (document J data) of
                  None \<Rightarrow> Inl ''json''
                | Some cfg \<Rightarrow>
                    if gw_mgmt_url cfg = '''' \<or> gw_vault_id cfg = '''' then Inr None else Inr (Some cfg))))"

definition writeConfig :: "json_codec \<Rightarrow> gw_config \<Rightarrow> disk \<Rightarrow> string option \<times> disk" where
  "writeConfig J cfg d =
     (case dk_mkdir_error d of
        Some e \<Rightarrow> (Some e, d)
      | None \<Rightarrow>
          (let data = marshal J [(''mgmt_url'', gw_mgmt_url cfg), (''vault_id'', gw_vault_id cfg)] in
           case dk_write_error d of
             Some e \<Rightarrow> (Some e, d\<lparr>dk_file := dk_torn d\<rparr>)
           | None \<Rightarrow> (None, d\<lparr>dk_file := Some data\<rparr>)))"

section \<open>The freeze gate\<close>

text \<open>\<^verbatim>\<open>errFromResp\<close>; the text is that of \<^verbatim>\<open>httpError.Error\<close>.\<close>

definition errFromResp :: "http_response \<Rightarrow> gerr" where
  "errFromResp resp = Errorf ''manager %s: %s'' [AStr (hs_status resp), AStr (hs_body resp)]"

definition freeze_url :: "platform_config \<Rightarrow> string" where
  "freeze_url pc = pc_manager_url pc @ ''/api/v1/containers/'' @ pc_container_name pc @ ''/config-complete''"

definition liftFreeze :: "lib \<Rightarrow> platform_config \<Rightarrow> gerr option io" where
  "liftFreeze L pc =
     (if pc_container_name pc = '''' then State_Monad.return None
      else case new_request ''POST'' (freeze_url pc) None of
        Inl e \<Rightarrow> State_Monad.return (Some e)
      | Inr req0 \<Rightarrow> do {
          r \<leftarrow> http_do L (req0\<lparr>hq_headers := [(''Authorization'', ''Bearer '' @ pc_identity_token pc)]\<rparr>);
          State_Monad.return (case r of
            Inl e \<Rightarrow> Some (Ext e)
          | Inr resp \<Rightarrow> if \<not> success resp then Some (errFromResp resp) else None)
        })"

section \<open>The refresh delay\<close>

text \<open>
  Durations are nanoseconds. \<^verbatim>\<open>time.Unix\<close> counts seconds from year 1 in an \<^verbatim>\<open>int64\<close>, which wraps;
  \<^verbatim>\<open>Add\<close> and \<^verbatim>\<open>Sub\<close> saturate.
\<close>

definition maxRefresh :: int where "maxRefresh = 30 * minute"
definition minRefresh :: int where "minRefresh = minute"
definition retryBackoff :: int where "retryBackoff = 30 * second"
definition expiryMargin :: int where "expiryMargin = 2 * minute"

definition unixToInternal :: int where
  "unixToInternal = 62135596800"

definition wrap64 :: "int \<Rightarrow> int" where
  "wrap64 x = sint (word_of_int x :: 64 word)"

definition clamp64 :: "int \<Rightarrow> int" where
  "clamp64 x = max (- (2 ^ 63)) (min (2 ^ 63 - 1) x)"

text \<open>\<^verbatim>\<open>time.Until(time.Unix(exp, 0).Add(-expiryMargin))\<close> at the time \<open>now\<close>.\<close>

definition until_margin :: "int \<Rightarrow> int \<Rightarrow> int" where
  "until_margin now exp =
     (let ext = wrap64 (exp + unixToInternal);
          sum = ext - expiryMargin div second;
          ext' = (if sum < - (2 ^ 63) then - (2 ^ 63 - 1) else sum)
      in clamp64 ((ext' - unixToInternal) * second - now))"

definition refresh_delay :: "int \<Rightarrow> int \<Rightarrow> int" where
  "refresh_delay now exp =
     (let next1 = (if exp > 0 \<and> until_margin now exp < maxRefresh then until_margin now exp else maxRefresh)
      in if next1 < minRefresh then minRefresh else next1)"

section \<open>One turn of the loop\<close>

definition loop_minter :: "platform_config \<Rightarrow> egress_identity" where
  "loop_minter pc = new_minter (pc_manager_url pc @ ''/api/v1/vault-identity'') (pc_identity_token pc)"

definition loop_client :: "lib \<Rightarrow> platform_config \<Rightarrow> gw_config \<Rightarrow> client" where
  "loop_client L pc cfg = new_client (gw_mgmt_url cfg) (header_identity L (loop_minter pc))"

text \<open>The session for a configuration and what was discovered for it.\<close>

definition session_config :: "platform_config \<Rightarrow> gw_config \<Rightarrow> discovery \<Rightarrow> config" where
  "session_config pc cfg d =
     \<lparr>cfg_vault_id = gw_vault_id cfg, cfg_endpoints = dc_endpoints d, cfg_mrenclave = dc_mrenclave d,
      cfg_att_server = dc_att_server d, cfg_att_token = dc_attestation_token d, cfg_owner_token = '''',
      cfg_owner_sub = '''', cfg_app_id = pc_app_id pc,
      cfg_manager_url = pc_manager_url pc @ ''/api/v1/vault-identity'',
      cfg_identity_token = pc_identity_token pc\<rparr>"

definition session_for :: "lib \<Rightarrow> platform_config \<Rightarrow> gw_config \<Rightarrow> discovery \<Rightarrow> session" where
  "session_for L pc cfg d =
     new_session (session_config pc cfg d) (Some (client_grantor L (loop_client L pc cfg)))"

text \<open>
  After discovery: the session to install, if any, and the time to sleep. The clock is read only if
  the token expires.
\<close>

definition decide :: "lib \<Rightarrow> platform_config \<Rightarrow> gw_config \<Rightarrow> discovery result \<Rightarrow> (session option \<times> int) io" where
  "decide L pc cfg r =
     (case r of
        Inl e \<Rightarrow> State_Monad.return (None, retryBackoff)
      | Inr d \<Rightarrow>
          if \<not> owns d (gw_vault_id cfg) then State_Monad.return (None, maxRefresh)
          else if dc_att_token_expires_at d > 0 then do {
            now \<leftarrow> time_now L;
            State_Monad.return (Some (session_for L pc cfg d), refresh_delay now (dc_att_token_expires_at d))
          }
          else State_Monad.return (Some (session_for L pc cfg d), refresh_delay 0 (dc_att_token_expires_at d)))"

section \<open>What the configuration code guarantees\<close>

lemma minute_second: "minute = 60 * second" "second = 1000000000"
  by (simp_all add: minute_def second_def)

lemmas durations = maxRefresh_def minRefresh_def retryBackoff_def expiryMargin_def minute_second

lemma refresh_delay_bounds: "minRefresh \<le> refresh_delay now exp \<and> refresh_delay now exp \<le> maxRefresh"
  by (simp add: refresh_delay_def Let_def durations)

lemma wrap64_id: "- (2 ^ 63) \<le> x \<Longrightarrow> x < 2 ^ 63 \<Longrightarrow> wrap64 x = x"
  unfolding wrap64_def by (simp add: sint_sbintrunc' signed_take_bit_int_eq_self)

text \<open>For an expiry of this era and a clock that fits, nothing wraps and nothing saturates.\<close>

lemma until_margin_exact:
  assumes "0 \<le> now" "now < 2 ^ 62" "0 < exp" "exp < 2 ^ 32"
  shows "until_margin now exp = (exp * second - expiryMargin) - now"
proof -
  have "wrap64 (exp + unixToInternal) = exp + unixToInternal"
    using assms by (intro wrap64_id) (simp_all add: unixToInternal_def)
  moreover have "clamp64 ((exp * second - expiryMargin) - now) = (exp * second - expiryMargin) - now"
    using assms by (simp add: clamp64_def durations)
  ultimately show ?thesis
    using assms by (simp add: until_margin_def Let_def durations unixToInternal_def algebra_simps)
qed

lemma refresh_delay_exact:
  assumes "0 \<le> now" "now < 2 ^ 62" "0 < exp" "exp < 2 ^ 32"
  shows "refresh_delay now exp = max minRefresh (min maxRefresh ((exp * second - expiryMargin) - now))"
  using assms(3) until_margin_exact [OF assms]
  by (simp add: refresh_delay_def Let_def durations)

text \<open>The loop's session is the attested session of the KMIP laws, and both use the manager's minter.\<close>

lemma session_for_attested:
  "session_for L pc cfg d =
     attested_session L (session_config pc cfg d) (loop_minter pc) (trim_right (gw_mgmt_url cfg) ''/'')"
  by (simp add: session_for_def attested_session_def loop_client_def new_client_def)

lemma session_for_minter:
  "pc_identity_token pc \<noteq> '''' \<Longrightarrow> ss_minter (session_for L pc cfg d) = Some (loop_minter pc)"
  by (simp add: session_for_def new_session_def session_config_def loop_minter_def)

text \<open>A codec that reads back what it wrote.\<close>

definition codec_reads_back :: "json_codec \<Rightarrow> (string \<times> string) list \<Rightarrow> bool" where
  "codec_reads_back J ms \<longleftrightarrow> document J (marshal J ms) = Some (JObj (map (\<lambda>(k, v). (k, JStr v)) ms))"

lemma config_round_trip:
  assumes "codec_reads_back J [(''mgmt_url'', gw_mgmt_url cfg), (''vault_id'', gw_vault_id cfg)]"
    and "gw_mgmt_url cfg \<noteq> ''''" "gw_vault_id cfg \<noteq> ''''"
    and "writeConfig J cfg d = (None, d')" "dk_read_error d' = None"
  shows "readConfig J d' = Inr (Some cfg)"
proof -
  have "dk_file d' = Some (marshal J [(''mgmt_url'', gw_mgmt_url cfg), (''vault_id'', gw_vault_id cfg)])"
    using assms(4) by (auto simp: writeConfig_def Let_def split: option.splits)
  with assms(1,2,3,5) show ?thesis
    by (simp add: readConfig_def codec_reads_back_def decode_into_def decode_struct_def gw_fields_def
      field_of_def string_field_def)
qed

end
