(* ===== verification/Gateway.thy ===== *)
theory Gateway
  imports Config_Manager
begin

text \<open>
  The running gateway of \<^verbatim>\<open>main.go\<close>: the self-configuration loop, the HTTP server and the senders on
  the reload channel as one step relation over their shared state. The channel has capacity one, so
  it is a flag; writing a configuration to the sealed file, storing it in memory and the non-blocking send
  that follows are separate steps, and every interleaving of several submissions and the loop is a run.
\<close>

section \<open>State\<close>

text \<open>The outside: libraries, environment variables, codec and the build's version string.\<close>

record world =
  w_lib :: lib
  w_kmip :: kmip_lib
  w_serve :: "kmip_server \<Rightarrow> byte list \<Rightarrow> byte list io"
  w_env :: "string \<Rightarrow> string"
  w_codec :: json_codec
  w_version :: string

text \<open>
  Where the loop is: before \<^verbatim>\<open>cm.get()\<close>, blocked for the first configuration, in a turn for a snapshot
  of the configuration (before and after discovery), or in the final \<^verbatim>\<open>select\<close> with its delay.
\<close>

datatype loop_pc =
    LTop | LWait | LRun gw_config | LGot gw_config "discovery result" | LSleep gw_config int

text \<open>
  \<open>gw_storing\<close> are the configurations whose callback has written them to the file and not yet called
  \<^verbatim>\<open>set\<close>; \<open>gw_pending\<close> counts the calls of \<^verbatim>\<open>set\<close> that have stored and not yet sent. \<open>gw_flight\<close> are the requests whose
  handler has looked up the session and not yet answered, with the session it found: the loop may
  install another one in between.
\<close>

record gateway =
  gw_cfg :: "gw_config option"
  gw_storing :: "gw_config list"
  gw_pending :: nat
  gw_reload :: bool
  gw_pc :: loop_pc
  gw_session :: "session option"
  gw_flight :: "(in_request \<times> session option) list"
  gw_disk :: disk
  gw_hist :: hist

definition pconfig :: "world \<Rightarrow> platform_config" where
  "pconfig W = loadPlatformConfig (w_env W)"

section \<open>The configuration manager\<close>

definition cm_store :: "gw_config \<Rightarrow> gateway \<Rightarrow> gateway" where
  "cm_store cfg g = g\<lparr>gw_cfg := Some cfg, gw_pending := gw_pending g + 1\<rparr>"

text \<open>The non-blocking send leaves the channel full, whether or not it was.\<close>

definition cm_send :: "gateway \<Rightarrow> gateway" where
  "cm_send g = g\<lparr>gw_pending := gw_pending g - 1, gw_reload := True\<rparr>"

definition cm_set :: "gw_config \<Rightarrow> gateway \<Rightarrow> gateway" where
  "cm_set cfg g = cm_send (cm_store cfg g)"

definition cm_get :: "gateway \<Rightarrow> gw_config option" where
  "cm_get g = gw_cfg g"

text \<open>
  The callback of \<^verbatim>\<open>ctrl.OnConfigure\<close>: persisting is best effort, its error is only logged, and the answer
  is always nil. Nothing orders the calls of \<^verbatim>\<open>set\<close> of concurrent submissions, so the two halves of \<^verbatim>\<open>set\<close>
  are separate steps of the relation below.
\<close>

definition cm_accept :: "gw_config \<Rightarrow> disk \<Rightarrow> gateway \<Rightarrow> gateway" where
  "cm_accept cfg d g = g\<lparr>gw_disk := d, gw_storing := cfg # gw_storing g\<rparr>"

definition on_configure :: "world \<Rightarrow> config_request \<Rightarrow> (gateway, gerr option) state" where
  "on_configure W req = State (\<lambda>g.
     let cfg = \<lparr>gw_mgmt_url = cq_mgmt_url req, gw_vault_id = cq_vault_id req\<rparr>;
         (err, d) = writeConfig (w_codec W) cfg (gw_disk g)
     in (None, cm_accept cfg d g))"

section \<open>The HTTP server of the gateway\<close>

definition lift_hist :: "'a io \<Rightarrow> (gateway, 'a) state" where
  "lift_hist m = State (\<lambda>g. case run_state m (gw_hist g) of (x, h) \<Rightarrow> (x, g\<lparr>gw_hist := h\<rparr>))"

text \<open>The control server, when what \<^verbatim>\<open>install\<close> has put into it is the session \<open>so\<close>.\<close>

definition control_with :: "world \<Rightarrow> session option \<Rightarrow> gateway control_server" where
  "control_with W so =
     (let s = onConfigure (on_configure W) (new_control (w_version W)) in
      case so of
        None \<Rightarrow> s
      | Some ss \<Rightarrow>
          (let v = session_vault (w_lib W) ss
           in setSession v (handleMessage (w_serve W) (new_server (w_lib W) (w_kmip W) v)) s))"

definition serve_request :: "world \<Rightarrow> session option \<Rightarrow> in_request \<Rightarrow> gateway \<Rightarrow> out_response option \<times> gateway" where
  "serve_request W so r g = run_state (serveHTTP (w_lib W) lift_hist (control_with W so) r) g"

text \<open>A handler looks up the session, and later answers with the one it found.\<close>

definition arrive :: "in_request \<Rightarrow> gateway \<Rightarrow> gateway" where
  "arrive r g = g\<lparr>gw_flight := (r, gw_session g) # gw_flight g\<rparr>"

definition leave :: "in_request \<Rightarrow> session option \<Rightarrow> gateway \<Rightarrow> gateway" where
  "leave r so g = g\<lparr>gw_flight := remove1 (r, so) (gw_flight g)\<rparr>"

section \<open>Startup\<close>

definition blank_gateway :: "disk \<Rightarrow> gateway" where
  "blank_gateway d = \<lparr>gw_cfg = None, gw_storing = [], gw_pending = 0, gw_reload = False, gw_pc = LTop, gw_session = None,
     gw_flight = [], gw_disk = d, gw_hist = []\<rparr>"

text \<open>\<^verbatim>\<open>main\<close> up to the start of the loop: errors of the read and of the freeze gate are only logged.\<close>

definition main_start :: "world \<Rightarrow> disk \<Rightarrow> gateway" where
  "main_start W d =
     (let g = blank_gateway d in
      case readConfig (w_codec W) d of
        Inl e \<Rightarrow> g
      | Inr None \<Rightarrow> g
      | Inr (Some cfg) \<Rightarrow> snd (run_state (lift_hist (liftFreeze (w_lib W) (pconfig W))) (cm_set cfg g)))"

section \<open>Steps\<close>

inductive gw_step :: "world \<Rightarrow> gateway \<Rightarrow> gateway \<Rightarrow> bool" for W where
  get_none: "gw_pc g = LTop \<Longrightarrow> cm_get g = None \<Longrightarrow> gw_step W g (g\<lparr>gw_pc := LWait\<rparr>)"
| wait_reload: "gw_pc g = LWait \<Longrightarrow> gw_reload g \<Longrightarrow> gw_step W g (g\<lparr>gw_reload := False, gw_pc := LTop\<rparr>)"
| get_some: "gw_pc g = LTop \<Longrightarrow> cm_get g = Some c \<Longrightarrow> gw_step W g (g\<lparr>gw_pc := LRun c\<rparr>)"
| discovery: "gw_pc g = LRun c \<Longrightarrow>
    run_state (discover (w_lib W) (loop_client (w_lib W) (pconfig W) c)) (gw_hist g) = (r, h) \<Longrightarrow>
    gw_step W g (g\<lparr>gw_pc := LGot c r, gw_hist := h\<rparr>)"
| decision: "gw_pc g = LGot c r \<Longrightarrow>
    run_state (decide (w_lib W) (pconfig W) c r) (gw_hist g) = ((s, t), h) \<Longrightarrow>
    gw_step W g (g\<lparr>gw_pc := LSleep c t, gw_hist := h,
      gw_session := (case s of None \<Rightarrow> gw_session g | Some _ \<Rightarrow> s)\<rparr>)"
| panic_run: "gw_pc g = LRun c \<Longrightarrow> list_all control_plane es \<Longrightarrow>
    gw_step W g (g\<lparr>gw_pc := LSleep c 0, gw_hist := gw_hist g @ es\<rparr>)"
| panic_got: "gw_pc g = LGot c r \<Longrightarrow> gw_step W g (g\<lparr>gw_pc := LSleep c 0\<rparr>)"
| panic_installed: "gw_pc g = LGot c r \<Longrightarrow>
    run_state (decide (w_lib W) (pconfig W) c r) (gw_hist g) = ((s, t), h) \<Longrightarrow>
    gw_step W g (g\<lparr>gw_pc := LSleep c 0, gw_hist := h,
      gw_session := (case s of None \<Rightarrow> gw_session g | Some _ \<Rightarrow> s)\<rparr>)"
| wake_reload: "gw_pc g = LSleep c t \<Longrightarrow> gw_reload g \<Longrightarrow> gw_step W g (g\<lparr>gw_reload := False, gw_pc := LTop\<rparr>)"
| wake_timer: "gw_pc g = LSleep c t \<Longrightarrow> gw_step W g (g\<lparr>gw_pc := LTop\<rparr>)"
| store: "c \<in> set (gw_storing g) \<Longrightarrow>
    gw_step W g (cm_store c (g\<lparr>gw_storing := remove1 c (gw_storing g)\<rparr>))"
| send: "0 < gw_pending g \<Longrightarrow> gw_step W g (cm_send g)"
| arrival: "gw_step W g (arrive r g)"
| answer: "(r, so) \<in> set (gw_flight g) \<Longrightarrow> serve_request W so r g = (resp, g') \<Longrightarrow> gw_step W g (leave r so g')"

text \<open>
  A panic in a turn is recovered and the named result is its zero value, so the loop sleeps for no
  time; it may strike before or after the session was installed.
\<close>

inductive reachable :: "world \<Rightarrow> disk \<Rightarrow> gateway \<Rightarrow> bool" for W d where
  start: "reachable W d (main_start W d)"
| step: "reachable W d g \<Longrightarrow> gw_step W g g' \<Longrightarrow> reachable W d g'"

text \<open>Inversion: what a step can be, and what a reachable state is.\<close>

inductive_cases gw_stepE: "gw_step W g g'"
inductive_cases reachableE: "reachable W d g"

section \<open>What a request can change\<close>

definition complete_config :: "gw_config \<Rightarrow> bool" where
  "complete_config c \<longleftrightarrow> gw_mgmt_url c \<noteq> '''' \<and> gw_vault_id c \<noteq> ''''"

lemma run_lift_hist: "\<exists>h. snd (run_state (lift_hist m) g) = g\<lparr>gw_hist := h\<rparr>"
  by (auto simp: lift_hist_def split: prod.split)

lemma control_with_configure: "cs_configure (control_with W so) = Some (on_configure W)"
  by (simp add: control_with_def onConfigure_def setSession_def Let_def split: option.split)

lemma configure_effect:
  "(\<exists>c e d. snd (run_state (configureHandler L (control_with W so) r) g) = cm_accept c d g
      \<and> complete_config c \<and> writeConfig (w_codec W) c (gw_disk g) = (e, d))
   \<or> snd (run_state (configureHandler L (control_with W so) r) g) = g"
proof (cases "decode_into config_fields \<lparr>cq_mgmt_url = '''', cq_vault_id = ''''\<rparr> (body_json L r)")
  case None
  then show ?thesis by (simp add: configureHandler_def control_with_configure)
next
  case (Some q)
  show ?thesis
  proof (cases "cq_mgmt_url q = '''' \<or> cq_vault_id q = ''''")
    case True
    with Some show ?thesis by (auto simp: configureHandler_def control_with_configure)
  next
    case False
    let ?c = "\<lparr>gw_mgmt_url = cq_mgmt_url q, gw_vault_id = cq_vault_id q\<rparr>"
    obtain e d where wr: "writeConfig (w_codec W) ?c (gw_disk g) = (e, d)" by force
    with False Some have "snd (run_state (configureHandler L (control_with W so) r) g) = cm_accept ?c d g"
      by (simp add: configureHandler_def control_with_configure on_configure_def Let_def)
    moreover have "complete_config ?c" using False by (simp add: complete_config_def)
    ultimately show ?thesis using wr by blast
  qed
qed

lemma request_effect:
  assumes "serve_request W so r g = (resp, g')"
  obtains (configured) c e d where "g' = cm_accept c d g" "complete_config c"
    "writeConfig (w_codec W) c (gw_disk g) = (e, d)"
  | (served) h where "g' = g\<lparr>gw_hist := h\<rparr>"
proof -
  have g': "g' = snd (run_state (serveHTTP (w_lib W) lift_hist (control_with W so) r) g)"
    using assms by (simp add: serve_request_def)
  have same: "g = g\<lparr>gw_hist := gw_hist g\<rparr>" by simp
  show thesis
  proof (cases "route_of (ir_method r) (ir_escaped_path r)")
    case RConfigure
    then have "g' = snd (run_state (configureHandler (w_lib W) (control_with W so) r) g)"
      by (simp add: g' serveHTTP_def split: prod.split)
    with configure_effect [of "w_lib W" W so r g] show ?thesis
      using configured served same by metis
  qed (use g' run_lift_hist served same in \<open>simp_all add: serveHTTP_def, metis+\<close>)
qed

end
