(* ===== verification/Gateway_Laws.thy ===== *)
theory Gateway_Laws
  imports Gateway Control_Properties
begin

text \<open>
  Invariants of the running gateway over all interleavings: no configuration is missed, only a session
  for an owned vault is ever installed, and delays are bounded.
\<close>

section \<open>Invariants\<close>

fun snapshot :: "loop_pc \<Rightarrow> gw_config option" where
  "snapshot LTop = None"
| "snapshot LWait = None"
| "snapshot (LRun c) = Some c"
| "snapshot (LGot c r) = Some c"
| "snapshot (LSleep c t) = Some c"

text \<open>A wake-up is on its way: in the channel, or about to be sent.\<close>

definition wake_due :: "gateway \<Rightarrow> bool" where
  "wake_due g \<longleftrightarrow> gw_reload g \<or> 0 < gw_pending g"

text \<open>If the loop works on an old configuration, or waits although there is one, a wake-up is due.\<close>

definition no_lost_update :: "gateway \<Rightarrow> bool" where
  "no_lost_update g \<longleftrightarrow>
     (gw_pc g = LWait \<and> gw_cfg g \<noteq> None \<longrightarrow> wake_due g)
     \<and> (\<forall>c. snapshot (gw_pc g) = Some c \<and> gw_cfg g \<noteq> Some c \<longrightarrow> wake_due g)"

text \<open>The discovery of a turn was an answer of the control plane to an attested discovery.\<close>

definition discovered :: "world \<Rightarrow> gw_config \<Rightarrow> discovery result \<Rightarrow> bool" where
  "discovered W c r \<longleftrightarrow>
     (\<exists>h. fst (run_state (discover (w_lib W) (loop_client (w_lib W) (pconfig W) c)) h) = r)"

definition owned_session :: "world \<Rightarrow> session \<Rightarrow> bool" where
  "owned_session W s \<longleftrightarrow>
     (\<exists>c d. s = session_for (w_lib W) (pconfig W) c d \<and> complete_config c
        \<and> discovered W c (Inr d) \<and> owns d (gw_vault_id c))"

definition sound :: "world \<Rightarrow> gateway \<Rightarrow> bool" where
  "sound W g \<longleftrightarrow>
     (\<forall>c. gw_cfg g = Some c \<or> c \<in> set (gw_storing g) \<longrightarrow> complete_config c)
     \<and> (\<forall>c. snapshot (gw_pc g) = Some c \<longrightarrow> complete_config c \<and> gw_cfg g \<noteq> None)
     \<and> (\<forall>c r. gw_pc g = LGot c r \<longrightarrow> discovered W c r)
     \<and> (\<forall>c t. gw_pc g = LSleep c t \<longrightarrow> 0 \<le> t \<and> t \<le> maxRefresh)
     \<and> (\<forall>s. gw_session g = Some s \<longrightarrow> owned_session W s \<and> gw_cfg g \<noteq> None)
     \<and> (\<forall>r s. (r, Some s) \<in> set (gw_flight g) \<longrightarrow> owned_session W s \<and> gw_cfg g \<noteq> None)"

section \<open>Every step keeps them\<close>

lemmas gw_update_simps = cm_accept_def cm_store_def cm_send_def cm_get_def wake_due_def

lemma request_no_lost_update:
  "serve_request W so r g = (resp, g') \<Longrightarrow> no_lost_update g \<Longrightarrow> no_lost_update g'"
  by (erule request_effect) (auto simp: no_lost_update_def gw_update_simps)

lemma gw_step_no_lost_update: "gw_step W g g' \<Longrightarrow> no_lost_update g \<Longrightarrow> no_lost_update g'"
proof (induction rule: gw_step.induct)
  case (answer r so g resp g')
  then have "no_lost_update g'" by (blast intro: request_no_lost_update)
  then show ?case by (simp add: no_lost_update_def wake_due_def leave_def)
qed (auto simp: no_lost_update_def gw_update_simps arrive_def)

lemma request_sound: "serve_request W so r g = (resp, g') \<Longrightarrow> sound W g \<Longrightarrow> sound W g'"
  by (erule request_effect) (auto simp: sound_def cm_accept_def)

lemma decide_sound:
  assumes "discovered W c r" "complete_config c"
    and "run_state (decide (w_lib W) (pconfig W) c r) h = ((s, t), h')"
  shows "0 \<le> t \<and> t \<le> maxRefresh \<and> (\<forall>x. s = Some x \<longrightarrow> owned_session W x)"
proof (cases r)
  case (Inl e)
  with assms(3) show ?thesis by (simp add: decide_def durations)
next
  case (Inr d)
  have min: "0 \<le> minRefresh" "0 \<le> maxRefresh" by (simp_all add: durations)
  show ?thesis
  proof (cases "owns d (gw_vault_id c)")
    case False
    with Inr assms(3) min show ?thesis by (simp add: decide_def)
  next
    case True
    with Inr assms(3) obtain now where
      "s = Some (session_for (w_lib W) (pconfig W) c d)" "t = refresh_delay now (dc_att_token_expires_at d)"
      by (auto simp: decide_def time_now_def split: if_splits)
    moreover have "owned_session W (session_for (w_lib W) (pconfig W) c d)"
      using assms(1,2) Inr True unfolding owned_session_def by blast
    ultimately show ?thesis
      using refresh_delay_bounds [of now "dc_att_token_expires_at d"] min by simp
  qed
qed

lemma gw_step_sound: "gw_step W g g' \<Longrightarrow> sound W g \<Longrightarrow> sound W g'"
proof (induction rule: gw_step.induct)
  case (discovery g c r h)
  then have "discovered W c r" unfolding discovered_def by (metis fst_conv)
  with discovery show ?case by (simp add: sound_def)
next
  case (decision g c r s t h)
  then have "discovered W c r" "complete_config c" by (simp_all add: sound_def)
  from decide_sound [OF this decision(2)] decision show ?case
    by (cases s) (simp_all add: sound_def)
next
  case (panic_installed g c r s t h)
  then have "discovered W c r" "complete_config c" by (simp_all add: sound_def)
  from decide_sound [OF this panic_installed(2)] panic_installed show ?case
    by (cases s) (simp_all add: sound_def durations)
next
  case (answer r so g resp g')
  then have "sound W g'" by (blast intro: request_sound)
  then show ?case by (auto simp: sound_def leave_def dest: subsetD [OF set_remove1_subset])
next
  case (arrival g r)
  have flip: "Some s = gw_session g \<longleftrightarrow> gw_session g = Some s" for s by (rule eq_commute)
  from arrival show ?case by (auto simp: sound_def arrive_def flip)
next
  case (store c g)
  then show ?case by (auto simp: sound_def cm_store_def dest: subsetD [OF set_remove1_subset])
qed (auto simp: sound_def cm_get_def cm_send_def durations)

text \<open>
  Only the decision of a turn changes the session, only \<^verbatim>\<open>set\<close> the stored configuration, and what it stores
  was accepted from a request.
\<close>

lemma session_changes_in_turn:
  assumes "gw_step W g g'" "gw_session g' \<noteq> gw_session g"
  shows "\<exists>c r. gw_pc g = LGot c r"
  using assms by (elim gw_stepE) (auto simp: cm_accept_def cm_send_def cm_store_def arrive_def leave_def elim!: request_effect)

lemma config_changes_by_store:
  assumes "gw_step W g g'" "gw_cfg g' \<noteq> gw_cfg g"
  shows "\<exists>c. c \<in> set (gw_storing g) \<and> gw_cfg g' = Some c"
  using assms by (elim gw_stepE)
    (auto simp: cm_accept_def cm_store_def cm_send_def arrive_def leave_def elim!: request_effect)

lemma storing_grows_by_request:
  assumes "gw_step W g g'" "c \<in> set (gw_storing g')" "c \<notin> set (gw_storing g)"
  shows "\<exists>d r so. g' = leave r so (cm_accept c d g) \<and> (r, so) \<in> set (gw_flight g) \<and> complete_config c"
  using assms(1) proof (cases rule: gw_step.cases)
  case (answer r so resp g1)
  from answer(3) show ?thesis
    by (rule request_effect) (use answer(1,2) assms(2,3) in \<open>auto simp: leave_def cm_accept_def\<close>)
qed (use assms(2,3) in \<open>auto simp: cm_send_def cm_store_def arrive_def dest: subsetD [OF set_remove1_subset]\<close>)

section \<open>The start\<close>

lemma readConfig_complete: "readConfig J d = Inr (Some c) \<Longrightarrow> complete_config c"
  by (auto simp: readConfig_def complete_config_def split: option.splits if_splits)

lemma main_start_cases:
  obtains (unconfigured) "main_start W d = blank_gateway d"
  | (configured) c h where "readConfig (w_codec W) d = Inr (Some c)"
    "main_start W d = (cm_set c (blank_gateway d))\<lparr>gw_hist := h\<rparr>"
proof (cases "readConfig (w_codec W) d")
  case (Inl e)
  then show ?thesis using unconfigured by (simp add: main_start_def)
next
  case (Inr x)
  show ?thesis
  proof (cases x)
    case None
    with Inr show ?thesis using unconfigured by (simp add: main_start_def)
  next
    case (Some c)
    obtain h where "snd (run_state (lift_hist (liftFreeze (w_lib W) (pconfig W))) (cm_set c (blank_gateway d)))
        = (cm_set c (blank_gateway d))\<lparr>gw_hist := h\<rparr>"
      using run_lift_hist by blast
    with Inr Some show ?thesis using configured by (simp add: main_start_def)
  qed
qed

lemma start_no_lost_update: "no_lost_update (main_start W d)"
  by (rule main_start_cases [of W d]) (auto simp: no_lost_update_def cm_set_def cm_store_def cm_send_def blank_gateway_def)

lemma start_sound: "sound W (main_start W d)"
  by (rule main_start_cases [of W d])
    (auto simp: sound_def cm_set_def cm_store_def cm_send_def blank_gateway_def dest: readConfig_complete)

lemma reachable_no_lost_update: "reachable W d g \<Longrightarrow> no_lost_update g"
  by (induction rule: reachable.induct) (blast intro: start_no_lost_update gw_step_no_lost_update)+

lemma reachable_sound: "reachable W d g \<Longrightarrow> sound W g"
  by (induction rule: reachable.induct) (blast intro: start_sound gw_step_sound)+

end
