(* ===== verification/Gateway_Properties.thy ===== *)
theory Gateway_Properties
  imports Gateway_Laws
begin

text \<open>
  The properties of the running gateway, and a concrete run in which a persisted configuration is
  discovered, found to be owned, and installed.
\<close>

section \<open>A concrete world\<close>

definition owner_answer :: json where
  "owner_answer = JObj [(''vaults'', JArr [JObj [(''id'', JStr ''v1'')]]),
     (''constellation'', JObj [(''endpoints'', JArr [JStr ''v2:443'']), (''mrenclave'', JStr (replicate 64 CHR ''a''))]),
     (''attestation_token_expires_at'', JNum 1700000600)]"

definition stored_config :: gw_config where
  "stored_config = \<lparr>gw_mgmt_url = ''https://api/'', gw_vault_id = ''v1''\<rparr>"

definition sample_world :: world where
  "sample_world = \<lparr>w_lib = sample_lib\<lparr>json_parse := \<lambda>s. Some owner_answer\<rparr>, w_kmip = sample_kmip,
     w_serve = (\<lambda>s b. State_Monad.return []), w_env = (\<lambda>k. if k = ''PRIVASYS_CONTAINER_TOKEN'' then ''secret'' else ''''),
     w_codec = \<lparr>marshal = (\<lambda>ms. ''stored''),
       document = (\<lambda>s. Some (JObj [(''mgmt_url'', JStr ''https://api/''), (''vault_id'', JStr ''v1'')]))\<rparr>,
     w_version = ''v''\<rparr>"

definition stored_disk :: disk where
  "stored_disk = \<lparr>dk_file = Some ''stored'', dk_read_error = None, dk_mkdir_error = None, dk_write_error = None,
     dk_torn = None\<rparr>"

definition started :: gateway where
  "started = main_start sample_world stored_disk"

lemma sample_container: "pc_container_name (pconfig sample_world) = ''''"
  by (simp add: pconfig_def loadPlatformConfig_def sample_world_def Let_def)

lemma sample_readConfig: "readConfig (w_codec sample_world) stored_disk = Inr (Some stored_config)"
  by (simp add: readConfig_def sample_world_def stored_disk_def stored_config_def decode_into_def decode_struct_def
    gw_fields_def field_of_def string_field_def)

lemma started_eq: "started = (cm_set stored_config (blank_gateway stored_disk))"
  by (simp add: started_def main_start_def sample_readConfig liftFreeze_def sample_container lift_hist_def
    blank_gateway_def cm_set_def cm_store_def cm_send_def)

definition running :: gateway where
  "running = started\<lparr>gw_pc := LRun stored_config\<rparr>"

lemma reachable_running: "reachable sample_world stored_disk running"
  unfolding running_def
proof (rule reachable.step [OF reachable.start])
  show "gw_step sample_world (main_start sample_world stored_disk) (started\<lparr>gw_pc := LRun stored_config\<rparr>)"
    unfolding started_def [symmetric]
    by (rule gw_step.get_some)
      (simp_all add: started_eq cm_set_def cm_store_def cm_send_def blank_gateway_def cm_get_def)
qed

section \<open>Configuration\<close>

text \<open>C3: In every reachable state, under every interleaving of the loop, the HTTP server and the senders:
  a loop that works on, or sleeps after, an old configuration, or waits for one that is there, has a
  wake-up in the channel or about to be sent. No configuration is missed.\<close>

theorem no_configuration_missed:
  assumes "reachable W d g"
  shows "no_lost_update g"
  by (rule reachable_no_lost_update [OF assms])

lemma no_configuration_missed_witness: "no_lost_update running"
  by (rule no_configuration_missed [OF reachable_running])

text \<open>Once the senders are done, a loop that waits or sleeps on anything but the current configuration
  can wake at once, without its timer, and its next turn is for the current configuration.\<close>

theorem new_configuration_taken_up:
  assumes "reachable W d g" "gw_cfg g = Some c" "gw_pending g = 0"
    and "gw_pc g = LWait \<or> (\<exists>c' t. gw_pc g = LSleep c' t \<and> c' \<noteq> c)"
  shows "gw_reload g \<and> (\<exists>g1 g2. gw_step W g g1 \<and> gw_step W g1 g2 \<and> gw_pc g2 = LRun c)"
proof -
  have due: "gw_reload g"
    using reachable_no_lost_update [OF assms(1)] assms(2-4)
    by (auto simp: no_lost_update_def wake_due_def)
  let ?g1 = "g\<lparr>gw_reload := False, gw_pc := LTop\<rparr>"
  have s1: "gw_step W g ?g1"
    using assms(4) due by (auto intro: gw_step.wait_reload gw_step.wake_reload)
  have s2: "gw_step W ?g1 (?g1\<lparr>gw_pc := LRun c\<rparr>)"
    by (rule gw_step.get_some) (simp_all add: assms(2) cm_get_def)
  show ?thesis
    by (intro conjI exI [of _ ?g1] exI [of _ "?g1\<lparr>gw_pc := LRun c\<rparr>"] due s1 s2) simp
qed

text \<open>A gateway that starts without a configuration, waits, and is configured by a request.\<close>

definition fresh_disk :: disk where
  "fresh_disk = stored_disk\<lparr>dk_file := None\<rparr>"

definition configure_world :: world where
  "configure_world = sample_world\<lparr>w_lib := sample_lib\<lparr>json_decode := \<lambda>s fails.
     Some (JObj [(''mgmt_url'', JStr ''https://api/''), (''vault_id'', JStr ''v1'')])\<rparr>\<rparr>"

definition configure_request :: in_request where
  "configure_request = \<lparr>ir_method = ''POST'', ir_path = ''/configure'', ir_escaped_path = ''/configure'',
     ir_body = [1], ir_body_fails = False\<rparr>"

definition waiting :: gateway where
  "waiting = (blank_gateway fresh_disk)\<lparr>gw_pc := LWait\<rparr>"

definition configured :: gateway where
  "configured = cm_set stored_config (waiting\<lparr>gw_disk := stored_disk\<rparr>)"

lemma configure_route: "route_of ''POST'' ''/configure'' = RConfigure"
  by code_simp

lemma configure_run:
  "serve_request configure_world None configure_request (arrive configure_request waiting) =
     (Some (writeJSON 200 [(''status'', Lit ''configured'')]),
      cm_accept stored_config stored_disk (arrive configure_request waiting))"
  by (simp add: serve_request_def serveHTTP_def configure_request_def configure_route configureHandler_def
    control_with_configure on_configure_def configure_world_def sample_world_def body_json_def decode_into_def
    decode_struct_def config_fields_def field_of_def string_field_def writeConfig_def waiting_def blank_gateway_def
    fresh_disk_def stored_disk_def stored_config_def arrive_def Let_def)

lemma reachable_configured: "reachable configure_world fresh_disk configured"
proof -
  have "main_start configure_world fresh_disk = blank_gateway fresh_disk"
    by (simp add: main_start_def readConfig_def fresh_disk_def stored_disk_def)
  then have 0: "reachable configure_world fresh_disk (blank_gateway fresh_disk)"
    using reachable.start [of configure_world fresh_disk] by simp
  have 1: "gw_step configure_world (blank_gateway fresh_disk) waiting"
    unfolding waiting_def by (rule gw_step.get_none) (simp_all add: blank_gateway_def cm_get_def)
  have 2: "gw_step configure_world waiting (arrive configure_request waiting)"
    by (rule gw_step.arrival)
  let ?accepted = "cm_accept stored_config stored_disk waiting"
  let ?stored = "cm_store stored_config (waiting\<lparr>gw_disk := stored_disk\<rparr>)"
  have "gw_step configure_world (arrive configure_request waiting)
      (leave configure_request None (cm_accept stored_config stored_disk (arrive configure_request waiting)))"
    by (rule gw_step.answer [OF _ configure_run]) (simp add: arrive_def waiting_def blank_gateway_def)
  then have 3: "gw_step configure_world (arrive configure_request waiting) ?accepted"
    by (simp add: leave_def arrive_def cm_accept_def waiting_def blank_gateway_def)
  have 4: "gw_step configure_world ?accepted ?stored"
    using gw_step.store [of stored_config ?accepted] by (simp add: cm_accept_def waiting_def blank_gateway_def)
  have 5: "gw_step configure_world ?stored configured"
    unfolding configured_def cm_set_def by (rule gw_step.send) (simp add: cm_store_def)
  show ?thesis
    by (rule reachable.step [OF reachable.step [OF reachable.step [OF reachable.step [OF reachable.step [OF 0 1] 2] 3] 4] 5])
qed

lemma new_configuration_taken_up_witness:
  "\<exists>g1 g2. gw_step configure_world configured g1 \<and> gw_step configure_world g1 g2 \<and> gw_pc g2 = LRun stored_config"
  using new_configuration_taken_up [OF reachable_configured, of stored_config]
  by (simp add: configured_def cm_set_def cm_send_def cm_store_def waiting_def blank_gateway_def)

text \<open>C7: A session is installed, or held by a request that is still being answered, only for a vault that
  the control plane reported as owned, in answer to an attested discovery with the configuration the
  session was built from. It authenticates by the app identity exactly if the platform injected a token.\<close>

theorem only_owned_vaults_served:
  assumes "reachable W d g" "gw_session g = Some s \<or> (q, Some s) \<in> set (gw_flight g)"
  shows "\<exists>c r. s = session_for (w_lib W) (pconfig W) c r \<and> complete_config c
    \<and> discovered W c (Inr r) \<and> gw_vault_id c \<in> set (dc_owner_vault_ids r)
    \<and> (usesAppIdentity s \<longleftrightarrow> pc_identity_token (pconfig W) \<noteq> '''')"
proof -
  have "owns_loop ids v \<longleftrightarrow> v \<in> set ids" for ids v
    by (induction ids) auto
  moreover have "usesAppIdentity (session_for L pc c r) \<longleftrightarrow> pc_identity_token pc \<noteq> ''''" for L pc c r
    by (simp add: usesAppIdentity_def session_for_def new_session_def session_config_def)
  moreover have "owned_session W s"
    using reachable_sound [OF assms(1)] assms(2) unfolding sound_def by blast
  ultimately show ?thesis unfolding owned_session_def owns_def by blast
qed

definition found :: discovery where
  "found = \<lparr>dc_owner_vault_ids = [''v1''], dc_endpoints = [''v2:443''], dc_mrenclave = replicate 64 CHR ''a'',
     dc_att_server = '''', dc_attestation_token = '''', dc_att_token_expires_at = 1700000600\<rparr>"

lemma sample_lib_answers:
  "lib_now (w_lib sample_world) h = 1700000000000000000" "lib_rand_error (w_lib sample_world) h = None"
  "lib_identity (w_lib sample_world) h i ch = Inr ([1], [2])"
  "lib_http (w_lib sample_world) h q = Inr \<lparr>hs_code = 200, hs_status = ''200 OK'', hs_body = ''''\<rparr>"
  "json_parse (w_lib sample_world) t = Some owner_answer"
  by (simp_all add: sample_world_def sample_lib_def)

lemma sample_discovery_url:
  "new_request ''GET'' (trim_right ''https://api/'' ''/'' @ ''/api/v1/keyvaults/operated'') None =
     Inr \<lparr>hq_method = ''GET'', hq_url = ''https://api/api/v1/keyvaults/operated'', hq_headers = [], hq_body = None\<rparr>"
  by code_simp

lemma owner_answer_decoded:
  "decode_into discover_fields zero_discover_response (Some owner_answer) =
     Some \<lparr>dr_vaults = [''v1''], dr_constellation = \<lparr>gc_endpoints = [''v2:443''], gc_mrenclave = replicate 64 CHR ''a'',
       gc_attestation_server = '''', gc_oidc_issuer = '''', gc_threshold = 0\<rparr>, dr_attestation_token = '''',
       dr_expires_at = 1700000600\<rparr>"
  by code_simp

lemma found_discovered:
  "\<exists>es. run_state (discover (w_lib sample_world) (loop_client (w_lib sample_world) (pconfig sample_world) stored_config)) h
     = (Inr found, h @ es)"
  by (simp add: discover_def loop_client_def new_client_def stored_config_def sample_discovery_url setAttestedAuth_def
    makeChallenge_def time_now_def rand_read_def header_identity_def header_evidence_def http_do_def
    sample_lib_answers success_def owner_answer_decoded found_def)

lemma found_owned: "owns found ''v1''"
  by (simp add: owns_def found_def)

lemma reachable_installed:
  "\<exists>g. reachable sample_world stored_disk g
     \<and> gw_session g = Some (session_for (w_lib sample_world) (pconfig sample_world) stored_config found)"
proof -
  obtain es where d: "run_state (discover (w_lib sample_world)
      (loop_client (w_lib sample_world) (pconfig sample_world) stored_config)) (gw_hist running)
      = (Inr found, gw_hist running @ es)"
    using found_discovered by blast
  let ?g = "running\<lparr>gw_pc := LGot stored_config (Inr found), gw_hist := gw_hist running @ es\<rparr>"
  have 1: "reachable sample_world stored_disk ?g"
    by (rule reachable.step [OF reachable_running gw_step.discovery [OF _ d]]) (simp add: running_def)
  obtain t h where "run_state (decide (w_lib sample_world) (pconfig sample_world) stored_config (Inr found)) (gw_hist ?g)
      = ((Some (session_for (w_lib sample_world) (pconfig sample_world) stored_config found), t), h)"
    using found_owned by (simp add: decide_def stored_config_def found_def time_now_def)
  then have "gw_step sample_world ?g (?g\<lparr>gw_pc := LSleep stored_config t, gw_hist := h,
      gw_session := (case Some (session_for (w_lib sample_world) (pconfig sample_world) stored_config found) of
        None \<Rightarrow> gw_session ?g | Some _ \<Rightarrow> Some (session_for (w_lib sample_world) (pconfig sample_world) stored_config found))\<rparr>)"
    by (intro gw_step.decision) simp_all
  from reachable.step [OF 1 this] show ?thesis by - (rule exI, rule conjI, assumption, simp)
qed

lemma only_owned_vaults_served_witness:
  "\<exists>c r. session_for (w_lib sample_world) (pconfig sample_world) stored_config found
      = session_for (w_lib sample_world) (pconfig sample_world) c r
    \<and> discovered sample_world c (Inr r) \<and> gw_vault_id c \<in> set (dc_owner_vault_ids r)"
proof -
  obtain g where "reachable sample_world stored_disk g"
    "gw_session g = Some (session_for (w_lib sample_world) (pconfig sample_world) stored_config found)"
    using reachable_installed by blast
  from only_owned_vaults_served [OF this(1) disjI1 [OF this(2)]] show ?thesis by blast
qed

text \<open>C25: Every delay of the loop is between zero and thirty minutes, and every configuration the loop or
  the server holds is complete.\<close>

theorem gateway_state_sound:
  assumes "reachable W d g"
  shows "(\<forall>c t. gw_pc g = LSleep c t \<longrightarrow> 0 \<le> t \<and> t \<le> maxRefresh)
    \<and> (\<forall>c. gw_cfg g = Some c \<or> snapshot (gw_pc g) = Some c \<longrightarrow> gw_mgmt_url c \<noteq> '''' \<and> gw_vault_id c \<noteq> '''')"
  using reachable_sound [OF assms] by (auto simp: sound_def complete_config_def)

lemma gateway_state_sound_witness: "gw_vault_id stored_config \<noteq> ''''"
  using gateway_state_sound [OF reachable_running] by (simp add: running_def)

text \<open>C33: Before the first configuration no session is installed: the KMIP endpoint and the tools of a
  reachable gateway answer 503 or 400 and leave the state alone, also for a request that has arrived
  and is not answered yet.\<close>

theorem unconfigured_gateway_inert:
  assumes "reachable W d g" "gw_cfg g = None" "so = gw_session g \<or> (q, so) \<in> set (gw_flight g)"
    and "route_of (ir_method r) (ir_escaped_path r) \<in> {RKmip, RKeys, RSign, RPublic}"
  shows "\<exists>x. serve_request W so r g = (Some x, g) \<and> or_status x \<in> {400, 503}"
proof -
  have "so = None"
    using reachable_sound [OF assms(1)] assms(2,3) unfolding sound_def by (cases so) auto
  then have n: "cs_sess (control_with W so) = None" "cs_kmip (control_with W so) = None"
    by (simp_all add: control_with_def onConfigure_def new_control_def)
  show ?thesis
    using assms(4) n
    by (auto simp: serve_request_def serveHTTP_def lift_hist_def handleKMIP_def createKeyHandler_def
      signHandler_def getPublicKey_def requireSession_def Let_def split: option.split)
qed

lemma unconfigured_gateway_inert_witness:
  "\<exists>x. serve_request (sample_world\<lparr>w_codec := \<lparr>marshal = (\<lambda>ms. ''''), document = (\<lambda>s. None)\<rparr>\<rparr>) None
      \<lparr>ir_method = ''POST'', ir_path = ''/kmip'', ir_escaped_path = ''/kmip'', ir_body = [1], ir_body_fails = False\<rparr>
      (blank_gateway (stored_disk\<lparr>dk_file := None\<rparr>))
    = (Some x, blank_gateway (stored_disk\<lparr>dk_file := None\<rparr>)) \<and> or_status x \<in> {400, 503}"
proof (rule unconfigured_gateway_inert)
  let ?W = "sample_world\<lparr>w_codec := \<lparr>marshal = (\<lambda>ms. ''''), document = (\<lambda>s. None)\<rparr>\<rparr>"
  let ?d = "stored_disk\<lparr>dk_file := None\<rparr>"
  have "main_start ?W ?d = blank_gateway ?d"
    by (simp add: main_start_def readConfig_def stored_disk_def)
  then show "reachable ?W ?d (blank_gateway ?d)" using reachable.start [of ?W ?d] by simp
qed (simp_all add: blank_gateway_def route_examples)

text \<open>C34: A configure request is answered 200 or 400, never 502, and before the control plane was asked
  whether the vault is owned.\<close>

theorem configure_answers_at_once:
  assumes "route_of (ir_method r) (ir_escaped_path r) = RConfigure"
  shows "\<exists>x g'. serve_request W so r g = (Some x, g') \<and> or_status x \<in> {200, 400} \<and> gw_hist g' = gw_hist g"
proof -
  have "\<exists>d. snd (run_state (on_configure W q) g) = cm_accept c d g \<and> fst (run_state (on_configure W q) g) = None"
    if "c = \<lparr>gw_mgmt_url = cq_mgmt_url q, gw_vault_id = cq_vault_id q\<rparr>" for q c
    using that by (auto simp: on_configure_def Let_def split: prod.split)
  then have cb: "\<exists>c d. run_state (on_configure W q) g = (None, cm_accept c d g)" for q
    by (metis prod.collapse)
  have "\<exists>x g'. run_state (configureHandler (w_lib W) (control_with W so) r) g = (x, g') \<and> or_status x \<in> {200, 400}
      \<and> gw_hist g' = gw_hist g"
  proof (cases "decode_into config_fields \<lparr>cq_mgmt_url = '''', cq_vault_id = ''''\<rparr> (body_json (w_lib W) r)")
    case None
    then show ?thesis by (simp add: configureHandler_def control_with_configure)
  next
    case (Some q)
    obtain c d where "run_state (on_configure W q) g = (None, cm_accept c d g)" using cb by blast
    with Some show ?thesis
      by (simp add: configureHandler_def control_with_configure cm_accept_def)
  qed
  with assms show ?thesis by (auto simp: serve_request_def serveHTTP_def)
qed

lemma configure_answers_at_once_witness:
  "\<exists>x g'. serve_request configure_world None configure_request waiting = (Some x, g') \<and> or_status x \<in> {200, 400}
     \<and> gw_hist g' = gw_hist waiting"
  by (rule configure_answers_at_once) (simp add: configure_request_def configure_route)

section \<open>The refresh delay\<close>

text \<open>C30: The delay after a successful turn is between one and thirty minutes for every clock and every
  expiry, also when the conversion of the expiry wraps; for an expiry of this era it is the time to two
  minutes before the expiry, cut to that range.\<close>

theorem refresh_delay_spec:
  assumes "0 \<le> now" "now < 2 ^ 62" "0 < exp" "exp < 2 ^ 32"
  shows "refresh_delay now exp = max minRefresh (min maxRefresh ((exp * second - expiryMargin) - now))
    \<and> (3 * minute \<le> exp * second - now \<longrightarrow> now + refresh_delay now exp \<le> exp * second - expiryMargin)"
  using refresh_delay_exact [OF assms] by (auto simp: durations min_def max_def)

lemma refresh_delay_spec_witness: "refresh_delay 1700000000000000000 1700000600 = 8 * minute"
  using refresh_delay_spec [of 1700000000000000000 1700000600] by (simp add: durations)

text \<open>A token that has less than a minute left is refreshed only after it expired.\<close>

theorem late_refresh:
  assumes "0 \<le> now" "now < 2 ^ 62" "0 < exp" "exp < 2 ^ 32" "exp * second < now + minute"
  shows "exp * second < now + refresh_delay now exp"
  using refresh_delay_exact [OF assms(1-4)] assms(5) by (simp add: durations)

lemma late_refresh_witness:
  "1700000030 * second < 1700000000000000000 + refresh_delay 1700000000000000000 1700000030"
  by (rule late_refresh) (simp_all add: durations)

lemma wrap64_period: "wrap64 (x - 2 ^ 64) = wrap64 x"
proof -
  have "(word_of_int (x - 2 ^ 64) :: 64 word) = word_of_int x"
    by (simp add: word_of_int_eq_iff take_bit_eq_mod del: of_int_diff of_int_add)
  then show ?thesis by (simp only: wrap64_def)
qed

text \<open>An expiry so far away that its conversion wraps is taken for one long past: the loop refreshes
  every minute.\<close>

theorem wrapped_expiry:
  assumes "2 ^ 63 - unixToInternal \<le> exp" "exp < 2 ^ 63" "0 \<le> now"
  shows "refresh_delay now exp = minRefresh"
proof -
  have "wrap64 (exp + unixToInternal) = exp + unixToInternal - 2 ^ 64"
  proof -
    have "exp + unixToInternal - 2 ^ 64 = wrap64 (exp + unixToInternal - 2 ^ 64)"
      using assms by (intro wrap64_id [symmetric]) (simp_all add: unixToInternal_def)
    also have "\<dots> = wrap64 (exp + unixToInternal)" by (rule wrap64_period)
    finally show ?thesis by (rule sym)
  qed
  then have "until_margin now exp < minRefresh"
    using assms by (simp add: until_margin_def Let_def durations unixToInternal_def clamp64_def)
  moreover have "0 < exp" using assms(1) by (simp add: unixToInternal_def)
  ultimately show ?thesis by (simp add: refresh_delay_def Let_def durations)
qed

lemma wrapped_expiry_witness: "refresh_delay 0 (2 ^ 63 - 1) = minRefresh"
  by (rule wrapped_expiry) (simp_all add: unixToInternal_def)

section \<open>Restart\<close>

text \<open>After a configuration was written, a restart of the gateway starts with that configuration and
  with a wake-up in the channel, so that the first turn is for it.\<close>

theorem restart_recovers:
  assumes "codec_reads_back (w_codec W) [(''mgmt_url'', gw_mgmt_url c), (''vault_id'', gw_vault_id c)]"
    and "complete_config c" "writeConfig (w_codec W) c d = (None, d')" "dk_read_error d' = None"
  shows "gw_cfg (main_start W d') = Some c \<and> gw_reload (main_start W d')
    \<and> gw_step W (main_start W d') ((main_start W d')\<lparr>gw_pc := LRun c\<rparr>)"
proof -
  have r: "readConfig (w_codec W) d' = Inr (Some c)"
    using config_round_trip [OF assms(1) _ _ assms(3,4)] assms(2) by (simp add: complete_config_def)
  obtain h where "snd (run_state (lift_hist (liftFreeze (w_lib W) (pconfig W))) (cm_set c (blank_gateway d')))
      = (cm_set c (blank_gateway d'))\<lparr>gw_hist := h\<rparr>"
    using run_lift_hist by blast
  then have "main_start W d' = (cm_set c (blank_gateway d'))\<lparr>gw_hist := h\<rparr>"
    by (simp add: main_start_def r)
  then have *: "gw_cfg (main_start W d') = Some c" "gw_reload (main_start W d')" "gw_pc (main_start W d') = LTop"
    by (simp_all add: cm_set_def cm_store_def cm_send_def blank_gateway_def)
  show ?thesis
    by (intro conjI * gw_step.get_some) (simp_all add: * cm_get_def)
qed

lemma restart_recovers_witness: "gw_cfg (main_start sample_world stored_disk) = Some stored_config"
proof -
  have "writeConfig (w_codec sample_world) stored_config stored_disk = (None, stored_disk)"
    by (simp add: writeConfig_def sample_world_def stored_disk_def)
  moreover have "codec_reads_back (w_codec sample_world)
      [(''mgmt_url'', gw_mgmt_url stored_config), (''vault_id'', gw_vault_id stored_config)]"
    by (simp add: codec_reads_back_def sample_world_def stored_config_def)
  ultimately show ?thesis
    using restart_recovers [of sample_world stored_config stored_disk stored_disk]
    by (simp add: complete_config_def stored_config_def stored_disk_def)
qed

section \<open>The tools of the running gateway\<close>



end
