(* ===== verification/Gateway_Progress.thy ===== *)
theory Gateway_Progress
  imports Gateway_Properties
begin

text \<open>
  Progress of the gateway: the loop and the senders on their own, without new or finished requests, bring
  a stored configuration into a turn after a bounded number of steps, in whatever order they are
  scheduled, and always have a step to take.
\<close>

text \<open>The steps of the loop and of the senders: no request arrives or is answered.\<close>

definition own_step :: "world \<Rightarrow> gateway \<Rightarrow> gateway \<Rightarrow> bool" where
  "own_step W g g' \<longleftrightarrow> gw_step W g g' \<and> gw_flight g' = gw_flight g"

text \<open>How many steps the loop is from its next look at the configuration, when there is one.\<close>

fun distance :: "loop_pc \<Rightarrow> nat" where
  "distance LTop = 1"
| "distance LWait = 2"
| "distance (LSleep c t) = 2"
| "distance (LGot c r) = 3"
| "distance (LRun c) = 4"

definition remaining :: "gateway \<Rightarrow> nat" where
  "remaining g = distance (gw_pc g) + gw_pending g"

lemma remove1_shorter: "x \<in> set xs \<Longrightarrow> remove1 x xs \<noteq> xs"
  by (metis length_remove1 length_pos_if_in_set less_irrefl diff_less zero_less_one)

lemma request_flight: "serve_request W so r g = (resp, g') \<Longrightarrow> gw_flight g' = gw_flight g"
  by (erule request_effect) (simp_all add: cm_accept_def)

text \<open>
  The variant: every step of its own stores an accepted configuration, starts a turn for the stored one or
  comes closer to one.
\<close>

lemma own_step_progress:
  assumes "own_step W g g'" "gw_cfg g = Some c" "gw_storing g' = gw_storing g"
  shows "gw_cfg g' = Some c \<and> (gw_pc g' = LRun c \<or> remaining g' < remaining g)"
proof -
  from assms(1) have step: "gw_step W g g'" and flight: "gw_flight g' = gw_flight g"
    by (simp_all add: own_step_def)
  from step show ?thesis
  proof (cases rule: gw_step.cases)
    case (arrival r)
    with flight show ?thesis by (simp add: arrive_def)
  next
    case (answer r so resp g1)
    then have "remove1 (r, so) (gw_flight g) = gw_flight g"
      using flight request_flight [OF answer(3)] by (simp add: leave_def)
    with remove1_shorter [OF answer(2)] show ?thesis by simp
  next
    case (store c')
    with assms(3) remove1_shorter [OF store(2)] show ?thesis by (simp add: cm_store_def)
  qed (use assms(2) in \<open>auto simp: remaining_def cm_get_def cm_send_def\<close>)
qed

lemma own_run_progress:
  assumes "gw_cfg (f 0) = Some c" "\<And>i. i < n \<Longrightarrow> own_step W (f i) (f (Suc i))"
    and "\<And>i. 0 < i \<Longrightarrow> i \<le> n \<Longrightarrow> gw_pc (f i) \<noteq> LRun c \<and> gw_storing (f i) = gw_storing (f 0)"
  shows "gw_cfg (f n) = Some c \<and> remaining (f n) + n \<le> remaining (f 0)"
  using assms(2,3)
proof (induction n)
  case 0
  with assms(1) show ?case by simp
next
  case (Suc n)
  then have IH: "gw_cfg (f n) = Some c" "remaining (f n) + n \<le> remaining (f 0)" by simp_all
  have "gw_storing (f n) = gw_storing (f 0)" using Suc.prems by (cases n) simp_all
  with Suc.prems have "own_step W (f n) (f (Suc n))" "gw_pc (f (Suc n)) \<noteq> LRun c"
    "gw_storing (f (Suc n)) = gw_storing (f n)" by simp_all
  with own_step_progress [OF this(1) IH(1)] IH(2) show ?case by auto
qed

lemma distance_pos: "0 < distance pc" "distance pc \<le> 4"
  by (cases pc; simp)+

lemma own_step_exists:
  assumes "reachable W d g" "gw_cfg g = Some c"
  shows "\<exists>g'. own_step W g g'"
proof (cases "gw_pc g")
  case LTop
  then show ?thesis
    using gw_step.get_some [of g c W] assms(2) by (force simp: own_step_def cm_get_def)
next
  case LWait
  then have "gw_reload g \<or> 0 < gw_pending g"
    using reachable_no_lost_update [OF assms(1)] assms(2) by (simp add: no_lost_update_def wake_due_def)
  then show ?thesis
    using gw_step.wait_reload [of g W] gw_step.send [of g W] LWait by (force simp: own_step_def cm_send_def)
next
  case (LRun c')
  obtain r h where "run_state (discover (w_lib W) (loop_client (w_lib W) (pconfig W) c')) (gw_hist g) = (r, h)" by force
  from gw_step.discovery [OF LRun this] show ?thesis by (force simp: own_step_def)
next
  case (LGot c' r)
  from gw_step.panic_got [OF LGot, of W] show ?thesis by (force simp: own_step_def)
next
  case (LSleep c' t)
  from gw_step.wake_timer [OF LSleep, of W] show ?thesis by (force simp: own_step_def)
qed

text \<open>C17: Once a configuration is stored and as long as no request arrives or is answered, the loop and the
  senders never get stuck, and in whatever order they run, a turn for that configuration starts after at
  most four steps and one for each sender that is still to send, unless one that was accepted meanwhile
  takes its place before.\<close>

theorem configuration_inevitable:
  assumes "reachable W d g" "gw_cfg g = Some c"
  shows "(\<exists>g'. own_step W g g')
    \<and> (\<forall>f n. f 0 = g \<and> (\<forall>i<n. own_step W (f i) (f (Suc i))) \<and> 4 + gw_pending g \<le> n \<longrightarrow>
         (\<exists>i. 0 < i \<and> i \<le> n \<and> (gw_pc (f i) = LRun c \<or> gw_storing (f i) \<noteq> gw_storing g)))"
proof (intro conjI allI impI own_step_exists [OF assms])
  fix f n
  assume run: "f 0 = g \<and> (\<forall>i<n. own_step W (f i) (f (Suc i))) \<and> 4 + gw_pending g \<le> n"
  show "\<exists>i. 0 < i \<and> i \<le> n \<and> (gw_pc (f i) = LRun c \<or> gw_storing (f i) \<noteq> gw_storing g)"
  proof (rule ccontr)
    assume "\<not> ?thesis"
    with run assms(2) have "remaining (f n) + n \<le> remaining g"
      using own_run_progress [of f c n W] by auto
    moreover have "0 < remaining (f n)" "remaining g \<le> 4 + gw_pending g"
      using distance_pos [of "gw_pc (f n)"] distance_pos [of "gw_pc g"] by (simp_all add: remaining_def)
    ultimately show False using run by simp
  qed
qed

lemma configuration_inevitable_witness: "\<exists>g'. own_step configure_world configured g'"
  using configuration_inevitable [OF reachable_configured, of stored_config]
  by (simp add: configured_def cm_set_def cm_send_def cm_store_def)

section \<open>KMIP messages of the running gateway\<close>








end
