(* ===== verification/Gateway_Persist.thy ===== *)
theory Gateway_Persist
  imports Gateway_Progress
begin

text \<open>
  The sealed file against the configuration in memory. As long as submissions come one after the other a
  restart finds what the gateway runs with; two concurrent ones can leave different configurations in the
  file and in memory, since nothing orders the write and the store of one against those of the other.
\<close>

section \<open>Serial submissions\<close>

text \<open>Runs with at most one submission between its write to the file and its store in memory.\<close>

inductive serial_reachable :: "world \<Rightarrow> disk \<Rightarrow> gateway \<Rightarrow> bool" for W d where
  serial_start: "serial_reachable W d (main_start W d)"
| serial_step: "serial_reachable W d g \<Longrightarrow> gw_step W g g' \<Longrightarrow> length (gw_storing g') \<le> 1 \<Longrightarrow>
    serial_reachable W d g'"

text \<open>A file that can be read and written.\<close>

definition writable :: "disk \<Rightarrow> bool" where
  "writable d \<longleftrightarrow> dk_mkdir_error d = None \<and> dk_write_error d = None \<and> dk_read_error d = None"

definition faithful_codec :: "json_codec \<Rightarrow> bool" where
  "faithful_codec J \<longleftrightarrow> (\<forall>u v. codec_reads_back J [(''mgmt_url'', u), (''vault_id'', v)])"

text \<open>What the file has to hold: the configuration in memory, or the one that is about to be stored there.\<close>

definition in_step :: "world \<Rightarrow> gateway \<Rightarrow> bool" where
  "in_step W g \<longleftrightarrow> writable (gw_disk g) \<and>
     (case gw_storing g of
        [] \<Rightarrow> gw_cfg (main_start W (gw_disk g)) = gw_cfg g
      | [c] \<Rightarrow> readConfig (w_codec W) (gw_disk g) = Inr (Some c)
      | _ \<Rightarrow> False)"

lemma main_start_disk [simp]: "gw_disk (main_start W d) = d" "gw_storing (main_start W d) = []"
  by (rule main_start_cases [of W d]; simp add: blank_gateway_def cm_set_def cm_store_def cm_send_def)+

lemma restart_reads:
  assumes "readConfig (w_codec W) d = Inr (Some c)"
  shows "gw_cfg (main_start W d) = Some c"
proof -
  obtain h where "snd (run_state (lift_hist (liftFreeze (w_lib W) (pconfig W))) (cm_set c (blank_gateway d)))
      = (cm_set c (blank_gateway d))\<lparr>gw_hist := h\<rparr>"
    using run_lift_hist by blast
  with assms show ?thesis by (simp add: main_start_def cm_set_def cm_store_def cm_send_def)
qed

lemma in_step_cong:
  "gw_disk g' = gw_disk g \<Longrightarrow> gw_storing g' = gw_storing g \<Longrightarrow> gw_cfg g' = gw_cfg g \<Longrightarrow>
    in_step W g' = in_step W g"
  by (simp add: in_step_def split: list.split)

lemma write_reads_back:
  assumes "faithful_codec (w_codec W)" "complete_config c" "writable d" "writeConfig (w_codec W) c d = (e, d')"
  shows "writable d' \<and> readConfig (w_codec W) d' = Inr (Some c)"
proof -
  from assms(3,4) have w: "writable d'" "writeConfig (w_codec W) c d = (None, d')"
    by (auto simp: writable_def writeConfig_def Let_def)
  have "codec_reads_back (w_codec W) [(''mgmt_url'', gw_mgmt_url c), (''vault_id'', gw_vault_id c)]"
    using assms(1) by (simp add: faithful_codec_def)
  from config_round_trip [OF this _ _ w(2)] w assms(2) show ?thesis
    by (simp add: writable_def complete_config_def)
qed

lemma gw_step_in_step:
  assumes "gw_step W g g'" "length (gw_storing g') \<le> 1" "faithful_codec (w_codec W)" "in_step W g"
  shows "in_step W g'"
  using assms(1)
proof (cases rule: gw_step.cases)
  case (answer r so resp g1)
  from answer(3) show ?thesis
  proof (cases rule: request_effect)
    case (configured c e d)
    then have "gw_storing g = []" using assms(2) answer(1) by (simp add: leave_def cm_accept_def)
    with configured assms(3,4) answer(1) write_reads_back [of W c "gw_disk g" e d] show ?thesis
      by (simp add: in_step_def leave_def cm_accept_def)
  qed (use answer(1) assms(4) in_step_cong [of g' g W] in \<open>simp add: leave_def\<close>)
next
  case (store c)
  with assms(4) show ?thesis
    by (auto simp: in_step_def cm_store_def restart_reads split: list.splits)
qed (use assms(4) in_step_cong [of g' g W] in \<open>simp_all add: cm_send_def arrive_def\<close>)

lemma serial_in_step:
  assumes "serial_reachable W d g" "writable d" "faithful_codec (w_codec W)"
  shows "in_step W g"
  using assms(1)
proof induction
  case serial_start
  with assms(2) show ?case by (simp add: in_step_def)
next
  case (serial_step g g')
  with assms(3) show ?case by (blast intro: gw_step_in_step)
qed

section \<open>Restart after serial submissions\<close>

text \<open>C39: On a disk that can be written, with submissions that do not overlap, a restart of the gateway at any
  moment at which none is under way starts with exactly the configuration that the gateway ran with, none
  included.\<close>

theorem restart_keeps_configuration:
  assumes "serial_reachable W d g" "writable d" "faithful_codec (w_codec W)" "gw_storing g = []"
  shows "gw_cfg (main_start W (gw_disk g)) = gw_cfg g"
  using serial_in_step [OF assms(1-3)] assms(4) by (simp add: in_step_def)

section \<open>Two submissions at once\<close>

text \<open>
  A codec that reads back every pair of members: the length of the first in unary, then both. Submissions
  whose body is the vault to serve.
\<close>

definition framed_codec :: json_codec where
  "framed_codec = \<lparr>marshal = (\<lambda>ms. case ms of [(_, u), (_, v)] \<Rightarrow> replicate (length u) CHR ''x'' @ CHR ''y'' # u @ v | _ \<Rightarrow> ''''),
     document = (\<lambda>s. let n = length (takeWhile (\<lambda>c. c = CHR ''x'') s); rest = drop (n + 1) s in
       Some (JObj [(''mgmt_url'', JStr (take n rest)), (''vault_id'', JStr (drop n rest))]))\<rparr>"

lemma framed_codec_faithful: "faithful_codec framed_codec"
proof -
  have "takeWhile (\<lambda>c. c = CHR ''x'') (replicate n CHR ''x'' @ CHR ''y'' # s) = replicate n CHR ''x''" for n s
    by (induction n) auto
  then show ?thesis
    by (simp add: faithful_codec_def codec_reads_back_def framed_codec_def Let_def)
qed

definition race_world :: world where
  "race_world = sample_world\<lparr>w_codec := framed_codec, w_lib := sample_lib\<lparr>json_decode := \<lambda>s fails.
     Some (JObj [(''mgmt_url'', JStr ''https://api/''), (''vault_id'', JStr s)])\<rparr>\<rparr>"

definition submission :: "byte \<Rightarrow> in_request" where
  "submission b = \<lparr>ir_method = ''POST'', ir_path = ''/configure'', ir_escaped_path = ''/configure'',
     ir_body = [b], ir_body_fails = False\<rparr>"

definition vault_config :: "byte \<Rightarrow> gw_config" where
  "vault_config b = \<lparr>gw_mgmt_url = ''https://api/'', gw_vault_id = [byte_char b]\<rparr>"

text \<open>An accepted submission, from its arrival to its answer, in the middle of whatever else happens.\<close>

definition submitted :: "byte \<Rightarrow> gateway \<Rightarrow> gateway" where
  "submitted b g = cm_accept (vault_config b) (snd (writeConfig framed_codec (vault_config b) (gw_disk g))) g"

lemma submission_run:
  "\<exists>resp. serve_request race_world so (submission b) g = (resp, submitted b g)"
  by (simp add: serve_request_def serveHTTP_def submission_def configure_route configureHandler_def
    control_with_configure on_configure_def race_world_def sample_world_def body_json_def decode_into_def
    decode_struct_def config_fields_def field_of_def string_field_def vault_config_def submitted_def split_beta Let_def)

lemma reachable_submitted:
  assumes "reachable race_world d g"
  shows "reachable race_world d (submitted b g)"
proof -
  obtain resp where "serve_request race_world (gw_session g) (submission b) (arrive (submission b) g)
      = (resp, submitted b (arrive (submission b) g))"
    using submission_run by blast
  then have "gw_step race_world (arrive (submission b) g)
      (leave (submission b) (gw_session g) (submitted b (arrive (submission b) g)))"
    by (intro gw_step.answer) (simp_all add: arrive_def)
  moreover have "leave (submission b) (gw_session g) (submitted b (arrive (submission b) g)) = submitted b g"
    by (simp add: leave_def arrive_def submitted_def cm_accept_def)
  ultimately show ?thesis
    using reachable.step [OF reachable.step [OF assms gw_step.arrival [of _ _ "submission b"]]] by simp
qed

lemma reachable_stored:
  "reachable W d g \<Longrightarrow> c \<in> set (gw_storing g) \<Longrightarrow>
    reachable W d (cm_set c (g\<lparr>gw_storing := remove1 c (gw_storing g)\<rparr>))"
  unfolding cm_set_def
  by (rule reachable.step [OF reachable.step [OF _ gw_step.store] gw_step.send]) (simp_all add: cm_store_def)

definition idle :: "gateway \<Rightarrow> bool" where
  "idle g \<longleftrightarrow> gw_storing g = [] \<and> gw_pending g = 0 \<and> gw_flight g = []"

text \<open>C40: Two submissions that overlap can leave the gateway with one configuration in memory and the other in
  the sealed file, on a healthy disk and with nothing left to do: the next restart silently serves another
  vault than the gateway did until then.\<close>

theorem overlapping_submissions_diverge:
  "\<exists>g. reachable race_world fresh_disk g \<and> idle g \<and> gw_cfg g = Some (vault_config 65)
     \<and> gw_cfg (main_start race_world (gw_disk g)) = Some (vault_config 66) \<and> vault_config 65 \<noteq> vault_config 66"
proof -
  let ?g2 = "submitted 66 (submitted 65 (blank_gateway fresh_disk))"
  let ?g3 = "cm_set (vault_config 66) (?g2\<lparr>gw_storing := remove1 (vault_config 66) (gw_storing ?g2)\<rparr>)"
  let ?g4 = "cm_set (vault_config 65) (?g3\<lparr>gw_storing := remove1 (vault_config 65) (gw_storing ?g3)\<rparr>)"
  have ne: "vault_config 65 \<noteq> vault_config 66" by (simp add: vault_config_def byte_char_def)
  have "main_start race_world fresh_disk = blank_gateway fresh_disk"
    by (simp add: main_start_def readConfig_def fresh_disk_def stored_disk_def)
  then have 2: "reachable race_world fresh_disk ?g2"
    by (metis reachable_submitted reachable.start)
  have s: "gw_storing ?g2 = [vault_config 66, vault_config 65]"
    by (simp add: submitted_def cm_accept_def blank_gateway_def)
  have 3: "reachable race_world fresh_disk ?g3" by (rule reachable_stored [OF 2]) (simp add: s)
  have "gw_storing ?g3 = [vault_config 65]" by (simp add: cm_set_def cm_send_def cm_store_def s)
  then have 4: "reachable race_world fresh_disk ?g4" by (intro reachable_stored [OF 3]) simp
  have fields: "idle ?g4" "gw_cfg ?g4 = Some (vault_config 65)"
    "gw_disk ?g4 = snd (writeConfig framed_codec (vault_config 66)
       (snd (writeConfig framed_codec (vault_config 65) fresh_disk)))"
    by (simp_all add: idle_def cm_set_def cm_send_def cm_store_def submitted_def cm_accept_def blank_gateway_def)
  have "writable fresh_disk" by (simp add: writable_def fresh_disk_def stored_disk_def)
  moreover have w: "w_codec race_world = framed_codec" by (simp add: race_world_def)
  moreover have "complete_config (vault_config b)" for b by (simp add: complete_config_def vault_config_def)
  ultimately have "readConfig (w_codec race_world) (gw_disk ?g4) = Inr (Some (vault_config 66))"
    using write_reads_back [of race_world] framed_codec_faithful unfolding fields(3) w by (metis prod.collapse)
  with 4 fields(1,2) ne restart_reads show ?thesis by blast
qed

text \<open>The same submission alone: a restart comes back with it.\<close>

lemma restart_keeps_configuration_witness:
  "gw_cfg (main_start race_world (gw_disk (cm_set (vault_config 65) ((submitted 65 (blank_gateway fresh_disk))\<lparr>gw_storing := []\<rparr>))))
    = Some (vault_config 65)"
proof -
  let ?g0 = "blank_gateway fresh_disk"
  let ?g1 = "submitted 65 ?g0"
  let ?a = "arrive (submission 65) ?g0"
  have "main_start race_world fresh_disk = ?g0"
    by (simp add: main_start_def readConfig_def fresh_disk_def stored_disk_def)
  then have 0: "serial_reachable race_world fresh_disk ?g0" by (metis serial_reachable.serial_start)
  obtain resp where "serve_request race_world None (submission 65) ?a = (resp, submitted 65 ?a)"
    using submission_run by blast
  from gw_step.answer [OF _ this] have "gw_step race_world ?a ?g1"
    by (simp add: leave_def arrive_def submitted_def cm_accept_def blank_gateway_def)
  from serial_step [OF serial_step [OF 0 gw_step.arrival] this]
  have 1: "serial_reachable race_world fresh_disk ?g1"
    by (simp add: arrive_def submitted_def cm_accept_def blank_gateway_def)
  let ?s = "cm_store (vault_config 65) (?g1\<lparr>gw_storing := []\<rparr>)"
  have "gw_step race_world ?g1 ?s"
    using gw_step.store [of "vault_config 65" ?g1] by (simp add: submitted_def cm_accept_def blank_gateway_def)
  from serial_step [OF serial_step [OF 1 this] gw_step.send]
  have "serial_reachable race_world fresh_disk (cm_set (vault_config 65) (?g1\<lparr>gw_storing := []\<rparr>))"
    by (simp add: cm_set_def cm_send_def cm_store_def)
  moreover have "writable fresh_disk" by (simp add: writable_def fresh_disk_def stored_disk_def)
  moreover have "faithful_codec (w_codec race_world)" using framed_codec_faithful by (simp add: race_world_def)
  ultimately have "gw_cfg (main_start race_world (gw_disk (cm_set (vault_config 65) (?g1\<lparr>gw_storing := []\<rparr>))))
      = gw_cfg (cm_set (vault_config 65) (?g1\<lparr>gw_storing := []\<rparr>))"
    by (rule restart_keeps_configuration) (simp add: cm_set_def cm_send_def cm_store_def)
  then show ?thesis by (simp add: cm_set_def cm_send_def cm_store_def)
qed

end
