(* ===== verification/Proxy.thy ===== *)
theory Proxy
  imports Ttlv Effects Go_Strings Url
begin

text \<open>
  \<^verbatim>\<open>cmd/kmip-proxy/main.go\<close>: the local shim. It reads TTLV messages from a byte stream, opens one
  verified RA-TLS connection per client, and relays each message. The RA-TLS client library and the
  sockets are the record \<open>px_lib\<close>, which answers each call as a function of the events so far.
\<close>

section \<open>Reading one message\<close>

text \<open>A byte stream: the bytes that will arrive, and the error that follows them.\<close>

datatype read_error = EOF | UnexpectedEOF | ReadFailed string | TooLarge nat

record reader =
  rd_bytes :: "byte list"
  rd_end :: "string option"   \<comment> \<open>\<^const>\<open>None\<close>: the peer closed the stream\<close>

definition end_error :: "reader \<Rightarrow> read_error" where
  "end_error r = (case rd_end r of None \<Rightarrow> EOF | Some e \<Rightarrow> ReadFailed e)"

text \<open>
  \<^verbatim>\<open>io.ReadFull\<close> on a buffer of \<open>n\<close> bytes: the end of the stream is \<^verbatim>\<open>io.EOF\<close> if nothing was read and
  \<^verbatim>\<open>io.ErrUnexpectedEOF\<close> in the middle.
\<close>

definition readFull :: "nat \<Rightarrow> reader \<Rightarrow> (read_error + byte list) \<times> reader" where
  "readFull n r =
     (if n \<le> length (rd_bytes r) then (Inr (take n (rd_bytes r)), r\<lparr>rd_bytes := drop n (rd_bytes r)\<rparr>)
      else (Inl (if rd_bytes r \<noteq> [] \<and> rd_end r = None then UnexpectedEOF else end_error r),
            r\<lparr>rd_bytes := []\<rparr>))"

definition max_message :: nat where
  "max_message = 16 * 1024 * 1024"

definition readTTLV :: "reader \<Rightarrow> (read_error + byte list) \<times> reader" where
  "readTTLV r =
     (case readFull 8 r of
        (Inl e, r1) \<Rightarrow> (Inl e, r1)
      | (Inr hdr, r1) \<Rightarrow>
          (let n = u32_of (drop 4 hdr) in
           if n > max_message then (Inl (TooLarge n), r1)
           else (case readFull n r1 of
              (Inl e, r2) \<Rightarrow> (Inl e, r2)
            | (Inr body, r2) \<Rightarrow> (Inr (hdr @ body), r2))))"

lemma readTTLV_consumes: "readTTLV r = (Inr msg, r') \<Longrightarrow> length (rd_bytes r') < length (rd_bytes r)"
  by (auto simp: readTTLV_def readFull_def Let_def split: if_splits)

section \<open>The outside of the proxy\<close>

type_synonym pconn = nat

record connect_options =
  co_server_name :: string
  co_timeout :: int

text \<open>The answer to a relayed message: the status code and the body, unless reading it failed.\<close>

type_synonym relay_answer = "nat \<times> (string + byte list)"

datatype p_event =
    PConnect string nat connect_options "pconn option"
  | PVerify pconn verification_policy bool
  | PRelay pconn string string string "byte list" "relay_answer option"
  | PWrite "byte list" bool
  | PClose pconn
  | PLocalClose

type_synonym phist = "p_event list"

type_synonym 'a pio = "(phist, 'a) state"

record px_lib =
  px_connect :: "phist \<Rightarrow> string \<Rightarrow> nat \<Rightarrow> connect_options \<Rightarrow> string + pconn"
  px_verify :: "phist \<Rightarrow> pconn \<Rightarrow> verification_policy \<Rightarrow> string option"
  px_http :: "phist \<Rightarrow> pconn \<Rightarrow> string \<Rightarrow> string \<Rightarrow> string \<Rightarrow> byte list \<Rightarrow> string + relay_answer"
  px_write :: "phist \<Rightarrow> byte list \<Rightarrow> string option"

definition rc_connect :: "px_lib \<Rightarrow> string \<Rightarrow> nat \<Rightarrow> connect_options \<Rightarrow> (string + pconn) pio" where
  "rc_connect P h p co = call (\<lambda>s. px_connect P s h p co)
     (\<lambda>s. PConnect h p co (case px_connect P s h p co of Inl _ \<Rightarrow> None | Inr c \<Rightarrow> Some c))"

definition rc_verify :: "px_lib \<Rightarrow> pconn \<Rightarrow> verification_policy \<Rightarrow> string option pio" where
  "rc_verify P c pol = call (\<lambda>s. px_verify P s c pol) (\<lambda>s. PVerify c pol (px_verify P s c pol = None))"

definition rc_http_do :: "px_lib \<Rightarrow> pconn \<Rightarrow> string \<Rightarrow> string \<Rightarrow> string \<Rightarrow> byte list \<Rightarrow> (string + relay_answer) pio" where
  "rc_http_do P c meth path host msg = call (\<lambda>s. px_http P s c meth path host msg)
     (\<lambda>s. PRelay c meth path host msg (case px_http P s c meth path host msg of Inl _ \<Rightarrow> None | Inr a \<Rightarrow> Some a))"

definition local_write :: "px_lib \<Rightarrow> byte list \<Rightarrow> string option pio" where
  "local_write P b = call (\<lambda>s. px_write P s b) (\<lambda>s. PWrite b (px_write P s b = None))"

definition rc_close :: "pconn \<Rightarrow> unit pio" where
  "rc_close c = call (\<lambda>s. ()) (\<lambda>s. PClose c)"

definition local_close :: "unit pio" where
  "local_close = call (\<lambda>s. ()) (\<lambda>s. PLocalClose)"

section \<open>Connecting\<close>

record verifier =
  vf_host :: string
  vf_allow_dev :: bool
  vf_insecure :: bool
  vf_att_server :: string
  vf_att_token :: string

definition connect_policy :: "verifier \<Rightarrow> verification_policy" where
  "connect_policy v =
     (let policy = \<lparr>vp_tee = TeeTypeTDX, vp_mrenclave = [], vp_allow_debug = vf_allow_dev v, vp_quote = None\<rparr> in
      if \<not> vf_insecure v
      then policy\<lparr>vp_quote := Some \<lparr>qv_endpoint = vf_att_server v, qv_token = vf_att_token v\<rparr>\<rparr>
      else policy)"

definition connect :: "px_lib \<Rightarrow> verifier \<Rightarrow> pconn result pio" where
  "connect P v = do {
     c \<leftarrow> rc_connect P (vf_host v) 443 \<lparr>co_server_name = vf_host v, co_timeout = 60\<rparr>;
     (case c of
        Inl e \<Rightarrow> State_Monad.return (Inl (Errorf ''connect %s: %w'' [AStr (vf_host v), AErr (Ext e)]))
      | Inr client \<Rightarrow> do {
          e \<leftarrow> rc_verify P client (connect_policy v);
          (case e of
             Some err \<Rightarrow> do {
               rc_close client;
               State_Monad.return (Inl (Errorf (''enclave attestation failed '' @ map char_of [0xE2, 0x80, 0x94 :: nat]
                 @ '' refusing to relay KMIP: %w'') [AErr (Ext err)]))
             }
           | None \<Rightarrow> State_Monad.return (Inr client))
        })
   }"

section \<open>Relaying\<close>

definition kmipPath :: string where
  "kmipPath = ''/kmip''"

text \<open>Why a client's loop ended; the proxy logs all but the first.\<close>

datatype stop =
    ClientDone | ReadStop read_error | RelayStop string | BodyStop string | StatusStop nat | WriteStop string

text \<open>The loop of \<^verbatim>\<open>serve\<close>; every turn consumes at least a header, so it ends with the stream.\<close>

function serve_loop :: "px_lib \<Rightarrow> verifier \<Rightarrow> pconn \<Rightarrow> reader \<Rightarrow> stop pio" where
  "serve_loop P v client c =
     (case readTTLV c of
        (Inl e, c') \<Rightarrow> State_Monad.return (if e \<noteq> EOF then ReadStop e else ClientDone)
      | (Inr msg, c') \<Rightarrow> do {
          a \<leftarrow> rc_http_do P client ''POST'' kmipPath (vf_host v) msg;
          (case a of
             Inl e \<Rightarrow> State_Monad.return (RelayStop e)
           | Inr (code, Inl e) \<Rightarrow> State_Monad.return (BodyStop e)
           | Inr (code, Inr body) \<Rightarrow>
               if code div 100 \<noteq> 2 then State_Monad.return (StatusStop code)
               else do {
                 w \<leftarrow> local_write P body;
                 (case w of
                    Some e \<Rightarrow> State_Monad.return (WriteStop e)
                  | None \<Rightarrow> serve_loop P v client c')
               })
        })"
  by pat_completeness auto
termination
  by (relation "measure (\<lambda>(P, v, client, c). length (rd_bytes c))") (auto dest: readTTLV_consumes [OF sym])

declare serve_loop.simps [simp del]

definition serve :: "px_lib \<Rightarrow> verifier \<Rightarrow> reader \<Rightarrow> stop result pio" where
  "serve P v c = do {
     r \<leftarrow> connect P v;
     (case r of
        Inl e \<Rightarrow> do { local_close; State_Monad.return (Inl e) }
      | Inr client \<Rightarrow> do {
          s \<leftarrow> serve_loop P v client c;
          rc_close client;
          local_close;
          State_Monad.return (Inr s)
        })
   }"

section \<open>The command line\<close>

definition hostFromGateway :: "string \<Rightarrow> string" where
  "hostFromGateway g0 =
     (let g = trim_space g0;
          g = (if contains g ''://'' then (case url_parse g of Some h \<Rightarrow> if h \<noteq> '''' then h else g | None \<Rightarrow> g) else g)
      in case split_host_port g of
           Inr (h, _) \<Rightarrow> h
         | Inl _ \<Rightarrow> trim_right g ''/'')"

record flags =
  fl_gateway :: string
  fl_listen :: string
  fl_att_server :: string
  fl_att_token :: string
  fl_allow_dev :: bool
  fl_insecure :: bool

definition default_flags :: flags where
  "default_flags = \<lparr>fl_gateway = '''', fl_listen = ''127.0.0.1:5696'', fl_att_server = ''https://as.privasys.org/verify'', fl_att_token = '''',
     fl_allow_dev = True, fl_insecure = False\<rparr>"

text \<open>\<^verbatim>\<open>main\<close> up to the listener: a fatal message, or the verifier it serves with.\<close>

definition main_verifier :: "flags \<Rightarrow> string + verifier" where
  "main_verifier f =
     (if fl_gateway f = '''' then Inl ''kmip-proxy: --gateway is required''
      else (let v = \<lparr>vf_host = hostFromGateway (fl_gateway f), vf_allow_dev = fl_allow_dev f,
                      vf_insecure = fl_insecure f, vf_att_server = fl_att_server f, vf_att_token = fl_att_token f\<rparr>
            in if \<not> vf_insecure v \<and> vf_att_token v = ''''
               then Inl ''kmip-proxy: --attestation-token is required (or pass --insecure)''
               else Inr v))"

end
