(* ===== verification/Proxy_Laws.thy ===== *)
theory Proxy_Laws
  imports Proxy
begin

text \<open>
  What the proxy guarantees: it frames the client's stream exactly, relays the frames in order over a
  connection that was verified first, and writes back only the answers of the gateway.
\<close>

section \<open>Frames of the stream\<close>

text \<open>A message is framed by its length field, without padding: the second instance of \<open>framing\<close>.\<close>

definition msg_len :: "byte list \<Rightarrow> nat" where
  "msg_len b = 8 + hdr_len b"

interpretation stream: framing msg_len
  by unfold_locales (simp_all add: msg_len_def)

lemma u32_of_header: "8 \<le> length b \<Longrightarrow> u32_of (drop 4 (take 8 b)) = hdr_len b"
  using hdr_len_append [of "take 8 b" "drop 8 b"] by (simp add: hdr_len_def)

lemma readTTLV_frame:
  assumes "exact m" "hdr_len m \<le> max_message"
  shows "readTTLV \<lparr>rd_bytes = m @ rest, rd_end = e\<rparr> = (Inr m, \<lparr>rd_bytes = rest, rd_end = e\<rparr>)"
proof -
  have "8 \<le> length m" "length m - 8 = hdr_len m" "u32_of (drop 4 (take 8 m)) = hdr_len m"
    using assms(1) u32_of_header [of m] by (simp_all add: exact_def)
  then show ?thesis
    using assms(2) by (simp add: readTTLV_def readFull_def Let_def)
qed

lemma readTTLV_Inr:
  assumes "readTTLV r = (Inr m, r')"
  shows "rd_bytes r = m @ rd_bytes r'" "rd_end r' = rd_end r" "exact m" "hdr_len m \<le> max_message"
proof -
  from assms have l: "8 \<le> length (rd_bytes r)"
    and n: "u32_of (drop 4 (take 8 (rd_bytes r))) \<le> max_message"
      "u32_of (drop 4 (take 8 (rd_bytes r))) \<le> length (rd_bytes r) - 8"
    and m: "m = take 8 (rd_bytes r) @ take (u32_of (drop 4 (take 8 (rd_bytes r)))) (drop 8 (rd_bytes r))"
    and r': "r' = r\<lparr>rd_bytes := drop (u32_of (drop 4 (take 8 (rd_bytes r)))) (drop 8 (rd_bytes r))\<rparr>"
    by (auto simp: readTTLV_def readFull_def Let_def split: if_splits)
  show "rd_bytes r = m @ rd_bytes r'" "rd_end r' = rd_end r"
    unfolding m r' by (simp_all del: drop_drop)
  have "hdr_len m = u32_of (drop 4 (take 8 (rd_bytes r)))"
    unfolding m using l by (subst hdr_len_append) (simp_all add: hdr_len_def)
  with l n m show "exact m" "hdr_len m \<le> max_message" by (simp_all add: exact_def)
qed

section \<open>The trace of a connection\<close>

text \<open>
  After verification: relays on that connection, each followed by the write of its body, which a
  success status allows; the last turn may stop anywhere.
\<close>

fun relay_trace :: "verifier \<Rightarrow> pconn \<Rightarrow> p_event list \<Rightarrow> bool" where
  "relay_trace v c [] = True"
| "relay_trace v c [PRelay d meth path host msg a] =
     (d = c \<and> meth = ''POST'' \<and> path = ''/kmip'' \<and> host = vf_host v)"
| "relay_trace v c (PRelay d meth path host msg a # PWrite b ok # es) =
     (d = c \<and> meth = ''POST'' \<and> path = ''/kmip'' \<and> host = vf_host v
       \<and> (\<exists>code. a = Some (code, Inr b) \<and> code div 100 = 2) \<and> (ok \<or> es = []) \<and> relay_trace v c es)"
| "relay_trace v c es = False"

fun relayed :: "p_event list \<Rightarrow> byte list list" where
  "relayed [] = []"
| "relayed (PRelay d meth path host msg a # es) = msg # relayed es"
| "relayed (e # es) = relayed es"

definition well_framed :: "byte list list \<Rightarrow> reader \<Rightarrow> bool" where
  "well_framed ms r \<longleftrightarrow>
     (\<exists>rest. rd_bytes r = concat ms @ rest) \<and> list_all (\<lambda>m. exact m \<and> hdr_len m \<le> max_message) ms"

lemma well_framed_Nil [simp]: "well_framed [] r"
  by (simp add: well_framed_def)

lemma well_framed_Cons:
  "readTTLV r = (Inr m, r') \<Longrightarrow> well_framed ms r' \<Longrightarrow> well_framed (m # ms) r"
  using readTTLV_Inr [of r m r'] by (auto simp: well_framed_def)

definition loop_ok :: "verifier \<Rightarrow> pconn \<Rightarrow> reader \<Rightarrow> p_event list \<Rightarrow> bool" where
  "loop_ok v c r es \<longleftrightarrow> relay_trace v c es \<and> well_framed (relayed es) r"

lemma loop_ok_last:
  "readTTLV r = (Inr m, r') \<Longrightarrow> loop_ok v c r [PRelay c ''POST'' kmipPath (vf_host v) m a]"
  by (auto simp: loop_ok_def kmipPath_def intro: well_framed_Cons)

lemma loop_ok_stop:
  "readTTLV r = (Inr m, r') \<Longrightarrow> code div 100 = 2 \<Longrightarrow>
   loop_ok v c r [PRelay c ''POST'' kmipPath (vf_host v) m (Some (code, Inr b)), PWrite b ok]"
  by (auto simp: loop_ok_def kmipPath_def intro: well_framed_Cons)

lemma loop_ok_turn:
  "readTTLV r = (Inr m, r') \<Longrightarrow> code div 100 = 2 \<Longrightarrow> loop_ok v c r' es \<Longrightarrow>
   loop_ok v c r (PRelay c ''POST'' kmipPath (vf_host v) m (Some (code, Inr b)) # PWrite b True # es)"
  by (auto simp: loop_ok_def kmipPath_def intro: well_framed_Cons)

lemma serve_loop_emits: "emits (serve_loop P v c r) (\<lambda>s. loop_ok v c r)"
proof (induction "length (rd_bytes r)" arbitrary: r rule: less_induct)
  case less
  obtain x r' where x: "readTTLV r = (x, r')" by force
  show ?case
  proof (cases x)
    case (Inl e)
    with x show ?thesis
      by (subst serve_loop.simps) (auto simp: loop_ok_def intro!: emits_return)
  next
    case (Inr m)
    with x have turn: "readTTLV r = (Inr m, r')" by simp
    have next_turn: "emits (serve_loop P v c r') (\<lambda>s. loop_ok v c r')"
      by (rule less) (rule readTTLV_consumes [OF turn])
    have after_write: "emits (case w of Some e \<Rightarrow> State_Monad.return (WriteStop e) | None \<Rightarrow> serve_loop P v c r')
        (\<lambda>s fs. loop_ok v c r (PRelay c ''POST'' kmipPath (vf_host v) m (Some (code, Inr b))
          # PWrite b (w = None) # fs))"
      if "code div 100 = 2" for code b w
      using loop_ok_stop [OF turn that] loop_ok_turn [OF turn that]
      by (cases w) (auto intro!: emits_return emits_mono [OF next_turn])
    show ?thesis
      by (subst serve_loop.simps)
        (auto simp: turn rc_http_do_def local_write_def intro!: emits_call_bind emits_return after_write
          loop_ok_last [OF turn] split: sum.split prod.split)
  qed
qed

text \<open>The whole life of one local connection.\<close>

definition served_trace :: "verifier \<Rightarrow> reader \<Rightarrow> stop result \<Rightarrow> p_event list \<Rightarrow> bool" where
  "served_trace v r out es \<longleftrightarrow>
     (let dial = (\<lambda>c. PConnect (vf_host v) 443 \<lparr>co_server_name = vf_host v, co_timeout = 60\<rparr> c) in
      (\<exists>e. out = Inl e) \<and> (es = [dial None, PLocalClose]
          \<or> (\<exists>c. es = [dial (Some c), PVerify c (connect_policy v) False, PClose c, PLocalClose]))
      \<or> (\<exists>s c mid. out = Inr s \<and> es = [dial (Some c), PVerify c (connect_policy v) True] @ mid @ [PClose c, PLocalClose]
          \<and> loop_ok v c r mid))"

lemma connect_emits:
  "emits (connect P v) (\<lambda>r es.
     let dial = (\<lambda>c. PConnect (vf_host v) 443 \<lparr>co_server_name = vf_host v, co_timeout = 60\<rparr> c) in
     case r of
       Inl e \<Rightarrow> es = [dial None] \<or> (\<exists>c. es = [dial (Some c), PVerify c (connect_policy v) False, PClose c])
     | Inr c \<Rightarrow> es = [dial (Some c), PVerify c (connect_policy v) True])"
  unfolding connect_def rc_connect_def rc_verify_def rc_close_def
  by (auto simp: Let_def intro!: emits_call_bind emits_return split: sum.split option.split)

lemma serve_emits: "emits (serve P v r) (served_trace v r)"
  unfolding serve_def
proof (rule emits_bind [OF connect_emits], goal_cases)
  case (1 x es)
  show ?case
  proof (cases x)
    case (Inl e)
    with 1 show ?thesis
      by (auto simp: served_trace_def Let_def local_close_def intro!: emits_call_bind emits_return)
  next
    case (Inr c)
    with 1 show ?thesis
      by (auto simp: served_trace_def Let_def local_close_def rc_close_def
        intro!: emits_bind [OF serve_loop_emits] emits_call_bind emits_return)
  qed
qed

end
