(* ===== verification/Go_Time.thy ===== *)
theory Go_Time
  imports Main
begin

text \<open>
  The calendar of Go's package \<^verbatim>\<open>time\<close>, as far as the proxy's certificate needs it: the proleptic
  Gregorian date of a day, \<^verbatim>\<open>time.Date\<close> with its normalisation of days, and \<^verbatim>\<open>Time.AddDate(1, 0, 0)\<close> in a
  local time zone. Days are counted from 1 January of year 1, times are nanoseconds since the Unix epoch.
\<close>

section \<open>Years\<close>

definition leap :: "int \<Rightarrow> bool" where
  "leap y \<longleftrightarrow> y mod 4 = 0 \<and> (y mod 100 \<noteq> 0 \<or> y mod 400 = 0)"

definition year_start :: "int \<Rightarrow> int" where
  "year_start y = 365 * (y - 1) + (y - 1) div 4 - (y - 1) div 100 + (y - 1) div 400"

definition year_of :: "int \<Rightarrow> int" where
  "year_of d =
     (let n400 = d div 146097; d1 = d mod 146097;
          n100 = min 3 (d1 div 36524); d2 = d1 - 36524 * n100;
          n4 = d2 div 1461; d3 = d2 mod 1461;
          n = min 3 (d3 div 365)
      in 400 * n400 + 100 * n100 + 4 * n4 + n + 1)"

definition leap_day :: "int \<Rightarrow> int" where
  "leap_day y = (if leap y then 1 else 0)"

lemma leap_day_bounds [simp]: "0 \<le> leap_day y" "leap_day y \<le> 1"
  by (simp_all add: leap_day_def)

lemma div_step:
  fixes y k :: int
  assumes "0 < k"
  shows "y div k = (y - 1) div k + (if y mod k = 0 then 1 else 0)"
proof -
  define q r where "q = (y - 1) div k" and "r = (y - 1) mod k"
  have y: "y = k * q + (r + 1)" unfolding q_def r_def by (metis add.assoc add.commute diff_add_cancel mult_div_mod_eq)
  have r: "0 \<le> r" "r < k" using assms by (simp_all add: r_def)
  show ?thesis
  proof (cases "r + 1 = k")
    case True
    then have "y = k * (q + 1)" using y by (simp add: distrib_left)
    then have "y div k = q + 1" "y mod k = 0" using assms by simp_all
    then show ?thesis by (simp add: q_def)
  next
    case False
    then have "y div k = q" "y mod k = r + 1"
      using r y by (auto intro: int_div_pos_eq int_mod_pos_eq)
    then show ?thesis using r by (simp add: q_def)
  qed
qed

lemma year_arith:
  fixes a b c y :: int
  shows "a' = a + i \<Longrightarrow> b' = b + j \<Longrightarrow> c' = c + k \<Longrightarrow> l = i - j + k \<Longrightarrow>
    365 * y + a' - b' + c' = 365 * (y - 1) + a - b + c + 365 + l"
  by simp

lemma year_start_Suc: "year_start (y + 1) = year_start y + 365 + leap_day y"
proof -
  have "leap_day y = (if y mod 4 = 0 then 1 else 0) - (if y mod 100 = 0 then 1 else 0)
      + (if y mod 400 = 0 then 1 else 0)"
  proof -
    have "y mod 400 = 0 \<Longrightarrow> y mod 100 = 0" "y mod 100 = 0 \<Longrightarrow> y mod 4 = 0"
      using mod_mod_cancel [of 100 400 y] mod_mod_cancel [of 4 100 y] by simp_all
    then show ?thesis unfolding leap_day_def leap_def
      by (cases "y mod 4 = 0"; cases "y mod 100 = 0"; cases "y mod 400 = 0") simp_all
  qed
  moreover have "y div 4 = (y - 1) div 4 + (if y mod 4 = 0 then 1 else 0)"
    "y div 100 = (y - 1) div 100 + (if y mod 100 = 0 then 1 else 0)"
    "y div 400 = (y - 1) div 400 + (if y mod 400 = 0 then 1 else 0)"
    by (rule div_step, simp)+
  ultimately show ?thesis
    unfolding year_start_def add_diff_cancel_right' by (intro year_arith)
qed

lemma year_start_parts:
  fixes a b c n :: int
  assumes "0 \<le> b" "b \<le> 3" "0 \<le> c" "c \<le> 24" "0 \<le> n" "n \<le> 3"
  shows "year_start (400 * a + 100 * b + 4 * c + n + 1) = 146097 * a + 36524 * b + 1461 * c + 365 * n"
proof -
  have "(400 * a + 100 * b + 4 * c + n) div 4 = 100 * a + 25 * b + c" using assms by linarith
  moreover have "(400 * a + 100 * b + 4 * c + n) div 100 = 4 * a + b" using assms by linarith
  moreover have "(400 * a + 100 * b + 4 * c + n) div 400 = a" using assms by linarith
  ultimately show ?thesis by (simp add: year_start_def)
qed

text \<open>The year of a day is the year in which the day lies.\<close>

lemma year_of_bounds: "year_start (year_of d) \<le> d \<and> d < year_start (year_of d + 1)"
proof -
  define a d1 where ad: "a = d div 146097" "d1 = d mod 146097"
  define b where "b = min 3 (d1 div 36524)"
  define d2 where "d2 = d1 - 36524 * b"
  define c d3 where cd: "c = d2 div 1461" "d3 = d2 mod 1461"
  define n where "n = min 3 (d3 div 365)"
  have y: "year_of d = 400 * a + 100 * b + 4 * c + n + 1"
    by (simp add: year_of_def Let_def ad b_def d2_def cd n_def)
  have d: "d = 146097 * a + d1" and d1: "0 \<le> d1" "d1 < 146097" by (simp_all add: ad)
  have b: "0 \<le> b" "b \<le> 3" using d1 by (simp_all add: b_def)
  have d2: "0 \<le> d2" "d2 \<le> 36524" "d2 = 36524 \<Longrightarrow> b = 3"
    using d1 by (auto simp: d2_def b_def min_def split: if_splits)
  have d2': "d2 = 1461 * c + d3" and d3: "0 \<le> d3" "d3 < 1461" by (simp_all add: cd)
  have c: "0 \<le> c" "c \<le> 24" using d2 by (simp_all add: cd)
  have n: "0 \<le> n" "n \<le> 3" "365 * n \<le> d3" "n < 3 \<Longrightarrow> d3 < 365 * (n + 1)"
    using d3 by (auto simp: n_def min_def split: if_splits)
  have start: "year_start (year_of d) = 146097 * a + 36524 * b + 1461 * c + 365 * n"
    unfolding y by (rule year_start_parts) (use b c n in simp_all)
  have dd: "d = 146097 * a + 36524 * b + 1461 * c + d3" using d d2' by (simp add: d2_def)
  have "leap (year_of d)" if "n = 3" "d3 = 1460"
  proof -
    have c24: "c \<noteq> 24 \<or> b = 3" using that d2 d2' by auto
    have f: "year_of d = 4 * (100 * a + 25 * b + c + 1)" unfolding y using that by simp
    show ?thesis
    proof (cases "c = 24")
      case True
      then have "year_of d = 400 * (a + 1)" using f c24 by simp
      then show ?thesis unfolding leap_def by simp
    next
      case False
      then have "year_of d = 100 * (4 * a + b) + 4 * (c + 1)" "0 \<le> 4 * (c + 1)" "4 * (c + 1) < 100" using f c by simp_all
      then have "year_of d mod 100 = 4 * (c + 1)" by (rule int_mod_pos_eq)
      with f c show ?thesis by (simp add: leap_def)
    qed
  qed
  then have "d3 < 365 * n + 365 + leap_day (year_of d)"
  proof (cases "n = 3 \<and> d3 = 1460")
    case True
    then show ?thesis using \<open>n = 3 \<Longrightarrow> d3 = 1460 \<Longrightarrow> leap (year_of d)\<close> by (simp add: leap_day_def)
  next
    case False
    then have "d3 < 365 * n + 365" using n d3 by (cases "n < 3") auto
    then show ?thesis using leap_day_bounds(1) [of "year_of d"] by linarith
  qed
  then show ?thesis
    using n dd start year_start_Suc [of "year_of d"] by simp
qed


section \<open>Months and days\<close>

definition month_lengths :: "int \<Rightarrow> int list" where
  "month_lengths y = [31, 28 + leap_day y, 31, 30, 31, 30, 31, 31, 30, 31, 30, 31]"

text \<open>The month and the day of the month of the day \<open>k\<close> (from 0) of a year.\<close>

fun month_day :: "int list \<Rightarrow> int \<Rightarrow> nat \<times> int" where
  "month_day [] k = (1, k + 1)"
| "month_day [l] k = (1, k + 1)"
| "month_day (l # l' # ls) k =
     (if k < l then (1, k + 1) else case month_day (l' # ls) (k - l) of (m, d) \<Rightarrow> (m + 1, d))"

definition date_of :: "int \<Rightarrow> int \<times> nat \<times> int" where
  "date_of d = (let y = year_of d in (y, month_day (month_lengths y) (d - year_start y)))"

text \<open>The day of \<^verbatim>\<open>time.Date\<close>; a day beyond the month counts into the next one.\<close>

definition day_of_date :: "int \<times> nat \<times> int \<Rightarrow> int" where
  "day_of_date = (\<lambda>(y, m, d). year_start y + sum_list (take (m - 1) (month_lengths y)) + (d - 1))"

lemma month_day_sum:
  "month_day ls k = (m, d) \<Longrightarrow> 1 \<le> m \<and> sum_list (take (m - 1) ls) + d - 1 = k"
  by (induction ls k arbitrary: m d rule: month_day.induct)
    (fastforce simp: take_Cons' split: if_splits prod.splits)+

lemma day_of_date_of: "day_of_date (date_of d) = d"
  using month_day_sum [of "month_lengths (year_of d)" "d - year_start (year_of d)"]
  by (auto simp: day_of_date_def date_of_def Let_def split: prod.split)

text \<open>The day that \<^verbatim>\<open>AddDate(1, 0, 0)\<close> reaches: the same date a year later.\<close>

definition next_year :: "int \<Rightarrow> int" where
  "next_year d = (case date_of d of (y, m, k) \<Rightarrow> day_of_date (y + 1, m, k))"

lemma take_month_lengths:
  "sum_list (take m (month_lengths (y + 1))) - sum_list (take m (month_lengths y)) \<in> {0, leap_day (y + 1) - leap_day y}"
  by (cases m; cases "m - 1") (auto simp: month_lengths_def)

lemma not_two_leap_years: "leap y \<Longrightarrow> \<not> leap (y + 1)"
proof -
  have "y mod 4 = 0 \<Longrightarrow> (y + 1) mod 4 \<noteq> 0" by presburger
  then show "leap y \<Longrightarrow> \<not> leap (y + 1)" by (auto simp: leap_def)
qed

lemma next_year_bounds: "d + 365 \<le> next_year d \<and> next_year d \<le> d + 366"
proof -
  obtain y m k where dt: "date_of d = (y, m, k)" by (cases "date_of d") auto
  have d: "d = year_start y + sum_list (take (m - 1) (month_lengths y)) + (k - 1)"
    using day_of_date_of [of d] by (simp add: dt day_of_date_def)
  have "next_year d = year_start (y + 1) + sum_list (take (m - 1) (month_lengths (y + 1))) + (k - 1)"
    by (simp add: next_year_def dt day_of_date_def)
  then have "next_year d - d = 365 + leap_day y
      + (sum_list (take (m - 1) (month_lengths (y + 1))) - sum_list (take (m - 1) (month_lengths y)))"
    using d by (simp add: year_start_Suc)
  then show ?thesis
    using take_month_lengths [of "m - 1" y] not_two_leap_years [of y]
    by (auto simp: leap_day_def split: if_splits)
qed

section \<open>Local times\<close>

definition unix_day :: int where
  "unix_day = 719162"

definition nanos :: int where
  "nanos = 1000000000"

text \<open>
  \<^verbatim>\<open>time.Date\<close> in a zone: \<open>zone u\<close> is the offset in seconds at the Unix second \<open>u\<close>. The offset is looked up
  at the local reading first, and corrected once.
\<close>

definition local_to_unix :: "(int \<Rightarrow> int) \<Rightarrow> int \<Rightarrow> int" where
  "local_to_unix zone u = (if zone u = 0 then u else u - zone (u - zone u))"

definition add_year :: "(int \<Rightarrow> int) \<Rightarrow> int \<Rightarrow> int" where
  "add_year zone t =
     (let here = t div nanos + zone (t div nanos);
          d = next_year (here div 86400 + unix_day) - unix_day
      in local_to_unix zone (d * 86400 + here mod 86400) * nanos + t mod nanos)"

text \<open>In a zone whose offsets differ by at most \<open>s\<close> seconds, the year is 365 or 366 days up to \<open>s\<close> seconds.\<close>

lemma day_arith:
  fixes q n u r h D :: int
  assumes "q + u + 365 \<le> D \<and> D \<le> q + u + 366" "q * 86400 + r = h"
  shows "h + 365 * 86400 \<le> (D - u) * 86400 + r \<and> (D - u) * 86400 + r \<le> h + 366 * 86400"
  using assms by (auto simp: left_diff_distrib)

lemma nanos_arith:
  fixes q r t a b x :: int
  assumes "q * nanos + r = t" "q + a \<le> x \<and> x \<le> q + b"
  shows "t + a * nanos \<le> x * nanos + r \<and> x * nanos + r \<le> t + b * nanos"
proof -
  have "(q + a) * nanos \<le> x * nanos \<and> x * nanos \<le> (q + b) * nanos"
    using assms(2) by (simp add: nanos_def)
  with assms(1) show ?thesis by (auto simp: distrib_right)
qed

lemma add_year_bounds:
  assumes "\<And>u v. zone u - zone v \<le> s"
  shows "t + (365 * 86400 - s) * nanos \<le> add_year zone t" "add_year zone t \<le> t + (366 * 86400 + s) * nanos"
proof -
  define here where "here = t div nanos + zone (t div nanos)"
  define u where "u = (next_year (here div 86400 + unix_day) - unix_day) * 86400 + here mod 86400"
  have u: "here + 365 * 86400 \<le> u \<and> u \<le> here + 366 * 86400"
    unfolding u_def by (rule day_arith [OF next_year_bounds div_mult_mod_eq])
  have "t div nanos + (365 * 86400 - s) \<le> local_to_unix zone u
      \<and> local_to_unix zone u \<le> t div nanos + (366 * 86400 + s)"
    using u assms [of "t div nanos" u] assms [of u "t div nanos"]
      assms [of "t div nanos" "u - zone u"] assms [of "u - zone u" "t div nanos"]
    by (auto simp: local_to_unix_def here_def)
  from nanos_arith [OF div_mult_mod_eq this]
  show "t + (365 * 86400 - s) * nanos \<le> add_year zone t" "add_year zone t \<le> t + (366 * 86400 + s) * nanos"
    by (simp_all only: add_year_def Let_def u_def here_def)
qed

end
