(* ===== verification/Proxy_Start.thy ===== *)
theory Proxy_Start
  imports Proxy Go_Time
begin

text \<open>
  The start of the proxy, \<^verbatim>\<open>main\<close> and \<^verbatim>\<open>selfSigned\<close> of \<^verbatim>\<open>cmd/kmip-proxy/main.go\<close>: the flags are checked,
  the certificate of the local listener is minted, and the listener is opened. The cryptographic
  library, the clock, the local time zone and the network are the record \<open>start_lib\<close>.
\<close>

section \<open>The outside of the start\<close>

datatype key_usage = DigitalSignature | KeyEncipherment

datatype ext_key_usage = ServerAuth

record server_template =
  st_serial :: int
  st_common_name :: string
  st_not_before :: int
  st_not_after :: int
  st_key_usage :: "key_usage list"
  st_ext_key_usage :: "ext_key_usage list"
  st_dns_names :: "string list"
  st_ip_addresses :: "byte list list"

text \<open>A \<^verbatim>\<open>tls.Certificate\<close> is the DER bytes and the private key; \<^verbatim>\<open>tls.VersionTLS12\<close> is \<open>0x303\<close>.\<close>

datatype start_event =
    StGenKey
  | StClock
  | StCert server_template "byte list"
  | StListen string string "byte list \<times> byte list" nat

type_synonym start_hist = "start_event list"

type_synonym 'a start_io = "(start_hist, 'a) state"

record start_lib =
  sl_gen_key :: "start_hist \<Rightarrow> string + byte list"
  sl_now :: "start_hist \<Rightarrow> int"
  sl_zone :: "int \<Rightarrow> int"
  sl_cert :: "start_hist \<Rightarrow> server_template \<Rightarrow> byte list \<Rightarrow> string + byte list"
  sl_listen :: "start_hist \<Rightarrow> string \<Rightarrow> string \<Rightarrow> byte list \<times> byte list \<Rightarrow> nat \<Rightarrow> string option"

definition start_now :: "start_lib \<Rightarrow> int start_io" where
  "start_now S = call (sl_now S) (\<lambda>h. StClock)"

section \<open>The certificate of the listener\<close>

definition selfSigned :: "start_lib \<Rightarrow> (string + byte list \<times> byte list) start_io" where
  "selfSigned S = do {
     k \<leftarrow> call (sl_gen_key S) (\<lambda>h. StGenKey);
     (case k of
        Inl e \<Rightarrow> State_Monad.return (Inl e)
      | Inr key \<Rightarrow> do {
          t1 \<leftarrow> start_now S;
          t2 \<leftarrow> start_now S;
          t3 \<leftarrow> start_now S;
          let tmpl = \<lparr>st_serial = t1, st_common_name = ''kmip-proxy'',
            st_not_before = t2 - 60 * nanos, st_not_after = add_year (sl_zone S) t3,
            st_key_usage = [DigitalSignature, KeyEncipherment], st_ext_key_usage = [ServerAuth],
            st_dns_names = [''localhost'', ''kmip-proxy''], st_ip_addresses = [[127, 0, 0, 1]]\<rparr>;
          d \<leftarrow> call (\<lambda>h. sl_cert S h tmpl key) (\<lambda>h. StCert tmpl key);
          State_Monad.return (case d of Inl e \<Rightarrow> Inl e | Inr der \<Rightarrow> Inr (der, key))
        })
   }"

section \<open>Up to the accept loop\<close>

text \<open>\<^verbatim>\<open>log.Fatalf\<close> ends the process with its message.\<close>

definition proxy_main :: "start_lib \<Rightarrow> flags \<Rightarrow> (gerr + verifier) start_io" where
  "proxy_main S f =
     (case main_verifier f of
        Inl e \<Rightarrow> State_Monad.return (Inl (Errorf e []))
      | Inr v \<Rightarrow> do {
          c \<leftarrow> selfSigned S;
          (case c of
             Inl e \<Rightarrow> State_Monad.return (Inl (Errorf ''kmip-proxy: local cert: %v'' [AErr (Ext e)]))
           | Inr cert \<Rightarrow> do {
               l \<leftarrow> call (\<lambda>h. sl_listen S h ''tcp'' (fl_listen f) cert 0x303)
                 (\<lambda>h. StListen ''tcp'' (fl_listen f) cert 0x303);
               State_Monad.return (case l of
                 Some e \<Rightarrow> Inl (Errorf ''kmip-proxy: listen %s: %v'' [AStr (fl_listen f), AErr (Ext e)])
               | None \<Rightarrow> Inr v)
             })
        })"

section \<open>What a start does\<close>

lemma selfSigned_Inr:
  assumes "run_state (selfSigned S) h = (Inr (der, key), h')"
  shows "\<exists>t. h' = h @ [StGenKey, StClock, StClock, StClock, StCert t key]
    \<and> st_not_before t = sl_now S (h @ [StGenKey, StClock]) - 60 * nanos
    \<and> st_not_after t = add_year (sl_zone S) (sl_now S (h @ [StGenKey, StClock, StClock]))
    \<and> st_dns_names t = [''localhost'', ''kmip-proxy''] \<and> st_ip_addresses t = [[127, 0, 0, 1]]"
  using assms
  by (fastforce simp: selfSigned_def start_now_def Let_def split: sum.splits)

lemma proxy_main_Inr:
  assumes "run_state (proxy_main S f) h = (Inr v, h')"
  obtains der key h1 where "main_verifier f = Inr v" "run_state (selfSigned S) h = (Inr (der, key), h1)"
    "h' = h1 @ [StListen ''tcp'' (fl_listen f) (der, key) 0x303]"
    "sl_listen S h1 ''tcp'' (fl_listen f) (der, key) 0x303 = None"
proof (cases "main_verifier f")
  case (Inl e)
  with assms show ?thesis by (simp add: proxy_main_def)
next
  case (Inr v')
  obtain c h1 where c: "run_state (selfSigned S) h = (c, h1)" by force
  from assms Inr c obtain der key where "c = Inr (der, key)"
    by (cases c) (auto simp: proxy_main_def)
  with assms Inr c that show ?thesis by (auto simp: proxy_main_def split: option.splits)
qed

end
