(* ===== verification/Gateway_Host.thy ===== *)
theory Gateway_Host
  imports Proxy
begin

text \<open>
  The host the proxy connects to: a bare host, a host with a port, and a URL with or without port and
  path all name the same host.
\<close>

section \<open>Plain text\<close>

definition graphic :: "char \<Rightarrow> bool" where
  "graphic c \<longleftrightarrow> 33 \<le> (of_char c :: nat) \<and> (of_char c :: nat) \<le> 126"

definition host_char :: "char \<Rightarrow> bool" where
  "host_char c \<longleftrightarrow> is_alpha c \<or> is_digit c \<or> c = CHR ''-'' \<or> c = CHR ''.''"

definition path_char :: "char \<Rightarrow> bool" where
  "path_char c \<longleftrightarrow> graphic c \<and> c \<notin> set ''#?%''"

definition plain_host :: "string \<Rightarrow> bool" where
  "plain_host h \<longleftrightarrow> h \<noteq> '''' \<and> list_all host_char h"

definition plain_path :: "string \<Rightarrow> bool" where
  "plain_path t \<longleftrightarrow> list_all path_char t \<and> (t = '''' \<or> hd t = CHR ''/'')"

lemma host_char_set: "host_char c \<longleftrightarrow>
    c \<in> set ''ABCDEFGHIJKLMNOPQRSTUVWXYZabcdefghijklmnopqrstuvwxyz0123456789-.''"
  unfolding host_char_def is_alpha_def is_digit_def by auto

lemma host_chars: "list_all (\<lambda>c. graphic c \<and> c \<notin> set ''#?%/:@[]*'' \<and> \<not> host_escape c)
    ''ABCDEFGHIJKLMNOPQRSTUVWXYZabcdefghijklmnopqrstuvwxyz0123456789-.''"
  by code_simp

lemma host_char_facts: "host_char c \<Longrightarrow> graphic c \<and> c \<notin> set ''#?%/:@[]*'' \<and> \<not> host_escape c"
  using host_chars unfolding host_char_set list_all_iff by blast

lemma colon_facts: "graphic CHR '':'' \<and> CHR '':'' \<notin> set ''#?%/@[]*'' \<and> \<not> host_escape CHR '':''"
  by code_simp

lemma plain_host_notin: "plain_host h \<Longrightarrow> c \<in> set ''#?%/:@[]*'' \<Longrightarrow> c \<notin> set h"
  using host_char_facts unfolding plain_host_def list_all_iff by blast

lemma digit_host_char: "is_digit c \<Longrightarrow> host_char c"
  by (simp add: host_char_def)

lemma digits_notin: "list_all is_digit p \<Longrightarrow> c \<in> set ''#?%/:@[]*'' \<Longrightarrow> c \<notin> set p"
  using host_char_facts digit_host_char unfolding list_all_iff by blast

section \<open>White space\<close>

lemma white_space_ends:
  "list_all (\<lambda>w. w \<noteq> [] \<and> \<not> graphic (hd w) \<and> \<not> graphic (last w)) white_space"
  by code_simp

lemma trim_left_any_id:
  assumes "list_all (\<lambda>w. w \<noteq> [] \<and> \<not> graphic (hd w)) ws" "s = [] \<or> graphic (hd s)"
  shows "trim_left_any ws n s = s"
proof (cases n)
  case (Suc k)
  have "find (has_prefix s) ws = None"
    using assms by (fastforce simp: find_None_iff list_all_iff has_prefix_append)
  with Suc show ?thesis by simp
qed simp

lemma trim_space_id:
  assumes "list_all graphic s"
  shows "trim_space s = s"
proof -
  have ws: "list_all (\<lambda>w. w \<noteq> [] \<and> \<not> graphic (hd w)) white_space"
    "list_all (\<lambda>w. w \<noteq> [] \<and> \<not> graphic (hd w)) (map rev white_space)"
    using white_space_ends by (simp_all add: list_all_iff hd_rev)
  have "s = [] \<or> graphic (hd s)" "rev s = [] \<or> graphic (hd (rev s))"
    using assms by (cases s, simp_all) (cases s rule: rev_cases, simp_all)
  then show ?thesis
    by (simp add: trim_space_def trim_left_any_id [OF ws(1)] trim_left_any_id [OF ws(2)])
qed

section \<open>Parsing\<close>

lemma unescape_id:
  "list_all (\<lambda>c. c \<noteq> CHR ''%'' \<and> (mode = EncodeOther \<or> \<not> host_escape c)) s \<Longrightarrow> unescape mode s = Some s"
  by (induction s) auto

lemma before_absent: "c \<notin> set s \<Longrightarrow> before c s = s"
  by (auto simp: before_def takeWhile_eq_all_conv)

lemma after_absent:
  assumes "c \<notin> set s"
  shows "after c s = ''''"
proof -
  have "dropWhile (\<lambda>d. d \<noteq> c) s = []" using assms by (auto simp: dropWhile_eq_Nil_conv)
  then show ?thesis unfolding after_def by (simp only: drop_Nil)
qed

lemma before_append: "c \<notin> set s \<Longrightarrow> t = '''' \<or> hd t = c \<Longrightarrow> before c (s @ t) = s"
  unfolding before_def by (cases t) (auto simp: takeWhile_append)

definition authority :: "string \<Rightarrow> string option \<Rightarrow> string" where
  "authority h port = (case port of None \<Rightarrow> h | Some p \<Rightarrow> h @ '':'' @ p)"

lemma authority_chars:
  assumes "plain_host h" "\<And>p. port = Some p \<Longrightarrow> list_all is_digit p"
  shows "list_all (\<lambda>c. graphic c \<and> c \<notin> set ''#?%/@[]*'' \<and> \<not> host_escape c) (authority h port)"
  using assms host_char_facts digit_host_char colon_facts
  by (auto simp: authority_def plain_host_def list_all_iff split: option.splits)

lemma parse_authority_plain:
  assumes "plain_host h" "\<And>p. port = Some p \<Longrightarrow> list_all is_digit p"
  shows "parse_authority (authority h port) = Some (authority h port)"
proof -
  note chars = authority_chars [of h port, OF assms]
  have at: "last_index_byte (authority h port) CHR ''@'' = None"
    using chars by (auto simp: last_index_byte_None list_all_iff)
  have u: "unescape EncodeHost (authority h port) = Some (authority h port)"
    using chars by (intro unescape_id) (auto simp: list_all_iff)
  have b: "\<not> has_prefix (authority h port) ''[''"
  proof
    assume "has_prefix (authority h port) ''[''"
    then obtain u where "authority h port = CHR ''['' # u" unfolding has_prefix_append by (elim exE) simp
    with chars show False by simp
  qed
  have h: "CHR '':'' \<notin> set h" by (rule plain_host_notin [OF assms(1)]) simp
  have "parse_host (authority h port) = Some (authority h port)"
  proof (cases port)
    case None
    with u b h show ?thesis by (simp add: parse_host_def authority_def last_index_byte_None [THEN iffD2])
  next
    case (Some p)
    then have p: "list_all is_digit p" using assms(2) by simp
    then have "CHR '':'' \<notin> set p" by (rule digits_notin) simp
    then have "last_index_byte (authority h port) CHR '':'' = Some (length h)"
      using Some last_index_byte_append_notin by (simp add: authority_def)
    with u b p Some show ?thesis by (simp add: parse_host_def valid_optional_port_def authority_def)
  qed
  with at show ?thesis by (simp add: parse_authority_def)
qed

lemma path_char_facts: "path_char c \<Longrightarrow> graphic c \<and> c \<notin> set ''#?%'' \<and> \<not> is_ctl c"
  by (auto simp: path_char_def graphic_def is_ctl_def)

lemma url_parse_plain:
  assumes h: "plain_host h" "\<And>p. port = Some p \<Longrightarrow> list_all is_digit p" and t: "plain_path t"
  shows "url_parse (''https://'' @ authority h port @ t) = Some (authority h port)"
proof -
  let ?a = "authority h port"
  note chars = authority_chars [of h port, OF h]
  have a: "list_all (\<lambda>c. graphic c \<and> c \<notin> set ''#?%/@[]*'') ?a"
    using chars by (auto simp: list_all_iff)
  have tc: "list_all (\<lambda>c. graphic c \<and> c \<notin> set ''#?%'') t"
    using t path_char_facts by (auto simp: plain_path_def list_all_iff)
  let ?u = "''https://'' @ ?a @ t"
  have hash: "CHR ''#'' \<notin> set ?u" and query: "CHR ''?'' \<notin> set (''//'' @ ?a @ t)"
    using a tc by (auto simp: list_all_iff)
  have ctl: "\<not> list_ex is_ctl ?u"
  proof -
    have "\<not> is_ctl c" if "graphic c" for c using that by (simp add: graphic_def is_ctl_def)
    moreover have "list_all graphic ''https://''" by code_simp
    ultimately show ?thesis using a tc by (fastforce simp: list_all_iff list_ex_iff)
  qed
  have scheme: "get_scheme ?u '''' ?u = Some (''https'', ''//'' @ ?a @ t)"
    by (simp add: is_alpha_def is_digit_def)
  have auth: "before CHR ''/'' (?a @ t) = ?a"
    using a t by (intro before_append) (auto simp: plain_path_def list_all_iff)
  have un: "unescape EncodeOther t = Some t"
    using tc by (intro unescape_id) (auto simp: list_all_iff)
  show ?thesis
    unfolding url_parse_def Let_def before_absent [OF hash] after_absent [OF hash]
    using ctl scheme by (simp add: before_absent [OF query, simplified] has_prefix_def auth un parse_authority_plain [of h port, OF h])
qed

section \<open>The host\<close>

lemma split_authority:
  assumes "plain_host h" "\<And>p. port = Some p \<Longrightarrow> list_all is_digit p"
  shows "(case split_host_port (authority h port) of Inr (x, _) \<Rightarrow> x | Inl _ \<Rightarrow> trim_right (authority h port) ''/'') = h"
proof -
  have h: "CHR '':'' \<notin> set h" "CHR ''['' \<notin> set h" "CHR '']'' \<notin> set h" "CHR ''/'' \<notin> set h"
    by (rule plain_host_notin [OF assms(1)], simp)+
  show ?thesis
  proof (cases port)
    case None
    have "trim_right h ''/'' = h"
      using h(4) last_in_set by (intro trim_right_id) fastforce
    with None h show ?thesis by (simp add: authority_def split_host_port_no_colon)
  next
    case (Some p)
    then have "list_all is_digit p" using assms(2) by simp
    then have "CHR '':'' \<notin> set p" "CHR ''['' \<notin> set p" "CHR '']'' \<notin> set p"
      by (rule digits_notin, simp)+
    with Some h split_host_port_plain show ?thesis by (simp add: authority_def)
  qed
qed

lemma hostFromGateway_authority:
  assumes "plain_host h" "\<And>p. port = Some p \<Longrightarrow> list_all is_digit p"
  shows "hostFromGateway (authority h port) = h"
proof -
  note chars = authority_chars [of h port, OF assms]
  have "trim_space (authority h port) = authority h port"
    using chars by (intro trim_space_id) (auto simp: list_all_iff)
  moreover have "\<not> contains (authority h port) ''://''"
    using chars by (fastforce simp: contains_append list_all_iff)
  ultimately show ?thesis
    using split_authority [of h port, OF assms] by (simp add: hostFromGateway_def Let_def)
qed

lemma hostFromGateway_url:
  assumes "plain_host h" "\<And>p. port = Some p \<Longrightarrow> list_all is_digit p" "plain_path t"
  shows "hostFromGateway (''https://'' @ authority h port @ t) = h"
proof -
  let ?u = "''https://'' @ authority h port @ t"
  have "list_all graphic ''https://''" by code_simp
  then have "trim_space ?u = ?u"
    using authority_chars [of h port, OF assms(1,2)] assms(3) path_char_facts
    by (intro trim_space_id) (auto simp: list_all_iff plain_path_def)
  moreover have "contains ?u ''://''"
    unfolding contains_append by (intro exI [of _ "''https''"] exI [of _ "authority h port @ t"]) simp
  moreover have "authority h port \<noteq> ''''"
    using assms(1) by (auto simp: authority_def plain_host_def split: option.split)
  ultimately show ?thesis
    unfolding hostFromGateway_def Let_def
    by (simp only: url_parse_plain [of h port t, OF assms] split_authority [of h port, OF assms(1,2)]
      if_True option.case not_False_eq_True)
qed

end
