(* ===== verification/Proxy_Properties.thy ===== *)
theory Proxy_Properties
  imports Proxy_Laws Proxy_Start Gateway_Host
begin

text \<open>
  The properties of the local shim: its reader frames the stream exactly, nothing is relayed before
  the enclave was verified, what is relayed is relayed in order, and the command line either fails or
  gives a verifying proxy for the host it names.
\<close>

section \<open>Framing\<close>

text \<open>C18: The reader returns a message exactly when the stream starts with its header, at most 16 MiB are
  announced, and that many bytes follow; it consumes the message and nothing else.\<close>

theorem reader_frames_exactly:
  "readTTLV r = (Inr m, r') \<longleftrightarrow>
     exact m \<and> hdr_len m \<le> max_message \<and> rd_bytes r = m @ rd_bytes r' \<and> rd_end r' = rd_end r"
proof
  assume "readTTLV r = (Inr m, r')"
  then show "exact m \<and> hdr_len m \<le> max_message \<and> rd_bytes r = m @ rd_bytes r' \<and> rd_end r' = rd_end r"
    using readTTLV_Inr [of r m r'] by blast
next
  assume *: "exact m \<and> hdr_len m \<le> max_message \<and> rd_bytes r = m @ rd_bytes r' \<and> rd_end r' = rd_end r"
  have "r = \<lparr>rd_bytes = m @ rd_bytes r', rd_end = rd_end r'\<rparr>" using * by (cases r) simp
  moreover have "r' = \<lparr>rd_bytes = rd_bytes r', rd_end = rd_end r'\<rparr>" by (cases r') simp
  ultimately show "readTTLV r = (Inr m, r')"
    using readTTLV_frame [of m "rd_bytes r'" "rd_end r'"] * by metis
qed

text \<open>An announced length above 16 MiB is refused after the eight header bytes, before the body is
  read.\<close>

theorem reader_refuses_large:
  assumes "8 \<le> length (rd_bytes r)" "max_message < hdr_len (rd_bytes r)"
  shows "readTTLV r = (Inl (TooLarge (hdr_len (rd_bytes r))), r\<lparr>rd_bytes := drop 8 (rd_bytes r)\<rparr>)"
  using assms u32_of_header [of "rd_bytes r"] by (simp add: readTTLV_def readFull_def Let_def)

lemma reader_refuses_large_witness:
  "fst (readTTLV \<lparr>rd_bytes = [0x42, 0, 0x78, 1, 1, 0, 0, 1, 9], rd_end = None\<rparr>) = Inl (TooLarge 16777217)"
proof -
  have l: "hdr_len [0x42, 0, 0x78, 1, 1, 0, 0, 1, 9] = 16777217"
    by (simp add: hdr_len_def u32_of_def be_uint32_def)
  show ?thesis
    using reader_refuses_large [of "\<lparr>rd_bytes = [0x42, 0, 0x78, 1, 1, 0, 0, 1, 9], rd_end = None\<rparr>"]
    by (simp add: l max_message_def)
qed

section \<open>Relaying\<close>

text \<open>C5: Whatever the client, the network and the gateway do, the proxy sends no KMIP byte before the
  enclave of that very connection was verified against its policy; a failed verification relays
  nothing. Then it relays whole messages of the client's stream, in order, each by one POST, writes
  back exactly the bodies of successful answers, and closes both connections.\<close>

theorem proxy_relays_attested:
  "emits (serve P v r) (served_trace v r)"
  by (rule serve_emits)

definition answer_events :: "verifier \<Rightarrow> pconn \<Rightarrow> (byte list \<Rightarrow> byte list) \<Rightarrow> byte list \<Rightarrow> p_event list" where
  "answer_events v c f m =
     [PRelay c ''POST'' kmipPath (vf_host v) m (Some (200, Inr (f m))), PWrite (f m) True]"

text \<open>C19: When the gateway answers every message and the client accepts every answer, all the messages
  of the stream are relayed and answered, in order, and the loop ends with the stream.\<close>

theorem proxy_relays_all:
  assumes http: "\<And>s c me pa ho m. px_http P s c me pa ho m = Inr (200, Inr (f m))"
    and writes: "\<And>s b. px_write P s b = None"
    and ms: "\<And>m. m \<in> set ms \<Longrightarrow> exact m \<and> hdr_len m \<le> max_message"
  shows "run_state (serve_loop P v c \<lparr>rd_bytes = concat ms, rd_end = None\<rparr>) h =
    (ClientDone, h @ concat (map (answer_events v c f) ms))"
  using ms
proof (induction ms arbitrary: h)
  case Nil
  then show ?case
    by (simp add: serve_loop.simps readTTLV_def readFull_def end_error_def)
next
  case (Cons m ms)
  have "readTTLV \<lparr>rd_bytes = concat (m # ms), rd_end = None\<rparr> = (Inr m, \<lparr>rd_bytes = concat ms, rd_end = None\<rparr>)"
    using Cons.prems readTTLV_frame [of m "concat ms" None] by simp
  then show ?case
    using Cons by (subst serve_loop.simps) (simp add: rc_http_do_def local_write_def http writes answer_events_def [abs_def])
qed

definition echo_px :: px_lib where
  "echo_px = \<lparr>px_connect = (\<lambda>s h p co. Inr 0), px_verify = (\<lambda>s c pol. None),
     px_http = (\<lambda>s c me pa ho m. Inr (200, Inr m)), px_write = (\<lambda>s b. None)\<rparr>"

definition sample_verifier :: verifier where
  "sample_verifier = \<lparr>vf_host = ''gw'', vf_allow_dev = True, vf_insecure = True, vf_att_server = '''', vf_att_token = ''''\<rparr>"

lemma proxy_relays_all_witness:
  "fst (run_state (serve_loop echo_px sample_verifier 0
     \<lparr>rd_bytes = concat [[0x42, 0, 0x78, 1, 0, 0, 0, 1, 9], [0x42, 0, 0x78, 1, 0, 0, 0, 0]], rd_end = None\<rparr>) []) = ClientDone"
proof -
  have l: "hdr_len [0x42, 0, 0x78, 1, 0, 0, 0, 1, 9] = 1" "hdr_len [0x42, 0, 0x78, 1, 0, 0, 0, 0] = 0"
    by code_simp+
  show ?thesis
    by (subst proxy_relays_all [where f = "\<lambda>m. m"]) (auto simp: echo_px_def exact_def l max_message_def)
qed

section \<open>Startup\<close>

text \<open>C36: A proxy that reaches its accept loop accepts only a TDX enclave, and unless it was told to be
  insecure has every quote verified remotely with a non-empty token; it listens on the address of the
  flag with the one certificate it minted, for the local host only, valid from a minute before the
  minting and for 365 or 366 days, up to the hour by which the local zone's offsets may differ.\<close>

theorem proxy_starts_verifying:
  assumes "run_state (proxy_main S f) h = (Inr v, h')" and zone: "\<And>a b. sl_zone S a - sl_zone S b \<le> 3600"
  shows "vp_tee (connect_policy v) = TeeTypeTDX \<and> vf_host v = hostFromGateway (fl_gateway f)
    \<and> (fl_insecure f \<or> (\<exists>t. vp_quote (connect_policy v) = Some \<lparr>qv_endpoint = fl_att_server f, qv_token = t\<rparr> \<and> t \<noteq> ''''))
    \<and> (\<exists>t der key. h' = h @ [StGenKey, StClock, StClock, StClock, StCert t key,
            StListen ''tcp'' (fl_listen f) (der, key) 0x303]
         \<and> st_dns_names t = [''localhost'', ''kmip-proxy''] \<and> st_ip_addresses t = [[127, 0, 0, 1]]
         \<and> st_not_before t = sl_now S (h @ [StGenKey, StClock]) - 60 * nanos
         \<and> (let now = sl_now S (h @ [StGenKey, StClock, StClock])
            in now + (365 * 86400 - 3600) * nanos \<le> st_not_after t
               \<and> st_not_after t \<le> now + (366 * 86400 + 3600) * nanos))"
proof -
  from assms(1) obtain der key h1 where m: "main_verifier f = Inr v"
    "run_state (selfSigned S) h = (Inr (der, key), h1)"
    "h' = h1 @ [StListen ''tcp'' (fl_listen f) (der, key) 0x303]"
    by (rule proxy_main_Inr)
  from selfSigned_Inr [OF m(2)] obtain t where
    "h1 = h @ [StGenKey, StClock, StClock, StClock, StCert t key]"
    "st_not_before t = sl_now S (h @ [StGenKey, StClock]) - 60 * nanos"
    "st_not_after t = add_year (sl_zone S) (sl_now S (h @ [StGenKey, StClock, StClock]))"
    "st_dns_names t = [''localhost'', ''kmip-proxy'']" "st_ip_addresses t = [[127, 0, 0, 1]]"
    by (elim exE conjE)
  with m(1,3) add_year_bounds [of "sl_zone S", OF zone] show ?thesis
    by (auto simp: main_verifier_def connect_policy_def Let_def split: if_splits)
qed

definition sample_start :: start_lib where
  "sample_start = \<lparr>sl_gen_key = (\<lambda>h. Inr [1]), sl_now = (\<lambda>h. 1709210096 * nanos), sl_zone = (\<lambda>u. 3600),
     sl_cert = (\<lambda>h t k. Inr [2]), sl_listen = (\<lambda>h n a c v. None)\<rparr>"

lemma proxy_starts_verifying_witness:
  "\<exists>v h'. run_state (proxy_main sample_start \<lparr>fl_gateway = ''gw'', fl_listen = ''127.0.0.1:5696'',
      fl_att_server = ''as'', fl_att_token = ''t'', fl_allow_dev = True, fl_insecure = False\<rparr>) [] = (Inr v, h')
    \<and> vp_tee (connect_policy v) = TeeTypeTDX"
proof -
  let ?f = "\<lparr>fl_gateway = ''gw'', fl_listen = ''127.0.0.1:5696'',
      fl_att_server = ''as'', fl_att_token = ''t'', fl_allow_dev = True, fl_insecure = False\<rparr>"
  obtain v h' where v: "run_state (proxy_main sample_start ?f) [] = (Inr v, h')"
    by (simp add: proxy_main_def main_verifier_def Let_def selfSigned_def start_now_def sample_start_def)
  have z: "sl_zone sample_start a - sl_zone sample_start b \<le> 3600" for a b by (simp add: sample_start_def)
  from proxy_starts_verifying [OF v z] v show ?thesis by blast
qed

section \<open>The gateway's host\<close>

text \<open>C37: A bare host, a host with a port, and an https URL with or without port and path all name the
  same host to the proxy.\<close>

theorem host_recovered:
  assumes "plain_host h" "\<And>p. port = Some p \<Longrightarrow> list_all is_digit p" "plain_path t"
  shows "hostFromGateway (authority h port) = h \<and> hostFromGateway (''https://'' @ authority h port @ t) = h"
  by (intro conjI hostFromGateway_authority hostFromGateway_url assms)

lemma host_recovered_witness:
  "hostFromGateway (''https://'' @ authority ''kmip-gateway.apps.org'' (Some ''8443'') @ ''/kmip'') = ''kmip-gateway.apps.org''"
proof -
  have "plain_host ''kmip-gateway.apps.org''" "plain_path ''/kmip''" "list_all is_digit ''8443''"
    by (code_simp, code_simp, code_simp)
  then show ?thesis using host_recovered [of "''kmip-gateway.apps.org''" "Some ''8443''" "''/kmip''"] by simp
qed

text \<open>Without a scheme the path is not removed: a host followed by a path is taken as it is, and is no
  host.\<close>

theorem host_keeps_path_without_scheme:
  assumes "plain_host h" "p \<noteq> ''''" "list_all host_char p"
  shows "hostFromGateway (h @ ''/'' @ p) = h @ ''/'' @ p"
proof -
  have chars: "list_all (\<lambda>c. graphic c \<and> c \<noteq> CHR '':'') (h @ ''/'' @ p)"
  proof -
    have "graphic CHR ''/''" by code_simp
    then show ?thesis using assms host_char_facts by (auto simp: plain_host_def list_all_iff)
  qed
  then have colon: "CHR '':'' \<notin> set (h @ ''/'' @ p)" by (auto simp: list_all_iff)
  have "trim_space (h @ ''/'' @ p) = h @ ''/'' @ p"
    using chars by (intro trim_space_id) (auto simp: list_all_iff)
  moreover have "\<not> contains (h @ ''/'' @ p) ''://''"
  proof
    assume "contains (h @ ''/'' @ p) ''://''"
    then obtain u v where e: "h @ ''/'' @ p = u @ ''://'' @ v" unfolding contains_append by (elim exE)
    have "CHR '':'' \<in> set (u @ ''://'' @ v)" by simp
    with colon show False unfolding e by simp
  qed
  moreover have "trim_right (h @ ''/'' @ p) ''/'' = h @ ''/'' @ p"
  proof (rule trim_right_id, rule disjI2)
    have "last (h @ ''/'' @ p) = last p" "last p \<in> set p" using assms(2) by simp_all
    then show "last (h @ ''/'' @ p) \<notin> set ''/''"
      using assms(3) host_char_facts by (fastforce simp: list_all_iff)
  qed
  ultimately show ?thesis
    using split_host_port_no_colon [OF colon] by (simp add: hostFromGateway_def Let_def)
qed

lemma host_keeps_path_without_scheme_witness: "hostFromGateway (''gw.org'' @ ''/'' @ ''kmip'') = ''gw.org/kmip''"
proof -
  have "plain_host ''gw.org''" "list_all host_char ''kmip''" by (code_simp, code_simp)
  then show ?thesis using host_keeps_path_without_scheme [of "''gw.org''" "''kmip''"] by simp
qed

end
