(* ===== verification/Proxy_Process.thy ===== *)
theory Proxy_Process
  imports Proxy_Laws
begin

text \<open>
  The running proxy: the accept loop of \<^verbatim>\<open>main\<close> starts one goroutine for each local connection. One
  connection is the step relation \<open>client_step\<close>, a step for each call of \<^verbatim>\<open>serve\<close> and \<^verbatim>\<open>connect\<close> that leaves
  the process, with any answer of the outside; the process is the interleaving \<open>proxy_step\<close> of all of
  them. The function \<^const>\<open>serve\<close> refines \<open>client_step\<close>, and no interleaving lets one client see the
  connection of another.
\<close>

section \<open>One client\<close>

text \<open>
  Where the goroutine is: before the dial, before the verification, in the loop, before the write of an
  answer, before the deferred close of the gateway connection, before that of the local one, done.
\<close>

datatype client_pc =
    Opening reader
  | Verifying pconn reader
  | Serving pconn reader
  | Answering pconn "byte list" reader
  | Leaving pconn
  | Unconnected
  | Gone

definition dial_event :: "verifier \<Rightarrow> pconn option \<Rightarrow> p_event" where
  "dial_event v = PConnect (vf_host v) 443 \<lparr>co_server_name = vf_host v, co_timeout = 60\<rparr>"

text \<open>What the loop does with the answer to a relayed message.\<close>

fun after_answer :: "pconn \<Rightarrow> reader \<Rightarrow> relay_answer option \<Rightarrow> client_pc" where
  "after_answer c r (Some (code, Inr body)) = (if code div 100 \<noteq> 2 then Leaving c else Answering c body r)"
| "after_answer c r a = Leaving c"

inductive client_step :: "verifier \<Rightarrow> client_pc \<Rightarrow> p_event \<Rightarrow> client_pc \<Rightarrow> bool" for v where
  dial_failed: "client_step v (Opening r) (dial_event v None) Unconnected"
| dialled: "client_step v (Opening r) (dial_event v (Some c)) (Verifying c r)"
| rejected: "client_step v (Verifying c r) (PVerify c (connect_policy v) False) (Leaving c)"
| verified: "client_step v (Verifying c r) (PVerify c (connect_policy v) True) (Serving c r)"
| relayed_msg: "readTTLV r = (Inr m, r') \<Longrightarrow>
    client_step v (Serving c r) (PRelay c ''POST'' kmipPath (vf_host v) m a) (after_answer c r' a)"
| stream_ended: "readTTLV r = (Inl e, r') \<Longrightarrow> client_step v (Serving c r) (PClose c) Unconnected"
| written: "client_step v (Answering c b r) (PWrite b True) (Serving c r)"
| write_failed: "client_step v (Answering c b r) (PWrite b False) (Leaving c)"
| closed: "client_step v (Leaving c) (PClose c) Unconnected"
| hung_up: "client_step v Unconnected PLocalClose Gone"

inductive client_run :: "verifier \<Rightarrow> client_pc \<Rightarrow> p_event list \<Rightarrow> client_pc \<Rightarrow> bool" for v where
  run_done: "client_run v pc [] pc"
| run_more: "client_step v pc e pc' \<Longrightarrow> client_run v pc' es pc'' \<Longrightarrow> client_run v pc (e # es) pc''"

inductive_simps step_opening: "client_step v (Opening r) e pc"
inductive_simps step_verifying: "client_step v (Verifying c r) e pc"
inductive_simps step_serving: "client_step v (Serving c r) e pc"
inductive_simps step_answering: "client_step v (Answering c b r) e pc"
inductive_simps step_leaving: "client_step v (Leaving c) e pc"
inductive_simps step_unconnected: "client_step v Unconnected e pc"
inductive_simps step_gone: "client_step v Gone e pc"

lemmas step_simps = step_opening step_verifying step_serving step_answering step_leaving step_unconnected step_gone

inductive_simps run_Nil: "client_run v pc [] pc'"
inductive_simps run_Cons: "client_run v pc (e # es) pc'"

lemma run_snoc: "client_run v pc es pc' \<Longrightarrow> client_step v pc' e pc'' \<Longrightarrow> client_run v pc (es @ [e]) pc''"
  by (induction rule: client_run.induct) (auto intro: client_run.intros)

lemma run_append: "client_run v pc es pc' \<Longrightarrow> client_run v pc' fs pc'' \<Longrightarrow> client_run v pc (es @ fs) pc''"
  by (induction rule: client_run.induct) (auto intro: client_run.intros)

section \<open>Every run ends, and a finished run is a served connection\<close>

lemma leaving_ends: "client_run v (Leaving c) es Gone \<longleftrightarrow> es = [PClose c, PLocalClose]"
proof
  assume "client_run v (Leaving c) es Gone"
  then show "es = [PClose c, PLocalClose]"
    by (cases es; cases "tl es"; cases "tl (tl es)") (auto simp: run_Nil run_Cons step_simps)
qed (auto simp: run_Nil run_Cons step_simps)

lemma unconnected_ends: "client_run v Unconnected es Gone \<longleftrightarrow> es = [PLocalClose]"
proof
  assume "client_run v Unconnected es Gone"
  then show "es = [PLocalClose]"
    by (cases es; cases "tl es") (auto simp: run_Nil run_Cons step_simps)
qed (auto simp: run_Nil run_Cons step_simps)

text \<open>From any point of the goroutine the outside can let it finish.\<close>

lemma run_can_finish: "\<exists>fs. client_run v pc fs Gone"
proof -
  have u: "client_run v Unconnected [PLocalClose] Gone" by (simp add: unconnected_ends)
  have l: "client_run v (Leaving c) [PClose c, PLocalClose] Gone" for c by (simp add: leaving_ends)
  have s: "\<exists>fs. client_run v (Serving c r) fs Gone" for c r
  proof (cases "readTTLV r")
    case (Pair x r')
    show ?thesis
    proof (cases x)
      case (Inl e)
      with Pair show ?thesis using client_run.run_more [OF stream_ended u] by blast
    next
      case (Inr m)
      with Pair have "client_step v (Serving c r) (PRelay c ''POST'' kmipPath (vf_host v) m None) (after_answer c r' None)"
        by (intro relayed_msg) simp
      then show ?thesis using client_run.run_more l by fastforce
    qed
  qed
  show ?thesis
  proof (cases pc)
    case (Opening r)
    then show ?thesis using client_run.run_more [OF dial_failed u] by blast
  next
    case (Verifying c r)
    then show ?thesis using client_run.run_more [OF rejected l] by blast
  next
    case (Serving c r)
    then show ?thesis using s by blast
  next
    case (Answering c b r)
    then show ?thesis using client_run.run_more [OF write_failed l] by blast
  qed (use l u client_run.run_done in blast)+
qed

lemma serving_run:
  assumes "client_run v (Serving c r) es Gone"
  shows "\<exists>mid. es = mid @ [PClose c, PLocalClose] \<and> loop_ok v c r mid"
  using assms
proof (induction "length (rd_bytes r)" arbitrary: r es rule: less_induct)
  case less
  from less.prems obtain e es' pc where es: "es = e # es'" "client_step v (Serving c r) e pc"
    "client_run v pc es' Gone"
    by (cases es) (auto simp: run_Nil run_Cons)
  from es(2) show ?case unfolding step_serving
  proof (elim disjE exE conjE, goal_cases)
    case (1 m r' a)
    note msg = loop_ok_last [OF 1(3), of v c] and turn = loop_ok_turn [OF 1(3)] and stop = loop_ok_stop [OF 1(3)]
    show ?case
    proof (cases "pc = Leaving c")
      case True
      have "es = [PRelay c ''POST'' kmipPath (vf_host v) m a] @ [PClose c, PLocalClose]"
        using es(3) unfolding True leaving_ends es(1) 1 by simp
      with msg show ?thesis by blast
    next
      case False
      with 1 obtain code b where a: "a = Some (code, Inr b)" "code div 100 = 2" "pc = Answering c b r'"
        by (cases "(c, r', a)" rule: after_answer.cases) (auto split: if_splits)
      with es(3) have "\<exists>w fs. es' = PWrite b w # fs \<and> client_run v (if w then Serving c r' else Leaving c) fs Gone"
        by (cases es') (auto simp: run_Nil run_Cons step_answering)
      then obtain w fs where w: "es' = PWrite b w # fs"
        "client_run v (if w then Serving c r' else Leaving c) fs Gone" by blast
      show ?thesis
      proof (cases w)
        case True
        with w obtain mid where "fs = mid @ [PClose c, PLocalClose]" "loop_ok v c r' mid"
          using less.hyps [OF readTTLV_consumes [OF 1(3)], of fs] by auto
        with True turn [OF a(2)] a w es(1) 1 show ?thesis
          by (intro exI [of _ "PRelay c ''POST'' kmipPath (vf_host v) m a # PWrite b True # mid"]) simp
      next
        case False
        with stop [OF a(2), of v c b False] a w es(1) 1 show ?thesis
          by (intro exI [of _ "[PRelay c ''POST'' kmipPath (vf_host v) m a, PWrite b False]"])
            (simp add: leaving_ends)
      qed
    qed
  next
    case (2 e' r')
    with es show ?case by (auto simp: unconnected_ends loop_ok_def)
  qed
qed

text \<open>A finished connection has the trace of a served one.\<close>

lemma finished_run: "client_run v (Opening r) es Gone \<Longrightarrow> \<exists>out. served_trace v r out es"
proof -
  assume run: "client_run v (Opening r) es Gone"
  then obtain e fs pc where es: "es = e # fs" "client_step v (Opening r) e pc" "client_run v pc fs Gone"
    by (cases es) (auto simp: run_Nil run_Cons)
  show ?thesis
  proof (cases "\<exists>c. pc = Verifying c r")
    case False
    with es have "es = [dial_event v None, PLocalClose]"
      by (auto simp: step_opening unconnected_ends)
    then show ?thesis by (auto simp: served_trace_def Let_def dial_event_def)
  next
    case True
    then obtain c where pc: "pc = Verifying c r" by blast
    then have "\<exists>ok gs. fs = PVerify c (connect_policy v) ok # gs
        \<and> client_run v (if ok then Serving c r else Leaving c) gs Gone"
      using es(3) by (cases fs) (auto simp: run_Nil run_Cons step_verifying)
    then obtain ok gs where v: "fs = PVerify c (connect_policy v) ok # gs"
      "client_run v (if ok then Serving c r else Leaving c) gs Gone" by blast
    from es pc have e: "e = dial_event v (Some c)" by (auto simp: step_opening)
    show ?thesis
    proof (cases ok)
      case True
      with v serving_run [of v c r gs] obtain mid where "gs = mid @ [PClose c, PLocalClose]" "loop_ok v c r mid"
        by auto
      with True v es e show ?thesis
        by (auto simp: served_trace_def Let_def dial_event_def intro!: exI [of _ "Inr ClientDone"])
    next
      case False
      with v es e show ?thesis
        by (auto simp: served_trace_def Let_def dial_event_def leaving_ends intro!: exI [of _ "Inl (Ext [])"])
    qed
  qed
qed

section \<open>The function \<open>serve\<close> refines the steps\<close>

lemma serve_loop_run: "emits (serve_loop P v c r) (\<lambda>s es. client_run v (Serving c r) (es @ [PClose c]) Unconnected)"
proof (induction "length (rd_bytes r)" arbitrary: r rule: less_induct)
  case less
  obtain x r' where x: "readTTLV r = (x, r')" by force
  show ?case
  proof (cases x)
    case (Inl e)
    with x show ?thesis
      by (subst serve_loop.simps) (auto intro!: emits_return simp: run_Cons run_Nil step_serving)
  next
    case (Inr m)
    with x have turn: "readTTLV r = (Inr m, r')" by simp
    note next_turn = less.hyps [OF readTTLV_consumes [OF turn]]
    have relay: "client_run v (Serving c r) (PRelay c ''POST'' kmipPath (vf_host v) m a # es) Unconnected"
      if "client_run v (after_answer c r' a) es Unconnected" for a es
      using relayed_msg [OF turn] that by (rule run_more)
    have leave: "client_run v (Leaving c) [PClose c] Unconnected"
      by (simp add: run_Cons run_Nil step_leaving)
    have answered: "emits (case w of Some e \<Rightarrow> State_Monad.return (WriteStop e) | None \<Rightarrow> serve_loop P v c r')
        (\<lambda>s fs. client_run v (Answering c b r') (PWrite b (w = None) # fs @ [PClose c]) Unconnected)" for b w
      by (cases w) (auto intro!: emits_return emits_mono [OF next_turn] simp: run_Cons run_Nil step_answering step_leaving)
    show ?thesis
      by (subst serve_loop.simps)
        (auto simp: turn rc_http_do_def local_write_def leave
          intro!: emits_call_bind emits_return emits_mono [OF answered] relay split: sum.split prod.split)
  qed
qed

lemma run_hangs_up:
  "client_run v pc (es @ [PClose c]) Unconnected \<Longrightarrow> client_run v pc (es @ [PClose c, PLocalClose]) Gone"
  using run_snoc [OF _ hung_up] by fastforce

lemma serve_run: "emits (serve P v r) (\<lambda>out es. client_run v (Opening r) es Gone)"
  unfolding serve_def
proof (rule emits_bind [where P = "\<lambda>x es. \<forall>fs. case x of
      Inl e \<Rightarrow> client_run v Unconnected fs Gone \<longrightarrow> client_run v (Opening r) (es @ fs) Gone
    | Inr c \<Rightarrow> client_run v (Serving c r) fs Gone \<longrightarrow> client_run v (Opening r) (es @ fs) Gone"], goal_cases)
  case 1
  show ?case
    unfolding connect_def rc_connect_def rc_verify_def rc_close_def
    by (auto intro!: emits_call_bind emits_return run_more [OF dial_failed [unfolded dial_event_def]]
        run_more [OF dialled [unfolded dial_event_def]] run_more [OF rejected] run_more [OF verified]
        run_more [OF closed] split: sum.split option.split)
next
  case (2 x es)
  show ?case
  proof (cases x)
    case (Inl e)
    with 2 show ?thesis
      by (auto simp: local_close_def unconnected_ends intro!: emits_call_bind emits_return)
  next
    case (Inr c)
    have "emits (State_Monad.bind (serve_loop P v c r) (\<lambda>s. do { rc_close c; local_close; State_Monad.return (Inr s) }))
        (\<lambda>out fs. client_run v (Serving c r) fs Gone)"
      unfolding rc_close_def local_close_def
      by (rule emits_bind [OF serve_loop_run])
        (auto intro!: emits_call_bind emits_return run_hangs_up)
    then show ?thesis using 2 Inr by (auto elim!: emits_mono)
  qed
qed

end
