(* ===== verification/Proxy_Clients.thy ===== *)
theory Proxy_Clients
  imports Proxy_Process Proxy_Properties
begin

text \<open>
  All clients of the proxy at once: the process interleaves the steps of its connections in any order,
  and what one client sends and receives stays on the connection verified for it.
\<close>

section \<open>The process\<close>

text \<open>
  For each local connection, by its number, the bytes the client sends and the place of its goroutine;
  and all calls so far, each with the connection whose goroutine made it.
\<close>

record proxy =
  px_clients :: "nat \<Rightarrow> (reader \<times> client_pc) option"
  px_trace :: "(nat \<times> p_event) list"

definition idle_proxy :: proxy where
  "idle_proxy = \<lparr>px_clients = (\<lambda>i. None), px_trace = []\<rparr>"

fun opened :: "p_event \<Rightarrow> pconn option" where
  "opened (PConnect host port co c) = c"
| "opened e = None"

lemma opened_dial [simp]: "opened (dial_event v c) = c"
  by (simp add: dial_event_def)

text \<open>A successful \<^verbatim>\<open>rc.Connect\<close> returns a new client: no earlier call returned it.\<close>

definition fresh :: "proxy \<Rightarrow> p_event \<Rightarrow> bool" where
  "fresh g e \<longleftrightarrow> opened e = None \<or> (\<forall>(j, e') \<in> set (px_trace g). opened e' \<noteq> opened e)"

inductive proxy_step :: "verifier \<Rightarrow> proxy \<Rightarrow> proxy \<Rightarrow> bool" for v where
  accepted: "px_clients g i = None \<Longrightarrow>
    proxy_step v g (g\<lparr>px_clients := (px_clients g)(i \<mapsto> (r, Opening r))\<rparr>)"
| accept_failed: "proxy_step v g g"
| client: "px_clients g i = Some (r, pc) \<Longrightarrow> client_step v pc e pc' \<Longrightarrow> fresh g e \<Longrightarrow>
    proxy_step v g (g\<lparr>px_clients := (px_clients g)(i \<mapsto> (r, pc')), px_trace := px_trace g @ [(i, e)]\<rparr>)"

inductive proxy_reachable :: "verifier \<Rightarrow> proxy \<Rightarrow> bool" for v where
  listening: "proxy_reachable v idle_proxy"
| served: "proxy_reachable v g \<Longrightarrow> proxy_step v g g' \<Longrightarrow> proxy_reachable v g'"

definition events_of :: "nat \<Rightarrow> proxy \<Rightarrow> p_event list" where
  "events_of i g = map snd (filter (\<lambda>(j, e). j = i) (px_trace g))"

lemma in_events_of: "e \<in> set (events_of i g) \<longleftrightarrow> (i, e) \<in> set (px_trace g)"
  by (force simp: events_of_def)

section \<open>Invariants\<close>

definition clients_run :: "verifier \<Rightarrow> proxy \<Rightarrow> bool" where
  "clients_run v g \<longleftrightarrow> (\<forall>i. case px_clients g i of
       None \<Rightarrow> events_of i g = []
     | Some (r, pc) \<Rightarrow> client_run v (Opening r) (events_of i g) pc)"

definition opened_once :: "proxy \<Rightarrow> bool" where
  "opened_once g \<longleftrightarrow> (\<forall>(i, e) \<in> set (px_trace g). \<forall>(j, e') \<in> set (px_trace g).
     opened e \<noteq> None \<and> opened e = opened e' \<longrightarrow> i = j)"

lemma reachable_clients_run: "proxy_reachable v g \<Longrightarrow> clients_run v g"
proof (induction rule: proxy_reachable.induct)
  case listening
  show ?case by (simp add: clients_run_def idle_proxy_def events_of_def)
next
  case (served g g')
  from served.hyps(2) served.IH show ?case
  proof (cases rule: proxy_step.cases)
    case (client i r pc e pc')
    then have ev: "events_of j g' = (if j = i then events_of i g @ [e] else events_of j g)" for j
      by (simp add: events_of_def)
    have "client_run v (Opening r) (events_of i g) pc"
      using served.IH [unfolded clients_run_def, rule_format, of i] client(2) by simp
    then have "client_run v (Opening r) (events_of i g @ [e]) pc'" using client(3) by (rule run_snoc)
    moreover have "px_clients g' = (px_clients g)(i \<mapsto> (r, pc'))" using client(1) by simp
    ultimately show ?thesis
      using served.IH unfolding clients_run_def ev by simp
  next
    case (accepted i r)
    then have ev: "events_of j g' = events_of j g" for j by (simp add: events_of_def)
    have "px_clients g' = (px_clients g)(i \<mapsto> (r, Opening r))" using accepted by simp
    moreover have "events_of i g = []"
      using served.IH [unfolded clients_run_def, rule_format, of i] accepted(2) by simp
    ultimately show ?thesis
      using served.IH unfolding clients_run_def ev by (simp add: run_done)
  qed simp
qed

lemma reachable_opened_once: "proxy_reachable v g \<Longrightarrow> opened_once g"
proof (induction rule: proxy_reachable.induct)
  case listening
  show ?case by (simp add: opened_once_def idle_proxy_def)
next
  case (served g g')
  from served.hyps(2) served.IH show ?case
    by (cases rule: proxy_step.cases) (fastforce simp: opened_once_def fresh_def)+
qed

section \<open>Connections\<close>

text \<open>The gateway connection an event is about.\<close>

fun conn_of :: "p_event \<Rightarrow> pconn option" where
  "conn_of (PConnect host port co c) = c"
| "conn_of (PVerify c pol ok) = Some c"
| "conn_of (PRelay c meth path host msg a) = Some c"
| "conn_of (PClose c) = Some c"
| "conn_of e = None"

lemma relay_trace_conn: "relay_trace v c es \<Longrightarrow> e \<in> set es \<Longrightarrow> conn_of e \<in> {None, Some c}"
  by (induction v c es rule: relay_trace.induct) auto

lemma served_trace_conn:
  assumes "served_trace v r out es" "e \<in> set es"
  shows "conn_of e \<in> {None, opened (hd es)}"
  using assms by (auto simp: served_trace_def Let_def loop_ok_def dest: relay_trace_conn)

lemma served_trace_opens:
  assumes "served_trace v r out (es @ fs)" "e \<in> set es" "conn_of e = Some c"
  shows "\<exists>e' \<in> set es. opened e' = Some c"
proof -
  have "opened (hd (es @ fs)) = Some c" using served_trace_conn [OF assms(1), of e] assms(2,3) by auto
  moreover have "hd (es @ fs) \<in> set es" using assms(2) by (cases es) auto
  ultimately show ?thesis by blast
qed

lemma run_served: "client_run v (Opening r) es pc \<Longrightarrow> \<exists>out fs. served_trace v r out (es @ fs)"
  using run_can_finish finished_run run_append by blast

section \<open>Properties\<close>

text \<open>C6: Whatever interleaving of its clients the proxy runs, each client's calls so far are the start of
  a correctly served connection over its own bytes, and no gateway connection is ever used for two
  clients, so neither requests nor answers cross over.\<close>

theorem proxy_isolates_clients:
  assumes "proxy_reachable v g"
  shows "(\<forall>i r pc. px_clients g i = Some (r, pc) \<longrightarrow> (\<exists>out fs. served_trace v r out (events_of i g @ fs)))
    \<and> (\<forall>i j e e' c. (i, e) \<in> set (px_trace g) \<and> (j, e') \<in> set (px_trace g)
        \<and> conn_of e = Some c \<and> conn_of e' = Some c \<longrightarrow> i = j)"
proof -
  have run: "client_run v (Opening r) (events_of i g) pc" if "px_clients g i = Some (r, pc)" for i r pc
    using reachable_clients_run [OF assms, unfolded clients_run_def, rule_format, of i] that by simp
  have opens: "\<exists>e'. (i, e') \<in> set (px_trace g) \<and> opened e' = Some c"
    if "(i, e) \<in> set (px_trace g)" "conn_of e = Some c" for i e c
  proof (cases "px_clients g i")
    case None
    then show ?thesis
      using reachable_clients_run [OF assms, unfolded clients_run_def, rule_format, of i] that(1) in_events_of [of e i g]
      by simp
  next
    case (Some p)
    obtain r pc where "p = (r, pc)" by (cases p)
    with Some have "client_run v (Opening r) (events_of i g) pc" by (simp add: run)
    from run_served [OF this] obtain out fs where "served_trace v r out (events_of i g @ fs)" by (elim exE)
    from served_trace_opens [OF this that(1) [folded in_events_of] that(2)]
    show ?thesis by (auto simp: in_events_of)
  qed
  have "i = j" if "(i, e) \<in> set (px_trace g)" "(j, e') \<in> set (px_trace g)" "conn_of e = Some c" "conn_of e' = Some c"
    for i j e e' c
    using opens [OF that(1,3)] opens [OF that(2,4)] reachable_opened_once [OF assms]
    unfolding opened_once_def by fastforce
  with run run_served show ?thesis by blast
qed

lemma two_clients:
  "proxy_reachable v \<lparr>px_clients = [0 \<mapsto> (r, Verifying 7 r), 1 \<mapsto> (q, Verifying 8 q)],
     px_trace = [(0, dial_event v (Some 7)), (1, dial_event v (Some 8))]\<rparr>"
proof -
  let ?g0 = "idle_proxy\<lparr>px_clients := [0 \<mapsto> (r, Opening r)]\<rparr>"
  let ?g1 = "idle_proxy\<lparr>px_clients := [0 \<mapsto> (r, Opening r), 1 \<mapsto> (q, Opening q)]\<rparr>"
  let ?g2 = "\<lparr>px_clients = [0 \<mapsto> (r, Verifying 7 r), 1 \<mapsto> (q, Opening q)], px_trace = [(0, dial_event v (Some 7))]\<rparr>"
  have s0: "proxy_step v idle_proxy ?g0"
    using proxy_step.accepted [of idle_proxy 0 v r] by (simp add: idle_proxy_def)
  have s1: "proxy_step v ?g0 ?g1"
    using proxy_step.accepted [of ?g0 1 v q] by (simp add: idle_proxy_def)
  have s2: "proxy_step v ?g1 ?g2"
    using proxy_step.client [of ?g1 0 r "Opening r" v "dial_event v (Some 7)" "Verifying 7 r"]
    by (simp add: idle_proxy_def client_step.dialled fresh_def fun_upd_twist)
  have s3: "proxy_step v ?g2 \<lparr>px_clients = [0 \<mapsto> (r, Verifying 7 r), 1 \<mapsto> (q, Verifying 8 q)],
     px_trace = [(0, dial_event v (Some 7)), (1, dial_event v (Some 8))]\<rparr>"
    using proxy_step.client [of ?g2 1 q "Opening q" v "dial_event v (Some 8)" "Verifying 8 q"]
    by (simp add: client_step.dialled fresh_def)
  show ?thesis
    by (rule proxy_reachable.served [OF proxy_reachable.served [OF proxy_reachable.served [OF
          proxy_reachable.served [OF listening s0] s1] s2] s3])
qed

lemma proxy_isolates_clients_witness:
  "\<exists>out fs. served_trace sample_verifier \<lparr>rd_bytes = [], rd_end = None\<rparr> out (dial_event sample_verifier (Some 8) # fs)"
proof -
  let ?r = "\<lparr>rd_bytes = [], rd_end = None\<rparr>"
  let ?g = "\<lparr>px_clients = [0 \<mapsto> (?r, Verifying 7 ?r), Suc 0 \<mapsto> (?r, Verifying 8 ?r)],
     px_trace = [(0, dial_event sample_verifier (Some 7)), (Suc 0, dial_event sample_verifier (Some 8))]\<rparr>"
  have g: "proxy_reachable sample_verifier ?g"
    using two_clients [of sample_verifier ?r ?r] by simp
  have "px_clients ?g (Suc 0) = Some (?r, Verifying 8 ?r)" by simp
  with conjunct1 [OF proxy_isolates_clients [OF g]]
  have "\<exists>out fs. served_trace sample_verifier ?r out (events_of (Suc 0) ?g @ fs)" by blast
  then show ?thesis by (simp add: events_of_def)
qed

lemma after_answer_not_opening [simp]: "after_answer c r a \<noteq> Opening r'" "Opening r' \<noteq> after_answer c r a"
  by (cases "(c, r, a)" rule: after_answer.cases; simp)+





section \<open>Termination\<close>







end
