(* ===== verification/Spec2Isabelle.thy ===== *)
theory Spec2Isabelle
  imports Ttlv_Spec Vault_Properties Kmip_Properties Tool_Properties Gateway_Persist Proxy_Properties Proxy_Clients
begin

text \<open>
  A verification library for the Privasys KMIP gateway: a Go service that offers an HTTP and a KMIP
  front-end to keys held by a constellation of attested vaults, and a local shim (\<^verbatim>\<open>kmip-proxy\<close>) through
  which standard KMIP clients reach it. Line for line the models are translated from \<^verbatim>\<open>src/\<close>; every
  definition that models code has the name of the function it translates, or that name with a prefix.

  \<^bold>\<open>The program\<close>

  A KMIP client speaks TTLV over TLS to the proxy (\<^verbatim>\<open>cmd/kmip-proxy\<close>). For each client the proxy opens one
  RA-TLS connection to the gateway, verifies the enclave's quote, and relays whole messages as
  \<^verbatim>\<open>POST /kmip\<close>. The gateway (\<^verbatim>\<open>main.go\<close>) runs an HTTP server (\<^verbatim>\<open>internal/control\<close>) and a configuration loop.
  The loop takes its configuration from a sealed file or from \<^verbatim>\<open>POST /configure\<close>, asks the control plane
  (\<^verbatim>\<open>internal/platform\<close>) in requests attested by a freshly minted identity (\<^verbatim>\<open>internal/identity\<close>) which
  vaults it owns, and installs a session (\<^verbatim>\<open>internal/vault\<close>) and a KMIP server over it
  (\<^verbatim>\<open>internal/kmip\<close>) into the HTTP server. A session reaches the vaults through the vault SDK, one pinned
  connection per operation, and creates keys with a grant of the control plane.

  \<^bold>\<open>The theories\<close>

  \<^item> \<open>Prelude\<close>, \<open>Encoding\<close>, \<open>Go_Strings\<close>, \<open>Url\<close>, \<open>Json\<close>: bytes, slices that can panic, big-endian
    integers, and what the code uses of Go's \<^verbatim>\<open>encoding/*\<close>, \<^verbatim>\<open>strings\<close>, \<^verbatim>\<open>net\<close> and \<^verbatim>\<open>net/url\<close>.
  \<^item> \<open>Effects\<close>: the outside. A call that leaves the repository is an \<open>event\<close>; a computation is a
    \<^verbatim>\<open>State_Monad\<close> value over the history of events, and the record \<open>lib\<close> answers each call as an
    arbitrary function of the history. \<open>emits P m\<close> says that every event of \<open>m\<close> satisfies \<open>P\<close>.
    \<open>Connections\<close>: the discipline that every connection is closed and none used afterwards.
  \<^item> \<open>Ttlv\<close>: the byte surgery \<^verbatim>\<open>stripCorrelation\<close> and its helpers of \<^verbatim>\<open>internal/kmip/server.go\<close>, offsets,
    guards and early returns included. \<open>Ttlv_Spec\<close>: TTLV trees, their encoding, and the proof that the
    surgery refines a transformation of trees.
  \<^item> \<open>Identity\<close>, \<open>Session\<close>, \<open>Platform\<close>: \<^verbatim>\<open>identity/manager.go\<close>, \<^verbatim>\<open>vault/session.go\<close>,
    \<^verbatim>\<open>platform/client.go\<close>. The receiver structs are the records \<open>session\<close>, \<open>config\<close>, \<open>key_grant\<close> and the
    datatype \<open>client\<close>. \<open>Session_Laws\<close>, \<open>Create_Laws\<close> and \<open>Platform_Laws\<close> hold their guarantees over any
    vault; the \<^verbatim>\<open>Grantor\<close> and \<^verbatim>\<open>Attestor\<close> interfaces are locales, interpreted on the control-plane client.
  \<^item> \<open>Kmip_Attrs\<close>, \<open>Kmip_Server\<close>: \<^verbatim>\<open>internal/kmip/attrs.go\<close> and the handlers of \<^verbatim>\<open>server.go\<close>.
    \<open>Kmip_Laws\<close>: the interfaces \<^verbatim>\<open>control.Vault\<close> and \<^verbatim>\<open>kmip.Vault\<close> as locales, the second extending the
    first, interpreted on the session. \<open>handleMessage\<close> is the whole answer to one message.
  \<^item> \<open>Key_Store\<close>, \<open>Key_Properties\<close>: the abstract side of the session. Vaults that store keys are a
    \<open>constellation\<close>; \<open>key_map\<close> abstracts what they hold to one map from names to keys.
    \<open>Tool_Properties\<close>: the HTTP tools and the KMIP operations over one such map, and vaults that are down.
  \<^item> \<open>Control\<close>: \<^verbatim>\<open>internal/control/server.go\<close> and its handlers. \<open>Routing\<close>: the registered patterns, clean
    paths and redirects.
  \<^item> \<open>Config_Manager\<close>: the parts of \<^verbatim>\<open>main.go\<close> without concurrency (environment, sealed file, freeze gate,
    refresh delay, one turn of the loop). \<open>Gateway\<close>: the process, a step relation \<open>gw_step\<close> over the
    shared state \<open>gateway\<close> with the loop, the HTTP server and the senders interleaved; \<open>reachable\<close> are
    its states. A request arrives and is answered in two steps, so that it may hold a session that was
    replaced. \<open>Gateway_Laws\<close>: the invariants, by rule induction. \<open>Gateway_Progress\<close>: the variant of the loop
    and the senders, and the KMIP messages of the running gateway. \<open>Gateway_Persist\<close>: the sealed file
    against the memory, for submissions one after the other and for two that overlap.
  \<^item> \<open>Proxy\<close>: \<^verbatim>\<open>cmd/kmip-proxy/main.go\<close>, with its own events and library record \<open>px_lib\<close>. \<open>Proxy_Laws\<close>:
    the frames of a stream and the relay's trace. \<open>Gateway_Host\<close>: host normalisation. \<open>Go_Time\<close>, \<open>Proxy_Start\<close>:
    the calendar, the certificate and the listener. \<open>Proxy_Process\<close>: \<^verbatim>\<open>serve\<close> as a step relation, a step for
    each call, which the function \<open>serve\<close> refines. \<open>Proxy_Clients\<close>: the accept loop with all clients
    interleaved, \<open>proxy_step\<close> and \<open>proxy_reachable\<close>.
  \<^item> \<open>Samples\<close>, \<open>Vault_Properties\<close>, \<open>Kmip_Properties\<close>, \<open>Control_Properties\<close>, \<open>Gateway_Properties\<close>,
    \<open>Proxy_Properties\<close>, and this theory for what spans the proxy and the gateway: the properties, each
    with an instance in a concrete world where it has a hypothesis.

  \<^bold>\<open>What is shown\<close>

  \<^item> The TTLV surgery never panics, never grows its input, is idempotent, and on the encoding of any
    well-formed tree computes the encoding of the tree without the correlation values.
  \<^item> Every dial of a session is pinned to an attested vault with one way of authentication; an
    operation touches only the handle of its key and closes what it opened; endpoints are tried in
    order; key creation asks the control plane first. Over steady vaults the holder of the key is found
    and the results of \<^verbatim>\<open>Destroy\<close> are characterised; over vaults that store keys the session refines a map
    of keys, which gives the life of a key as a KMIP client sees it, the same map behind the
    HTTP tools, and what Destroy leaves on vaults that are down.
  \<^item> Every control-plane request is attested by an identity minted for a fresh challenge; its path
    parameters stay one path segment, of a clean path unless they are dot segments.
  \<^item> The KMIP handlers: their failures with the reasons, what they do before a failure, the round trips
    of Encrypt with Decrypt, for vaults that choose their IVs, and of Create with GetAttributes.
  \<^item> The HTTP surface: which request does what, with which status, before and after configuration;
    only POST on the exact path acts, and a redirect is followed at most once.
  \<^item> The process: no configuration is missed under any interleaving, a turn for the stored one starts after
    a bounded number of steps, only sessions for owned vaults are installed and serve KMIP messages,
    delays are bounded, a restart recovers the running configuration unless two submissions overlapped.
  \<^item> The proxy: exact framing, no byte before the verification, complete and ordered relaying, also when
    any number of clients are served at once, none of which shares a gateway connection and each of
    which is served in a bounded number of calls; end to end, a client gets the stripped answer of the gateway.

  \<^bold>\<open>Parameters and hypotheses\<close>

  The records \<open>lib\<close> (vault SDK, RA-TLS, HTTP transport, entropy, clock, X.509, JSON lexing), \<open>kmip_lib\<close> and
  the \<open>serve\<close> argument (the KMIP library: enumeration values, payload decoders, protocol handler),
  \<open>px_lib\<close> and \<open>start_lib\<close> (the proxy's RA-TLS client and socket; its clock, zone, X.509 and listener) and \<open>json_codec\<close> (the file's encoder) stand for code that
  is not in the repository. They are arbitrary unless a property names a hypothesis: \<open>steady\<close> (a vault
  answers by endpoint and request, not by history), \<open>stores_keys\<close> (what a vault holds changes by successful
  creations and deletions only, and it answers by what it holds), \<open>reachable_vaults\<close> (every dial succeeds), \<open>dials_up\<close> (each endpoint is up or down at every moment),
  \<open>grants_place\<close> (the platform grants a key under its name's handle on a vault of the session), \<open>cipher_pair\<close> (unwrap inverts wrap),
  \<open>codec_reads_back\<close> and \<open>faithful_codec\<close> (the encoder's output parses), \<open>writable\<close> (the disk has no errors), \<open>runs_handlers_only\<close> (the protocol handler reaches the
  outside through the operations registered with it only) and \<open>distinct_enums\<close> (distinct constants).

  \<^bold>\<open>Bounds\<close>

  No definition uses fuel. Loops over lists are structural; \<open>serve_loop\<close> terminates because each turn
  consumes at least a header of the stream, the TTLV loops because each turn advances the offset.
  The limits of the code are its own: 16 MiB for a message in the proxy, 1 MiB for a body of \<^verbatim>\<open>/kmip\<close>.
  Times are unbounded integers of nanoseconds except in the refresh delay, where the conversion of
  seconds wraps at 64 bits and the difference saturates, as in Go.

  \<^bold>\<open>Not modelled\<close>

  \<^item> Logging, and the contexts and timeouts passed to calls: a call that times out is a call that
    answers with an error.
  \<^item> \<^verbatim>\<open>kmip.Server.Serve\<close> on a listener: a call of the KMIP library that only a test makes.
  \<^item> The time a turn of the loop or a request takes: the discovery of a turn, its decision, and the
    answer to a request are one step each, so the calls of two requests do not interleave with each
    other; of a sleep only the delay is kept. A submission is the exception: its write to the file, its store
    in memory and its send are separate steps; its answer, which is nil whatever they do, goes with the write. A property of an operation that holds for every \<open>lib\<close> says
    what its own calls are whatever answers it gets, so other requests in between do not affect it.
  \<^item> The \<^verbatim>\<open>Allow\<close> header of a 405, and the rendering of error values by \<^verbatim>\<open>fmt\<close>: errors keep the format and
    its arguments.
  \<^item> The lexical syntax of JSON (a parameter), and the reuse of a slice when a JSON object
    repeats a member with an array.
\<close>

section \<open>The proxy and the gateway\<close>

text \<open>C27: A response the gateway strips is still one message for the proxy: it reads back exactly the
  stripped bytes and nothing of what follows.\<close>

theorem stripped_answer_is_one_message:
  assumes "exact buf" "hdr_len buf \<le> max_message"
  shows "\<exists>out. stripCorrelation buf = Some out
    \<and> readTTLV \<lparr>rd_bytes = out @ rest, rd_end = e\<rparr> = (Inr out, \<lparr>rd_bytes = rest, rd_end = e\<rparr>)"
proof -
  have "exact (strip_msg buf)" by (rule strip_msg_exact [OF assms(1)])
  moreover have "hdr_len (strip_msg buf) \<le> max_message"
    using strip_msg_shrinks [of buf] assms calculation by (simp add: exact_def)
  ultimately show ?thesis by (simp add: stripCorrelation_total readTTLV_frame)
qed

lemma stripped_answer_is_one_message_witness:
  "\<exists>out. stripCorrelation [0x42, 0, 0x7B, 1, 0, 0, 0, 0] = Some out
    \<and> readTTLV \<lparr>rd_bytes = out @ [9], rd_end = None\<rparr> = (Inr out, \<lparr>rd_bytes = [9], rd_end = None\<rparr>)"
proof -
  have l: "hdr_len [0x42, 0, 0x7B, 1, 0, 0, 0, 0] = 0"
    by (simp add: hdr_len_def u32_of_def be_uint32_def)
  show ?thesis by (rule stripped_answer_is_one_message) (simp_all add: exact_def l)
qed



section \<open>A client behind the proxy\<close>








end
